(* ===== verification/Prelude.thy ===== *)
theory Prelude
  imports Main "HOL-Library.Word" "HOL-Library.Char_ord" "HOL-Library.List_Lexorder"
    "HOL-Library.Sublist"
begin

unbundle bit_operations_syntax

section \<open>Prelude: C integers, C strings and fault-carrying results\<close>

text \<open>
  Shared vocabulary of the development.  Machine integers of the x86-64 target are words: a C
  \<open>unsigned long\<close>, \<open>long\<close> or pointer is a \<open>64 word\<close> (read with \<open>sint\<close> or compared with
  \<open>\<le>s\<close>, \<open><s\<close> where the source uses a signed \<open>long\<close>), a \<open>u32\<close> is a \<open>32 word\<close>, a \<open>u8\<close> an
  \<open>8 word\<close>.  A C string is the list of its characters without the terminating NUL; what the
  source does with a \<open>char *\<close> is written with the functions below, which return \<open>None\<close> for a
  null pointer.  A computation that can stop the process returns a sum whose left side is the
  fault.
\<close>

type_synonym u8 = "8 word"
type_synonym u32 = "32 word"
type_synonym u64 = "64 word"
type_synonym addr = "64 word"

named_theorems align_simps \<open>facts on masking an address down to a power of two\<close>
named_theorems cstr_simps \<open>facts on the C string functions\<close>

subsection \<open>Faults\<close>

text \<open>
  The ways a modelled function ends the process instead of returning: an access to memory that
  is not mapped with the needed right, \<open>abort()\<close> (through \<open>ABORT\<close> or \<open>SPA_ERROR\<close>),
  \<open>exit(1)\<close> (through \<open>FATAL\<close> or \<open>PFATAL\<close>), and a read or write outside an array.
\<close>

datatype fault = Segv addr | Aborted string | Exited string | Out_of_bounds

definition ebind :: "'e + 'a \<Rightarrow> ('a \<Rightarrow> 'e + 'b) \<Rightarrow> 'e + 'b" where
  "ebind m f = (case m of Inl e \<Rightarrow> Inl e | Inr x \<Rightarrow> f x)"

lemma ebind_simps [simp]:
  "ebind (Inl e) f = Inl e"
  "ebind (Inr x) f = f x"
  by (simp_all add: ebind_def)

lemma ebind_Inr_iff: "ebind m f = Inr y \<longleftrightarrow> (\<exists>x. m = Inr x \<and> f x = Inr y)"
  by (cases m) auto

lemma ebind_Inl_iff: "ebind m f = Inl e \<longleftrightarrow> m = Inl e \<or> (\<exists>x. m = Inr x \<and> f x = Inl e)"
  by (cases m) simp_all

lemma ebind_assoc: "ebind (ebind m f) g = ebind m (\<lambda>x. ebind (f x) g)"
  by (cases m) auto

lemma ebind_cong [fundef_cong]:
  "m = m' \<Longrightarrow> (\<And>x. m' = Inr x \<Longrightarrow> f x = g x) \<Longrightarrow> ebind m f = ebind m' g"
  by (cases m') auto

text \<open>
  A computation that can also run forever: \<open>None\<close> is not returning.  \<open>tbind\<close> sequences such
  computations.
\<close>

definition tbind :: "('e + 'a) option \<Rightarrow> ('a \<Rightarrow> ('e + 'b) option) \<Rightarrow> ('e + 'b) option" where
  "tbind m f = (case m of None \<Rightarrow> None | Some (Inl e) \<Rightarrow> Some (Inl e) | Some (Inr x) \<Rightarrow> f x)"

lemma tbind_simps [simp]:
  "tbind None f = None"
  "tbind (Some (Inl e)) f = Some (Inl e)"
  "tbind (Some (Inr x)) f = f x"
  by (simp_all add: tbind_def)

subsection \<open>C strings\<close>

definition TAB :: char where "TAB = CHR 0x09"
definition NL :: char where "NL = CHR 0x0A"
definition NUL :: char where "NUL = CHR 0x00"

lemma control_char_neq [simp]:
  "TAB \<noteq> NL" "NL \<noteq> TAB" "NUL \<noteq> NL" "NUL \<noteq> TAB" "NL \<noteq> NUL" "TAB \<noteq> NUL"
  by (simp_all add: TAB_def NL_def NUL_def)

text \<open>\<open>s[i]\<close>, where \<open>i\<close> is at most the length: the NUL stands behind the last character.\<close>

definition char_at :: "string \<Rightarrow> nat \<Rightarrow> char" where
  "char_at s i = (if i < length s then s ! i else NUL)"

text \<open>\<open>!strncmp(s, p, strlen(p))\<close>\<close>

definition starts_with :: "string \<Rightarrow> string \<Rightarrow> bool" where
  "starts_with s p = (take (length p) s = p)"

lemma starts_with_prefix: "starts_with s p \<longleftrightarrow> prefix p s"
  by (auto simp: starts_with_def prefix_def) (metis append_take_drop_id)

lemma starts_with_Cons [cstr_simps]:
  "starts_with s [] = True"
  "starts_with [] (p # ps) = False"
  "starts_with (c # s) (p # ps) = (c = p \<and> starts_with s ps)"
  by (auto simp: starts_with_def)

lemma starts_with_append [simp]: "starts_with (p @ s) p"
  by (simp add: starts_with_def)

lemma starts_with_length: "starts_with s p \<Longrightarrow> length p \<le> length s"
  by (simp add: starts_with_prefix prefix_length_le)

text \<open>\<open>strstr\<close>: the position of the first occurrence.\<close>

fun c_strstr :: "string \<Rightarrow> string \<Rightarrow> nat option" where
  "c_strstr [] n = (if n = [] then Some 0 else None)"
| "c_strstr (c # s) n =
     (if starts_with (c # s) n then Some 0 else map_option Suc (c_strstr s n))"

definition contains :: "string \<Rightarrow> string \<Rightarrow> bool" where
  "contains s n = (c_strstr s n \<noteq> None)"

lemma c_strstr_Some:
  "c_strstr s n = Some i \<Longrightarrow> i + length n \<le> length s \<and> take (length n) (drop i s) = n"
proof (induction s arbitrary: i)
  case Nil
  then show ?case by (auto split: if_splits)
next
  case (Cons c s)
  then show ?case
    by (auto simp: starts_with_def dest: starts_with_length split: if_splits)
       (metis length_Cons length_take min.cobounded1)
qed

lemma c_strstr_None: "c_strstr s n = None \<Longrightarrow> \<not> sublist n s"
  by (induction s)
     (auto simp: sublist_Cons_right starts_with_prefix split: if_splits)

lemma contains_sublist: "contains s n \<longleftrightarrow> sublist n s"
proof
  assume "contains s n"
  then obtain i where "c_strstr s n = Some i" by (auto simp: contains_def)
  then have "n = take (length n) (drop i s)" using c_strstr_Some by metis
  then show "sublist n s" by (metis sublist_drop sublist_order.order.trans sublist_take)
next
  assume "sublist n s"
  then show "contains s n" using c_strstr_None by (auto simp: contains_def)
qed

text \<open>\<open>strrchr\<close>: the position of the last occurrence.\<close>

fun c_strrchr :: "string \<Rightarrow> char \<Rightarrow> nat option" where
  "c_strrchr [] c = None"
| "c_strrchr (x # s) c =
     (case c_strrchr s c of Some i \<Rightarrow> Some (Suc i) | None \<Rightarrow> if x = c then Some 0 else None)"

lemma c_strrchr_Some:
  "c_strrchr s c = Some i \<Longrightarrow> i < length s \<and> s ! i = c \<and> c \<notin> set (drop (Suc i) s)"
proof (induction s arbitrary: i)
  case Nil
  then show ?case by simp
next
  case (Cons x s)
  show ?case
  proof (cases "c_strrchr s c")
    case None
    then have "c \<notin> set s"
      by (induction s) (auto split: option.splits if_splits)
    with None Cons.prems show ?thesis by (auto split: if_splits)
  next
    case (Some j)
    with Cons show ?thesis by auto
  qed
qed

lemma c_strrchr_None: "c_strrchr s c = None \<longleftrightarrow> c \<notin> set s"
  by (induction s) (auto split: option.splits if_splits)

text \<open>The sign of \<open>strcmp\<close>, which compares unsigned characters.\<close>

fun c_strcmp :: "string \<Rightarrow> string \<Rightarrow> int" where
  "c_strcmp [] [] = 0"
| "c_strcmp [] (y # ys) = -1"
| "c_strcmp (x # xs) [] = 1"
| "c_strcmp (x # xs) (y # ys) = (if x = y then c_strcmp xs ys else if x < y then -1 else 1)"

lemma c_strcmp_eq_0 [simp]: "c_strcmp s t = 0 \<longleftrightarrow> s = t"
  by (induction s t rule: c_strcmp.induct) auto

lemma c_strcmp_pos: "0 < c_strcmp s t \<longleftrightarrow> t < s"
  by (induction s t rule: c_strcmp.induct) (auto simp: less_le)

lemma c_strcmp_neg: "c_strcmp s t < 0 \<longleftrightarrow> s < t"
  by (induction s t rule: c_strcmp.induct) auto

text \<open>\<open>isdigit\<close> and \<open>isalpha\<close> in the C locale.\<close>

definition c_isdigit :: "char \<Rightarrow> bool" where
  "c_isdigit c = (CHR ''0'' \<le> c \<and> c \<le> CHR ''9'')"

definition c_isalpha :: "char \<Rightarrow> bool" where
  "c_isalpha c = ((CHR ''a'' \<le> c \<and> c \<le> CHR ''z'') \<or> (CHR ''A'' \<le> c \<and> c \<le> CHR ''Z''))"

text \<open>White space in the C locale, and the value of a string of decimal digits.\<close>

definition c_isspace :: "char \<Rightarrow> bool" where
  "c_isspace ch = (ch = CHR '' '' \<or> CHR 0x09 \<le> ch \<and> ch \<le> CHR 0x0D)"

definition digits_value :: "string \<Rightarrow> nat" where
  "digits_value ds = foldl (\<lambda>n d. n * 10 + (of_char d - 48)) 0 ds"

text \<open>
  \<open>fgets(buf, n + 1, f)\<close> until end of file: every piece ends with the newline, or has \<open>n\<close>
  characters, or is the rest of the file.
\<close>

fun fgets_all :: "nat \<Rightarrow> string \<Rightarrow> string \<Rightarrow> string list" where
  "fgets_all n acc [] = (if acc = [] then [] else [rev acc])"
| "fgets_all n acc (c # s) =
     (if c = NL \<or> Suc (length acc) \<ge> n then rev (c # acc) # fgets_all n [] s
      else fgets_all n (c # acc) s)"

lemma concat_fgets_all: "concat (fgets_all n acc s) = rev acc @ s"
  by (induction n acc s rule: fgets_all.induct) auto

lemma fgets_all_nonempty: "l \<in> set (fgets_all n acc s) \<Longrightarrow> l \<noteq> []"
  by (induction n acc s rule: fgets_all.induct) (auto split: if_splits)

subsection \<open>Masking addresses\<close>

lemma and_not_mask: "x AND NOT (mask n) = push_bit n (drop_bit n (x :: 'a::len word))"
  by (rule bit_word_eqI) (auto simp: bit_simps)

lemma and_not_mask_minus: "x AND NOT (mask n) = x - take_bit n (x :: 'a::len word)"
proof -
  have "push_bit n (drop_bit n x) + take_bit n x = x" by (rule bits_ident)
  then show ?thesis by (simp add: and_not_mask eq_diff_eq)
qed

lemma unat_take_bit [align_simps]:
  "unat (take_bit n (x :: 'a::len word)) = unat x mod 2 ^ n"
  by (simp add: unsigned_take_bit_eq flip: take_bit_eq_mod)

lemma unat_and_not_mask [align_simps]:
  "unat (x AND NOT (mask n) :: 'a::len word) = unat x div 2 ^ n * 2 ^ n"
proof -
  have "take_bit n x \<le> x"
    by (simp add: word_le_nat_alt unat_take_bit)
  then have "unat (x - take_bit n x) = unat x - unat x mod 2 ^ n"
    by (simp add: unat_sub unat_take_bit)
  then show ?thesis by (simp add: and_not_mask_minus minus_mod_eq_div_mult)
qed

end
