(* ===== verification/Spa.thy ===== *)
theory Spa
  imports Prelude
begin

section \<open>spa.h and config.h: build switches, sizes, masks and struct layouts\<close>

text \<open>
  The constants and macros of \<open>src/FlashStack/spa.h\<close> that the instrumenter and the runtime
  libraries share, under the names they have there.  \<open>SPA_GET_RSP()\<close>, the reads of the variable
  \<open>.BUDDY.CALL_STACK_SIZE_MASK\<close> and the other inline assembly reads are arguments (\<open>rsp\<close>,
  \<open>stk_mask\<close>).
\<close>

subsection \<open>Build switches\<close>

text \<open>
  The preprocessor switches of \<open>spa.h\<close>: exactly one branch of the
  \<open>#if defined(USE_...) #elif ... #else\<close> chains of \<open>afl-as.c\<close> is compiled, the one a value of
  \<open>scheme\<close> names (the last constructor is the \<open>#else\<close> branch).
\<close>

datatype scheme =
    USE_SPA_SHADOW_STACK
  | USE_SPA_SHADOW_STACK_VIA_REG
  | USE_SPA_BUDDY_STACK_TLS
  | USE_SPA_GS_RSP
  | USE_SHADESMAR_GS
  | USE_SPA_FS_GS_TLS
  | USE_SPA_BUDDY_STACK_TLS_WITH_STK_SIZE
  | USE_SPA_SHADOW_STACK_PLUS_GLOBAL_RANDVAR

record build_config =
  bc_scheme :: scheme
  SPA_ENABLE_GS_MSR :: bool
  NON_PIE_GLOBAL_VAR_FOR_STK_SIZE :: bool
  ENABLE_GS_RSP_CALL_INSTRUMENTED :: bool

text \<open>The switches as \<open>spa.h\<close> has them.\<close>

definition default_config :: build_config where
  "default_config = \<lparr>bc_scheme = USE_SPA_GS_RSP, SPA_ENABLE_GS_MSR = False,
     NON_PIE_GLOBAL_VAR_FOR_STK_SIZE = False, ENABLE_GS_RSP_CALL_INSTRUMENTED = False\<rparr>"

instantiation scheme :: enum
begin

definition enum_scheme :: "scheme list" where
  "enum_scheme = [USE_SPA_SHADOW_STACK, USE_SPA_SHADOW_STACK_VIA_REG, USE_SPA_BUDDY_STACK_TLS,
     USE_SPA_GS_RSP, USE_SHADESMAR_GS, USE_SPA_FS_GS_TLS,
     USE_SPA_BUDDY_STACK_TLS_WITH_STK_SIZE, USE_SPA_SHADOW_STACK_PLUS_GLOBAL_RANDVAR]"

definition enum_all_scheme :: "(scheme \<Rightarrow> bool) \<Rightarrow> bool" where
  "enum_all_scheme P = list_all P enum_class.enum"

definition enum_ex_scheme :: "(scheme \<Rightarrow> bool) \<Rightarrow> bool" where
  "enum_ex_scheme P = list_ex P enum_class.enum"

instance
proof
  show univ: "(UNIV :: scheme set) = set enum_class.enum"
    unfolding enum_scheme_def by (auto intro: scheme.exhaust)
  show "distinct (enum_class.enum :: scheme list)"
    by (simp add: enum_scheme_def)
  show "enum_class.enum_all P = Ball UNIV P" for P :: "scheme \<Rightarrow> bool"
    by (simp add: enum_all_scheme_def univ list_all_iff)
  show "enum_class.enum_ex P = Bex UNIV P" for P :: "scheme \<Rightarrow> bool"
    by (simp add: enum_ex_scheme_def univ list_ex_iff)
qed

end

subsection \<open>Assembly line patterns and environment variable names\<close>

definition SPA_CFI_STARTPROC :: string where
  "SPA_CFI_STARTPROC = [TAB] @ ''.cfi_startproc'' @ [NL]"
definition SPA_CLANG_RETQ :: string where
  "SPA_CLANG_RETQ = [TAB] @ ''retq'' @ [NL]"
definition SPA_GCC_RET :: string where
  "SPA_GCC_RET = [TAB] @ ''ret'' @ [NL]"
definition SPA_CFI_ENDPROC :: string where
  "SPA_CFI_ENDPROC = [TAB] @ ''.cfi_endproc'' @ [NL]"
definition SPA_CALLQ_STAR :: string where
  "SPA_CALLQ_STAR = [TAB] @ ''callq'' @ [TAB] @ ''*''"
definition SPA_CALLQ_NO_STAR :: string where
  "SPA_CALLQ_NO_STAR = [TAB] @ ''callq''"
definition SPA_XMM_YMM_ZMM_WRITE_MASK_CLANG :: string where
  "SPA_XMM_YMM_ZMM_WRITE_MASK_CLANG = ''} {z}'' @ [NL]"
definition SPA_XMM_YMM_ZMM_WRITE_MAST_GCC :: string where
  "SPA_XMM_YMM_ZMM_WRITE_MAST_GCC = ''}{z}'' @ [NL]"

definition SPA_ENABLE_RANDOMIZATION_ENV :: string where
  "SPA_ENABLE_RANDOMIZATION_ENV = ''__SPA_ENABLE_RANDOMIZATION''"
definition SPA_CALL_STACK_SIZE_ENV :: string where
  "SPA_CALL_STACK_SIZE_ENV = ''__SPA_CALL_STACK_SIZE''"
definition SPA_PROTECTED_FUNCS_PATH_ENV :: string where
  "SPA_PROTECTED_FUNCS_PATH_ENV = ''__SPA_PROTECTED_FUNCS_PATH''"
definition CLANG_ENV_VAR :: string where
  "CLANG_ENV_VAR = ''__AFL_CLANG_MODE''"
definition AS_LOOP_ENV_VAR :: string where
  "AS_LOOP_ENV_VAR = ''__AFL_AS_LOOPCHECK''"
definition MAX_LINE :: nat where
  "MAX_LINE = 8192"

lemmas asm_pattern_defs =
  SPA_CFI_STARTPROC_def SPA_CLANG_RETQ_def SPA_GCC_RET_def SPA_CFI_ENDPROC_def
  SPA_CALLQ_STAR_def SPA_CALLQ_NO_STAR_def
  SPA_XMM_YMM_ZMM_WRITE_MASK_CLANG_def SPA_XMM_YMM_ZMM_WRITE_MAST_GCC_def

subsection \<open>Sizes and clocks\<close>

text \<open>Magic number and length of the protected prologue, by scheme (\<open>spa.h\<close> 104-138).\<close>

definition SPA_PROTECTED_FUNC_MAGIC_NUM :: "build_config \<Rightarrow> u64" where
  "SPA_PROTECTED_FUNC_MAGIC_NUM c =
     (case bc_scheme c of
        USE_SPA_FS_GS_TLS \<Rightarrow> (if SPA_ENABLE_GS_MSR c then 0x1c034c65241c8b4c else 0x148b4c65241c8b4c)
      | _ \<Rightarrow> 0x0000ba49241c8b4c)"

definition SPA_LENGTH_OF_PROTECTED_PROLOGUE :: "build_config \<Rightarrow> nat" where
  "SPA_LENGTH_OF_PROTECTED_PROLOGUE c =
     (case bc_scheme c of
        USE_SPA_FS_GS_TLS \<Rightarrow> (if SPA_ENABLE_GS_MSR c then 26 else 17)
      | _ \<Rightarrow> 19)"

definition SPA_RAND_PERIOD_IN_US :: u64 where "SPA_RAND_PERIOD_IN_US = 10000"
definition SPA_CPU_FREQUENCY :: u64 where "SPA_CPU_FREQUENCY = 3200000000"
definition CPU_CYCLES_PER_US :: u64 where "CPU_CYCLES_PER_US = SPA_CPU_FREQUENCY div 1000000"
definition CPU_CYCLES_PER_RANDOMIZATION :: u64 where
  "CPU_CYCLES_PER_RANDOMIZATION = CPU_CYCLES_PER_US * SPA_RAND_PERIOD_IN_US"

lemma CPU_CYCLES_PER_RANDOMIZATION_val: "CPU_CYCLES_PER_RANDOMIZATION = 32000000"
  by (simp add: CPU_CYCLES_PER_RANDOMIZATION_def CPU_CYCLES_PER_US_def SPA_CPU_FREQUENCY_def
      SPA_RAND_PERIOD_IN_US_def)

definition SPA_CPU_WORD_LENGTH :: u64 where "SPA_CPU_WORD_LENGTH = 8"
definition PAGE_SIZE :: u64 where "PAGE_SIZE = 4096"

definition DEF_BUDDY_CALL_STACK_SIZE :: u64 where
  "DEF_BUDDY_CALL_STACK_SIZE = push_bit 20 8"
definition DEF_BUDDY_CALL_STACK_SIZE_MASK :: u64 where
  "DEF_BUDDY_CALL_STACK_SIZE_MASK = - DEF_BUDDY_CALL_STACK_SIZE"
definition DEF_BUDDY_SHADOW_STACK_SIZE :: u64 where
  "DEF_BUDDY_SHADOW_STACK_SIZE = DEF_BUDDY_CALL_STACK_SIZE"
definition DEF_BUDDY_FUNCTION_LOCAL_STORAGE_SIZE :: u64 where
  "DEF_BUDDY_FUNCTION_LOCAL_STORAGE_SIZE = DEF_BUDDY_CALL_STACK_SIZE + DEF_BUDDY_SHADOW_STACK_SIZE"
definition DEF_SPA_SS_OFFSET :: u64 where
  "DEF_SPA_SS_OFFSET = DEF_BUDDY_CALL_STACK_SIZE"

lemma DEF_sizes:
  "DEF_BUDDY_CALL_STACK_SIZE = 8388608"
  "DEF_BUDDY_CALL_STACK_SIZE_MASK = - 8388608"
  "DEF_BUDDY_SHADOW_STACK_SIZE = 8388608"
  "DEF_BUDDY_FUNCTION_LOCAL_STORAGE_SIZE = 16777216"
  "DEF_SPA_SS_OFFSET = 8388608"
  by (simp_all add: DEF_BUDDY_CALL_STACK_SIZE_def DEF_BUDDY_CALL_STACK_SIZE_MASK_def
      DEF_BUDDY_SHADOW_STACK_SIZE_def DEF_BUDDY_FUNCTION_LOCAL_STORAGE_SIZE_def
      DEF_SPA_SS_OFFSET_def push_bit_eq_mult)

text \<open>
  The sizes that depend on the variable \<open>.BUDDY.CALL_STACK_SIZE_MASK\<close>, whose value is
  \<open>stk_mask\<close> (\<open>spa.h\<close> 337-348).
\<close>

definition BUDDY_CALL_STACK_SIZE :: "u64 \<Rightarrow> u64" where
  "BUDDY_CALL_STACK_SIZE stk_mask = - stk_mask"
definition BUDDY_CALL_STACK_SIZE_MASK :: "u64 \<Rightarrow> u64" where
  "BUDDY_CALL_STACK_SIZE_MASK stk_mask = NOT (BUDDY_CALL_STACK_SIZE stk_mask - 1)"
definition BUDDY_FUNCTION_LOCAL_STORAGE_SIZE :: "u64 \<Rightarrow> u64" where
  "BUDDY_FUNCTION_LOCAL_STORAGE_SIZE stk_mask =
     BUDDY_CALL_STACK_SIZE stk_mask + BUDDY_CALL_STACK_SIZE stk_mask"
definition BUDDY_STACK_SIZE :: "u64 \<Rightarrow> u64" where
  "BUDDY_STACK_SIZE stk_mask =
     BUDDY_FUNCTION_LOCAL_STORAGE_SIZE stk_mask + BUDDY_FUNCTION_LOCAL_STORAGE_SIZE stk_mask"
definition BUDDY_ALIGN_CALL_STACK_POINTER :: "u64 \<Rightarrow> u64 \<Rightarrow> u64" where
  "BUDDY_ALIGN_CALL_STACK_POINTER stk_mask x = BUDDY_CALL_STACK_SIZE_MASK stk_mask AND x"

definition SPA_USER_SPACE_SIZE :: u64 where "SPA_USER_SPACE_SIZE = 0x800000000000"
definition SPA_MAX_SHADOW_STACK_ADDR :: u64 where
  "SPA_MAX_SHADOW_STACK_ADDR = 0x7F0000000000 - 8 * DEF_BUDDY_CALL_STACK_SIZE"
definition SPA_SHADOW_STACK_8MB_RAND_ADDR_MASK :: u64 where
  "SPA_SHADOW_STACK_8MB_RAND_ADDR_MASK = 0x7FFFFF800000"
definition SPA_8MB_MASK :: u64 where "SPA_8MB_MASK = 0x7FFFFF"
definition FLASH_STACK_INITED :: u64 where "FLASH_STACK_INITED = 1"
definition DEFAULT_CHANGING_MOVING_RATIO :: u64 where "DEFAULT_CHANGING_MOVING_RATIO = 1"

lemma SPA_8MB_MASK_mask: "SPA_8MB_MASK = mask 23"
  by (simp add: SPA_8MB_MASK_def mask_eq_exp_minus_1)

subsection \<open>Struct layouts\<close>

text \<open>
  \<open>struct Buddy_TLS_Info\<close> and \<open>struct gs_metadata\<close> live in memory; a field is read and written
  at its byte offset from the struct's address.  The offset of a field is what
  \<open>GET_GS_METADATA_FIELD_OFFSET\<close> computes: every field of both structs has 8 bytes.
\<close>

datatype buddy_field =
  bf_random_val | bf_stack_top | bf_buddy_info | bf_is_randomizing | bf_cpu_cycles

fun buddy_field_offset :: "buddy_field \<Rightarrow> u64" where
  "buddy_field_offset bf_random_val = 0"
| "buddy_field_offset bf_stack_top = 8"
| "buddy_field_offset bf_buddy_info = 16"
| "buddy_field_offset bf_is_randomizing = 24"
| "buddy_field_offset bf_cpu_cycles = 32"

datatype gs_field =
    gm_self_addr | gm_diff | gm_R | gm_is_randomizing | gm_shadow_stack | gm_cpu_cycles
  | gm_state | gm_shadow_stack_top | gm_call_stack_top | gm_ratio_factor | gm_saved_diff
  | gm_relaxing

fun GET_GS_METADATA_FIELD_OFFSET :: "gs_field \<Rightarrow> u64" where
  "GET_GS_METADATA_FIELD_OFFSET gm_self_addr = 0"
| "GET_GS_METADATA_FIELD_OFFSET gm_diff = 8"
| "GET_GS_METADATA_FIELD_OFFSET gm_R = 16"
| "GET_GS_METADATA_FIELD_OFFSET gm_is_randomizing = 24"
| "GET_GS_METADATA_FIELD_OFFSET gm_shadow_stack = 32"
| "GET_GS_METADATA_FIELD_OFFSET gm_cpu_cycles = 40"
| "GET_GS_METADATA_FIELD_OFFSET gm_state = 48"
| "GET_GS_METADATA_FIELD_OFFSET gm_shadow_stack_top = 56"
| "GET_GS_METADATA_FIELD_OFFSET gm_call_stack_top = 64"
| "GET_GS_METADATA_FIELD_OFFSET gm_ratio_factor = 72"
| "GET_GS_METADATA_FIELD_OFFSET gm_saved_diff = 80"
| "GET_GS_METADATA_FIELD_OFFSET gm_relaxing = 88"

lemma gs_field_offset_inj: "GET_GS_METADATA_FIELD_OFFSET f = GET_GS_METADATA_FIELD_OFFSET g \<longleftrightarrow> f = g"
  by (cases f; cases g) simp_all

lemma buddy_field_offset_inj: "buddy_field_offset f = buddy_field_offset g \<longleftrightarrow> f = g"
  by (cases f; cases g) simp_all

lemma gs_field_offset_lt: "unat (GET_GS_METADATA_FIELD_OFFSET f) < 96"
  by (cases f) simp_all

lemma buddy_field_offset_lt: "unat (buddy_field_offset f) < 40"
  by (cases f) simp_all

subsection \<open>Aligning the stack pointer\<close>

lemma BUDDY_CALL_STACK_SIZE_MASK_eq: "BUDDY_CALL_STACK_SIZE_MASK m = m"
  by (simp add: BUDDY_CALL_STACK_SIZE_MASK_def BUDDY_CALL_STACK_SIZE_def not_eq_complement)

lemma neg_exp_eq_not_mask: "(- (2 ^ n) :: u64) = NOT (mask n)"
  by (simp add: mask_eq_exp_minus_1 not_eq_complement)

lemma BUDDY_ALIGN_pow2:
  "BUDDY_ALIGN_CALL_STACK_POINTER (- (2 ^ n)) x = x AND NOT (mask n)"
  by (simp add: BUDDY_ALIGN_CALL_STACK_POINTER_def BUDDY_CALL_STACK_SIZE_MASK_eq
      neg_exp_eq_not_mask and.commute)

text \<open>
  For every power-of-two call stack size (\<open>.BUDDY.CALL_STACK_SIZE_MASK\<close> holds \<open>- 2 ^ n\<close>),
  \<open>BUDDY_ALIGN_CALL_STACK_POINTER\<close> rounds an address down to the start of its call stack
  block: the result is the greatest multiple of the size that is not above the address.
\<close>

lemma buddy_align_rounds_down:
  "unat (BUDDY_ALIGN_CALL_STACK_POINTER (- (2 ^ n)) x) = unat x div 2 ^ n * 2 ^ n"
  by (simp add: BUDDY_ALIGN_pow2 unat_and_not_mask)

end
