(* ===== verification/X86.thy ===== *)
theory X86
  imports Spa
begin

section \<open>X86: the assembly that the instrumenter writes, as text and as behaviour\<close>

text \<open>
  \<open>afl-as.c\<close> writes AT&T assembly with \<open>fprintf\<close>.  This theory gives the instructions it writes
  as data, \<open>asm_text\<close> renders one as the line the \<open>fprintf\<close> call produces, and \<open>exec\<close> is what
  the processor does with a sequence of them (the documented behaviour of these x86-64
  instructions on 8-byte operands).  \<open>afl-as.c\<close> itself is in the theories \<open>Emit\<close> and
  \<open>Instrument\<close>.
\<close>

subsection \<open>Numbers as \<open>fprintf\<close> prints them\<close>

definition digit_char :: "nat \<Rightarrow> char" where
  "digit_char k = ''0123456789abcdef'' ! k"

fun dec_nat :: "nat \<Rightarrow> string" where
  "dec_nat n = (if n < 10 then [digit_char n] else dec_nat (n div 10) @ [digit_char (n mod 10)])"

fun hex_nat :: "nat \<Rightarrow> string" where
  "hex_nat n = (if n < 16 then [digit_char n] else hex_nat (n div 16) @ [digit_char (n mod 16)])"

declare dec_nat.simps [simp del] hex_nat.simps [simp del]

text \<open>\<open>%ld\<close> of a signed long, and \<open>$-0x%lx\<close> or \<open>$0x%lx\<close>\<close>

definition dec_int :: "int \<Rightarrow> string" where
  "dec_int i = (if i < 0 then ''-'' @ dec_nat (nat (- i)) else dec_nat (nat i))"

definition hex_int :: "int \<Rightarrow> string" where
  "hex_int i = (if i < 0 then ''-0x'' @ hex_nat (nat (- i)) else ''0x'' @ hex_nat (nat i))"

text \<open>Evaluation on numerals.\<close>

lemmas print_simps =
  dec_int_def hex_int_def digit_char_def dec_nat.simps [of "numeral n"] hex_nat.simps [of "numeral n"]
  dec_nat.simps [of 0] dec_nat.simps [of "Suc 0"] hex_nat.simps [of 0] hex_nat.simps [of "Suc 0"] for n

lemma dec_int_check: "dec_int (- 8388608) = ''-8388608''" "dec_int 8 = ''8''"
  by (simp_all add: print_simps)

lemma hex_int_check: "hex_int (- 0x800000000000) = ''-0x800000000000''"
  by (simp add: print_simps)

subsection \<open>Instructions\<close>

datatype reg = RAX | RDX | RDI | RSI | R10 | R11 | RSP

datatype seg = FlatSeg | GsSeg

text \<open>
  Memory operands: \<open>disp(base)\<close>, \<open>disp(base, index, scale)\<close>, the two ways of writing an
  absolute offset from \<open>%gs\<close> (\<open>%gs:(8)\<close> and \<open>%gs:8\<close>), a variable by its name, and the GOT
  entry of a variable.
\<close>

datatype memop =
    MBase seg int reg
  | MIdx seg int reg reg nat
  | MGsAbs int
  | MGsBare int
  | MSym string
  | MGot string

datatype operand = Reg reg | ImmD int | ImmX int | Mem memop | OText string

datatype instr =
    Movq operand operand
  | Addq operand operand
  | Subq operand operand
  | Andq operand operand
  | Cmpq operand operand
  | LeaqFwd nat reg
  | Pushq operand
  | Popq operand
  | CallqSym string
  | CallqText string
  | CallqReg reg
  | Jmpq operand
  | Jmp operand
  | Jne nat
  | Label nat
  | Comment string

subsection \<open>Text of an instruction\<close>

fun reg_text :: "reg \<Rightarrow> string" where
  "reg_text RAX = ''%rax''"
| "reg_text RDX = ''%rdx''"
| "reg_text RDI = ''%rdi''"
| "reg_text RSI = ''%rsi''"
| "reg_text R10 = ''%r10''"
| "reg_text R11 = ''%r11''"
| "reg_text RSP = ''%rsp''"

definition disp_text :: "int \<Rightarrow> string" where
  "disp_text d = (if d = 0 then '''' else dec_int d)"

fun seg_text :: "seg \<Rightarrow> string" where
  "seg_text FlatSeg = ''''"
| "seg_text GsSeg = ''%gs:''"

fun memop_text :: "memop \<Rightarrow> string" where
  "memop_text (MBase sg d b) = seg_text sg @ disp_text d @ ''('' @ reg_text b @ '')''"
| "memop_text (MIdx sg d b i sc) =
     seg_text sg @ disp_text d @ ''('' @ reg_text b @ '', '' @ reg_text i @ '', '' @ dec_nat sc @ '')''"
| "memop_text (MGsAbs d) = ''%gs:('' @ dec_int d @ '')''"
| "memop_text (MGsBare d) = ''%gs:'' @ dec_int d"
| "memop_text (MSym v) = v"
| "memop_text (MGot v) = v @ ''@GOTPCREL(%rip)''"

fun operand_text :: "operand \<Rightarrow> string" where
  "operand_text (Reg r) = reg_text r"
| "operand_text (ImmD i) = ''$'' @ dec_int i"
| "operand_text (ImmX i) = ''$'' @ hex_int i"
| "operand_text (Mem m) = memop_text m"
| "operand_text (OText t) = t"

definition asm_line :: "string \<Rightarrow> string \<Rightarrow> string" where
  "asm_line mnem args = [TAB] @ mnem @ [TAB] @ args @ [NL]"

fun asm_text :: "instr \<Rightarrow> string" where
  "asm_text (Movq a b) = asm_line ''movq'' (operand_text a @ '', '' @ operand_text b)"
| "asm_text (Addq a b) = asm_line ''addq'' (operand_text a @ '', '' @ operand_text b)"
| "asm_text (Subq a b) = asm_line ''subq'' (operand_text a @ '', '' @ operand_text b)"
| "asm_text (Andq a b) = asm_line ''andq'' (operand_text a @ '', '' @ operand_text b)"
| "asm_text (Cmpq a b) = asm_line ''cmpq'' (operand_text a @ '', '' @ operand_text b)"
| "asm_text (LeaqFwd l r) = asm_line ''leaq'' (dec_nat l @ ''f(%rip), '' @ reg_text r)"
| "asm_text (Pushq a) = asm_line ''pushq'' (operand_text a)"
| "asm_text (Popq a) = asm_line ''popq'' (operand_text a)"
| "asm_text (CallqSym f) = asm_line ''callq'' f"
| "asm_text (CallqText t) = t @ [NL]"
| "asm_text (CallqReg r) = asm_line ''callq'' (''*'' @ reg_text r)"
| "asm_text (Jmpq a) = asm_line ''jmpq'' (''*'' @ operand_text a)"
| "asm_text (Jmp a) = asm_line ''jmp'' (''*'' @ operand_text a)"
| "asm_text (Jne l) = asm_line ''jne'' (dec_nat l @ ''f'')"
| "asm_text (Label l) = dec_nat l @ '':'' @ [NL]"
| "asm_text (Comment t) = t @ [NL]"

definition asm_block :: "instr list \<Rightarrow> string" where
  "asm_block ins = concat (map asm_text ins)"

subsection \<open>Machine state\<close>

text \<open>
  Registers, memory in 8-byte cells, the base of the \<open>%gs\<close> segment, the zero flag, and where
  control went: \<open>None\<close> while it falls through the sequence, \<open>Some a\<close> after a jump or call.
\<close>

record mstate =
  regs :: "reg \<Rightarrow> u64"
  mem :: "addr \<Rightarrow> u64"
  gsb :: u64
  zf :: bool
  pc :: "addr option"

text \<open>
  What assembler, linker and the surrounding code fix: the addresses of local labels and of
  variables, the value of an operand copied from the input line, the target of a copied direct
  call, and the effect of calling a function of the runtime library up to its return.
\<close>

record asm_env =
  lbl_addr :: "nat \<Rightarrow> addr"
  sym_addr :: "string \<Rightarrow> addr"
  text_value :: "string \<Rightarrow> mstate \<Rightarrow> u64"
  text_target :: "string \<Rightarrow> addr"
  lib_call :: "string \<Rightarrow> mstate \<Rightarrow> mstate"

definition set_reg :: "reg \<Rightarrow> u64 \<Rightarrow> mstate \<Rightarrow> mstate" where
  "set_reg r v s = s\<lparr>regs := (regs s)(r := v)\<rparr>"

definition set_mem :: "addr \<Rightarrow> u64 \<Rightarrow> mstate \<Rightarrow> mstate" where
  "set_mem a v s = s\<lparr>mem := (mem s)(a := v)\<rparr>"

fun seg_base :: "seg \<Rightarrow> mstate \<Rightarrow> u64" where
  "seg_base FlatSeg s = 0"
| "seg_base GsSeg s = gsb s"

fun eff_addr :: "asm_env \<Rightarrow> memop \<Rightarrow> mstate \<Rightarrow> addr" where
  "eff_addr env (MBase sg d b) s = seg_base sg s + word_of_int d + regs s b"
| "eff_addr env (MIdx sg d b i sc) s =
     seg_base sg s + word_of_int d + regs s b + regs s i * of_nat sc"
| "eff_addr env (MGsAbs d) s = gsb s + word_of_int d"
| "eff_addr env (MGsBare d) s = gsb s + word_of_int d"
| "eff_addr env (MSym v) s = sym_addr env v"
| "eff_addr env (MGot v) s = sym_addr env v"

text \<open>Reading through the GOT entry of a variable yields the variable's address.\<close>

fun read_op :: "asm_env \<Rightarrow> operand \<Rightarrow> mstate \<Rightarrow> u64" where
  "read_op env (Reg r) s = regs s r"
| "read_op env (ImmD i) s = word_of_int i"
| "read_op env (ImmX i) s = word_of_int i"
| "read_op env (Mem (MGot v)) s = sym_addr env v"
| "read_op env (Mem m) s = mem s (eff_addr env m s)"
| "read_op env (OText t) s = text_value env t s"

fun write_op :: "asm_env \<Rightarrow> operand \<Rightarrow> u64 \<Rightarrow> mstate \<Rightarrow> mstate" where
  "write_op env (Reg r) v s = set_reg r v s"
| "write_op env (Mem m) v s = set_mem (eff_addr env m s) v s"
| "write_op env _ v s = s"

definition alu :: "asm_env \<Rightarrow> (u64 \<Rightarrow> u64 \<Rightarrow> u64) \<Rightarrow> operand \<Rightarrow> operand \<Rightarrow> mstate \<Rightarrow> mstate" where
  "alu env f a b s =
     (let v = f (read_op env b s) (read_op env a s) in (write_op env b v s)\<lparr>zf := (v = 0)\<rparr>)"

definition push_val :: "u64 \<Rightarrow> mstate \<Rightarrow> mstate" where
  "push_val v s = set_mem (regs s RSP - 8) v (set_reg RSP (regs s RSP - 8) s)"

text \<open>\<open>popq\<close> computes a memory destination with the incremented stack pointer.\<close>

definition pop_op :: "asm_env \<Rightarrow> operand \<Rightarrow> mstate \<Rightarrow> mstate" where
  "pop_op env a s = write_op env a (mem s (regs s RSP)) (set_reg RSP (regs s RSP + 8) s)"

text \<open>What stands behind the label \<open>l\<close>, for a forward jump \<open>lf\<close>.\<close>

fun after_label :: "nat \<Rightarrow> instr list \<Rightarrow> instr list" where
  "after_label l [] = []"
| "after_label l (i # ins) = (if i = Label l then ins else after_label l ins)"

lemma length_after_label [termination_simp]: "length (after_label l ins) \<le> length ins"
  by (induction ins) auto

text \<open>The address pushed by a call: the address of the label that follows it.\<close>

fun return_addr :: "asm_env \<Rightarrow> instr list \<Rightarrow> addr" where
  "return_addr env (Label l # ins) = lbl_addr env l"
| "return_addr env ins = 0"

fun exec :: "asm_env \<Rightarrow> instr list \<Rightarrow> mstate \<Rightarrow> mstate" where
  "exec env [] s = s"
| "exec env (Movq a b # ins) s = exec env ins (write_op env b (read_op env a s) s)"
| "exec env (Addq a b # ins) s = exec env ins (alu env (\<lambda>d x. d + x) a b s)"
| "exec env (Subq a b # ins) s = exec env ins (alu env (\<lambda>d x. d - x) a b s)"
| "exec env (Andq a b # ins) s = exec env ins (alu env (AND) a b s)"
| "exec env (Cmpq a b # ins) s = exec env ins (s\<lparr>zf := (read_op env a s = read_op env b s)\<rparr>)"
| "exec env (LeaqFwd l r # ins) s = exec env ins (set_reg r (lbl_addr env l) s)"
| "exec env (Pushq a # ins) s = exec env ins (push_val (read_op env a s) s)"
| "exec env (Popq a # ins) s = exec env ins (pop_op env a s)"
| "exec env (CallqSym f # ins) s = exec env ins (lib_call env f s)"
| "exec env (CallqText t # ins) s = (push_val (return_addr env ins) s)\<lparr>pc := Some (text_target env t)\<rparr>"
| "exec env (CallqReg r # ins) s = (push_val (return_addr env ins) s)\<lparr>pc := Some (regs s r)\<rparr>"
| "exec env (Jmpq a # ins) s = s\<lparr>pc := Some (read_op env a s)\<rparr>"
| "exec env (Jmp a # ins) s = s\<lparr>pc := Some (read_op env a s)\<rparr>"
| "exec env (Jne l # ins) s = (if zf s then exec env ins s else exec env (after_label l ins) s)"
| "exec env (Label l # ins) s = exec env ins s"
| "exec env (Comment t # ins) s = exec env ins s"

text \<open>The plain \<open>retq\<close> that the compiler emits.\<close>

definition exec_retq :: "mstate \<Rightarrow> mstate" where
  "exec_retq s = (set_reg RSP (regs s RSP + 8) s)\<lparr>pc := Some (mem s (regs s RSP))\<rparr>"

lemmas machine_defs = set_reg_def set_mem_def alu_def push_val_def pop_op_def Let_def

end
