(* ===== verification/Emit.thy ===== *)
theory Emit
  imports X86
begin

section \<open>Emit: the instruction sequences that add_instrumentation writes\<close>

text \<open>
  The \<open>fprintf\<close> sequences of \<open>add_instrumentation\<close> (\<open>afl-as.c\<close> 7011-7257, 7271-7478 and
  7483-7651), one group per compile-time scheme: what is written after \<open>.cfi_startproc\<close>, in
  place of \<open>ret\<close>, and around instrumented calls.  The flags \<open>in_no_instr_func\<close>,
  \<open>on_stack_handler\<close> and \<open>in_customized_func\<close> are the variables of the C function.
\<close>

subsection \<open>Saving the argument registers around a library call\<close>

definition call_saving_args :: "string \<Rightarrow> instr list" where
  "call_saving_args f =
     [Pushq (Reg RDI), Pushq (Reg RSI), Pushq (Reg RDX), CallqSym f,
      Popq (Reg RDX), Popq (Reg RSI), Popq (Reg RDI)]"

subsection \<open>Function entry\<close>

definition entry_shadow_stack :: "instr list" where
  "entry_shadow_stack =
     [Popq (Mem (MBase FlatSeg (- sint DEF_SPA_SS_OFFSET) RSP)), Subq (ImmD 8) (Reg RSP)]"

definition entry_via_reg :: "instr list" where
  "entry_via_reg =
     [Movq (Mem (MBase FlatSeg 0 RSP)) (Reg RAX),
      Movq (Reg RAX) (Mem (MBase FlatSeg (- sint DEF_SPA_SS_OFFSET) RSP))]"

definition entry_buddy_tls :: "instr list" where
  "entry_buddy_tls =
     [Comment ''###SPA### FUNCTION_ENTRY'',
      Movq (Reg RSP) (Reg R11),
      Andq (ImmD (sint DEF_BUDDY_CALL_STACK_SIZE_MASK)) (Reg R11),
      Movq (Mem (MBase FlatSeg (- sint DEF_BUDDY_FUNCTION_LOCAL_STORAGE_SIZE) R11)) (Reg R11),
      Addq (Mem (MBase FlatSeg 0 RSP)) (Reg R11),
      Movq (Reg R11) (Mem (MBase FlatSeg (- sint DEF_SPA_SS_OFFSET) RSP))]"

definition entry_gs_rsp :: "instr list" where
  "entry_gs_rsp =
     [Movq (Mem (MBase FlatSeg 0 RSP)) (Reg R11),
      Movq (ImmX (- uint SPA_USER_SPACE_SIZE)) (Reg R10),
      Movq (Reg R11) (Mem (MIdx GsSeg 0 RSP R10 1))]"

definition entry_fs_gs :: "build_config \<Rightarrow> instr list" where
  "entry_fs_gs c =
     [Movq (Mem (MBase FlatSeg 0 RSP)) (Reg R11)] @
     (if SPA_ENABLE_GS_MSR c
      then [Addq (Mem (MGsAbs (sint (GET_GS_METADATA_FIELD_OFFSET gm_R)))) (Reg R11)] else []) @
     [Movq (Mem (MGsAbs (sint (GET_GS_METADATA_FIELD_OFFSET gm_diff)))) (Reg R10),
      Movq (Reg R11) (Mem (MIdx FlatSeg 0 RSP R10 1))]"

definition stk_mask_var :: string where "stk_mask_var = ''.BUDDY.CALL_STACK_SIZE_MASK''"

definition load_stk_mask :: "build_config \<Rightarrow> instr list" where
  "load_stk_mask c =
     (if NON_PIE_GLOBAL_VAR_FOR_STK_SIZE c then [Movq (Mem (MSym stk_mask_var)) (Reg R10)]
      else [Movq (Mem (MGot stk_mask_var)) (Reg R10), Movq (Mem (MBase FlatSeg 0 R10)) (Reg R10)])"

definition entry_stk_size :: "build_config \<Rightarrow> instr list" where
  "entry_stk_size c =
     [Comment ''###SPA### FUNCTION_ENTRY'', Movq (Reg RSP) (Reg R11)] @ load_stk_mask c @
     [Andq (Reg R10) (Reg R11),
      Movq (Mem (MIdx FlatSeg 0 R11 R10 2)) (Reg R11),
      Addq (Mem (MBase FlatSeg 0 RSP)) (Reg R11),
      Movq (Reg R11) (Mem (MIdx FlatSeg 0 RSP R10 1))]"

definition randval_var :: string where "randval_var = ''.unsw.randomval''"

definition entry_global_randvar :: "instr list" where
  "entry_global_randvar =
     [Movq (Mem (MGot randval_var)) (Reg RAX),
      Addq (Mem (MBase FlatSeg 0 RSP)) (Reg RAX),
      Movq (Reg RAX) (Mem (MBase FlatSeg (- sint DEF_SPA_SS_OFFSET) RSP))]"

text \<open>
  The whole branch taken after \<open>.cfi_startproc\<close> in a 64-bit module that is not passed through.
  Only three schemes look at the function flags.
\<close>

definition startproc_instrs :: "build_config \<Rightarrow> bool \<Rightarrow> bool \<Rightarrow> bool \<Rightarrow> instr list" where
  "startproc_instrs c in_no_instr_func on_stack_handler in_customized_func =
     (case bc_scheme c of
        USE_SPA_SHADOW_STACK \<Rightarrow> entry_shadow_stack
      | USE_SPA_SHADOW_STACK_VIA_REG \<Rightarrow> entry_via_reg
      | USE_SPA_BUDDY_STACK_TLS \<Rightarrow> entry_buddy_tls
      | USE_SPA_GS_RSP \<Rightarrow>
          (if in_no_instr_func then []
           else if on_stack_handler then call_saving_args ''unsw_inc_asm_js_crash_cnt@plt''
           else if in_customized_func then call_saving_args ''init_main_shadow_stack@plt''
           else entry_gs_rsp)
      | USE_SHADESMAR_GS \<Rightarrow>
          (if in_no_instr_func then []
           else if in_customized_func then call_saving_args ''init_main_shadow_stack@plt''
           else [])
      | USE_SPA_FS_GS_TLS \<Rightarrow>
          (if in_no_instr_func then []
           else if on_stack_handler then call_saving_args ''unsw_inc_asm_js_crash_cnt@plt''
           else if in_customized_func then call_saving_args ''init_main_shadow_stack@plt''
           else entry_fs_gs c)
      | USE_SPA_BUDDY_STACK_TLS_WITH_STK_SIZE \<Rightarrow> entry_stk_size c
      | USE_SPA_SHADOW_STACK_PLUS_GLOBAL_RANDVAR \<Rightarrow> entry_global_randvar)"

subsection \<open>Function exit\<close>

definition exit_shadow_stack :: "instr list" where
  "exit_shadow_stack =
     [Addq (ImmD 8) (Reg RSP),
      Movq (Mem (MBase FlatSeg (- sint DEF_SPA_SS_OFFSET) RSP)) (Reg R11),
      Jmpq (Reg R11)]"

definition exit_via_reg :: "instr list" where
  "exit_via_reg =
     [Movq (Mem (MBase FlatSeg (- sint DEF_SPA_SS_OFFSET) RSP)) (Reg R11),
      Addq (ImmD 8) (Reg RSP),
      Jmpq (Reg R11)]"

definition exit_buddy_tls :: "instr list" where
  "exit_buddy_tls =
     [Comment ''###SPA### FUNCTION_EXIT'',
      Movq (Reg RSP) (Reg R10),
      Andq (ImmD (sint DEF_BUDDY_CALL_STACK_SIZE_MASK)) (Reg R10),
      Movq (Mem (MBase FlatSeg (- sint DEF_SPA_SS_OFFSET) RSP)) (Reg R11),
      Subq (Mem (MBase FlatSeg (- sint DEF_BUDDY_FUNCTION_LOCAL_STORAGE_SIZE) R10)) (Reg R11),
      Addq (ImmD (sint SPA_CPU_WORD_LENGTH)) (Reg RSP),
      Jmp (Reg R11)]"

definition exit_gs_rsp :: "instr list" where
  "exit_gs_rsp =
     [Movq (ImmX (- uint SPA_USER_SPACE_SIZE)) (Reg R10),
      Addq (ImmD (sint SPA_CPU_WORD_LENGTH)) (Reg RSP),
      Jmpq (Mem (MIdx GsSeg (-8) RSP R10 1))]"

definition exit_fs_gs :: "build_config \<Rightarrow> instr list" where
  "exit_fs_gs c =
     [Movq (Mem (MGsAbs (sint (GET_GS_METADATA_FIELD_OFFSET gm_diff)))) (Reg R11),
      Movq (Mem (MIdx FlatSeg 0 RSP R11 1)) (Reg R11)] @
     (if SPA_ENABLE_GS_MSR c
      then [Subq (Mem (MGsAbs (sint (GET_GS_METADATA_FIELD_OFFSET gm_R)))) (Reg R11)] else []) @
     [Addq (ImmD (sint SPA_CPU_WORD_LENGTH)) (Reg RSP),
      Jmpq (Reg R11)]"

definition exit_stk_size :: "build_config \<Rightarrow> instr list" where
  "exit_stk_size c =
     [Comment ''###SPA### FUNCTION_EXIT'', Movq (Reg RSP) (Reg R11)] @ load_stk_mask c @
     [Andq (Reg R10) (Reg R11),
      Movq (Mem (MIdx FlatSeg 0 R11 R10 2)) (Reg R11),
      Movq (Mem (MIdx FlatSeg 0 RSP R10 1)) (Reg R10),
      Subq (Reg R11) (Reg R10),
      Addq (ImmD (sint SPA_CPU_WORD_LENGTH)) (Reg RSP),
      Jmp (Reg R10)]"

definition exit_global_randvar :: "instr list" where
  "exit_global_randvar =
     [Movq (Mem (MBase FlatSeg (- sint DEF_SPA_SS_OFFSET) RSP)) (Reg R11),
      Subq (Mem (MGot randval_var)) (Reg R11),
      Addq (ImmD (sint SPA_CPU_WORD_LENGTH)) (Reg RSP),
      Jmp (Reg R11)]"

text \<open>
  What is written in place of a \<open>ret\<close> line: \<open>None\<close> where the code copies the line unchanged.
\<close>

definition ret_instrs :: "build_config \<Rightarrow> bool \<Rightarrow> bool \<Rightarrow> bool \<Rightarrow> instr list option" where
  "ret_instrs c in_no_instr_func on_stack_handler in_customized_func =
     (case bc_scheme c of
        USE_SPA_SHADOW_STACK \<Rightarrow> Some exit_shadow_stack
      | USE_SPA_SHADOW_STACK_VIA_REG \<Rightarrow> Some exit_via_reg
      | USE_SPA_BUDDY_STACK_TLS \<Rightarrow> Some exit_buddy_tls
      | USE_SPA_GS_RSP \<Rightarrow>
          (if in_customized_func \<or> in_no_instr_func \<or> on_stack_handler then None
           else Some exit_gs_rsp)
      | USE_SHADESMAR_GS \<Rightarrow> None
      | USE_SPA_FS_GS_TLS \<Rightarrow>
          (if in_customized_func \<or> in_no_instr_func \<or> on_stack_handler then None
           else Some (exit_fs_gs c))
      | USE_SPA_BUDDY_STACK_TLS_WITH_STK_SIZE \<Rightarrow> Some (exit_stk_size c)
      | USE_SPA_SHADOW_STACK_PLUS_GLOBAL_RANDVAR \<Rightarrow> Some exit_global_randvar)"

subsection \<open>Instrumented calls\<close>

text \<open>
  Writing the return address of a call to the callee's shadow slot, before the call pushes it.
  The two schemes for which calls can be instrumented differ here; in the \<open>%gs\<close> table scheme
  an indirect call writes its table operands as \<open>%gs:(8)\<close>, a direct call as \<open>%gs:8\<close>.
\<close>

definition store_ret_addr :: "build_config \<Rightarrow> bool \<Rightarrow> instr list" where
  "store_ret_addr c direct =
     (case bc_scheme c of
        USE_SPA_FS_GS_TLS \<Rightarrow>
          (let gs = (\<lambda>f. Mem ((if direct then MGsBare else MGsAbs) (sint (GET_GS_METADATA_FIELD_OFFSET f))))
           in (if SPA_ENABLE_GS_MSR c then [Addq (gs gm_R) (Reg R11)] else []) @
              [Movq (gs gm_diff) (Reg R10),
               Movq (Reg R11) (Mem (MIdx FlatSeg (-8) RSP R10 1))])
      | _ \<Rightarrow>
          [Movq (ImmX (- uint SPA_USER_SPACE_SIZE)) (Reg R10),
           Movq (Reg R11) (Mem (MIdx GsSeg (-8) RSP R10 1))])"

text \<open>\<open>callq *op\<close>, where \<open>op\<close> is the operand text of the line after its comment is cut off.\<close>

definition indirect_call_instrs :: "build_config \<Rightarrow> string \<Rightarrow> instr list" where
  "indirect_call_instrs c op =
     [Movq (OText op) (Reg RAX),
      Movq (ImmX (uint (SPA_PROTECTED_FUNC_MAGIC_NUM c))) (Reg R11),
      Cmpq (Mem (MBase FlatSeg 0 RAX)) (Reg R11),
      Jne 1,
      LeaqFwd 2 R11] @
     store_ret_addr c False @
     [Addq (ImmX (int (SPA_LENGTH_OF_PROTECTED_PROLOGUE c))) (Reg RAX),
      Label 1,
      CallqReg RAX,
      Label 2]"

text \<open>A direct call line to a protected function; \<open>line\<close> is without newline and comment.\<close>

definition direct_call_instrs :: "build_config \<Rightarrow> string \<Rightarrow> instr list" where
  "direct_call_instrs c line =
     [LeaqFwd 1 R11] @ store_ret_addr c True @
     [CallqText (line @ ''+'' @ dec_nat (SPA_LENGTH_OF_PROTECTED_PROLOGUE c)),
      Label 1]"

lemmas entry_defs =
  entry_shadow_stack_def entry_via_reg_def entry_buddy_tls_def entry_gs_rsp_def entry_fs_gs_def
  entry_stk_size_def entry_global_randvar_def load_stk_mask_def

lemmas exit_defs =
  exit_shadow_stack_def exit_via_reg_def exit_buddy_tls_def exit_gs_rsp_def exit_fs_gs_def
  exit_stk_size_def exit_global_randvar_def load_stk_mask_def

subsection \<open>The text of the default build\<close>

lemma default_entry_text:
  "asm_block (startproc_instrs default_config False False False) =
     asm_line ''movq'' ''(%rsp), %r11'' @
     asm_line ''movq'' ''$-0x800000000000, %r10'' @
     asm_line ''movq'' ''%r11, %gs:(%rsp, %r10, 1)''"
  by (simp add: startproc_instrs_def default_config_def entry_gs_rsp_def asm_block_def
      SPA_USER_SPACE_SIZE_def print_simps disp_text_def)

lemma default_exit_text:
  "map_option asm_block (ret_instrs default_config False False False) =
     Some (asm_line ''movq'' ''$-0x800000000000, %r10'' @
       asm_line ''addq'' ''$8, %rsp'' @
       asm_line ''jmpq'' ''*%gs:-8(%rsp, %r10, 1)'')"
  by (simp add: ret_instrs_def default_config_def exit_gs_rsp_def asm_block_def
      SPA_USER_SPACE_SIZE_def SPA_CPU_WORD_LENGTH_def print_simps disp_text_def)

definition stores_return_address :: "build_config \<Rightarrow> bool \<Rightarrow> bool \<Rightarrow> bool \<Rightarrow> bool" where
  "stores_return_address c in_no_instr_func on_stack_handler in_customized_func =
     (startproc_instrs c in_no_instr_func on_stack_handler in_customized_func \<in>
        {entry_shadow_stack, entry_via_reg, entry_buddy_tls, entry_gs_rsp, entry_fs_gs c,
         entry_stk_size c, entry_global_randvar})"

text \<open>
  C25: on every compile-time scheme and for every combination of the function flags, the exit
  sequence is rewritten exactly where the entry sequence stores the return address: a function
  whose entry does not protect its return address keeps its plain \<open>ret\<close>, and one whose entry
  does never keeps it.
\<close>

theorem entry_exit_agree:
  "(ret_instrs c in_no on_h in_cust \<noteq> None) = stores_return_address c in_no on_h in_cust"
  by (cases "bc_scheme c")
     (simp_all add: ret_instrs_def stores_return_address_def startproc_instrs_def
        call_saving_args_def entry_defs)

end
