(* ===== verification/Ret_Guard.thy ===== *)
theory Ret_Guard
  imports Emit
begin

section \<open>Ret_Guard: the written entry and exit sequences protect return addresses\<close>

text \<open>
  The contract between a function entry sequence and a function exit sequence, as a locale: the
  entry stores the return address, blinded with a key, in the function's shadow slot and the exit
  jumps to the unblinded content of that slot.  From the contract alone: in any nesting of
  instrumented calls, whatever the program or an attacker writes to memory that is neither a
  shadow slot nor a control cell, every return goes to its own call site.  The locale is
  interpreted on the sequences of \<open>Emit\<close> for every build configuration.
\<close>

subsection \<open>Calls, returns and arbitrary work in between\<close>

text \<open>
  A running thread: the machine and, as ghost state, the live instrumented frames, innermost
  first, each with the stack address of its return address and the return address itself.
  \<open>work\<close> is anything that keeps the \<open>%gs\<close> base, the shadow slots and the control cells of the
  live frames: ordinary code, or an attacker who overwrites all of the call stack.
\<close>

type_synonym frame = "addr \<times> addr"

inductive frame_step ::
  "(mstate \<Rightarrow> mstate) \<Rightarrow> (mstate \<Rightarrow> mstate) \<Rightarrow> (mstate \<Rightarrow> addr \<Rightarrow> addr) \<Rightarrow> (mstate \<Rightarrow> addr \<Rightarrow> addr list) \<Rightarrow>
   mstate \<times> frame list \<Rightarrow> mstate \<times> frame list \<Rightarrow> bool"
  for pro epi slot ctl where
  work: "gsb t = gsb s \<Longrightarrow>
     (\<And>a ra. (a, ra) \<in> set fs \<Longrightarrow> mem t (slot s a) = mem s (slot s a)) \<Longrightarrow>
     (\<And>a ra x. (a, ra) \<in> set fs \<Longrightarrow> x \<in> set (ctl s a) \<Longrightarrow> mem t x = mem s x) \<Longrightarrow>
     frame_step pro epi slot ctl (s, fs) (t, fs)"
| call: "a = regs s RSP - 8 \<Longrightarrow> a \<notin> fst ` set fs \<Longrightarrow>
     (\<And>b rb. (b, rb) \<in> set fs \<Longrightarrow> a \<noteq> slot s b \<and> a \<notin> set (ctl s b)) \<Longrightarrow>
     (\<And>b rb. (b, rb) \<in> set ((a, ra) # fs) \<Longrightarrow>
        slot (push_val ra s) a \<notin> set (ctl (push_val ra s) b)) \<Longrightarrow>
     frame_step pro epi slot ctl (s, fs) (pro (push_val ra s), (a, ra) # fs)"
| ret: "regs s RSP = a \<Longrightarrow>
     frame_step pro epi slot ctl (s, (a, ra) # fs) (epi s, fs)"

inductive_cases frame_stepE: "frame_step pro epi slot ctl (s, fs) (t, gs)"

subsection \<open>The contract\<close>

locale ret_guard =
  fixes pro :: "mstate \<Rightarrow> mstate"
    and epi :: "mstate \<Rightarrow> mstate"
    and slot :: "mstate \<Rightarrow> addr \<Rightarrow> addr"
    and key :: "mstate \<Rightarrow> addr \<Rightarrow> u64"
    and ctl :: "mstate \<Rightarrow> addr \<Rightarrow> addr list"
  assumes pro_mem:
      "mem (pro s) = (mem s)(slot s (regs s RSP) := mem s (regs s RSP) + key s (regs s RSP))"
    and pro_rsp: "regs (pro s) RSP = regs s RSP"
    and pro_gsb: "gsb (pro s) = gsb s"
    and epi_mem: "mem (epi s) = mem s"
    and epi_gsb: "gsb (epi s) = gsb s"
    and epi_rsp: "regs (epi s) RSP = regs s RSP + 8"
    and epi_pc: "pc (epi s) = Some (mem s (slot s (regs s RSP)) - key s (regs s RSP))"
    and agree_slot:
      "gsb t = gsb s \<Longrightarrow> (\<And>x. x \<in> set (ctl s a) \<Longrightarrow> mem t x = mem s x) \<Longrightarrow> slot t a = slot s a"
    and agree_key:
      "gsb t = gsb s \<Longrightarrow> (\<And>x. x \<in> set (ctl s a) \<Longrightarrow> mem t x = mem s x) \<Longrightarrow> key t a = key s a"
    and slot_inj: "slot s a = slot s b \<Longrightarrow> a = b"
begin

definition protected :: "mstate \<Rightarrow> frame list \<Rightarrow> bool" where
  "protected s fs \<longleftrightarrow>
     distinct (map fst fs) \<and> (\<forall>(a, ra) \<in> set fs. mem s (slot s a) = ra + key s a)"

lemma protected_agree:
  assumes "protected s fs" and "gsb t = gsb s"
    and "\<And>a ra. (a, ra) \<in> set fs \<Longrightarrow> mem t (slot s a) = mem s (slot s a)"
    and "\<And>a ra x. (a, ra) \<in> set fs \<Longrightarrow> x \<in> set (ctl s a) \<Longrightarrow> mem t x = mem s x"
  shows "protected t fs"
proof -
  have "mem t (slot t a) = ra + key t a" if f: "(a, ra) \<in> set fs" for a ra
  proof -
    have "slot t a = slot s a" "key t a = key s a"
      using agree_slot [OF assms(2)] agree_key [OF assms(2)] assms(4) [OF f] by blast+
    then show ?thesis using assms(1,3) f by (auto simp: protected_def)
  qed
  then show ?thesis using assms(1) by (auto simp: protected_def)
qed

lemma protected_pro:
  assumes fs: "protected s fs" and a: "a = regs s RSP" "a \<notin> fst ` set fs" "mem s a = ra"
    and ctl: "\<And>b rb. (b, rb) \<in> set ((a, ra) # fs) \<Longrightarrow> slot s a \<notin> set (ctl s b)"
  shows "protected (pro s) ((a, ra) # fs)"
proof -
  have m: "mem (pro s) x = mem s x" if "x \<noteq> slot s a" for x
    using that a(1) by (simp add: pro_mem)
  have old: "protected (pro s) fs"
  proof (rule protected_agree [OF fs])
    show "gsb (pro s) = gsb s" by (rule pro_gsb)
    show "mem (pro s) (slot s b) = mem s (slot s b)" if "(b, rb) \<in> set fs" for b rb
      using that a(2) slot_inj [of s a b] by (intro m) force
    show "mem (pro s) x = mem s x" if "(b, rb) \<in> set fs" "x \<in> set (ctl s b)" for b rb x
      using that ctl [of b rb] by (intro m) auto
  qed
  have "\<And>x. x \<in> set (ctl s a) \<Longrightarrow> mem (pro s) x = mem s x"
    using ctl [of a ra] by (intro m) auto
  then have "slot (pro s) a = slot s a" "key (pro s) a = key s a"
    using agree_slot [OF pro_gsb] agree_key [OF pro_gsb] by blast+
  then have "mem (pro s) (slot (pro s) a) = ra + key (pro s) a"
    using a by (simp add: pro_mem)
  with old a(2) show ?thesis by (auto simp: protected_def)
qed

lemma protected_push:
  assumes "protected s fs"
    and "\<And>b rb. (b, rb) \<in> set fs \<Longrightarrow>
           regs s RSP - 8 \<noteq> slot s b \<and> regs s RSP - 8 \<notin> set (ctl s b)"
  shows "protected (push_val ra s) fs"
proof (rule protected_agree [OF assms(1)])
  show "gsb (push_val ra s) = gsb s" by (simp add: machine_defs)
  show "mem (push_val ra s) (slot s b) = mem s (slot s b)" if "(b, rb) \<in> set fs" for b rb
    using assms(2) [OF that] by (auto simp: machine_defs)
  show "mem (push_val ra s) x = mem s x" if "(b, rb) \<in> set fs" "x \<in> set (ctl s b)" for b rb x
    using assms(2) [OF that(1)] that(2) by (auto simp: machine_defs)
qed

lemma step_protected:
  assumes "frame_step pro epi slot ctl (s, fs) (t, gs)" and "protected s fs"
  shows "protected t gs"
  using assms(1)
proof (rule frame_stepE)
  assume "gs = fs" "gsb t = gsb s"
    and "\<And>a ra. (a, ra) \<in> set fs \<Longrightarrow> mem t (slot s a) = mem s (slot s a)"
    and "\<And>a ra x. (a, ra) \<in> set fs \<Longrightarrow> x \<in> set (ctl s a) \<Longrightarrow> mem t x = mem s x"
  with assms(2) show ?thesis using protected_agree by blast
next
  fix ra
  let ?a = "regs s RSP - 8"
  assume t: "t = pro (push_val ra s)" "gs = (?a, ra) # fs" and a: "?a \<notin> fst ` set fs"
    and live: "\<And>b rb. (b, rb) \<in> set fs \<Longrightarrow> ?a \<noteq> slot s b \<and> ?a \<notin> set (ctl s b)"
    and ctl: "\<And>b rb. b = ?a \<and> rb = ra \<or> (b, rb) \<in> set fs \<Longrightarrow>
      slot (push_val ra s) ?a \<notin> set (ctl (push_val ra s) b)"
  have "protected (push_val ra s) fs" using protected_push [OF assms(2)] live by blast
  moreover have "?a = regs (push_val ra s) RSP" "mem (push_val ra s) ?a = ra"
    by (simp_all add: machine_defs)
  moreover have "\<And>b rb. (b, rb) \<in> set ((?a, ra) # fs) \<Longrightarrow>
      slot (push_val ra s) ?a \<notin> set (ctl (push_val ra s) b)"
    using ctl by auto
  ultimately show ?thesis unfolding t using a by (intro protected_pro)
next
  fix ra
  assume "t = epi s" "fs = (regs s RSP, ra) # gs"
  moreover from this have "protected s gs" using assms(2) by (auto simp: protected_def)
  ultimately show ?thesis by (auto intro!: protected_agree [of s] simp: epi_mem epi_gsb)
qed

lemma reachable_protected:
  "(frame_step pro epi slot ctl)\<^sup>*\<^sup>* x y \<Longrightarrow> protected (fst x) (snd x) \<Longrightarrow> protected (fst y) (snd y)"
proof (induction rule: rtranclp_induct)
  case base
  then show ?case .
next
  case (step y z)
  then show ?case by (cases y; cases z) (auto dest: step_protected)
qed

lemma reachable_return:
  assumes "(frame_step pro epi slot ctl)\<^sup>*\<^sup>* (s0, []) (s, (a, ra) # fs)" and "regs s RSP = a"
  shows "pc (epi s) = Some ra" and "regs (epi s) RSP = a + 8"
proof -
  have "protected s0 []" by (simp add: protected_def)
  with reachable_protected [OF assms(1)] have "protected s ((a, ra) # fs)" by simp
  then show "pc (epi s) = Some ra" using assms(2) by (simp add: epi_pc protected_def)
  show "regs (epi s) RSP = a + 8" using assms(2) by (simp add: epi_rsp)
qed

end

subsection \<open>The sequences of every build configuration\<close>

definition pro_of :: "build_config \<Rightarrow> asm_env \<Rightarrow> mstate \<Rightarrow> mstate" where
  "pro_of c env s = exec env (startproc_instrs c False False False) s"

definition epi_of :: "build_config \<Rightarrow> asm_env \<Rightarrow> mstate \<Rightarrow> mstate" where
  "epi_of c env s =
     (case ret_instrs c False False False of None \<Rightarrow> exec_retq s | Some ins \<Rightarrow> exec env ins s)"

text \<open>Where a function entered with stack pointer \<open>a\<close> keeps its return address.\<close>

definition slot_of :: "build_config \<Rightarrow> asm_env \<Rightarrow> mstate \<Rightarrow> addr \<Rightarrow> addr" where
  "slot_of c env s a =
     (case bc_scheme c of
        USE_SPA_SHADOW_STACK \<Rightarrow> a + 8 - DEF_SPA_SS_OFFSET
      | USE_SPA_GS_RSP \<Rightarrow> gsb s + a - SPA_USER_SPACE_SIZE
      | USE_SHADESMAR_GS \<Rightarrow> a
      | USE_SPA_FS_GS_TLS \<Rightarrow> a + mem s (gsb s + GET_GS_METADATA_FIELD_OFFSET gm_diff)
      | USE_SPA_BUDDY_STACK_TLS_WITH_STK_SIZE \<Rightarrow> a + mem s (sym_addr env stk_mask_var)
      | _ \<Rightarrow> a - DEF_SPA_SS_OFFSET)"

text \<open>What is added to the return address before it is stored.\<close>

definition key_of :: "build_config \<Rightarrow> asm_env \<Rightarrow> mstate \<Rightarrow> addr \<Rightarrow> u64" where
  "key_of c env s a =
     (case bc_scheme c of
        USE_SPA_BUDDY_STACK_TLS \<Rightarrow>
          mem s ((a AND DEF_BUDDY_CALL_STACK_SIZE_MASK) - DEF_BUDDY_FUNCTION_LOCAL_STORAGE_SIZE)
      | USE_SPA_FS_GS_TLS \<Rightarrow>
          (if SPA_ENABLE_GS_MSR c then mem s (gsb s + GET_GS_METADATA_FIELD_OFFSET gm_R) else 0)
      | USE_SPA_BUDDY_STACK_TLS_WITH_STK_SIZE \<Rightarrow>
          (let m = mem s (sym_addr env stk_mask_var) in mem s ((a AND m) + m * 2))
      | USE_SPA_SHADOW_STACK_PLUS_GLOBAL_RANDVAR \<Rightarrow> sym_addr env randval_var
      | _ \<Rightarrow> 0)"

text \<open>The cells that slot and key are read from.\<close>

definition ctl_of :: "build_config \<Rightarrow> asm_env \<Rightarrow> mstate \<Rightarrow> addr \<Rightarrow> addr list" where
  "ctl_of c env s a =
     (case bc_scheme c of
        USE_SPA_BUDDY_STACK_TLS \<Rightarrow>
          [(a AND DEF_BUDDY_CALL_STACK_SIZE_MASK) - DEF_BUDDY_FUNCTION_LOCAL_STORAGE_SIZE]
      | USE_SPA_FS_GS_TLS \<Rightarrow>
          [gsb s + GET_GS_METADATA_FIELD_OFFSET gm_diff, gsb s + GET_GS_METADATA_FIELD_OFFSET gm_R]
      | USE_SPA_BUDDY_STACK_TLS_WITH_STK_SIZE \<Rightarrow>
          (let m = mem s (sym_addr env stk_mask_var) in [sym_addr env stk_mask_var, (a AND m) + m * 2])
      | _ \<Rightarrow> [])"

lemmas frame_layout_defs = slot_of_def key_of_def ctl_of_def

text \<open>Executing the entry and exit sequences, scheme by scheme.\<close>

lemma imm_consts:
  "word_of_int (- sint x) = - (x :: u64)"
  "word_of_int (- uint x) = - (x :: u64)"
  "word_of_int (sint x) = (x :: u64)"
  by simp_all

lemma SPA_CPU_WORD_LENGTH_imm: "SPA_CPU_WORD_LENGTH = 8"
  by (simp add: SPA_CPU_WORD_LENGTH_def)

lemmas exec_consts = imm_consts machine_defs SPA_CPU_WORD_LENGTH_imm

lemmas exec_entry_simps =
  pro_of_def startproc_instrs_def entry_defs frame_layout_defs exec_consts

lemmas exec_exit_simps =
  epi_of_def ret_instrs_def exit_defs frame_layout_defs exec_consts exec_retq_def

lemma pro_of_mem:
  "mem (pro_of c env s) =
     (mem s)(slot_of c env s (regs s RSP) := mem s (regs s RSP) + key_of c env s (regs s RSP))"
  by (cases "bc_scheme c")
     (simp_all add: exec_entry_simps ac_simps del: GET_GS_METADATA_FIELD_OFFSET.simps)

lemma pro_of_frame:
  "regs (pro_of c env s) RSP = regs s RSP"
  "gsb (pro_of c env s) = gsb s"
  by (cases "bc_scheme c"; simp add: exec_entry_simps)+

lemma epi_of_frame:
  "mem (epi_of c env s) = mem s"
  "gsb (epi_of c env s) = gsb s"
  "regs (epi_of c env s) RSP = regs s RSP + 8"
  by (cases "bc_scheme c"; simp add: exec_exit_simps)+

lemma epi_of_pc:
  "pc (epi_of c env s) =
     Some (mem s (slot_of c env s (regs s RSP)) - key_of c env s (regs s RSP))"
  by (cases "bc_scheme c")
     (simp_all add: exec_exit_simps ac_simps del: GET_GS_METADATA_FIELD_OFFSET.simps)

interpretation rg: ret_guard "pro_of c env" "epi_of c env" "slot_of c env" "key_of c env" "ctl_of c env"
  for c env
proof unfold_locales
  show "slot_of c env s a = slot_of c env s b \<Longrightarrow> a = b" for s a b
    by (cases "bc_scheme c") (simp_all add: slot_of_def)
  show "gsb t = gsb s \<Longrightarrow> (\<And>x. x \<in> set (ctl_of c env s a) \<Longrightarrow> mem t x = mem s x) \<Longrightarrow>
      slot_of c env t a = slot_of c env s a" for s t a
    by (cases "bc_scheme c") (simp_all add: slot_of_def ctl_of_def Let_def)
  show "gsb t = gsb s \<Longrightarrow> (\<And>x. x \<in> set (ctl_of c env s a) \<Longrightarrow> mem t x = mem s x) \<Longrightarrow>
      key_of c env t a = key_of c env s a" for s t a
    by (cases "bc_scheme c") (simp_all add: key_of_def ctl_of_def Let_def)
qed (simp_all add: pro_of_mem pro_of_frame epi_of_frame epi_of_pc)

subsection \<open>Properties of the written code\<close>

text \<open>
  C1: return-address integrity.  For every build configuration, start a thread with no live
  instrumented frame and let it run any sequence of calls, returns and arbitrary work that
  leaves the shadow slots and control cells of the live frames alone (it may overwrite every
  return address on the call stack).  Whenever the innermost function executes its exit
  sequence, control goes to the return address of its own call, and the stack pointer is just
  above the popped return address.
\<close>

theorem every_return_goes_to_its_call_site:
  assumes "(frame_step (pro_of c env) (epi_of c env) (slot_of c env) (ctl_of c env))\<^sup>*\<^sup>*
             (s0, []) (s, (a, ra) # fs)"
    and "regs s RSP = a"
  shows "pc (epi_of c env s) = Some ra \<and> regs (epi_of c env s) RSP = a + 8"
  using rg.reachable_return [OF assms] by simp

text \<open>A run of the default build: a call, an attacker who overwrites the stack cell, a return.\<close>

definition demo_env :: asm_env where
  "demo_env = \<lparr>lbl_addr = (\<lambda>l. 0x401000 + of_nat l), sym_addr = (\<lambda>_. 0x601000),
     text_value = (\<lambda>_ s. regs s R11), text_target = (\<lambda>_. 0x400b43), lib_call = (\<lambda>_ s. s)\<rparr>"

definition demo_state :: mstate where
  "demo_state = \<lparr>regs = (\<lambda>r. if r = RSP then 0x7ffff000 else 0), mem = (\<lambda>_. 0),
     gsb = 0x800000100000, zf = False, pc = None\<rparr>"

lemma demo_steps:
  "(frame_step (pro_of default_config demo_env) (epi_of default_config demo_env)
      (slot_of default_config demo_env) (ctl_of default_config demo_env))\<^sup>*\<^sup>*
     (demo_state, [])
     (set_mem 0x7fffeff8 0xdead (pro_of default_config demo_env (push_val 0x401234 demo_state)),
      [(0x7fffeff8, 0x401234)])"
proof (rule rtranclp.rtrancl_into_rtrancl [OF rtranclp.rtrancl_into_rtrancl [OF rtranclp.rtrancl_refl]])
  show "frame_step (pro_of default_config demo_env) (epi_of default_config demo_env)
      (slot_of default_config demo_env) (ctl_of default_config demo_env) (demo_state, [])
      (pro_of default_config demo_env (push_val 0x401234 demo_state), [(0x7fffeff8, 0x401234)])"
    by (rule frame_step.call)
       (simp_all add: demo_state_def slot_of_def ctl_of_def default_config_def machine_defs
          SPA_USER_SPACE_SIZE_def)
  show "frame_step (pro_of default_config demo_env) (epi_of default_config demo_env)
      (slot_of default_config demo_env) (ctl_of default_config demo_env)
      (pro_of default_config demo_env (push_val 0x401234 demo_state), [(0x7fffeff8, 0x401234)])
      (set_mem 0x7fffeff8 0xdead (pro_of default_config demo_env (push_val 0x401234 demo_state)),
       [(0x7fffeff8, 0x401234)])"
    by (rule frame_step.work)
       (simp_all add: demo_state_def slot_of_def ctl_of_def default_config_def machine_defs
          SPA_USER_SPACE_SIZE_def pro_of_frame)
qed

theorem every_return_goes_to_its_call_site_witness:
  "pc (epi_of default_config demo_env
     (set_mem 0x7fffeff8 0xdead (pro_of default_config demo_env (push_val 0x401234 demo_state))))
   = Some 0x401234"
  using every_return_goes_to_its_call_site [OF demo_steps]
  by (simp add: demo_state_def machine_defs pro_of_frame)

text \<open>
  One function, seen by its caller's memory.  If the shadow slot is not the stack cell of
  the return address and the stack cell is not a control cell, then overwriting the return
  address on the call stack between entry and exit has no effect: the exit sequence jumps to the
  return address that was there at entry.  (The slot is the stack cell in the scheme
  \<open>USE_SHADESMAR_GS\<close>, which writes no sequences.)
\<close>

lemma overwritten_return_address_is_ignored:
  assumes "slot_of c env s (regs s RSP) \<noteq> regs s RSP"
    and "regs s RSP \<notin> set (ctl_of c env s (regs s RSP))"
    and "slot_of c env s (regs s RSP) \<notin> set (ctl_of c env s (regs s RSP))"
  shows "pc (epi_of c env (set_mem (regs s RSP) evil (pro_of c env s))) = Some (mem s (regs s RSP))"
proof -
  let ?a = "regs s RSP" and ?t = "set_mem (regs s RSP) evil (pro_of c env s)"
  have g: "gsb ?t = gsb s" by (simp add: machine_defs pro_of_frame)
  have m: "mem ?t x = mem s x" if "x \<in> set (ctl_of c env s ?a)" for x
    using that assms by (auto simp: machine_defs pro_of_mem)
  have "slot_of c env ?t ?a = slot_of c env s ?a" "key_of c env ?t ?a = key_of c env s ?a"
    using rg.agree_slot [OF g] rg.agree_key [OF g] m by blast+
  moreover have "mem ?t (slot_of c env s ?a) = mem s ?a + key_of c env s ?a"
    using assms(1) by (simp add: machine_defs pro_of_mem)
  moreover have "regs ?t RSP = ?a" by (simp add: machine_defs pro_of_frame)
  ultimately show ?thesis by (simp add: epi_of_pc)
qed

lemma overwritten_return_address_is_ignored_witness:
  "pc (epi_of default_config demo_env
     (set_mem 0x7ffff000 0xbad (pro_of default_config demo_env (set_mem 0x7ffff000 0x401234 demo_state))))
   = Some 0x401234"
  using overwritten_return_address_is_ignored
    [where c = default_config and env = demo_env
       and s = "set_mem 0x7ffff000 0x401234 demo_state" and evil = "0xbad"]
  by (simp add: demo_state_def slot_of_def ctl_of_def default_config_def machine_defs
      SPA_USER_SPACE_SIZE_def)

text \<open>
  C15: an instrumented direct call into a protected function, which stores the return address
  itself and enters behind the function's entry sequence, leaves exactly the memory, the
  registers and the \<open>%gs\<close> base that the plain call followed by the entry sequence leaves.  The
  two schemes that instrument calls are covered; the pushed return address must not fall into
  the shadow slot or the scheme's control cells.
\<close>

theorem direct_call_equals_call_and_entry:
  assumes "bc_scheme c = USE_SPA_GS_RSP \<or> bc_scheme c = USE_SPA_FS_GS_TLS"
    and "a = regs s RSP - 8"
    and "slot_of c env s a \<noteq> a" and "a \<notin> set (ctl_of c env s a)"
  shows "mem (exec env (direct_call_instrs c line) s) = mem (pro_of c env (push_val (lbl_addr env 1) s))
    \<and> regs (exec env (direct_call_instrs c line) s) = regs (pro_of c env (push_val (lbl_addr env 1) s))
    \<and> gsb (exec env (direct_call_instrs c line) s) = gsb (pro_of c env (push_val (lbl_addr env 1) s))"
  using assms
  by (auto simp: direct_call_instrs_def store_ret_addr_def exec_entry_simps ac_simps
        fun_upd_twist diff_add_eq)

theorem direct_call_equals_call_and_entry_witness:
  "regs (exec demo_env (direct_call_instrs default_config ''f'') demo_state) R11 = 0x401001
   \<and> mem (exec demo_env (direct_call_instrs default_config ''f'') demo_state)
     = mem (pro_of default_config demo_env (push_val 0x401001 demo_state))"
proof -
  have "slot_of default_config demo_env demo_state 0x7fffeff8 \<noteq> 0x7fffeff8"
    "0x7fffeff8 \<notin> set (ctl_of default_config demo_env demo_state 0x7fffeff8)"
    by (simp_all add: demo_state_def slot_of_def ctl_of_def default_config_def SPA_USER_SPACE_SIZE_def)
  then have "regs (exec demo_env (direct_call_instrs default_config ''f'') demo_state)
       = regs (pro_of default_config demo_env (push_val 0x401001 demo_state))
     \<and> mem (exec demo_env (direct_call_instrs default_config ''f'') demo_state)
       = mem (pro_of default_config demo_env (push_val 0x401001 demo_state))"
    using direct_call_equals_call_and_entry
      [of default_config "0x7fffeff8" demo_state demo_env "''f''"]
    by (simp add: demo_state_def demo_env_def default_config_def)
  then show ?thesis
    by (simp add: demo_state_def exec_entry_simps default_config_def)
qed

definition indirect_call_target :: "build_config \<Rightarrow> asm_env \<Rightarrow> string \<Rightarrow> mstate \<Rightarrow> bool \<times> addr" where
  "indirect_call_target c env op s =
     (let t = text_value env op s
      in if mem s t = SPA_PROTECTED_FUNC_MAGIC_NUM c
         then (True, t + of_nat (SPA_LENGTH_OF_PROTECTED_PROLOGUE c)) else (False, t))"

text \<open>
  C14: an instrumented indirect call looks at the first eight bytes of its target.  When they are
  the entry sequence of a protected function, it stores its return address in the callee's
  shadow slot and enters behind the entry sequence, with the memory that a plain call followed
  by the entry sequence leaves; otherwise it is a plain call of the target, with no other effect
  on memory.  Either way the stack pointer is the caller's minus eight.
\<close>

theorem indirect_call_dispatches_on_entry_bytes:
  assumes "bc_scheme c = USE_SPA_GS_RSP \<or> bc_scheme c = USE_SPA_FS_GS_TLS"
    and "a = regs s RSP - 8"
    and "slot_of c env s a \<noteq> a" and "a \<notin> set (ctl_of c env s a)"
    and "indirect_call_target c env op s = (prot, target)"
  shows "pc (exec env (indirect_call_instrs c op) s) = Some target
    \<and> regs (exec env (indirect_call_instrs c op) s) RSP = a
    \<and> mem (exec env (indirect_call_instrs c op) s) =
        (if prot then mem (pro_of c env (push_val (lbl_addr env 2) s))
         else mem (push_val (lbl_addr env 2) s))"
  using assms
  by (auto simp: indirect_call_target_def indirect_call_instrs_def store_ret_addr_def
        exec_entry_simps ac_simps fun_upd_twist diff_add_eq split: if_splits)

theorem indirect_call_dispatches_on_entry_bytes_witness:
  "pc (exec demo_env (indirect_call_instrs default_config ''%r11'') (set_mem 0 0xba49241c8b4c demo_state))
     = Some 19
   \<and> pc (exec demo_env (indirect_call_instrs default_config ''%r11'') demo_state) = Some 0"
proof -
  let ?s = "set_mem 0 0xba49241c8b4c demo_state"
  have side: "bc_scheme default_config = USE_SPA_GS_RSP \<or> bc_scheme default_config = USE_SPA_FS_GS_TLS"
    "0x7fffeff8 = regs ?s RSP - 8" "0x7fffeff8 = regs demo_state RSP - 8"
    "slot_of default_config demo_env ?s 0x7fffeff8 \<noteq> 0x7fffeff8"
    "slot_of default_config demo_env demo_state 0x7fffeff8 \<noteq> 0x7fffeff8"
    "0x7fffeff8 \<notin> set (ctl_of default_config demo_env ?s 0x7fffeff8)"
    "0x7fffeff8 \<notin> set (ctl_of default_config demo_env demo_state 0x7fffeff8)"
    by (simp_all add: demo_state_def slot_of_def ctl_of_def default_config_def machine_defs
        SPA_USER_SPACE_SIZE_def)
  have t: "indirect_call_target default_config demo_env ''%r11'' ?s = (True, 19)"
    "indirect_call_target default_config demo_env ''%r11'' demo_state = (False, 0)"
    by (simp_all add: indirect_call_target_def demo_env_def demo_state_def machine_defs
        SPA_PROTECTED_FUNC_MAGIC_NUM_def SPA_LENGTH_OF_PROTECTED_PROLOGUE_def default_config_def)
  show ?thesis
    using indirect_call_dispatches_on_entry_bytes [OF side(1,2,4,6) t(1)]
      indirect_call_dispatches_on_entry_bytes [OF side(1,3,5,7) t(2)] by blast
qed

text \<open>
  C40: the \<open>#else\<close> scheme, a shadow stack "plus a global random variable", reads the GOT entry of
  \<open>.unsw.randomval\<close> and never the variable: what its entry sequence stores is the return address
  plus the address of the variable, whatever value the variable holds.  So the value protects
  nothing: whoever writes a target plus that address to the slot has the exit sequence jump to the
  target.
\<close>

theorem global_randvar_value_is_never_used:
  assumes "bc_scheme c = USE_SPA_SHADOW_STACK_PLUS_GLOBAL_RANDVAR"
    and "sym_addr env randval_var \<noteq> regs s RSP"
    and "sym_addr env randval_var \<noteq> regs s RSP - DEF_SPA_SS_OFFSET"
  shows "mem (pro_of c env (set_mem (sym_addr env randval_var) v s)) (regs s RSP - DEF_SPA_SS_OFFSET)
       = mem s (regs s RSP) + sym_addr env randval_var
    \<and> pc (epi_of c env (set_mem (regs s RSP - DEF_SPA_SS_OFFSET) (target + sym_addr env randval_var)
           (set_mem (sym_addr env randval_var) v s))) = Some target"
  using assms by (simp add: pro_of_mem epi_of_pc slot_of_def key_of_def machine_defs)

definition randvar_config :: build_config where
  "randvar_config = default_config\<lparr>bc_scheme := USE_SPA_SHADOW_STACK_PLUS_GLOBAL_RANDVAR\<rparr>"

theorem global_randvar_value_is_never_used_witness:
  "mem (pro_of randvar_config demo_env (set_mem 0x601000 0x1234567 demo_state)) 0x7f7ff000 = 0x601000 \<and>
   pc (epi_of randvar_config demo_env (set_mem 0x7f7ff000 (0x400bad + 0x601000) (set_mem 0x601000 0x1234567 demo_state)))
     = Some 0x400bad"
  using global_randvar_value_is_never_used [of randvar_config demo_env demo_state "0x1234567" "0x400bad"]
  by (simp add: randvar_config_def demo_env_def demo_state_def default_config_def DEF_sizes)

definition saved_args_state :: "mstate \<Rightarrow> mstate" where
  "saved_args_state s = push_val (regs s RDX) (push_val (regs s RSI) (push_val (regs s RDI) s))"

text \<open>
  The entry of a customized allocation function (\<open>malloc\<close> and its kin) and of an on-stack
  handler saves the three argument registers around the library call.  When the library function
  keeps the stack pointer and the three saved cells, the argument registers and the stack pointer
  are what they were at function entry; and at the call the stack pointer is a multiple of 16, as
  the calling convention wants, whenever the function itself was called that way.
\<close>

lemma library_call_at_entry_keeps_arguments:
  assumes "t = lib_call env f (saved_args_state s)"
    and "regs t RSP = regs s RSP - 24"
    and "\<And>x. x \<in> {regs s RSP - 8, regs s RSP - 16, regs s RSP - 24} \<Longrightarrow>
          mem t x = mem (saved_args_state s) x"
    and "16 dvd regs s RSP + 8"
  shows "(\<forall>r \<in> {RDI, RSI, RDX, RSP}. regs (exec env (call_saving_args f) s) r = regs s r)
    \<and> 16 dvd regs (saved_args_state s) RSP"
proof -
  have "regs (saved_args_state s) RSP = (regs s RSP + 8) - 32"
    by (simp add: saved_args_state_def machine_defs)
  moreover have "16 dvd (regs s RSP + 8) - 32"
    using assms(4) by (rule dvd_diff) (rule dvdI [of _ _ 2], simp)
  ultimately have "16 dvd regs (saved_args_state s) RSP" by simp
  moreover have "regs (exec env (call_saving_args f) s) r = regs s r" if "r \<in> {RDI, RSI, RDX, RSP}" for r
    using that assms(2) assms(3) [of "regs s RSP - 8"] assms(3) [of "regs s RSP - 16"]
      assms(3) [of "regs s RSP - 24"] assms(1)
    by (auto simp: call_saving_args_def saved_args_state_def machine_defs)
  ultimately show ?thesis by blast
qed

lemma library_call_at_entry_keeps_arguments_witness:
  "16 dvd regs (saved_args_state (set_reg RSP 0x7fffeff8 demo_state)) RSP"
proof -
  have "(16 :: u64) dvd 0x7ffff000" by (rule dvdI [of _ _ "0x7ffff00"]) simp
  then show ?thesis
    using library_call_at_entry_keeps_arguments
      [of "saved_args_state (set_reg RSP 0x7fffeff8 demo_state)" demo_env "''f''"
        "set_reg RSP 0x7fffeff8 demo_state"]
    by (simp add: demo_env_def saved_args_state_def machine_defs)
qed

end
