(* ===== verification/Func_Lists.thy ===== *)
theory Func_Lists
  imports Spa Libc_Names
begin

section \<open>Func_Lists: the lists of function names that steer the instrumentation\<close>

text \<open>
  \<open>afl-as.c\<close> 91-152 and 6521-6716: recognising rustc-generated files, reading the list of
  protected functions, and the membership tests on labels and call targets.  The file system is
  an argument: \<open>read_file p\<close> is the content of the file at path \<open>p\<close>, or \<open>None\<close> when it cannot be
  opened.  Files do not contain NUL characters.
\<close>

subsection \<open>spa_is_rustc_pass_thru\<close>

fun count_procs :: "string list \<Rightarrow> nat \<times> nat \<Rightarrow> nat \<times> nat" where
  "count_procs [] (n_s, n_e) = (n_s, n_e)"
| "count_procs (tmp_line # ls) (n_s, n_e) =
     (if starts_with tmp_line SPA_CFI_STARTPROC then count_procs ls (Suc n_s, n_e)
      else if starts_with tmp_line SPA_CFI_ENDPROC then count_procs ls (n_s, Suc n_e)
      else count_procs ls (n_s, n_e))"

definition file_lines :: "string \<Rightarrow> string list" where
  "file_lines content = fgets_all (MAX_LINE - 1) [] content"

definition spa_is_rustc_pass_thru ::
  "(string \<Rightarrow> string option) \<Rightarrow> string option \<Rightarrow> fault + bool" where
  "spa_is_rustc_pass_thru read_file fpath =
     (case fpath of
        None \<Rightarrow> Inr False
      | Some p \<Rightarrow>
          (case read_file p of
             None \<Rightarrow> Inl (Exited ''Unable to read'')
           | Some content \<Rightarrow>
               (let (n_s, n_e) = count_procs (file_lines content) (0, 0)
                in Inr (n_s > 0 \<and> n_s = n_e))))"

lemma count_procs_eq:
  "count_procs ls (n_s, n_e) =
     (n_s + length (filter (\<lambda>l. starts_with l SPA_CFI_STARTPROC) ls),
      n_e + length (filter (\<lambda>l. starts_with l SPA_CFI_ENDPROC) ls))"
proof (induction ls arbitrary: n_s n_e)
  case Nil
  then show ?case by simp
next
  case (Cons l ls)
  have "\<not> (starts_with l SPA_CFI_STARTPROC \<and> starts_with l SPA_CFI_ENDPROC)"
    by (auto simp: asm_pattern_defs starts_with_prefix prefix_def)
  with Cons show ?case by auto
qed

subsection \<open>spa_open_protected_funcs_list\<close>

definition MAX_NUM_OF_SPA_PROTECTED_FUNCS :: nat where
  "MAX_NUM_OF_SPA_PROTECTED_FUNCS = 0x400000"

text \<open>
  Every line of more than one character is appended to the buffer and its last character
  overwritten with NUL; the table holds the starts of these strings.  Writing behind the table's
  last entry is out of bounds.
\<close>

fun collect_protected :: "string list \<Rightarrow> string list \<Rightarrow> fault + string list" where
  "collect_protected acc [] = Inr acc"
| "collect_protected acc (tmp_line # ls) =
     (if length tmp_line > 1
      then (if length acc < MAX_NUM_OF_SPA_PROTECTED_FUNCS
            then collect_protected (acc @ [butlast tmp_line]) ls
            else Inl Out_of_bounds)
      else collect_protected acc ls)"

definition spa_open_protected_funcs_list ::
  "(string \<Rightarrow> string option) \<Rightarrow> string option \<Rightarrow> fault + string list" where
  "spa_open_protected_funcs_list read_file fpath =
     (case fpath of
        None \<Rightarrow> Inr []
      | Some p \<Rightarrow>
          (case read_file p of
             None \<Rightarrow> Inl (Exited ''Unable to read'')
           | Some content \<Rightarrow> collect_protected [] (file_lines content)))"

subsection \<open>The fixed lists\<close>

definition one_arg_funcs :: "string list" where
  "one_arg_funcs = [''malloc:'', ''free:'', ''malloc_usable_size:'', ''pvalloc:'', ''valloc:'']"

definition two_args_funcs :: "string list" where
  "two_args_funcs = [''calloc:'', ''realloc:'', ''aligned_alloc:'', ''memalign:'']"

definition three_args_funcs :: "string list" where
  "three_args_funcs = [''posix_memalign:'']"

definition customized_libc_funcs :: "string list" where
  "customized_libc_funcs =
     [''malloc:'', ''free:'', ''malloc_usable_size:'', ''pvalloc:'', ''valloc:'',
      ''calloc:'', ''realloc:'', ''aligned_alloc:'', ''memalign:'', ''posix_memalign:'']"

definition no_instr_funcs :: "string list" where
  "no_instr_funcs = [''flash.stack.no_instr_funcs.place.holder:'']"

definition on_stack_handlers :: "string list" where
  "on_stack_handlers =
     [''_ZL15WasmTrapHandleriP9siginfo_tPv:'', ''_Z15WasmTrapHandleriP9siginfo_tPv:'',
      ''spa_demo_blackbox_handler:'']"

fun is_target_func :: "string \<Rightarrow> string list \<Rightarrow> bool" where
  "is_target_func line [] = False"
| "is_target_func line (f # funcs) = (if starts_with line f then True else is_target_func line funcs)"

definition is_one_arg_func :: "string \<Rightarrow> bool" where
  "is_one_arg_func line = is_target_func line one_arg_funcs"
definition is_two_args_func :: "string \<Rightarrow> bool" where
  "is_two_args_func line = is_target_func line two_args_funcs"
definition is_three_args_func :: "string \<Rightarrow> bool" where
  "is_three_args_func line = is_target_func line three_args_funcs"
definition is_customized_libc_func :: "string \<Rightarrow> bool" where
  "is_customized_libc_func line = is_target_func line customized_libc_funcs"
definition is_no_instr_func :: "string \<Rightarrow> bool" where
  "is_no_instr_func line = is_target_func line no_instr_funcs"
definition is_on_stack_handler :: "string \<Rightarrow> bool" where
  "is_on_stack_handler line = is_target_func line on_stack_handlers"

text \<open>As in the source, each of the two functions searches the other's table.\<close>

definition is_libc_func_called :: "string \<Rightarrow> bool" where
  "is_libc_func_called line = is_target_func line libcxx_names"
definition is_libcxx_func_called :: "string \<Rightarrow> bool" where
  "is_libcxx_func_called line = is_target_func line libc_names"

lemma is_target_func_iff: "is_target_func line funcs \<longleftrightarrow> (\<exists>f \<in> set funcs. prefix f line)"
  by (induction funcs) (auto simp: starts_with_prefix)

subsection \<open>is_protected_function\<close>

text \<open>
  The scan for the end of the name stops at a newline, a space or a tab only; a line without any
  of them makes it run over the NUL.
\<close>

fun scan_name :: "string \<Rightarrow> fault + string" where
  "scan_name [] = Inl Out_of_bounds"
| "scan_name (c # s) =
     (if c = NL \<or> c = CHR '' '' \<or> c = TAB then Inr []
      else ebind (scan_name s) (\<lambda>n. Inr (c # n)))"

function search_protected :: "string list \<Rightarrow> string \<Rightarrow> int \<Rightarrow> int \<Rightarrow> fault + bool" where
  "search_protected funcs name low high =
     (if low \<le> high
      then (let mid = (low + high) div 2 in
            if 0 \<le> mid \<and> mid < int (length funcs)
            then (let r = c_strcmp name (funcs ! nat mid) in
                  if r = 0 then Inr True
                  else if r > 0 then search_protected funcs name (mid + 1) high
                  else search_protected funcs name low (mid - 1))
            else Inl Out_of_bounds)
      else Inr False)"
  by pat_completeness auto
termination
  by (relation "measure (\<lambda>(funcs, name, low, high). nat (high + 1 - low))") auto

declare search_protected.simps [simp del]

definition is_protected_function :: "string list \<Rightarrow> string \<Rightarrow> fault + bool" where
  "is_protected_function spa_protected_funcs line =
     ebind (scan_name line)
       (\<lambda>name. search_protected spa_protected_funcs name 0 (int (length spa_protected_funcs) - 1))"

lemma scan_name_Inr:
  "scan_name (n @ c # rest) = Inr n"
  if "c \<in> {NL, CHR '' '', TAB}" "\<forall>x \<in> set n. x \<notin> {NL, CHR '' '', TAB}"
  using that by (induction n) auto

lemma sorted_nth_less:
  "sorted xs \<Longrightarrow> xs ! i < y \<Longrightarrow> j \<le> i \<Longrightarrow> i < length xs \<Longrightarrow> xs ! j < (y :: 'a::linorder)"
  by (meson le_less_trans sorted_nth_mono)

lemma sorted_nth_greater:
  "sorted xs \<Longrightarrow> y < xs ! i \<Longrightarrow> i \<le> j \<Longrightarrow> j < length xs \<Longrightarrow> (y :: 'a::linorder) < xs ! j"
  by (meson less_le_trans sorted_nth_mono)

definition found_between :: "string list \<Rightarrow> string \<Rightarrow> int \<Rightarrow> int \<Rightarrow> bool" where
  "found_between funcs name low high =
     (\<exists>i < length funcs. low \<le> int i \<and> int i \<le> high \<and> funcs ! i = name)"

text \<open>Where the middle element differs, the half that is dropped does not hold the name.\<close>

lemma found_between_above:
  assumes "sorted funcs" and "funcs ! nat mid < name" and "0 \<le> mid" and "mid < int (length funcs)"
  shows "found_between funcs name low high = found_between funcs name (max low (mid + 1)) high"
proof -
  have "funcs ! i \<noteq> name" if "int i \<le> mid" for i
  proof -
    have "i \<le> nat mid" "nat mid < length funcs" using that assms(3,4) by linarith+
    then show ?thesis using sorted_nth_less [OF assms(1,2)] by blast
  qed
  then show ?thesis unfolding found_between_def by (smt (verit, best))
qed

lemma found_between_below:
  assumes "sorted funcs" and "name < funcs ! nat mid" and "0 \<le> mid"
  shows "found_between funcs name low high = found_between funcs name low (min high (mid - 1))"
proof -
  have "funcs ! i \<noteq> name" if "mid \<le> int i" "i < length funcs" for i
  proof -
    have "nat mid \<le> i" using that assms(3) by linarith
    then show ?thesis using sorted_nth_greater [OF assms(1,2)] that(2) by blast
  qed
  then show ?thesis unfolding found_between_def by (smt (verit, best))
qed

lemma search_protected_correct:
  "sorted funcs \<Longrightarrow> 0 \<le> low \<Longrightarrow> high < int (length funcs) \<Longrightarrow>
   search_protected funcs name low high = Inr (found_between funcs name low high)"
proof (induction funcs name low high rule: search_protected.induct)
  case (1 funcs name low high)
  let ?mid = "(low + high) div 2" and ?x = "funcs ! nat ((low + high) div 2)"
  show ?case
  proof (cases "low \<le> high")
    case False
    then show ?thesis by (simp add: search_protected.simps [of funcs name low high] found_between_def)
  next
    case True
    then have mid: "low \<le> ?mid" "?mid \<le> high" "0 \<le> ?mid" "?mid < int (length funcs)"
      using "1.prems" by auto
    consider "name = ?x" | "?x < name" | "name < ?x" by fastforce
    then show ?thesis
    proof cases
      case 1
      have "found_between funcs name low high"
        unfolding found_between_def
        by (rule exI [of _ "nat ?mid"]) (use mid 1 in \<open>simp add: le_nat_iff\<close>)
      moreover have "search_protected funcs name low high = Inr True"
        by (subst search_protected.simps) (use 1 True mid in \<open>simp add: Let_def\<close>)
      ultimately show ?thesis by simp
    next
      case 2
      then have c: "0 < c_strcmp name ?x" "c_strcmp name ?x \<noteq> 0" by (auto simp: c_strcmp_pos)
      have "found_between funcs name low high = found_between funcs name (?mid + 1) high"
        using found_between_above [OF "1.prems"(1) 2 mid(3,4), of low high] mid(1)
        by (simp add: max_absorb2)
      with "1.IH"(1) [OF True refl] c mid "1.prems" True show ?thesis
        by (simp add: search_protected.simps [of funcs name low high] Let_def)
    next
      case 3
      then have c: "\<not> 0 < c_strcmp name ?x" "c_strcmp name ?x \<noteq> 0"
        by (auto simp: c_strcmp_pos)
      have "found_between funcs name low high = found_between funcs name low (?mid - 1)"
        using found_between_below [OF "1.prems"(1) 3 mid(3), of low high] mid(2)
        by (simp add: min_absorb2)
      with "1.IH"(2) [OF True refl] c mid "1.prems" True show ?thesis
        by (simp add: search_protected.simps [of funcs name low high] Let_def)
    qed
  qed
qed

lemma found_between_all: "found_between funcs name 0 (int (length funcs) - 1) \<longleftrightarrow> name \<in> set funcs"
  by (auto simp: found_between_def in_set_conv_nth)

lemma is_protected_function_eq:
  assumes "sorted funcs" and "c \<in> {NL, CHR '' '', TAB}" and "\<forall>x \<in> set name. x \<notin> {NL, CHR '' '', TAB}"
  shows "is_protected_function funcs (name @ c # rest) = Inr (name \<in> set funcs)"
  using assms(1) scan_name_Inr [OF assms(2,3)]
  by (simp add: is_protected_function_def search_protected_correct found_between_all)

subsection \<open>Properties\<close>

text \<open>
  C16: on a sorted list of protected functions, the binary search of \<open>is_protected_function\<close>
  never reads outside the list and finds the called name (the characters before the first
  newline, space or tab) exactly when the list has it.
\<close>

theorem is_protected_function_decides_membership:
  assumes "sorted funcs"
    and "c \<in> {NL, CHR '' '', TAB}" and "\<forall>x \<in> set name. x \<notin> {NL, CHR '' '', TAB}"
  shows "is_protected_function funcs (name @ c # rest) = Inr (name \<in> set funcs)"
  using assms by (rule is_protected_function_eq)

theorem is_protected_function_decides_membership_witness:
  "is_protected_function [''alpha'', ''main'', ''zeta''] (''main'' @ NL # []) = Inr True"
  using is_protected_function_decides_membership
    [of "[''alpha'', ''main'', ''zeta'']" NL "''main''" "[]"]
  by (simp add: NL_def TAB_def less_eq_char_simp)

lemma fgets_all_line:
  "NL \<notin> set n \<Longrightarrow> length acc + length n < m \<Longrightarrow>
   fgets_all m acc (n @ NL # rest) = (rev acc @ n @ [NL]) # fgets_all m [] rest"
  by (induction n arbitrary: acc) auto

lemma fgets_all_last:
  "NL \<notin> set n \<Longrightarrow> length acc + length n < m \<Longrightarrow> acc @ n \<noteq> [] \<Longrightarrow>
   fgets_all m acc n = [rev acc @ n]"
  by (induction n arbitrary: acc) auto

definition function_name :: "string \<Rightarrow> bool" where
  "function_name n = (n \<noteq> [] \<and> NL \<notin> set n \<and> length n < MAX_LINE - 1)"

definition names_file :: "string list \<Rightarrow> string" where
  "names_file names = concat (map (\<lambda>n. n @ [NL]) names)"

lemma file_lines_names:
  assumes "\<forall>n \<in> set names. function_name n"
  shows "file_lines (names_file names @ rest) = map (\<lambda>n. n @ [NL]) names @ file_lines rest"
  using assms
  by (induction names) (simp_all add: names_file_def file_lines_def fgets_all_line function_name_def)

lemma collect_protected_names:
  assumes "\<forall>n \<in> set names. n \<noteq> []"
    and "length acc + length names \<le> MAX_NUM_OF_SPA_PROTECTED_FUNCS"
  shows "collect_protected acc (map (\<lambda>n. n @ [NL]) names @ ls) = collect_protected (acc @ names) ls"
  using assms by (induction names arbitrary: acc) auto

text \<open>
  The list of protected functions that the first build wrote, one name per line, is read
  back name by name.
\<close>

lemma protected_funcs_list_roundtrip:
  assumes "\<forall>n \<in> set names. function_name n"
    and "length names \<le> MAX_NUM_OF_SPA_PROTECTED_FUNCS"
    and "read_file path = Some (names_file names)"
  shows "spa_open_protected_funcs_list read_file (Some path) = Inr names"
  using assms file_lines_names [OF assms(1), of "[]"] collect_protected_names [of names "[]" "[]"]
  by (simp add: spa_open_protected_funcs_list_def file_lines_def function_name_def)

lemma protected_funcs_list_roundtrip_witness:
  "spa_open_protected_funcs_list (\<lambda>_. Some (names_file [''f'', ''main''])) (Some ''list.txt'')
     = Inr [''f'', ''main'']"
  using protected_funcs_list_roundtrip
    [of "[''f'', ''main'']" "\<lambda>_. Some (names_file [''f'', ''main''])" "''list.txt''"]
  by (simp add: function_name_def MAX_LINE_def NL_def MAX_NUM_OF_SPA_PROTECTED_FUNCS_def)

text \<open>
  When the file does not end with a newline, the last name is stored without its last
  character, because the code overwrites the last character of every line, newline or not.
\<close>

lemma protected_funcs_list_truncates_last_name:
  assumes "\<forall>n \<in> set names. function_name n" and "function_name final" and "length final > 1"
    and "length names < MAX_NUM_OF_SPA_PROTECTED_FUNCS"
    and "read_file path = Some (names_file names @ final)"
  shows "spa_open_protected_funcs_list read_file (Some path) = Inr (names @ [butlast final])"
proof -
  have "file_lines final = [final]"
    using assms(2) by (simp add: file_lines_def function_name_def fgets_all_last)
  then show ?thesis
    using assms file_lines_names [OF assms(1), of final] collect_protected_names [of names "[]" "[final]"]
    by (simp add: spa_open_protected_funcs_list_def function_name_def)
qed

lemma protected_funcs_list_truncates_last_name_example:
  "spa_open_protected_funcs_list (\<lambda>_. Some (names_file [''f''] @ ''main'')) (Some ''list.txt'')
     = Inr [''f'', ''mai'']"
  using protected_funcs_list_truncates_last_name
    [of "[''f'']" "''main''" "\<lambda>_. Some (names_file [''f''] @ ''main'')" "''list.txt''"]
  by (simp add: function_name_def MAX_LINE_def NL_def MAX_NUM_OF_SPA_PROTECTED_FUNCS_def)

text \<open>
  A file counts as rustc output that must be instrumented exactly when it has at least one
  function and as many function starts as function ends.
\<close>

lemma rustc_file_is_balanced:
  "spa_is_rustc_pass_thru (\<lambda>_. Some content) (Some path) =
     Inr (filter (\<lambda>l. starts_with l SPA_CFI_STARTPROC) (file_lines content) \<noteq> [] \<and>
          length (filter (\<lambda>l. starts_with l SPA_CFI_STARTPROC) (file_lines content)) =
          length (filter (\<lambda>l. starts_with l SPA_CFI_ENDPROC) (file_lines content)))"
  by (simp add: spa_is_rustc_pass_thru_def count_procs_eq)

end
