(* ===== verification/Instrument.thy ===== *)
theory Instrument
  imports Emit Func_Lists
begin

section \<open>Instrument: add_instrumentation, the line-by-line rewriting of an assembly file\<close>

text \<open>
  \<open>add_instrumentation\<close> of \<open>afl-as.c\<close> (6872-7977).  The C function is one loop over the lines of
  the input with a dozen of local flags; here every group of the loop body is a function of the
  line and of the flags, and \<open>process_line\<close> runs them in the order of the source.  A group ends
  the iteration (\<open>Done\<close>, the source's \<open>continue\<close>) or hands the line on (\<open>Next\<close>).

  \<open>out\<close> is what is written to the output file, one element per \<open>fprintf\<close> line; \<open>funcnames\<close> is what
  goes to stderr.  \<open>rnd n\<close> is the n-th value of \<open>random()\<close>.
\<close>

subsection \<open>Global variables of afl-as.c\<close>

record as_globals =
  input_file :: "string option"
  be_quiet :: bool
  clang_mode :: bool
  pass_thru :: bool
  sanitizer :: bool
  inst_ratio :: nat
  use_64bit :: bool
  with_64_bit_cmd_option :: bool
  spa_protected_funcs :: "string list"
  afl_harden :: bool

subsection \<open>Local variables of add_instrumentation\<close>

record instr_state =
  ins_lines :: nat
  n_start :: nat
  n_end :: nat
  instr_ok :: bool
  skip_csect :: bool
  skip_next_label :: bool
  in_main :: bool
  is_main_exe :: bool
  skip_intel :: bool
  skip_app :: bool
  instrument_next :: bool
  start2end :: bool
  on_stack_handler :: bool
  in_customized_func :: bool
  in_no_instr_func :: bool
  rnd_no :: nat
  out :: "string list"
  funcnames :: "string list"

definition init_instr_state :: instr_state where
  "init_instr_state =
     \<lparr>ins_lines = 0, n_start = 0, n_end = 0, instr_ok = False, skip_csect = False,
      skip_next_label = False, in_main = False, is_main_exe = False, skip_intel = False,
      skip_app = False, instrument_next = False, start2end = False, on_stack_handler = False,
      in_customized_func = False, in_no_instr_func = False, rnd_no = 0, out = [], funcnames = []\<rparr>"

datatype stage = Done instr_state | Next string instr_state

definition emit :: "string list \<Rightarrow> instr_state \<Rightarrow> instr_state" where
  "emit ls st = st\<lparr>out := out st @ ls\<rparr>"

lemma emit_simps [simp]:
  "out (emit ls st) = out st @ ls"
  "ins_lines (emit ls st) = ins_lines st" "n_start (emit ls st) = n_start st"
  "n_end (emit ls st) = n_end st" "instr_ok (emit ls st) = instr_ok st"
  "skip_csect (emit ls st) = skip_csect st" "skip_next_label (emit ls st) = skip_next_label st"
  "in_main (emit ls st) = in_main st" "is_main_exe (emit ls st) = is_main_exe st"
  "skip_intel (emit ls st) = skip_intel st" "skip_app (emit ls st) = skip_app st"
  "instrument_next (emit ls st) = instrument_next st" "start2end (emit ls st) = start2end st"
  "on_stack_handler (emit ls st) = on_stack_handler st"
  "in_customized_func (emit ls st) = in_customized_func st"
  "in_no_instr_func (emit ls st) = in_no_instr_func st"
  "rnd_no (emit ls st) = rnd_no st" "funcnames (emit ls st) = funcnames st"
  by (simp_all add: emit_def)

subsection \<open>Line 6934: the write mask of vector instructions\<close>

definition fix_write_mask :: "string \<Rightarrow> string" where
  "fix_write_mask line =
     (case c_strstr line SPA_XMM_YMM_ZMM_WRITE_MASK_CLANG of
        None \<Rightarrow> line
      | Some i \<Rightarrow> take i line @ SPA_XMM_YMM_ZMM_WRITE_MAST_GCC)"

subsection \<open>Lines 6948-7005: the deferred trampoline\<close>

definition deferred_trampoline :: "as_globals \<Rightarrow> string \<Rightarrow> instr_state \<Rightarrow> instr_state" where
  "deferred_trampoline g line st =
     (if \<not> pass_thru g \<and> \<not> skip_intel st \<and> \<not> skip_app st \<and> \<not> skip_csect st \<and> instr_ok st \<and>
         instrument_next st \<and> char_at line 0 = TAB \<and> c_isalpha (char_at line 1)
      then
        (let st1 = emit [(if use_64bit g then ''###SPA## trampoline_fmt_64''
                          else ''###SPA## trampoline_fmt_32'') @ [NL]] st;
             st2 = (if in_main st \<and> \<not> pass_thru g \<and> use_64bit g
                    then emit [''###SPA### the entry of main().'' @ [NL]] st1 else st1)
         in st2\<lparr>instrument_next := False, ins_lines := ins_lines st2 + 1\<rparr>)
      else st)"

subsection \<open>Lines 7007-7269: the start and the end of a function\<close>

definition startproc_stage :: "build_config \<Rightarrow> as_globals \<Rightarrow> string \<Rightarrow> instr_state \<Rightarrow> stage" where
  "startproc_stage c g line st =
     (if starts_with line SPA_CFI_STARTPROC
      then
        (let st1 = st\<lparr>start2end := True, n_start := n_start st + 1\<rparr> in
         if \<not> pass_thru g \<and> use_64bit g
         then Done (emit (line # map asm_text
                (startproc_instrs c (in_no_instr_func st) (on_stack_handler st) (in_customized_func st))) st1)
         else Next line st1)
      else Next line st)"

definition endproc_stage :: "as_globals \<Rightarrow> string \<Rightarrow> instr_state \<Rightarrow> stage" where
  "endproc_stage g line st =
     (if starts_with line SPA_CFI_ENDPROC
      then
        (let st1 = st\<lparr>start2end := False, n_end := n_end st + 1\<rparr> in
         if \<not> pass_thru g then Done (emit [line] st1) else Next line st1)
      else Next line st)"

subsection \<open>Lines 7271-7479: calls\<close>

definition cut_at :: "string \<Rightarrow> string \<Rightarrow> string" where
  "cut_at line pat = (case c_strstr line pat of None \<Rightarrow> line | Some i \<Rightarrow> take i line)"

definition delete_comments :: "string \<Rightarrow> string" where
  "delete_comments line =
     cut_at (cut_at (cut_at (cut_at line '' # '') ([TAB] @ ''#'' @ [TAB])) ('' #'' @ [TAB]))
       ([TAB] @ ''# '')"

definition direct_call_stage ::
  "build_config \<Rightarrow> as_globals \<Rightarrow> string \<Rightarrow> instr_state \<Rightarrow> fault + stage" where
  "direct_call_stage c g line st =
     (if contains line ''@PLT'' \<or> contains line ''@plt'' \<or> contains line ''__tls_get_addr''
      then Inr (Done (emit [line] st))
      else
        (let func_name_line = drop (length SPA_CALLQ_NO_STAR + 1) line in
         if is_libcxx_func_called func_name_line \<or> is_libc_func_called func_name_line
         then Inr (Done (emit [line] st))
         else ebind (is_protected_function (spa_protected_funcs g) func_name_line)
           (\<lambda>protected.
              if protected
              then Inr (Done (emit (map asm_text (direct_call_instrs c (delete_comments (butlast line)))) st))
              else Inr (Done (emit [line] st)))))"

definition call_stage ::
  "build_config \<Rightarrow> as_globals \<Rightarrow> string \<Rightarrow> instr_state \<Rightarrow> fault + stage" where
  "call_stage c g line st =
     (if ENABLE_GS_RSP_CALL_INSTRUMENTED c \<and>
         (bc_scheme c = USE_SPA_GS_RSP \<or> bc_scheme c = USE_SPA_FS_GS_TLS) \<and>
         \<not> pass_thru g \<and> \<not> skip_intel st \<and> \<not> skip_app st \<and> \<not> skip_csect st \<and> instr_ok st \<and>
         use_64bit g \<and> start2end st \<and> with_64_bit_cmd_option g
      then
        (if starts_with line SPA_CALLQ_STAR
         then Inr (Done (emit (map asm_text (indirect_call_instrs c
                (drop (length SPA_CALLQ_STAR) (delete_comments (butlast line))))) st))
         else if starts_with line SPA_CALLQ_NO_STAR \<and>
                 char_at line (length SPA_CALLQ_NO_STAR) \<noteq> CHR ''*''
         then direct_call_stage c g line st
         else Inr (Next line st))
      else Inr (Next line st))"

subsection \<open>Lines 7481-7653: returns\<close>

definition is_ret_line :: "string \<Rightarrow> bool" where
  "is_ret_line line = (starts_with line SPA_GCC_RET \<or> starts_with line SPA_CLANG_RETQ)"

definition ret_stage :: "build_config \<Rightarrow> as_globals \<Rightarrow> string \<Rightarrow> instr_state \<Rightarrow> stage" where
  "ret_stage c g line st =
     (if \<not> pass_thru g \<and> \<not> skip_intel st \<and> \<not> skip_app st \<and> use_64bit g \<and> start2end st \<and>
         is_ret_line line
      then
        (case ret_instrs c (in_no_instr_func st) (on_stack_handler st) (in_customized_func st) of
           None \<Rightarrow> Done (emit [line] st)
         | Some ins \<Rightarrow> Done (emit (map asm_text ins) st))
      else Next line st)"

subsection \<open>Lines 7655-7716: output of the line, sections and syntax directives\<close>

text \<open>The section directives: \<open>Some True\<close> for a text section, \<open>Some False\<close> for another one.\<close>

definition section_directive :: "string \<Rightarrow> bool option" where
  "section_directive line =
     (let d = drop 2 line in
      if starts_with d (''text'' @ [NL]) \<or> starts_with d (''section'' @ [TAB] @ ''.text'') \<or>
         starts_with d (''section'' @ [TAB] @ ''__TEXT,__text'') \<or>
         starts_with d ''section __TEXT,__text''
      then Some True
      else if starts_with d (''section'' @ [TAB]) \<or> starts_with d ''section '' \<or>
         starts_with d (''bss'' @ [NL]) \<or> starts_with d (''data'' @ [NL])
      then Some False
      else None)"

definition directive_stage :: "as_globals \<Rightarrow> string \<Rightarrow> instr_state \<Rightarrow> stage" where
  "directive_stage g line st =
     (if char_at line 0 = TAB \<and> char_at line 1 = CHR ''.''
      then
        (let st1 =
           (if \<not> clang_mode g \<and> instr_ok st \<and> starts_with (drop 2 line) ''p2align '' \<and>
               c_isdigit (char_at line 10) \<and> char_at line 11 = NL
            then st\<lparr>skip_next_label := True\<rparr> else st)
         in case section_directive line of
              Some b \<Rightarrow> Done (st1\<lparr>instr_ok := b\<rparr>)
            | None \<Rightarrow> Next line st1)
      else Next line st)"

definition syntax_flags :: "as_globals \<Rightarrow> string \<Rightarrow> instr_state \<Rightarrow> instr_state" where
  "syntax_flags g line st =
     (let st1 = (if contains line ''.code''
                 then (let sa = (if contains line ''.code32''
                                 then st\<lparr>skip_csect := use_64bit g\<rparr> else st)
                       in if contains line ''.code64''
                          then sa\<lparr>skip_csect := \<not> use_64bit g\<rparr> else sa)
                 else st);
          st2 = (if contains line ''.intel_syntax'' then st1\<lparr>skip_intel := True\<rparr> else st1);
          st3 = (if contains line ''.att_syntax'' then st2\<lparr>skip_intel := False\<rparr> else st2)
      in if char_at line 0 = CHR ''#'' \<or> char_at line 1 = CHR ''#''
         then (let sb = (if contains line ''#APP'' then st3\<lparr>skip_app := True\<rparr> else st3)
               in if contains line ''#NO_APP'' then sb\<lparr>skip_app := False\<rparr> else sb)
         else st3)"

subsection \<open>Lines 7718-7872: conditional jumps, branch labels and function labels\<close>

definition R100_below :: "(nat \<Rightarrow> nat) \<Rightarrow> as_globals \<Rightarrow> instr_state \<Rightarrow> bool \<times> instr_state" where
  "R100_below rnd g st = (rnd (rnd_no st) mod 100 < inst_ratio g, st\<lparr>rnd_no := rnd_no st + 1\<rparr>)"

definition jump_stage :: "(nat \<Rightarrow> nat) \<Rightarrow> as_globals \<Rightarrow> string \<Rightarrow> instr_state \<Rightarrow> instr_state" where
  "jump_stage rnd g line st =
     (if char_at line 1 = CHR ''j'' \<and> char_at line 2 \<noteq> CHR ''m''
      then
        (let (hit, st1) = R100_below rnd g st in
         if hit
         then (emit [(if use_64bit g then ''###SPA### trampoline_fmt_64''
                      else ''###SPA### trampoline_fmt_32'') @ [NL]] st1)\<lparr>ins_lines := ins_lines st1 + 1\<rparr>
         else st1)
      else st)"

definition branch_label :: "(nat \<Rightarrow> nat) \<Rightarrow> as_globals \<Rightarrow> string \<Rightarrow> instr_state \<Rightarrow> instr_state" where
  "branch_label rnd g line st =
     (if c_isdigit (char_at line 2) \<or> clang_mode g \<and> starts_with (drop 1 line) ''LBB''
      then
        (let (hit, st1) = R100_below rnd g st in
         if hit
         then (if \<not> skip_next_label st1 then st1\<lparr>instrument_next := True\<rparr>
               else st1\<lparr>skip_next_label := False\<rparr>)
         else st1)
      else st)"

definition function_label :: "string \<Rightarrow> instr_state \<Rightarrow> instr_state" where
  "function_label line st =
     (let outside = \<not> start2end st;
          is_main = (starts_with line ''main:'' \<and> outside);
          st1 = st\<lparr>instrument_next := True, in_main := is_main,
                   is_main_exe := (is_main \<or> is_main_exe st)\<rparr>;
          st2 = (if outside
                 then st1\<lparr>funcnames := funcnames st1 @ [cut_at line '':'']\<rparr> else st1)
      in st2\<lparr>in_customized_func := (is_customized_libc_func line \<and> outside),
             in_no_instr_func := (is_no_instr_func line \<and> outside),
             on_stack_handler := (is_on_stack_handler line \<and> outside)\<rparr>)"

definition label_stage :: "(nat \<Rightarrow> nat) \<Rightarrow> as_globals \<Rightarrow> string \<Rightarrow> instr_state \<Rightarrow> instr_state" where
  "label_stage rnd g line st =
     (if skip_intel st \<or> skip_app st \<or> skip_csect st \<or> \<not> instr_ok st \<or>
         char_at line 0 = CHR ''#'' \<or> char_at line 0 = CHR '' ''
      then st
      else if char_at line 0 = TAB then jump_stage rnd g line st
      else if contains line '':''
      then (if char_at line 0 = CHR ''.'' then branch_label rnd g line st else function_label line st)
      else st)"

subsection \<open>The loop\<close>

definition sbind :: "stage \<Rightarrow> (string \<Rightarrow> instr_state \<Rightarrow> stage) \<Rightarrow> stage" where
  "sbind m f = (case m of Done st \<Rightarrow> Done st | Next line st \<Rightarrow> f line st)"

lemma sbind_simps [simp]:
  "sbind (Done st) f = Done st"
  "sbind (Next line st) f = f line st"
  by (simp_all add: sbind_def)

fun stage_state :: "stage \<Rightarrow> instr_state" where
  "stage_state (Done st) = st"
| "stage_state (Next line st) = st"

text \<open>From the output of the line to the end of the loop body.\<close>

definition tail_stages :: "(nat \<Rightarrow> nat) \<Rightarrow> as_globals \<Rightarrow> string \<Rightarrow> instr_state \<Rightarrow> stage" where
  "tail_stages rnd g line st =
     (let st1 = emit [line] st in
      if pass_thru g then Done st1
      else sbind (directive_stage g line st1)
        (\<lambda>line st2. Done (label_stage rnd g line (syntax_flags g line st2))))"

definition process_line ::
  "build_config \<Rightarrow> (nat \<Rightarrow> nat) \<Rightarrow> as_globals \<Rightarrow> string \<Rightarrow> instr_state \<Rightarrow> fault + instr_state" where
  "process_line c rnd g line0 st0 =
     (let line = fix_write_mask line0;
          st = deferred_trampoline g line st0
      in case sbind (startproc_stage c g line st) (endproc_stage g) of
           Done st' \<Rightarrow> Inr st'
         | Next line1 st1 \<Rightarrow>
             ebind (call_stage c g line1 st1)
               (\<lambda>sg. Inr (stage_state (sbind (sbind sg (ret_stage c g)) (tail_stages rnd g)))))"

fun process_lines ::
  "build_config \<Rightarrow> (nat \<Rightarrow> nat) \<Rightarrow> as_globals \<Rightarrow> string list \<Rightarrow> instr_state \<Rightarrow> fault + instr_state" where
  "process_lines c rnd g [] st = Inr st"
| "process_lines c rnd g (l # ls) st = ebind (process_line c rnd g l st) (process_lines c rnd g ls)"

subsection \<open>Lines 7876-7977: after the loop\<close>

definition randval_section :: "string list" where
  "randval_section =
     [[NL] @ [TAB] @ ''.type'' @ [TAB] @ ''.unsw.randomval, @object'' @ [NL],
      [TAB] @ ''.globl'' @ [TAB] @ ''.unsw.randomval'' @ [NL],
      [TAB] @ ''.bss'' @ [NL],
      [TAB] @ ''.p2align'' @ [TAB] @ ''12'' @ [NL],
      ''.unsw.randomval:'' @ [NL],
      [TAB] @ ''.zero'' @ [TAB] @ dec_nat (unat PAGE_SIZE) @ [NL],
      [TAB] @ ''.size'' @ [TAB] @ ''.unsw.randomval, '' @ dec_nat (unat PAGE_SIZE) @ [NL]]"

definition trailer :: "build_config \<Rightarrow> as_globals \<Rightarrow> instr_state \<Rightarrow> string list" where
  "trailer c g st =
     (if is_main_exe st
      then [''###SPA### this module contains main().'' @ [NL]] @
           (if bc_scheme c = USE_SPA_SHADOW_STACK_PLUS_GLOBAL_RANDVAR \<and> \<not> pass_thru g
            then randval_section else [])
      else []) @
     (if ins_lines st \<noteq> 0
      then [(if use_64bit g then ''###SPA### main_payload_64'' else ''###SPA### main_payload_32'') @ [NL]]
      else []) @
     [''###SPA### '' @ (case input_file g of None \<Rightarrow> ''(null)'' | Some f \<Rightarrow> f) @
      '':  cfi_startproc = '' @ dec_nat (n_start st) @ '', cfi_endproc = '' @ dec_nat (n_end st) @
      '', pass_thru = '' @ (if pass_thru g then ''1'' else ''0'') @ '' '' @ [NL]]"

text \<open>
  The result is the written file with the final state; a mismatch of function starts and ends is
  fatal unless output is quiet.
\<close>

definition add_instrumentation ::
  "build_config \<Rightarrow> (nat \<Rightarrow> nat) \<Rightarrow> as_globals \<Rightarrow> string \<Rightarrow> fault + instr_state" where
  "add_instrumentation c rnd g content =
     ebind (process_lines c rnd g (file_lines content) init_instr_state)
       (\<lambda>st.
          (let st1 = emit (trailer c g st) st in
           if \<not> be_quiet g \<and> \<not> pass_thru g \<and> n_start st1 \<noteq> n_end st1
           then Inl (Exited ''the numbers of .cfi_startproc and .cfi_endproc are different'')
           else Inr st1))"

definition written_file :: "instr_state \<Rightarrow> string" where
  "written_file st = concat (out st)"

end
