(* ===== verification/Instrument_Spec.thy ===== *)
theory Instrument_Spec
  imports Instrument
begin

section \<open>Instrument_Spec: what add_instrumentation promises, function by function\<close>

text \<open>
  The abstract specification of the rewriting.  The loop of \<open>add_instrumentation\<close> sees single
  lines and remembers a dozen of flags; a reader of its output thinks of functions.  Here an
  assembly module is a list of functions, each with the lines before its label, the label, the
  lines up to \<open>.cfi_startproc\<close>, the body and \<open>.cfi_endproc\<close>, and the specification rewrites one
  function without any flag.  The refinement theorem says that the loop does the same to every
  well-formed module, up to the comment lines that it inserts.
\<close>

subsection \<open>Modules\<close>

record asm_function =
  f_before :: "string list"
  f_label :: string
  f_header :: "string list"
  f_startproc :: string
  f_body :: "string list"
  f_endproc :: string

definition function_lines :: "asm_function \<Rightarrow> string list" where
  "function_lines f =
     f_before f @ [f_label f] @ f_header f @ [f_startproc f] @ f_body f @ [f_endproc f]"

text \<open>The lines an assembler sees: without the comment lines of the instrumentation.\<close>

definition code_lines :: "string list \<Rightarrow> string list" where
  "code_lines ls = filter (\<lambda>l. \<not> starts_with l ''###SPA##'') ls"

lemma code_lines_append [simp]: "code_lines (xs @ ys) = code_lines xs @ code_lines ys"
  and code_lines_Nil [simp]: "code_lines [] = []"
  by (simp_all add: code_lines_def)

lemma code_lines_Cons: "code_lines (x # xs) = code_lines [x] @ code_lines xs"
  by (simp add: code_lines_def)

subsection \<open>Kinds of lines\<close>

text \<open>A line that neither starts nor ends a function and does not switch the dialect.\<close>

definition neutral_line :: "string \<Rightarrow> bool" where
  "neutral_line line =
     (\<not> starts_with line SPA_CFI_STARTPROC \<and> \<not> starts_with line SPA_CFI_ENDPROC \<and>
      \<not> contains line ''.code'' \<and> \<not> contains line ''.intel_syntax'' \<and>
      \<not> (contains line ''#APP'' \<and> (char_at line 0 = CHR ''#'' \<or> char_at line 1 = CHR ''#'')))"

text \<open>A neutral line inside a function: no function label and no change of section.\<close>

definition inner_line :: "string \<Rightarrow> bool" where
  "inner_line line =
     (neutral_line line \<and> char_at line 0 \<in> {TAB, CHR ''.'', CHR ''#'', CHR '' ''} \<and>
      (char_at line 0 = TAB \<and> char_at line 1 = CHR ''.'' \<longrightarrow> section_directive line = None))"

definition label_line :: "string \<Rightarrow> bool" where
  "label_line line =
     (neutral_line line \<and> contains line '':'' \<and>
      char_at line 0 \<notin> {TAB, CHR ''.'', CHR ''#'', CHR '' ''} \<and> \<not> is_ret_line line)"

text \<open>The section the lines leave the assembler in: a text section or not.\<close>

fun text_section_after :: "bool \<Rightarrow> string list \<Rightarrow> bool" where
  "text_section_after b [] = b"
| "text_section_after b (l # ls) =
     text_section_after
       (if char_at l 0 = TAB \<and> char_at l 1 = CHR ''.''
        then (case section_directive l of Some b' \<Rightarrow> b' | None \<Rightarrow> b) else b) ls"

text \<open>Calls: the builds that rewrite them, the name that is called, and the calls that can be read.\<close>

definition rewrites_calls :: "build_config \<Rightarrow> as_globals \<Rightarrow> bool" where
  "rewrites_calls c g =
     (ENABLE_GS_RSP_CALL_INSTRUMENTED c \<and> (bc_scheme c = USE_SPA_GS_RSP \<or> bc_scheme c = USE_SPA_FS_GS_TLS) \<and>
      with_64_bit_cmd_option g)"

definition direct_call_line :: "string \<Rightarrow> bool" where
  "direct_call_line line =
     (starts_with line SPA_CALLQ_NO_STAR \<and> char_at line (length SPA_CALLQ_NO_STAR) \<noteq> CHR ''*'')"

definition called_text :: "string \<Rightarrow> string" where
  "called_text line = drop (length SPA_CALLQ_NO_STAR + 1) line"

definition callee :: "string \<Rightarrow> string" where
  "callee line = takeWhile (\<lambda>x. x \<notin> {NL, CHR '' '', TAB}) (called_text line)"

definition calls_readable :: "build_config \<Rightarrow> as_globals \<Rightarrow> string \<Rightarrow> bool" where
  "calls_readable c g line =
     (rewrites_calls c g \<and> direct_call_line line \<longrightarrow>
      sorted (spa_protected_funcs g) \<and> callee line \<noteq> called_text line)"

definition well_formed_function :: "build_config \<Rightarrow> as_globals \<Rightarrow> bool \<Rightarrow> asm_function \<Rightarrow> bool" where
  "well_formed_function c g b f =
     (list_all (\<lambda>l. neutral_line (fix_write_mask l)) (f_before f) \<and>
      text_section_after b (map fix_write_mask (f_before f)) \<and>
      label_line (fix_write_mask (f_label f)) \<and>
      list_all (\<lambda>l. inner_line (fix_write_mask l)) (f_header f) \<and>
      starts_with (fix_write_mask (f_startproc f)) SPA_CFI_STARTPROC \<and>
      list_all (\<lambda>l. inner_line (fix_write_mask l) \<and> calls_readable c g (fix_write_mask l)) (f_body f) \<and>
      starts_with (fix_write_mask (f_endproc f)) SPA_CFI_ENDPROC)"

definition well_formed_module :: "build_config \<Rightarrow> as_globals \<Rightarrow> asm_function list \<Rightarrow> bool" where
  "well_formed_module c g fs =
     (case fs of [] \<Rightarrow> True
      | f # fs' \<Rightarrow> well_formed_function c g False f \<and> list_all (well_formed_function c g True) fs')"

text \<open>What follows the last function: sizes, data, and the compiler's name and notes.\<close>

definition well_formed_rest :: "string list \<Rightarrow> bool" where
  "well_formed_rest rest = list_all (\<lambda>l. neutral_line (fix_write_mask l)) rest"

subsection \<open>The specification of the rewriting\<close>

definition rewrite_ret :: "build_config \<Rightarrow> string \<Rightarrow> string \<Rightarrow> string list" where
  "rewrite_ret c label line =
     (if is_ret_line line
      then (case ret_instrs c (is_no_instr_func label) (is_on_stack_handler label)
                   (is_customized_libc_func label) of
              None \<Rightarrow> [line] | Some ins \<Rightarrow> map asm_text ins)
      else [line])"

text \<open>
  A direct call is rewritten when it calls a protected function by its own name: not through the
  procedure linkage table, and not a function of the C or C++ library.
\<close>

definition calls_protected :: "as_globals \<Rightarrow> string \<Rightarrow> bool" where
  "calls_protected g line =
     (\<not> contains line ''@PLT'' \<and> \<not> contains line ''@plt'' \<and> \<not> contains line ''__tls_get_addr'' \<and>
      \<not> is_libcxx_func_called (called_text line) \<and> \<not> is_libc_func_called (called_text line) \<and>
      callee line \<in> set (spa_protected_funcs g))"

definition rewrite_call :: "build_config \<Rightarrow> as_globals \<Rightarrow> string \<Rightarrow> string list option" where
  "rewrite_call c g line =
     (if \<not> rewrites_calls c g then None
      else if starts_with line SPA_CALLQ_STAR
      then Some (map asm_text (indirect_call_instrs c (drop (length SPA_CALLQ_STAR) (delete_comments (butlast line)))))
      else if direct_call_line line
      then Some (if calls_protected g line
                 then map asm_text (direct_call_instrs c (delete_comments (butlast line))) else [line])
      else None)"

definition rewrite_line :: "build_config \<Rightarrow> as_globals \<Rightarrow> string \<Rightarrow> string \<Rightarrow> string list" where
  "rewrite_line c g label line =
     (case rewrite_call c g line of Some ls \<Rightarrow> ls | None \<Rightarrow> rewrite_ret c label line)"

definition rewrite_function :: "build_config \<Rightarrow> as_globals \<Rightarrow> asm_function \<Rightarrow> string list" where
  "rewrite_function c g f =
     (let label = fix_write_mask (f_label f) in
      map fix_write_mask (f_before f) @ [label] @ map fix_write_mask (f_header f) @
      [fix_write_mask (f_startproc f)] @
      map asm_text (startproc_instrs c (is_no_instr_func label) (is_on_stack_handler label)
                      (is_customized_libc_func label)) @
      concat (map (rewrite_line c g label) (map fix_write_mask (f_body f))) @
      [fix_write_mask (f_endproc f)])"

subsection \<open>The flags that steer the rewriting\<close>

definition ctl :: "instr_state \<Rightarrow> bool \<times> bool \<times> bool \<times> bool \<times> bool \<times> bool \<times> bool \<times> bool" where
  "ctl st = (start2end st, skip_intel st, skip_app st, skip_csect st, instr_ok st,
             in_no_instr_func st, on_stack_handler st, in_customized_func st)"

abbreviation rewriting :: "as_globals \<Rightarrow> bool" where
  "rewriting g \<equiv> \<not> pass_thru g \<and> use_64bit g"

lemma ctl_simps [simp]:
  "ctl (emit ls st) = ctl st"
  "ctl (st\<lparr>ins_lines := n\<rparr>) = ctl st" "ctl (st\<lparr>n_start := n\<rparr>) = ctl st"
  "ctl (st\<lparr>n_end := n\<rparr>) = ctl st" "ctl (st\<lparr>skip_next_label := x\<rparr>) = ctl st"
  "ctl (st\<lparr>instrument_next := x\<rparr>) = ctl st" "ctl (st\<lparr>rnd_no := n\<rparr>) = ctl st"
  by (simp_all add: ctl_def emit_def)

definition adds :: "string list \<Rightarrow> instr_state \<Rightarrow> instr_state \<Rightarrow> bool" where
  "adds ls st st' = (code_lines (out st') = code_lines (out st) @ code_lines ls)"

lemma adds_trans: "adds xs st st' \<Longrightarrow> adds ys st' st'' \<Longrightarrow> adds (xs @ ys) st st''"
  by (simp add: adds_def)

lemma trampoline_only_comments:
  "ctl (deferred_trampoline g line st) = ctl st" "adds [] st (deferred_trampoline g line st)"
  "n_start (deferred_trampoline g line st) = n_start st"
  "n_end (deferred_trampoline g line st) = n_end st"
  by (simp_all add: deferred_trampoline_def adds_def code_lines_def cstr_simps Let_def)

lemma jump_stage_only_comments:
  "ctl (jump_stage rnd g line st) = ctl st" "adds [] st (jump_stage rnd g line st)"
  by (simp_all add: jump_stage_def R100_below_def adds_def code_lines_def cstr_simps)

lemma branch_label_only_comments:
  "ctl (branch_label rnd g line st) = ctl st" "adds [] st (branch_label rnd g line st)"
  by (simp_all add: branch_label_def R100_below_def adds_def code_lines_def)

lemma function_label_ctl:
  "ctl (function_label line st) =
     (start2end st, skip_intel st, skip_app st, skip_csect st, instr_ok st,
      is_no_instr_func line \<and> \<not> start2end st, is_on_stack_handler line \<and> \<not> start2end st,
      is_customized_libc_func line \<and> \<not> start2end st)"
  "out (function_label line st) = out st"
  by (simp_all add: function_label_def ctl_def Let_def)

lemma syntax_flags_neutral:
  assumes "neutral_line line" and "\<not> skip_intel st" and "\<not> skip_app st"
  shows "syntax_flags g line st = st"
  using assms by (auto simp: syntax_flags_def neutral_line_def Let_def)


subsection \<open>One line\<close>

lemma not_proc_lineD:
  "neutral_line line \<Longrightarrow> \<not> starts_with line SPA_CFI_STARTPROC \<and> \<not> starts_with line SPA_CFI_ENDPROC"
  by (simp add: neutral_line_def)

lemma label_stage_mode:
  "start2end (label_stage rnd g line st) = start2end st"
  "skip_intel (label_stage rnd g line st) = skip_intel st"
  "skip_app (label_stage rnd g line st) = skip_app st"
  "skip_csect (label_stage rnd g line st) = skip_csect st"
  "instr_ok (label_stage rnd g line st) = instr_ok st"
  "adds [] st (label_stage rnd g line st)"
  using jump_stage_only_comments(1) [of rnd g line st] branch_label_only_comments(1) [of rnd g line st]
    jump_stage_only_comments(2) [of st rnd g line] branch_label_only_comments(2) [of st rnd g line]
    function_label_ctl [of line st]
  by (auto simp: label_stage_def ctl_def adds_def)

lemma label_stage_inner:
  assumes "char_at line 0 \<in> {TAB, CHR ''.'', CHR ''#'', CHR '' ''}"
  shows "ctl (label_stage rnd g line st) = ctl st"
  using assms jump_stage_only_comments(1) [of rnd g line st] branch_label_only_comments(1) [of rnd g line st]
  by (auto simp: label_stage_def)

lemma label_stage_label:
  assumes "label_line line" and "instr_ok st" and "\<not> skip_csect st" and "\<not> skip_intel st"
    and "\<not> skip_app st"
  shows "label_stage rnd g line st = function_label line st"
  using assms by (auto simp: label_stage_def label_line_def)

lemma section_stage:
  assumes "directive_stage g line st = Done st'" and "\<not> skip_intel st"
  shows "char_at line 0 = TAB \<and> char_at line 1 = CHR ''.'' \<and> section_directive line \<noteq> None"
    and "ctl st' = (start2end st, skip_intel st, skip_app st, skip_csect st,
             the (section_directive line), in_no_instr_func st, on_stack_handler st, in_customized_func st)"
    and "out st' = out st"
  using assms by (auto simp: directive_stage_def ctl_def Let_def split: if_splits option.splits)

lemma no_section_stage:
  assumes "directive_stage g line st = Next line' st'"
  shows "line' = line" and "ctl st' = ctl st" and "out st' = out st"
    and "\<not> (char_at line 0 = TAB \<and> char_at line 1 = CHR ''.'' \<and> section_directive line \<noteq> None)"
  using assms by (auto simp: directive_stage_def Let_def split: if_splits option.splits)

text \<open>A neutral line that reaches the output statement.\<close>

lemma tail_stages_mode:
  assumes "\<not> pass_thru g" and "neutral_line line" and "\<not> skip_intel st" and "\<not> skip_app st"
    and st'_def: "st' = stage_state (tail_stages rnd g line st)"
  shows "start2end st' = start2end st" "skip_intel st' = skip_intel st" "skip_app st' = skip_app st"
    "skip_csect st' = skip_csect st" "instr_ok st' = text_section_after (instr_ok st) [line]"
    "adds [line] st st'"
    "inner_line line \<Longrightarrow> ctl st' = ctl st"
    "label_line line \<Longrightarrow> instr_ok st \<Longrightarrow> \<not> skip_csect st \<Longrightarrow> \<not> start2end st \<Longrightarrow>
       ctl st' = (False, False, False, False, True, is_no_instr_func line, is_on_stack_handler line,
                  is_customized_libc_func line)"
proof -
  let ?d = "directive_stage g line (emit [line] st)"
  consider (sect) s where "?d = Done s" | (other) s where "?d = Next line s"
    by (cases ?d) (auto dest: no_section_stage)
  then have "start2end st' = start2end st \<and> skip_intel st' = skip_intel st \<and> skip_app st' = skip_app st \<and>
    skip_csect st' = skip_csect st \<and> instr_ok st' = text_section_after (instr_ok st) [line] \<and>
    adds [line] st st' \<and> (inner_line line \<longrightarrow> ctl st' = ctl st) \<and>
    (label_line line \<longrightarrow> instr_ok st \<longrightarrow> \<not> skip_csect st \<longrightarrow> \<not> start2end st \<longrightarrow>
       ctl st' = (False, False, False, False, True, is_no_instr_func line, is_on_stack_handler line,
                  is_customized_libc_func line))"
  proof cases
    case sect
    then have "st' = s" using assms(1) by (simp add: st'_def tail_stages_def)
    with section_stage [OF sect] assms show ?thesis
      by (auto simp: ctl_def adds_def inner_line_def label_line_def)
  next
    case other
    note o = no_section_stage [OF other]
    have "syntax_flags g line s = s"
      using o(2) assms by (intro syntax_flags_neutral) (auto simp: ctl_def)
    then have "st' = label_stage rnd g line s"
      using assms(1) other by (simp add: st'_def tail_stages_def)
    moreover have "text_section_after (instr_ok st) [line] = instr_ok st"
      using o(4) by auto
    ultimately show ?thesis
      using o(2,3) label_stage_mode(1-5) [of rnd g line s] label_stage_mode(6) [of s rnd g line] label_stage_inner [of line rnd g s] assms
        label_stage_label [of line s rnd g] function_label_ctl [of line s]
      by (auto simp: ctl_def adds_def inner_line_def)
  qed
  then show "start2end st' = start2end st" "skip_intel st' = skip_intel st" "skip_app st' = skip_app st"
    "skip_csect st' = skip_csect st" "instr_ok st' = text_section_after (instr_ok st) [line]"
    "adds [line] st st'"
    "inner_line line \<Longrightarrow> ctl st' = ctl st"
    "label_line line \<Longrightarrow> instr_ok st \<Longrightarrow> \<not> skip_csect st \<Longrightarrow> \<not> start2end st \<Longrightarrow>
       ctl st' = (False, False, False, False, True, is_no_instr_func line, is_on_stack_handler line,
                  is_customized_libc_func line)"
    by blast+
qed

subsection \<open>The loop body on the lines of a function\<close>

lemma process_line_to_tail:
  assumes "rewriting g" and "neutral_line line" and "line = fix_write_mask raw"
    and "\<not> start2end st \<or> \<not> is_ret_line line \<and> rewrite_call c g line = None"
  shows "process_line c rnd g raw st =
     Inr (stage_state (tail_stages rnd g line (deferred_trampoline g line st)))"
proof -
  have "start2end (deferred_trampoline g line st) = start2end st"
    using trampoline_only_comments(1) [of g line st] by (simp add: ctl_def)
  then show ?thesis
    using assms not_proc_lineD [OF assms(2)]
    by (auto simp: process_line_def Let_def startproc_stage_def endproc_stage_def call_stage_def
        ret_stage_def rewrite_call_def rewrites_calls_def direct_call_line_def split: if_splits)
qed

definition runs_to ::
  "build_config \<Rightarrow> (nat \<Rightarrow> nat) \<Rightarrow> as_globals \<Rightarrow> string list \<Rightarrow> instr_state \<Rightarrow> string list \<Rightarrow>
   bool \<times> bool \<times> bool \<times> bool \<times> bool \<times> bool \<times> bool \<times> bool \<Rightarrow> bool" where
  "runs_to c rnd g ls st added k =
     (\<exists>st'. process_lines c rnd g ls st = Inr st' \<and> adds added st st' \<and> ctl st' = k)"

lemma runs_to_Nil: "ctl st = k \<Longrightarrow> runs_to c rnd g [] st [] k"
  by (simp add: runs_to_def adds_def)

lemma process_lines_append:
  "process_lines c rnd g (xs @ ys) st =
     ebind (process_lines c rnd g xs st) (process_lines c rnd g ys)"
proof (induction xs arbitrary: st)
  case Nil
  then show ?case by simp
next
  case (Cons x xs)
  then have "process_lines c rnd g (xs @ ys) =
      (\<lambda>st. ebind (process_lines c rnd g xs st) (process_lines c rnd g ys))"
    by blast
  then show ?case by (simp add: ebind_assoc)
qed

lemma runs_to_append:
  assumes "runs_to c rnd g xs st as k" and "\<And>st'. ctl st' = k \<Longrightarrow> runs_to c rnd g ys st' bs k'"
  shows "runs_to c rnd g (xs @ ys) st (as @ bs) k'"
proof -
  note app = process_lines_append [of c rnd g xs ys]
  obtain st1 where 1: "process_lines c rnd g xs st = Inr st1" "adds as st st1" "ctl st1 = k"
    using assms(1) by (auto simp: runs_to_def)
  obtain st2 where 2: "process_lines c rnd g ys st1 = Inr st2" "adds bs st1 st2" "ctl st2 = k'"
    using assms(2) [OF 1(3)] by (auto simp: runs_to_def)
  from 1 2 show ?thesis by (auto simp: runs_to_def app intro: adds_trans)
qed

lemma runs_to_one:
  "process_line c rnd g l st = Inr st' \<Longrightarrow> adds as st st' \<Longrightarrow> ctl st' = k \<Longrightarrow> runs_to c rnd g [l] st as k"
  by (simp add: runs_to_def)

lemma adds_after_trampoline: "adds as (deferred_trampoline g line st) st' \<Longrightarrow> adds as st st'"
  using trampoline_only_comments(2) [of st g line] by (simp add: adds_def)

lemma run_before:
  assumes "rewriting g" and "neutral_line (fix_write_mask raw)"
    and "ctl st = (False, False, False, False, b, i, h, k)"
  shows "\<exists>i' h' k'. runs_to c rnd g [raw] st [fix_write_mask raw]
     (False, False, False, False, text_section_after b [fix_write_mask raw], i', h', k')"
proof -
  let ?line = "fix_write_mask raw"
  let ?t = "deferred_trampoline g ?line st"
  have t: "ctl ?t = (False, False, False, False, b, i, h, k)"
    using assms(3) trampoline_only_comments(1) [of g ?line st] by simp
  then have "\<not> skip_intel ?t" "\<not> skip_app ?t" by (simp_all add: ctl_def)
  note m = tail_stages_mode(1-6) [OF _ assms(2) this refl, of g rnd]
  show ?thesis
    using process_line_to_tail [OF assms(1,2) refl, of st c rnd] m(1-5) t assms(1,3)
      adds_after_trampoline [OF m(6)]
    unfolding runs_to_def ctl_def process_lines.simps
    by auto
qed

lemma run_label:
  assumes "rewriting g" and "label_line line" and "line = fix_write_mask raw"
    and "ctl st = (False, False, False, False, True, i, h, k)"
  shows "runs_to c rnd g [raw] st [line]
     (False, False, False, False, True, is_no_instr_func line, is_on_stack_handler line,
      is_customized_libc_func line)"
proof -
  let ?t = "deferred_trampoline g line st"
  have t: "ctl ?t = (False, False, False, False, True, i, h, k)"
    using assms(4) trampoline_only_comments(1) [of g line st] by simp
  have n: "neutral_line line" using assms(2) by (simp add: label_line_def)
  have "\<not> skip_intel ?t" "\<not> skip_app ?t" using t by (simp_all add: ctl_def)
  note m = tail_stages_mode(6,8) [OF _ n this refl, of g rnd]
  show ?thesis
    using process_line_to_tail [OF assms(1) n assms(3), of st c rnd] m t assms(1,2,4)
      adds_after_trampoline [of "[line]" g line st]
    unfolding runs_to_def process_lines.simps
    by (simp add: ctl_def)
qed

lemma run_inner:
  assumes "rewriting g" and "inner_line line" and "line = fix_write_mask raw"
    and "ctl st = (b, False, False, False, True, i, h, k)"
    and "\<not> b \<or> \<not> is_ret_line line \<and> rewrite_call c g line = None"
  shows "runs_to c rnd g [raw] st [line] (b, False, False, False, True, i, h, k)"
proof -
  let ?t = "deferred_trampoline g line st"
  have t: "ctl ?t = (b, False, False, False, True, i, h, k)"
    using assms(4) trampoline_only_comments(1) [of g line st] by simp
  have n: "neutral_line line" using assms(2) by (simp add: inner_line_def)
  have "\<not> skip_intel ?t" "\<not> skip_app ?t" using t by (simp_all add: ctl_def)
  note m = tail_stages_mode(6,7) [OF _ n this refl, of g rnd]
  have "start2end st = b" using assms(4) by (simp add: ctl_def)
  then show ?thesis
    using process_line_to_tail [OF assms(1) n assms(3), of st c rnd] m t assms(1,2,5)
      adds_after_trampoline [of "[line]" g line st]
    unfolding runs_to_def process_lines.simps
    by simp
qed

lemma startproc_not_endproc:
  "starts_with line SPA_CFI_STARTPROC \<Longrightarrow> \<not> starts_with line SPA_CFI_ENDPROC"
  by (auto simp: asm_pattern_defs starts_with_prefix prefix_def)

lemma ctl_start2end:
  "ctl (st\<lparr>start2end := b\<rparr>) =
     (b, skip_intel st, skip_app st, skip_csect st, instr_ok st, in_no_instr_func st,
      on_stack_handler st, in_customized_func st)"
  by (simp add: ctl_def)

lemma run_startproc:
  assumes "rewriting g" and "starts_with line SPA_CFI_STARTPROC" and "line = fix_write_mask raw"
    and "ctl st = (b, False, False, False, True, i, h, k)"
  shows "runs_to c rnd g [raw] st (line # map asm_text (startproc_instrs c i h k))
     (True, False, False, False, True, i, h, k)"
proof -
  let ?t = "deferred_trampoline g line st"
  let ?st' = "emit (line # map asm_text (startproc_instrs c i h k))
                (?t\<lparr>start2end := True, n_start := n_start ?t + 1\<rparr>)"
  have t: "ctl ?t = (b, False, False, False, True, i, h, k)"
    using assms(4) trampoline_only_comments(1) [of g line st] by simp
  then have "process_line c rnd g raw st = Inr ?st'"
    using assms by (simp add: process_line_def startproc_stage_def Let_def ctl_def)
  moreover have "adds (line # map asm_text (startproc_instrs c i h k)) st ?st'"
    by (rule adds_after_trampoline [of _ g line]) (simp add: adds_def)
  ultimately show ?thesis
    using t by (intro runs_to_one) (auto simp: ctl_start2end ctl_def [of ?t])
qed

lemma run_endproc:
  assumes "rewriting g" and "starts_with line SPA_CFI_ENDPROC" and "line = fix_write_mask raw"
    and "ctl st = (b, False, False, False, True, i, h, k)"
  shows "runs_to c rnd g [raw] st [line] (False, False, False, False, True, i, h, k)"
proof -
  let ?t = "deferred_trampoline g line st"
  let ?st' = "emit [line] (?t\<lparr>start2end := False, n_end := n_end ?t + 1\<rparr>)"
  have t: "ctl ?t = (b, False, False, False, True, i, h, k)"
    using assms(4) trampoline_only_comments(1) [of g line st] by simp
  have "\<not> starts_with line SPA_CFI_STARTPROC"
    using assms(2) startproc_not_endproc by blast
  then have "process_line c rnd g raw st = Inr ?st'"
    using assms by (simp add: process_line_def startproc_stage_def endproc_stage_def Let_def)
  moreover have "adds [line] st ?st'"
    by (rule adds_after_trampoline [of _ g line]) (simp add: adds_def)
  ultimately show ?thesis
    using t by (intro runs_to_one) (auto simp: ctl_start2end ctl_def [of ?t])
qed

lemma ret_line_not_call:
  "is_ret_line line \<Longrightarrow> \<not> starts_with line SPA_CALLQ_STAR \<and> \<not> starts_with line SPA_CALLQ_NO_STAR"
  by (auto simp: is_ret_line_def asm_pattern_defs starts_with_prefix prefix_def)

lemma run_ret:
  assumes "rewriting g" and "is_ret_line line" and "neutral_line line" and "line = fix_write_mask raw"
    and "ctl st = (True, False, False, False, True, i, h, k)"
  shows "runs_to c rnd g [raw] st
     (case ret_instrs c i h k of None \<Rightarrow> [line] | Some ins \<Rightarrow> map asm_text ins)
     (True, False, False, False, True, i, h, k)"
proof -
  let ?t = "deferred_trampoline g line st"
  let ?new = "case ret_instrs c i h k of None \<Rightarrow> [line] | Some ins \<Rightarrow> map asm_text ins"
  have t: "ctl ?t = (True, False, False, False, True, i, h, k)"
    using assms(5) trampoline_only_comments(1) [of g line st] by simp
  then have "process_line c rnd g raw st = Inr (emit ?new ?t)"
    using assms(1,2,4) not_proc_lineD [OF assms(3)] ret_line_not_call [OF assms(2)]
    by (auto simp: process_line_def startproc_stage_def endproc_stage_def call_stage_def ret_stage_def
        Let_def ctl_def split: option.split)
  moreover have "adds ?new st (emit ?new ?t)"
    by (rule adds_after_trampoline [of _ g line]) (simp add: adds_def)
  ultimately show ?thesis
    using t by (auto intro!: runs_to_one)
qed

lemma ret_line_not_rewritten: "is_ret_line line \<Longrightarrow> rewrite_call c g line = None"
  using ret_line_not_call by (simp add: rewrite_call_def direct_call_line_def)

lemma protected_call_found:
  assumes "sorted (spa_protected_funcs g)" and "callee line \<noteq> called_text line"
  shows "is_protected_function (spa_protected_funcs g) (called_text line) =
    Inr (callee line \<in> set (spa_protected_funcs g))"
proof -
  let ?P = "\<lambda>x. x \<notin> {NL, CHR '' '', TAB}" and ?t = "called_text line"
  have "dropWhile ?P ?t \<noteq> []" using assms(2) takeWhile_dropWhile_id [of ?P ?t] by (auto simp: callee_def)
  then obtain x rest where x: "dropWhile ?P ?t = x # rest" by (cases "dropWhile ?P ?t") auto
  then have "\<not> ?P x" by (metis (mono_tags) hd_dropWhile list.distinct(1) list.sel(1))
  then have d: "x \<in> {NL, CHR '' '', TAB}" by blast
  have n: "\<forall>y \<in> set (callee line). y \<notin> {NL, CHR '' '', TAB}" by (auto simp: callee_def dest: set_takeWhileD)
  have "?t = callee line @ x # rest"
    using takeWhile_dropWhile_id [of ?P ?t] unfolding x callee_def by (rule sym)
  then show ?thesis using is_protected_function_eq [OF assms(1) d n] by simp
qed

lemma run_call:
  assumes "rewriting g" and "rewrite_call c g line = Some new" and "neutral_line line" and "calls_readable c g line"
    and "line = fix_write_mask raw" and "ctl st = (True, False, False, False, True, i, h, k)"
  shows "runs_to c rnd g [raw] st new (True, False, False, False, True, i, h, k)"
proof -
  let ?t = "deferred_trampoline g line st"
  have t: "ctl ?t = (True, False, False, False, True, i, h, k)"
    using assms(6) trampoline_only_comments(1) [of g line st] by simp
  have r: "rewrites_calls c g" using assms(2) by (simp add: rewrite_call_def split: if_splits)
  have on: "instr_ok ?t" "start2end ?t" "\<not> skip_intel ?t" "\<not> skip_app ?t" "\<not> skip_csect ?t"
    using t by (simp_all add: ctl_def)
  have found: "is_protected_function (spa_protected_funcs g) (drop (length SPA_CALLQ_NO_STAR + 1) line) =
      Inr (callee line \<in> set (spa_protected_funcs g))" if "direct_call_line line"
    using protected_call_found [of g line] assms(4) r that by (simp add: calls_readable_def called_text_def)
  have "call_stage c g line ?t = Inr (Done (emit new ?t))"
  proof (cases "starts_with line SPA_CALLQ_STAR")
    case True
    then have "new = map asm_text (indirect_call_instrs c (drop (length SPA_CALLQ_STAR) (delete_comments (butlast line))))"
      using assms(2) r by (simp add: rewrite_call_def)
    with True show ?thesis using assms(1) r on by (simp add: call_stage_def rewrites_calls_def)
  next
    case False
    then have d: "direct_call_line line" using assms(2) r by (simp add: rewrite_call_def split: if_splits)
    then have "direct_call_stage c g line ?t = Inr (Done (emit new ?t))"
      using assms(2) r False found [OF d]
      by (auto simp: direct_call_stage_def rewrite_call_def calls_protected_def called_text_def Let_def)
    then show ?thesis
      using assms(1) r on False d by (simp add: call_stage_def rewrites_calls_def direct_call_line_def)
  qed
  then have "process_line c rnd g raw st = Inr (emit new ?t)"
    using assms(1,5) not_proc_lineD [OF assms(3)]
    by (simp add: process_line_def startproc_stage_def endproc_stage_def Let_def)
  moreover have "adds new st (emit new ?t)"
    by (rule adds_after_trampoline [of _ g line]) (simp add: adds_def)
  ultimately show ?thesis
    using t by (auto intro!: runs_to_one)
qed

subsection \<open>Functions and modules\<close>

lemma run_before_all:
  assumes "rewriting g" and "list_all (\<lambda>l. neutral_line (fix_write_mask l)) ls"
    and "ctl st = (False, False, False, False, b, i, h, k)"
  shows "\<exists>i' h' k'. runs_to c rnd g ls st (map fix_write_mask ls)
     (False, False, False, False, text_section_after b (map fix_write_mask ls), i', h', k')"
  using assms(2,3)
proof (induction ls arbitrary: st b i h k)
  case Nil
  then show ?case by (auto intro!: runs_to_Nil)
next
  case (Cons l ls)
  let ?b = "text_section_after b [fix_write_mask l]"
  obtain i1 h1 k1 where 1: "runs_to c rnd g [l] st [fix_write_mask l]
      (False, False, False, False, ?b, i1, h1, k1)"
    using run_before [OF assms(1) _ Cons.prems(2), of l c rnd] Cons.prems(1)
    unfolding list.pred_inject(2) by blast
  then obtain st1 where st1: "process_lines c rnd g [l] st = Inr st1"
    "adds [fix_write_mask l] st st1" "ctl st1 = (False, False, False, False, ?b, i1, h1, k1)"
    by (auto simp: runs_to_def)
  obtain i2 h2 k2 where "runs_to c rnd g ls st1 (map fix_write_mask ls)
      (False, False, False, False, text_section_after ?b (map fix_write_mask ls), i2, h2, k2)"
    using Cons.IH [OF _ st1(3)] Cons.prems(1) unfolding list.pred_inject(2) by blast
  then have "runs_to c rnd g ([l] @ ls) st ([fix_write_mask l] @ map fix_write_mask ls)
      (False, False, False, False, text_section_after ?b (map fix_write_mask ls), i2, h2, k2)"
    using st1 by (auto simp: runs_to_def process_lines_append [of c rnd g "[l]" ls]
        simp del: process_lines.simps append.simps intro: adds_trans)
  then show ?case by (intro exI [of _ i2] exI [of _ h2] exI [of _ k2]) simp
qed

lemma run_header:
  assumes "rewriting g" and "list_all (\<lambda>l. inner_line (fix_write_mask l)) ls"
    and "ctl st = (False, False, False, False, True, i, h, k)"
  shows "runs_to c rnd g ls st (map fix_write_mask ls) (False, False, False, False, True, i, h, k)"
  using assms(2,3)
proof (induction ls arbitrary: st)
  case Nil
  then show ?case by (simp add: runs_to_Nil)
next
  case (Cons l ls)
  have "runs_to c rnd g [l] st [fix_write_mask l] (False, False, False, False, True, i, h, k)"
    using Cons.prems by (intro run_inner [OF assms(1) _ refl]) simp_all
  then have "runs_to c rnd g ([l] @ ls) st ([fix_write_mask l] @ map fix_write_mask ls)
      (False, False, False, False, True, i, h, k)"
    using Cons by (intro runs_to_append) auto
  then show ?case by simp
qed

lemma run_body:
  assumes "rewriting g"
    and "list_all (\<lambda>l. inner_line (fix_write_mask l) \<and> calls_readable c g (fix_write_mask l)) ls"
    and "ctl st = (True, False, False, False, True, is_no_instr_func label, is_on_stack_handler label,
                   is_customized_libc_func label)"
  shows "runs_to c rnd g ls st (concat (map (rewrite_line c g label) (map fix_write_mask ls)))
     (True, False, False, False, True, is_no_instr_func label, is_on_stack_handler label,
      is_customized_libc_func label)"
  using assms(2,3)
proof (induction ls arbitrary: st)
  case Nil
  then show ?case by (simp add: runs_to_Nil)
next
  case (Cons l ls)
  have "runs_to c rnd g [l] st (rewrite_line c g label (fix_write_mask l))
     (True, False, False, False, True, is_no_instr_func label, is_on_stack_handler label,
      is_customized_libc_func label)"
    using Cons.prems run_ret [OF assms(1) _ _ refl Cons.prems(2), of l]
      run_inner [OF assms(1) _ refl Cons.prems(2), of l] run_call [OF assms(1) _ _ _ refl Cons.prems(2), where raw = l]
      ret_line_not_rewritten [of "fix_write_mask l" c g]
    by (auto simp: rewrite_line_def rewrite_ret_def inner_line_def split: option.split)
  then have "runs_to c rnd g ([l] @ ls) st (rewrite_line c g label (fix_write_mask l) @
      concat (map (rewrite_line c g label) (map fix_write_mask ls)))
     (True, False, False, False, True, is_no_instr_func label, is_on_stack_handler label,
      is_customized_libc_func label)"
    using Cons by (intro runs_to_append) auto
  then show ?case by simp
qed

lemma text_section_trans:
  "text_section_after b (xs @ ys) = text_section_after (text_section_after b xs) ys"
  by (induction xs arbitrary: b) simp_all

lemma run_function:
  assumes "rewriting g" and wf: "well_formed_function c g b f"
    and "ctl st = (False, False, False, False, b, i, h, k)"
  shows "\<exists>i' h' k'. runs_to c rnd g (function_lines f) st (rewrite_function c g f)
     (False, False, False, False, True, i', h', k')"
proof -
  let ?l = "fix_write_mask (f_label f)"
  let ?i = "is_no_instr_func ?l" and ?h = "is_on_stack_handler ?l" and ?k = "is_customized_libc_func ?l"
  let ?start = "[fix_write_mask (f_startproc f)] @ map asm_text (startproc_instrs c ?i ?h ?k)"
  note w = wf [unfolded well_formed_function_def]
  obtain i1 h1 k1 where 1: "runs_to c rnd g (f_before f) st (map fix_write_mask (f_before f))
      (False, False, False, False, True, i1, h1, k1)"
    using run_before_all [OF assms(1) _ assms(3), of "f_before f" c rnd] w by auto
  have 2: "runs_to c rnd g [f_label f] s [?l] (False, False, False, False, True, ?i, ?h, ?k)"
    if "ctl s = (False, False, False, False, True, i1, h1, k1)" for s
    using w that by (intro run_label [OF assms(1)]) auto
  have 3: "runs_to c rnd g (f_header f) s (map fix_write_mask (f_header f))
      (False, False, False, False, True, ?i, ?h, ?k)"
    if "ctl s = (False, False, False, False, True, ?i, ?h, ?k)" for s
    using w that by (intro run_header [OF assms(1)]) auto
  have 4: "runs_to c rnd g [f_startproc f] s ?start (True, False, False, False, True, ?i, ?h, ?k)"
    if "ctl s = (False, False, False, False, True, ?i, ?h, ?k)" for s
    using w that run_startproc [OF assms(1) _ refl that, of "f_startproc f"] by simp
  have 5: "runs_to c rnd g (f_body f) s (concat (map (rewrite_line c g ?l) (map fix_write_mask (f_body f))))
      (True, False, False, False, True, ?i, ?h, ?k)"
    if "ctl s = (True, False, False, False, True, ?i, ?h, ?k)" for s
    using w that by (intro run_body [OF assms(1)]) auto
  have 6: "runs_to c rnd g [f_endproc f] s [fix_write_mask (f_endproc f)]
      (False, False, False, False, True, ?i, ?h, ?k)"
    if "ctl s = (True, False, False, False, True, ?i, ?h, ?k)" for s
    using w that by (intro run_endproc [OF assms(1)]) auto
  have "runs_to c rnd g (function_lines f) st (rewrite_function c g f)
      (False, False, False, False, True, ?i, ?h, ?k)"
    unfolding function_lines_def rewrite_function_def Let_def append_assoc [symmetric]
    using runs_to_append [OF runs_to_append [OF runs_to_append [OF runs_to_append
            [OF runs_to_append [OF 1 2] 3] 4] 5] 6]
    by (simp only: append_assoc)
  then show ?thesis by blast
qed

lemma run_functions:
  assumes "rewriting g" and "list_all (well_formed_function c g True) fs"
    and "ctl st = (False, False, False, False, True, i, h, k)"
  shows "\<exists>i' h' k'. runs_to c rnd g (concat (map function_lines fs)) st
     (concat (map (rewrite_function c g) fs)) (False, False, False, False, True, i', h', k')"
  using assms(2,3)
proof (induction fs arbitrary: st i h k)
  case Nil
  then show ?case by (auto intro!: runs_to_Nil)
next
  case (Cons f fs)
  obtain i1 h1 k1 where 1: "runs_to c rnd g (function_lines f) st (rewrite_function c g f)
      (False, False, False, False, True, i1, h1, k1)"
    using run_function [OF assms(1) _ Cons.prems(2), of c f rnd] Cons.prems(1)
    unfolding list.pred_inject(2) by blast
  then obtain st1 where st1: "process_lines c rnd g (function_lines f) st = Inr st1"
    "adds (rewrite_function c g f) st st1" "ctl st1 = (False, False, False, False, True, i1, h1, k1)"
    by (auto simp: runs_to_def)
  obtain i2 h2 k2 where "runs_to c rnd g (concat (map function_lines fs)) st1
      (concat (map (rewrite_function c g) fs)) (False, False, False, False, True, i2, h2, k2)"
    using Cons.IH [OF _ st1(3)] Cons.prems(1) unfolding list.pred_inject(2) by blast
  then show ?case
    using st1 by (auto simp: runs_to_def process_lines_append intro: adds_trans)
qed

subsection \<open>Counting function starts and ends\<close>

definition counts :: "instr_state \<Rightarrow> nat \<times> nat" where
  "counts st = (n_start st, n_end st)"

lemma stage_counts:
  "counts (emit ls st) = counts st"
  "counts (deferred_trampoline g line st) = counts st"
  "counts (stage_state (ret_stage c g line st)) = counts st"
  "counts (label_stage rnd g line st) = counts st"
  "counts (syntax_flags g line st) = counts st"
  by (simp_all add: counts_def trampoline_only_comments ret_stage_def label_stage_def jump_stage_def
      branch_label_def function_label_def R100_below_def syntax_flags_def Let_def split: option.split)

lemma directive_counts: "counts (stage_state (directive_stage g line st)) = counts st"
  by (simp add: counts_def directive_stage_def Let_def split: option.split)

lemma tail_counts: "counts (stage_state (tail_stages rnd g line st)) = counts st"
proof (cases "directive_stage g line (emit [line] st)")
  case (Done s)
  then show ?thesis
    using directive_counts [of g line "emit [line] st"]
    by (simp add: tail_stages_def stage_counts Let_def)
next
  case (Next l s)
  then show ?thesis
    using directive_counts [of g line "emit [line] st"]
    by (simp add: tail_stages_def stage_counts Let_def)
qed

lemma call_counts:
  "call_stage c g line st = Inr sg \<Longrightarrow> counts (stage_state sg) = counts st"
  by (auto simp: call_stage_def direct_call_stage_def stage_counts Let_def ebind_Inr_iff split: if_splits)

lemma sbind_counts:
  "counts (stage_state m) = k \<Longrightarrow> (\<And>l s. counts (stage_state (f l s)) = counts s) \<Longrightarrow>
   counts (stage_state (sbind m f)) = k"
  by (cases m) auto

lemma process_line_counts:
  assumes "process_line c rnd g raw st = Inr st'"
  shows "counts st' = count_procs [fix_write_mask raw] (counts st)"
proof -
  let ?line = "fix_write_mask raw"
  let ?t = "deferred_trampoline g ?line st"
  let ?m = "sbind (startproc_stage c g ?line ?t) (endproc_stage g)"
  have "counts (stage_state ?m) = count_procs [?line] (counts st)"
    using stage_counts(2) [of g ?line st] startproc_not_endproc [of ?line]
    by (auto simp: counts_def startproc_stage_def endproc_stage_def Let_def)
  then show ?thesis
    using assms
    by (auto simp: process_line_def Let_def ebind_Inr_iff split: stage.splits
        intro!: sbind_counts tail_counts stage_counts dest!: call_counts)
qed

lemma count_procs_append: "count_procs (xs @ ys) p = count_procs ys (count_procs xs p)"
  by (induction xs p rule: count_procs.induct) simp_all

lemma process_lines_counts:
  "process_lines c rnd g ls st = Inr st' \<Longrightarrow>
   counts st' = count_procs (map fix_write_mask ls) (counts st)"
proof (induction ls arbitrary: st)
  case Nil
  then show ?case by (cases "counts st") simp
next
  case (Cons l ls)
  then obtain st1 where "process_line c rnd g l st = Inr st1" "process_lines c rnd g ls st1 = Inr st'"
    by (auto simp: ebind_Inr_iff)
  then show ?case
    using Cons.IH process_line_counts [of c rnd g l st st1]
      count_procs_append [of "[fix_write_mask l]" "map fix_write_mask ls"]
    by simp
qed


lemma neutral_counts:
  "list_all (\<lambda>l. neutral_line (fix_write_mask l)) ls \<Longrightarrow> count_procs (map fix_write_mask ls) p = p"
  by (induction ls) (cases p; auto simp: neutral_line_def)+

lemma inner_neutral:
  "list_all (\<lambda>l. inner_line (fix_write_mask l) \<and> Q l) ls \<Longrightarrow>
   list_all (\<lambda>l. neutral_line (fix_write_mask l)) ls"
  by (auto simp: list_all_iff inner_line_def)

lemma function_counts:
  assumes "well_formed_function c g b f"
  shows "count_procs (map fix_write_mask (function_lines f)) (x, y) = (Suc x, Suc y)"
proof -
  note w = assms [unfolded well_formed_function_def label_line_def]
  have "\<not> starts_with (fix_write_mask (f_endproc f)) SPA_CFI_STARTPROC"
    using w startproc_not_endproc by blast
  then show ?thesis
    using w neutral_counts [of "f_before f"] neutral_counts
        [OF inner_neutral, of "\<lambda>l. calls_readable c g (fix_write_mask l)" "f_body f"]
      neutral_counts [OF inner_neutral, of "\<lambda>_. True" "f_header f"]
      not_proc_lineD [of "fix_write_mask (f_label f)"]
    by (simp add: function_lines_def count_procs_append)
qed

lemma functions_counts:
  assumes "list_all (well_formed_function c g b) fs"
  shows "count_procs (map fix_write_mask (concat (map function_lines fs))) (x, y) =
     (x + length fs, y + length fs)"
  using assms
  by (induction fs arbitrary: x y) (simp_all add: count_procs_append function_counts [of c g b])

lemma module_counts:
  assumes "well_formed_module c g fs"
  shows "count_procs (map fix_write_mask (concat (map function_lines fs))) (0, 0) =
     (length fs, length fs)"
proof (cases fs)
  case Nil
  then show ?thesis by simp
next
  case (Cons f fs')
  with assms show ?thesis
    by (simp add: well_formed_module_def count_procs_append function_counts [of c g False]
        functions_counts [of c g True] del: map_map)
qed

lemma run_module:
  assumes "rewriting g" and "well_formed_module c g fs"
  shows "\<exists>st'. process_lines c rnd g (concat (map function_lines fs)) init_instr_state = Inr st' \<and>
     code_lines (out st') = code_lines (concat (map (rewrite_function c g) fs)) \<and>
     (\<exists>b i h k. ctl st' = (False, False, False, False, b, i, h, k))"
proof -
  have init: "ctl init_instr_state = (False, False, False, False, False, False, False, False)"
    by (simp add: ctl_def init_instr_state_def)
  show ?thesis
  proof (cases fs)
    case Nil
    then have "process_lines c rnd g (concat (map function_lines fs)) init_instr_state = Inr init_instr_state"
      "out init_instr_state = []"
      by (simp_all add: init_instr_state_def)
    with init Nil show ?thesis by auto
  next
    case (Cons f fs')
    have wf: "well_formed_function c g False f" "list_all (well_formed_function c g True) fs'"
      using assms(2) by (simp_all add: well_formed_module_def Cons)
    obtain i h k where 1: "runs_to c rnd g (function_lines f) init_instr_state (rewrite_function c g f)
        (False, False, False, False, True, i, h, k)"
      using run_function [OF assms(1) wf(1) init] by blast
    then obtain st1 where st1: "process_lines c rnd g (function_lines f) init_instr_state = Inr st1"
      "adds (rewrite_function c g f) init_instr_state st1"
      "ctl st1 = (False, False, False, False, True, i, h, k)"
      by (auto simp: runs_to_def)
    obtain i2 h2 k2 where "runs_to c rnd g (concat (map function_lines fs')) st1
        (concat (map (rewrite_function c g) fs')) (False, False, False, False, True, i2, h2, k2)"
      using run_functions [OF assms(1) wf(2) st1(3)] by blast
    then show ?thesis
      using st1
      by (auto simp: Cons runs_to_def process_lines_append adds_def init_instr_state_def)
  qed
qed

lemma run_module_rest:
  assumes g: "rewriting g" and "well_formed_module c g fs" and rest: "well_formed_rest rest"
  shows "\<exists>st'. process_lines c rnd g (concat (map function_lines fs) @ rest) init_instr_state = Inr st' \<and>
     code_lines (out st') = code_lines (concat (map (rewrite_function c g) fs) @ map fix_write_mask rest)"
proof -
  obtain st b i h k where st: "process_lines c rnd g (concat (map function_lines fs)) init_instr_state = Inr st"
    "code_lines (out st) = code_lines (concat (map (rewrite_function c g) fs))"
    "ctl st = (False, False, False, False, b, i, h, k)"
    using run_module [OF g assms(2), of rnd] by blast
  from run_before_all [OF g rest [unfolded well_formed_rest_def] st(3)]
  obtain st' where "process_lines c rnd g rest st = Inr st'" "adds (map fix_write_mask rest) st st'"
    by (auto simp: runs_to_def)
  with st(1,2) show ?thesis by (auto simp: process_lines_append adds_def)
qed

text \<open>The line that the trailer adds to the code.\<close>

lemma code_lines_trailer:
  assumes "\<not> pass_thru g"
  shows "code_lines (trailer c g st) =
     (if is_main_exe st \<and> bc_scheme c = USE_SPA_SHADOW_STACK_PLUS_GLOBAL_RANDVAR
      then randval_section else [])"
  using assms
  by (simp add: trailer_def code_lines_def randval_section_def starts_with_Cons NL_def TAB_def)

lemma add_instrumentation_rewrites:
  assumes "\<not> pass_thru g" and "use_64bit g" and "well_formed_module c g fs"
    and "well_formed_rest rest" and "file_lines content = concat (map function_lines fs) @ rest"
  shows "\<exists>st. add_instrumentation c rnd g content = Inr st \<and>
     code_lines (out st) =
       code_lines (concat (map (rewrite_function c g) fs) @ map fix_write_mask rest) @
       (if is_main_exe st \<and> bc_scheme c = USE_SPA_SHADOW_STACK_PLUS_GLOBAL_RANDVAR
        then randval_section else [])"
proof -
  have g: "rewriting g" using assms(1,2) by simp
  obtain st' where run: "process_lines c rnd g (file_lines content) init_instr_state = Inr st'"
    and out: "code_lines (out st') = code_lines (concat (map (rewrite_function c g) fs) @ map fix_write_mask rest)"
    using run_module_rest [OF g assms(3,4)] assms(5) by metis
  have "counts st' = (length fs, length fs)"
    using process_lines_counts [OF run] module_counts [OF assms(3)] assms(4,5)
      neutral_counts [of rest "(length fs, length fs)"]
    by (simp add: counts_def init_instr_state_def count_procs_append well_formed_rest_def del: map_concat)
  then show ?thesis
    using run out code_lines_trailer [OF assms(1), of c st'] assms(1)
    by (simp add: add_instrumentation_def counts_def)
qed

subsection \<open>Properties\<close>

text \<open>
  C9: refinement.  On every well-formed 64-bit module, whatever neutral lines follow its last function, the line-by-line loop of
  \<open>add_instrumentation\<close> does exactly what the function-by-function specification says, up to
  comment lines: after each \<open>.cfi_startproc\<close> the entry sequence chosen by the function's label,
  in place of each \<open>ret\<close> between \<open>.cfi_startproc\<close> and \<open>.cfi_endproc\<close> the matching exit
  sequence; in the builds that rewrite calls, in place of each indirect call and of each direct call
  of a protected function the matching call sequence; every other line as it was; and it does so for
  every choice of random numbers.
\<close>

theorem instrumentation_refines_function_rewriting:
  assumes "\<not> pass_thru g" and "use_64bit g" and "well_formed_module c g fs"
    and "well_formed_rest rest" and "file_lines content = concat (map function_lines fs) @ rest"
  shows "\<exists>st. add_instrumentation c rnd g content = Inr st \<and>
     code_lines (out st) =
       code_lines (concat (map (rewrite_function c g) fs) @ map fix_write_mask rest) @
       (if is_main_exe st \<and> bc_scheme c = USE_SPA_SHADOW_STACK_PLUS_GLOBAL_RANDVAR
        then randval_section else [])"
  using assms by (rule add_instrumentation_rewrites)

definition demo_globals :: as_globals where
  "demo_globals =
     \<lparr>input_file = None, be_quiet = False, clang_mode = True, pass_thru = False, sanitizer = False,
      inst_ratio = 100, use_64bit = True, with_64_bit_cmd_option = True, spa_protected_funcs = [],
      afl_harden = False\<rparr>"

definition demo_function :: asm_function where
  "demo_function =
     \<lparr>f_before = [TAB # ''.text'' @ [NL]], f_label = ''f:'' @ [NL], f_header = [],
      f_startproc = TAB # ''.cfi_startproc'' @ [NL],
      f_body = [TAB # ''nop'' @ [NL], TAB # ''retq'' @ [NL]],
      f_endproc = TAB # ''.cfi_endproc'' @ [NL]\<rparr>"


lemma demo_module: "well_formed_module default_config g [demo_function]"
  by (simp add: well_formed_module_def well_formed_function_def demo_function_def default_config_def
      neutral_line_def inner_line_def label_line_def calls_readable_def direct_call_line_def fix_write_mask_def
      contains_def char_at_def section_directive_def is_ret_line_def asm_pattern_defs
      starts_with_def TAB_def NL_def SPA_XMM_YMM_ZMM_WRITE_MASK_CLANG_def)

lemma demo_lines: "file_lines (concat (function_lines demo_function)) = function_lines demo_function"
  by (simp add: file_lines_def demo_function_def function_lines_def MAX_LINE_def NL_def TAB_def)

text \<open>The end of a file, as a compiler writes it.\<close>

definition demo_rest :: "string list" where
  "demo_rest = [TAB # ''.ident'' @ [NL], TAB # ''.section'' @ TAB # ''.note'' @ [NL]]"

lemma demo_rest_ok: "well_formed_rest demo_rest"
  by (simp add: well_formed_rest_def demo_rest_def neutral_line_def fix_write_mask_def contains_def char_at_def
      asm_pattern_defs starts_with_def TAB_def NL_def SPA_XMM_YMM_ZMM_WRITE_MASK_CLANG_def)

lemma demo_rest_lines:
  "file_lines (concat (function_lines demo_function @ demo_rest)) = function_lines demo_function @ demo_rest"
  by (simp add: file_lines_def demo_function_def demo_rest_def function_lines_def MAX_LINE_def NL_def TAB_def)

lemma demo_rest_code: "code_lines (map fix_write_mask demo_rest) = demo_rest"
  by (simp add: demo_rest_def code_lines_def fix_write_mask_def contains_def starts_with_def TAB_def NL_def
      SPA_XMM_YMM_ZMM_WRITE_MASK_CLANG_def)

lemma demo_rewritten:
  "code_lines (rewrite_function default_config demo_globals demo_function) =
    [TAB # ''.text'' @ [NL], ''f:'' @ [NL], TAB # ''.cfi_startproc'' @ [NL],
     asm_line ''movq'' ''(%rsp), %r11'', asm_line ''movq'' ''$-0x800000000000, %r10'',
     asm_line ''movq'' ''%r11, %gs:(%rsp, %r10, 1)'',
     TAB # ''nop'' @ [NL],
     asm_line ''movq'' ''$-0x800000000000, %r10'', asm_line ''addq'' ''$8, %rsp'',
     asm_line ''jmpq'' ''*%gs:-8(%rsp, %r10, 1)'',
     TAB # ''.cfi_endproc'' @ [NL]]"
  by (simp add: demo_function_def rewrite_function_def rewrite_line_def rewrite_call_def rewrites_calls_def rewrite_ret_def default_config_def
      fix_write_mask_def is_ret_line_def asm_pattern_defs starts_with_def TAB_def NL_def
      is_no_instr_func_def no_instr_funcs_def is_on_stack_handler_def on_stack_handlers_def
      is_customized_libc_func_def customized_libc_funcs_def startproc_instrs_def entry_gs_rsp_def
      ret_instrs_def exit_gs_rsp_def SPA_USER_SPACE_SIZE_def SPA_CPU_WORD_LENGTH_def print_simps
      disp_text_def code_lines_def asm_line_def)

theorem instrumentation_refines_function_rewriting_witness:
  "\<exists>st. add_instrumentation default_config (\<lambda>_. 7) demo_globals
       (concat (function_lines demo_function @ demo_rest)) = Inr st \<and>
     code_lines (out st) =
       [TAB # ''.text'' @ [NL], ''f:'' @ [NL], TAB # ''.cfi_startproc'' @ [NL],
        asm_line ''movq'' ''(%rsp), %r11'', asm_line ''movq'' ''$-0x800000000000, %r10'',
        asm_line ''movq'' ''%r11, %gs:(%rsp, %r10, 1)'',
        TAB # ''nop'' @ [NL],
        asm_line ''movq'' ''$-0x800000000000, %r10'', asm_line ''addq'' ''$8, %rsp'',
        asm_line ''jmpq'' ''*%gs:-8(%rsp, %r10, 1)'',
        TAB # ''.cfi_endproc'' @ [NL]] @ demo_rest"
  using instrumentation_refines_function_rewriting
    [of demo_globals default_config "[demo_function]" demo_rest
      "concat (function_lines demo_function @ demo_rest)" "\<lambda>_. 7"]
    demo_module demo_rest_ok demo_rest_lines demo_rewritten demo_rest_code
  by (simp add: demo_globals_def default_config_def)


lemma process_line_pass_thru:
  assumes "pass_thru g"
  shows "\<exists>st'. process_line c rnd g raw st = Inr st' \<and> out st' = out st @ [fix_write_mask raw] \<and>
     ins_lines st' = ins_lines st \<and> is_main_exe st' = is_main_exe st"
  using assms
  by (auto simp: process_line_def Let_def deferred_trampoline_def startproc_stage_def
      endproc_stage_def call_stage_def ret_stage_def tail_stages_def)

lemma process_lines_pass_thru:
  assumes "pass_thru g"
  shows "\<exists>st'. process_lines c rnd g ls st = Inr st' \<and> out st' = out st @ map fix_write_mask ls \<and>
     ins_lines st' = ins_lines st \<and> is_main_exe st' = is_main_exe st"
proof (induction ls arbitrary: st)
  case Nil
  then show ?case by simp
next
  case (Cons l ls)
  obtain st1 where "process_line c rnd g l st = Inr st1" "out st1 = out st @ [fix_write_mask l]"
    "ins_lines st1 = ins_lines st" "is_main_exe st1 = is_main_exe st"
    using process_line_pass_thru [OF assms] by blast
  with Cons.IH [of st1] show ?case by auto
qed

text \<open>
  A module that is passed through is copied: apart from the write masks that the GNU assembler
  does not accept, the written file is the input followed by one comment line, whatever the
  module contains.
\<close>

lemma pass_thru_copies_the_file:
  assumes "pass_thru g"
  shows "\<exists>st. add_instrumentation c rnd g content = Inr st \<and>
     written_file st = concat (map fix_write_mask (file_lines content)) @ concat (trailer c g st) \<and>
     length (trailer c g st) = 1"
proof -
  obtain st where "process_lines c rnd g (file_lines content) init_instr_state = Inr st"
    "out st = map fix_write_mask (file_lines content)" "ins_lines st = 0" "\<not> is_main_exe st"
    using process_lines_pass_thru [OF assms, of c rnd "file_lines content" init_instr_state]
    by (auto simp: init_instr_state_def)
  then show ?thesis
    using assms by (simp add: add_instrumentation_def written_file_def trailer_def)
qed

lemma pass_thru_copies_the_file_witness:
  "\<exists>st. add_instrumentation default_config (\<lambda>_. 0) (demo_globals\<lparr>pass_thru := True\<rparr>) ''f:'' = Inr st \<and>
     written_file st = ''f:'' @ concat (trailer default_config (demo_globals\<lparr>pass_thru := True\<rparr>) st) \<and>
     length (trailer default_config (demo_globals\<lparr>pass_thru := True\<rparr>) st) = 1"
  using pass_thru_copies_the_file [of "demo_globals\<lparr>pass_thru := True\<rparr>" default_config "\<lambda>_. 0" "''f:''"]
  by (simp add: demo_globals_def file_lines_def MAX_LINE_def NL_def fix_write_mask_def asm_pattern_defs
      starts_with_def)

lemma fix_write_mask_proc:
  assumes "P \<in> {SPA_CFI_STARTPROC, SPA_CFI_ENDPROC}"
  shows "starts_with (fix_write_mask line) P = starts_with line P"
proof (cases "c_strstr line SPA_XMM_YMM_ZMM_WRITE_MASK_CLANG")
  case None
  then show ?thesis by (simp add: fix_write_mask_def)
next
  case (Some i)
  let ?m = "SPA_XMM_YMM_ZMM_WRITE_MASK_CLANG" and ?n = "SPA_XMM_YMM_ZMM_WRITE_MAST_GCC"
  have P: "CHR ''}'' \<notin> set P" using assms by (auto simp: asm_pattern_defs TAB_def NL_def)
  from c_strstr_Some [OF Some] obtain rest where line: "line = take i line @ ?m @ rest"
    and len: "i \<le> length line"
    by (metis add_leD1 append_take_drop_id)
  have fixed: "fix_write_mask line = take i line @ ?n" by (simp add: fix_write_mask_def Some)
  have no: "\<not> starts_with (take i line @ CHR ''}'' # xs) P" if "i < length P" for xs
  proof
    assume "starts_with (take i line @ CHR ''}'' # xs) P"
    then have "P ! i = (take i line @ CHR ''}'' # xs) ! i"
      using that by (metis nth_take starts_with_def)
    also have "\<dots> = CHR ''}''" using len by (simp add: nth_append)
    finally show False using P that nth_mem by metis
  qed
  show ?thesis
  proof (cases "i < length P")
    case True
    then have "\<not> starts_with (fix_write_mask line) P" "\<not> starts_with line P"
      using no [OF True] fixed line by (metis append_Cons asm_pattern_defs(7,8))+
    then show ?thesis by simp
  next
    case False
    then show ?thesis
      using len by (simp add: fixed starts_with_def)
  qed
qed


lemma fix_write_mask_counts: "count_procs (map fix_write_mask ls) p = count_procs ls p"
  by (induction ls p rule: count_procs.induct) (simp_all add: fix_write_mask_proc)

lemma process_line_total:
  assumes "\<not> ENABLE_GS_RSP_CALL_INSTRUMENTED c"
  shows "\<exists>st'. process_line c rnd g raw st = Inr st'"
  using assms
  by (cases "sbind (startproc_stage c g (fix_write_mask raw)
                (deferred_trampoline g (fix_write_mask raw) st)) (endproc_stage g)")
     (simp_all add: process_line_def call_stage_def)

lemma process_lines_total:
  assumes "\<not> ENABLE_GS_RSP_CALL_INSTRUMENTED c"
  shows "\<exists>st'. process_lines c rnd g ls st = Inr st'"
proof (induction ls arbitrary: st)
  case Nil
  then show ?case by simp
next
  case (Cons l ls)
  then show ?case using process_line_total [OF assms] by (metis ebind_simps(2) process_lines.simps(2))
qed

text \<open>
  C24: the two passes over a rustc file agree: in a build that does not rewrite calls, a file that
  \<open>spa_is_rustc_pass_thru\<close> accepts for instrumentation is instrumented to the end, never stopped by the
  fatal mismatch of function starts and ends, under every scheme and every choice of the other
  options.  (A build that rewrites calls can stop at a call whose name it cannot read.)
\<close>

theorem accepted_rustc_file_is_instrumented:
  assumes "spa_is_rustc_pass_thru (\<lambda>_. Some content) (Some path) = Inr True"
    and "\<not> ENABLE_GS_RSP_CALL_INSTRUMENTED c"
  shows "\<exists>st. add_instrumentation c rnd g content = Inr st \<and> n_start st = n_end st \<and> n_start st > 0"
proof -
  obtain st where run: "process_lines c rnd g (file_lines content) init_instr_state = Inr st"
    using process_lines_total [OF assms(2)] by blast
  have "counts st = count_procs (file_lines content) (0, 0)"
    using process_lines_counts [OF run]
    by (simp add: fix_write_mask_counts) (simp add: counts_def init_instr_state_def)
  then have "n_start st = n_end st" "n_start st > 0"
    using assms(1) by (auto simp: spa_is_rustc_pass_thru_def counts_def split: prod.splits)
  with run show ?thesis by (simp add: add_instrumentation_def)
qed

theorem accepted_rustc_file_is_instrumented_witness:
  "\<exists>st. add_instrumentation default_config (\<lambda>_. 7) demo_globals
       (concat (function_lines demo_function)) = Inr st \<and> n_start st = n_end st \<and> n_start st > 0"
proof (rule accepted_rustc_file_is_instrumented [where path = "''f.s''"])
  show "spa_is_rustc_pass_thru (\<lambda>_. Some (concat (function_lines demo_function))) (Some ''f.s'') =
      Inr True"
    by (simp add: spa_is_rustc_pass_thru_def demo_lines)
       (simp add: function_lines_def demo_function_def starts_with_def asm_pattern_defs TAB_def NL_def)
qed (simp add: default_config_def)

end
