(* ===== verification/As_Driver.thy ===== *)
theory As_Driver
  imports Instrument_Spec
begin

section \<open>As_Driver: the assembler wrapper\<close>

text \<open>
  \<open>edit_params\<close> and \<open>main\<close> of \<open>afl-as.c\<close> (6723-6866, 7983-8070) on a 64-bit host that is not
  Apple's.  The process environment is a function from names to values, the file system a
  function from paths to contents; the process id, the clock, the terminal test of file
  descriptor 2, \<open>random()\<close> and the exit status of the real assembler are arguments.
\<close>

subsection \<open>edit_params\<close>

record as_world =
  w_env :: "string \<Rightarrow> string option"
  w_files :: "string \<Rightarrow> string option"
  w_pid :: nat
  w_time :: nat
  w_tty :: bool
  w_rnd :: "nat \<Rightarrow> nat"

record as_options =
  as_params :: "string list"
  opt_input_file :: "string option"
  modified_file :: string
  opt_pass_thru :: bool
  just_version :: bool
  opt_64bit :: bool

text \<open>The loop over \<open>argv[1..argc-2]\<close>: the parameters kept so far and the word size.\<close>

fun scan_args :: "string list \<Rightarrow> string list \<times> bool \<Rightarrow> string list \<times> bool" where
  "scan_args [] (ps, u) = (ps, u)"
| "scan_args (a # as) (ps, u) =
     scan_args as (ps @ [a], if a = ''--64'' then True else if a = ''--32'' then False else u)"

definition getenv_or :: "(string \<Rightarrow> string option) \<Rightarrow> string \<Rightarrow> string \<Rightarrow> string" where
  "getenv_or env name dflt = (case env name of Some v \<Rightarrow> v | None \<Rightarrow> dflt)"

definition tmp_dir_of :: "(string \<Rightarrow> string option) \<Rightarrow> string" where
  "tmp_dir_of env = getenv_or env ''TMPDIR'' (getenv_or env ''TEMP'' (getenv_or env ''TMP'' ''/tmp''))"

definition dotname :: "string \<Rightarrow> string" where
  "dotname f = map (\<lambda>ch. if ch = CHR 0x5C \<or> ch = CHR ''/'' then CHR ''.'' else ch) f"

definition modified_file_name :: "as_world \<Rightarrow> string \<Rightarrow> string" where
  "modified_file_name w f =
     tmp_dir_of (w_env w) @ ''/SPA-'' @ dec_nat (w_pid w) @ ''-'' @ dec_nat (w_time w mod 2 ^ 32) @
     ''-###'' @ dotname f @ ''###.s''"

definition looks_temporary :: "(string \<Rightarrow> string option) \<Rightarrow> string \<Rightarrow> bool" where
  "looks_temporary env f =
     (starts_with f (tmp_dir_of env) \<or> starts_with f ''/var/tmp/'' \<or> starts_with f ''/tmp/'')"

text \<open>
  After the loop: \<open>wrap_things_up\<close> with the modified file as last parameter.  A file name of \<open>-\<close>
  sets \<open>input_file\<close> to \<open>NULL\<close>, and the name for the modified file is then made from
  \<open>strlen(NULL)\<close>.
\<close>

definition edit_params :: "as_world \<Rightarrow> string list \<Rightarrow> fault + as_options" where
  "edit_params w argv =
     (let (ps, u) = scan_args (butlast (tl argv)) ([], True);
          as = getenv_or (w_env w) ''AFL_AS'' ''/usr/bin/as'';
          f = argv ! (length argv - 1);
          wrap = (\<lambda>inp m pt jv.
            \<lparr>as_params = as # ps @ [m], opt_input_file = inp, modified_file = m,
             opt_pass_thru = pt, just_version = jv, opt_64bit = u\<rparr>)
      in if char_at f 0 = CHR ''-''
         then (if f = ''--version'' then Inr (wrap (Some f) f False True)
               else if char_at f 1 \<noteq> NUL
               then Inl (Exited ''Incorrect use (not called through afl-gcc?)'')
               else ebind (spa_is_rustc_pass_thru (w_files w) None) (\<lambda>_. Inl (Segv 0)))
         else ebind (spa_is_rustc_pass_thru (w_files w) (Some f))
           (\<lambda>rust. Inr (wrap (Some f) (modified_file_name w f)
                         (\<not> looks_temporary (w_env w) f \<and> \<not> rust) False)))"

subsection \<open>main\<close>

text \<open>\<open>sscanf(s, "%u", &n)\<close>: white space, a sign, digits; \<open>None\<close> where nothing is converted.\<close>

definition scan_u :: "string \<Rightarrow> u32 option" where
  "scan_u s =
     (let s1 = dropWhile c_isspace s;
          neg = (char_at s1 0 = CHR ''-'');
          s2 = (if neg \<or> char_at s1 0 = CHR ''+'' then tl s1 else s1);
          ds = takeWhile c_isdigit s2;
          v = digits_value ds;
          x = (if v \<ge> 2 ^ 64 then - 1 else if neg then - of_nat v else of_nat v :: u64)
      in if ds = [] then None else Some (ucast x))"

definition has_env :: "as_world \<Rightarrow> string \<Rightarrow> bool" where
  "has_env w n = (w_env w n \<noteq> None)"

definition read_inst_ratio :: "as_world \<Rightarrow> fault + nat" where
  "read_inst_ratio w =
     (case w_env w ''AFL_INST_RATIO'' of
        None \<Rightarrow> Inr 100
      | Some s \<Rightarrow>
          (case scan_u s of
             None \<Rightarrow> Inl (Exited ''Bad value of AFL_INST_RATIO (must be between 0 and 100)'')
           | Some n \<Rightarrow>
               if unat n > 100
               then Inl (Exited ''Bad value of AFL_INST_RATIO (must be between 0 and 100)'')
               else Inr (unat n)))"

definition as_globals_of :: "as_world \<Rightarrow> string list \<Rightarrow> as_options \<Rightarrow> nat \<Rightarrow> string list \<Rightarrow> as_globals" where
  "as_globals_of w argv op ratio funcs =
     \<lparr>input_file = opt_input_file op,
      be_quiet = \<not> (w_tty w \<and> \<not> has_env w ''AFL_QUIET''),
      clang_mode = has_env w CLANG_ENV_VAR,
      pass_thru = opt_pass_thru op,
      sanitizer = has_env w ''AFL_USE_ASAN'' \<or> has_env w ''AFL_USE_MSAN'',
      inst_ratio = (if has_env w ''AFL_USE_ASAN'' \<or> has_env w ''AFL_USE_MSAN'' then ratio div 3 else ratio),
      use_64bit = opt_64bit op,
      with_64_bit_cmd_option = contains (argv ! 1) ''--64'',
      spa_protected_funcs = funcs,
      afl_harden = has_env w ''AFL_HARDEN''\<rparr>"

text \<open>Opening the files of \<open>add_instrumentation\<close>: the output must not exist.\<close>

definition run_instrumentation ::
  "build_config \<Rightarrow> as_world \<Rightarrow> as_globals \<Rightarrow> string \<Rightarrow> fault + string" where
  "run_instrumentation c w g modified =
     (case input_file g of
        None \<Rightarrow> Inl (Segv 0)
      | Some f \<Rightarrow>
          (case w_files w f of
             None \<Rightarrow> Inl (Exited ''Unable to read'')
           | Some content \<Rightarrow>
               if w_files w modified \<noteq> None then Inl (Exited ''Unable to write'')
               else ebind (add_instrumentation c (w_rnd w) g content) (\<lambda>st. Inr (written_file st))))"

text \<open>What a run of the wrapper does: the command it executes, the file it wrote, what it removed.\<close>

record as_result =
  executed :: "string list"
  wrote :: "(string \<times> string) option"
  removed :: "string option"

definition rewrite_and_assemble ::
  "build_config \<Rightarrow> as_world \<Rightarrow> as_options \<Rightarrow> as_globals \<Rightarrow> fault + as_result" where
  "rewrite_and_assemble c w op g =
     (let finish = (\<lambda>written.
            \<lparr>executed = as_params op, wrote = written,
             removed = (if has_env w ''AFL_KEEP_ASSEMBLY'' then None else Some (modified_file op))\<rparr>)
      in if just_version op then Inr (finish None)
         else ebind (run_instrumentation c w g (modified_file op))
           (\<lambda>txt. Inr (finish (Some (modified_file op, txt)))))"

definition as_main :: "build_config \<Rightarrow> as_world \<Rightarrow> string list \<Rightarrow> fault + as_result" where
  "as_main c w argv =
     (if length argv < 2 then Inl (Exited ''usage'')
      else
        ebind (edit_params w argv) (\<lambda>op.
        ebind (read_inst_ratio w) (\<lambda>ratio.
        if has_env w AS_LOOP_ENV_VAR then Inl (Exited ''Endless loop when calling as'')
        else
          ebind (spa_open_protected_funcs_list (w_files w) (w_env w SPA_PROTECTED_FUNCS_PATH_ENV))
            (\<lambda>funcs. rewrite_and_assemble c w op (as_globals_of w argv op ratio funcs)))))"

subsection \<open>Lemmas\<close>

lemma scan_args_eq:
  "scan_args as (ps, u) =
     (ps @ as, fold (\<lambda>a u. if a = ''--64'' then True else if a = ''--32'' then False else u) as u)"
  by (induction as arbitrary: ps u) simp_all

text \<open>The word size: the last of the two options decides.\<close>

definition last_size_option :: "string list \<Rightarrow> bool" where
  "last_size_option as =
     (case filter (\<lambda>a. a = ''--64'' \<or> a = ''--32'') as of
        [] \<Rightarrow> True
      | bs \<Rightarrow> last bs = ''--64'')"

lemma size_option_fold:
  "fold (\<lambda>a u. if a = ''--64'' then True else if a = ''--32'' then False else u) as u =
     (case filter (\<lambda>a. a = ''--64'' \<or> a = ''--32'') as of
        [] \<Rightarrow> u
      | bs \<Rightarrow> last bs = ''--64'')"
  by (induction as arbitrary: u) (auto split: list.splits)

lemma last_arg: "length argv \<ge> 2 \<Longrightarrow> argv ! (length argv - 1) = last argv"
  by (cases argv) (auto simp: last_conv_nth)

lemma edit_params_wrap:
  assumes "edit_params w argv = Inr op"
  shows "as_params op = getenv_or (w_env w) ''AFL_AS'' ''/usr/bin/as'' # butlast (tl argv) @ [modified_file op]"
    and "opt_64bit op = last_size_option (butlast (tl argv))"
    and "just_version op \<longleftrightarrow> argv ! (length argv - 1) = ''--version''"
    and "opt_input_file op = Some (argv ! (length argv - 1))"
  using assms
  by (auto simp: edit_params_def scan_args_eq size_option_fold last_size_option_def Let_def
      ebind_Inr_iff char_at_def split: if_splits)

subsection \<open>Properties\<close>

text \<open>
  The wrapper hands every parameter on: the command line of the real assembler is that of the
  wrapper, parameter by parameter and in order, with the assembler's name in front and the name
  of the rewritten file in place of the input file; it fits the array that was allocated for it,
  and the word size is that of the last \<open>--32\<close> or \<open>--64\<close> among the parameters.
\<close>

lemma wrapper_hands_parameters_on:
  assumes "edit_params w argv = Inr op" and "length argv \<ge> 2"
  shows "length (as_params op) = length argv \<and> length (as_params op) < length argv + 32 \<and>
    tl (butlast (as_params op)) = tl (butlast argv) \<and> last (as_params op) = modified_file op \<and>
    opt_64bit op = last_size_option (butlast (tl argv))"
proof -
  have "butlast (tl argv) = tl (butlast argv)" by (simp add: butlast_tl)
  moreover obtain n where "length argv = Suc (Suc n)"
    using assms(2) by (auto simp: numeral_2_eq_2 Suc_le_eq dest: less_imp_Suc_add)
  ultimately show ?thesis
    using edit_params_wrap(1,2) [OF assms(1)] by simp
qed

definition demo_world :: as_world where
  "demo_world =
     \<lparr>w_env = (\<lambda>n. if n = ''AFL_QUIET'' then Some ''1'' else None),
      w_files = (\<lambda>p. if p = ''/tmp/a.s'' then Some (concat (function_lines demo_function)) else None),
      w_pid = 7, w_time = 9, w_tty = True, w_rnd = (\<lambda>_. 0)\<rparr>"

definition demo_argv :: "string list" where
  "demo_argv = [''as'', ''--64'', ''-o'', ''a.o'', ''/tmp/a.s'']"

lemma demo_rustc:
  "spa_is_rustc_pass_thru (w_files demo_world) (Some ''/tmp/a.s'') = Inr True"
  by (simp add: spa_is_rustc_pass_thru_def demo_world_def demo_lines)
     (simp add: function_lines_def demo_function_def starts_with_def asm_pattern_defs TAB_def NL_def)

definition demo_options :: as_options where
  "demo_options =
     \<lparr>as_params = [''/usr/bin/as'', ''--64'', ''-o'', ''a.o'', ''/tmp/SPA-7-9-###.tmp.a.s###.s''],
      opt_input_file = Some ''/tmp/a.s'', modified_file = ''/tmp/SPA-7-9-###.tmp.a.s###.s'',
      opt_pass_thru = False, just_version = False, opt_64bit = True\<rparr>"

lemma demo_edit_params: "edit_params demo_world demo_argv = Inr demo_options"
  using demo_rustc
  by (simp add: edit_params_def demo_argv_def demo_options_def getenv_or_def tmp_dir_of_def
      modified_file_name_def dotname_def looks_temporary_def demo_world_def char_at_def
      starts_with_def print_simps)

lemma wrapper_hands_parameters_on_example:
  "length (as_params demo_options) = 5 \<and> last (as_params demo_options) = modified_file demo_options \<and>
   opt_64bit demo_options"
  using wrapper_hands_parameters_on [OF demo_edit_params]
  by (simp add: demo_argv_def last_size_option_def)

text \<open>
  The wrapper cannot read the assembly from its standard input: with \<open>-\<close> in place of the file
  name, which \<open>add_instrumentation\<close> is written to support, the process ends with an access to
  address 0 while the name of the output file is made.
\<close>

lemma standard_input_crashes:
  assumes "length argv \<ge> 2" and "last argv = ''-''"
  shows "as_main c w argv = Inl (Segv 0)"
  using assms last_arg [OF assms(1)]
  by (simp add: as_main_def edit_params_def char_at_def spa_is_rustc_pass_thru_def Let_def
      split: prod.split)

lemma standard_input_crashes_witness:
  "as_main default_config demo_world [''as'', ''--64'', ''-''] = Inl (Segv 0)"
  using standard_input_crashes [of "[''as'', ''--64'', ''-'']" default_config demo_world] by simp

text \<open>What a successful run that is not a version query has done.\<close>

lemma as_main_run:
  assumes "as_main c w argv = Inr r" and "last argv \<noteq> ''--version''"
  obtains op ratio funcs content st where "edit_params w argv = Inr op"
    "spa_open_protected_funcs_list (w_files w) (w_env w SPA_PROTECTED_FUNCS_PATH_ENV) = Inr funcs"
    "w_files w (last argv) = Some content" "w_files w (modified_file op) = None"
    "add_instrumentation c (w_rnd w) (as_globals_of w argv op ratio funcs) content = Inr st"
    "wrote r = Some (modified_file op, written_file st)" "executed r = as_params op"
    "removed r = (if has_env w ''AFL_KEEP_ASSEMBLY'' then None else Some (modified_file op))"
proof -
  have len: "length argv \<ge> 2" using assms(1) by (auto simp: as_main_def split: if_splits)
  obtain op ratio funcs where op: "edit_params w argv = Inr op"
    and funcs: "spa_open_protected_funcs_list (w_files w) (w_env w SPA_PROTECTED_FUNCS_PATH_ENV) = Inr funcs"
    and run: "rewrite_and_assemble c w op (as_globals_of w argv op ratio funcs) = Inr r"
    using assms(1) len by (auto simp: as_main_def ebind_Inr_iff split: if_splits)
  let ?g = "as_globals_of w argv op ratio funcs"
  have "\<not> just_version op" and inp: "opt_input_file op = Some (last argv)"
    using edit_params_wrap(3,4) [OF op] last_arg [OF len] assms(2) by simp_all
  then obtain body where body: "run_instrumentation c w ?g (modified_file op) = Inr body"
    and r: "r = \<lparr>executed = as_params op, wrote = Some (modified_file op, body),
              removed = (if has_env w ''AFL_KEEP_ASSEMBLY'' then None else Some (modified_file op))\<rparr>"
    using run by (auto simp: rewrite_and_assemble_def Let_def ebind_Inr_iff)
  have "input_file ?g = Some (last argv)" using inp by (simp add: as_globals_of_def)
  then obtain content st where "w_files w (last argv) = Some content"
    "w_files w (modified_file op) = None" "add_instrumentation c (w_rnd w) ?g content = Inr st"
    "body = written_file st"
    using body by (auto simp: run_instrumentation_def ebind_Inr_iff split: option.splits if_splits)
  with op funcs r show ?thesis by (intro that [of op funcs]) simp_all
qed

lemma edit_params_temporary:
  assumes "edit_params w argv = Inr op" and "length argv \<ge> 2" and "looks_temporary (w_env w) (last argv)"
  shows "\<not> opt_pass_thru op"
  using assms last_arg [OF assms(2)]
  by (auto simp: edit_params_def Let_def ebind_Inr_iff split: prod.splits if_splits)

text \<open>
  C17: end to end, from the command line to the assembler.  Let the wrapper be called, for 64 bits, on a
  temporary file of the compiler that holds a well-formed module and neutral lines after it.  A run that succeeds executes the
  real assembler on a file that did not exist before, and the instructions in it are those of the
  module with every function rewritten: entry sequence, exit sequences, and the calls of the functions
  in the list that the environment names.
\<close>

theorem wrapper_assembles_the_rewritten_file:
  assumes "as_main c w argv = Inr r" and "last argv \<noteq> ''--version''"
    and "last_size_option (butlast (tl argv))" and "looks_temporary (w_env w) (last argv)"
    and "w_files w (last argv) = Some content"
    and "file_lines content = concat (map function_lines fs) @ rest" and "well_formed_rest rest"
    and "spa_open_protected_funcs_list (w_files w) (w_env w SPA_PROTECTED_FUNCS_PATH_ENV) = Inr funcs"
    and "\<And>g. with_64_bit_cmd_option g = contains (argv ! 1) ''--64'' \<Longrightarrow> spa_protected_funcs g = funcs \<Longrightarrow>
           well_formed_module c g fs"
  shows "\<exists>g m ls last_lines.
    with_64_bit_cmd_option g = contains (argv ! 1) ''--64'' \<and> spa_protected_funcs g = funcs \<and>
    wrote r = Some (m, concat ls) \<and> w_files w m = None \<and> last (executed r) = m \<and>
    removed r \<in> {None, Some m} \<and>
    code_lines ls = code_lines (concat (map (rewrite_function c g) fs) @ map fix_write_mask rest) @ last_lines \<and>
    (last_lines = [] \<or> bc_scheme c = USE_SPA_SHADOW_STACK_PLUS_GLOBAL_RANDVAR \<and> last_lines = randval_section)"
proof -
  have len: "length argv \<ge> 2" using assms(1) by (auto simp: as_main_def split: if_splits)
  obtain op ratio st where op: "edit_params w argv = Inr op"
    and st: "w_files w (modified_file op) = None"
    "add_instrumentation c (w_rnd w) (as_globals_of w argv op ratio funcs) content = Inr st"
    and r: "wrote r = Some (modified_file op, written_file st)" "executed r = as_params op"
    "removed r = (if has_env w ''AFL_KEEP_ASSEMBLY'' then None else Some (modified_file op))"
    by (rule as_main_run [OF assms(1,2)]) (use assms(5,8) in auto)
  let ?g = "as_globals_of w argv op ratio funcs"
  have g: "with_64_bit_cmd_option ?g = contains (argv ! 1) ''--64''" "spa_protected_funcs ?g = funcs"
    "\<not> pass_thru ?g" "use_64bit ?g"
    using edit_params_temporary [OF op len assms(4)] edit_params_wrap(2) [OF op] assms(3)
    by (simp_all add: as_globals_of_def)
  let ?tail = "if is_main_exe st \<and> bc_scheme c = USE_SPA_SHADOW_STACK_PLUS_GLOBAL_RANDVAR then randval_section else []"
  have out: "code_lines (out st) =
      code_lines (concat (map (rewrite_function c ?g) fs) @ map fix_write_mask rest) @ ?tail"
    using add_instrumentation_rewrites [OF g(3,4) assms(9) [OF g(1,2)] assms(7,6), of "w_rnd w"] st(2) by simp
  have wrote: "wrote r = Some (modified_file op, concat (out st))" using r(1) by (simp add: written_file_def)
  have last: "last (executed r) = modified_file op" by (simp add: r(2) edit_params_wrap(1) [OF op])
  have removed: "removed r \<in> {None, Some (modified_file op)}" by (simp add: r(3))
  have tail: "?tail = [] \<or> bc_scheme c = USE_SPA_SHADOW_STACK_PLUS_GLOBAL_RANDVAR \<and> ?tail = randval_section" by simp
  from g(1,2) wrote st(1) last removed out tail show ?thesis by blast
qed


lemma demo_main_runs: "\<exists>r. as_main default_config demo_world demo_argv = Inr r"
proof -
  let ?op = demo_options
  let ?g = "as_globals_of demo_world demo_argv ?op 100 []"
  obtain st where "process_lines default_config (w_rnd demo_world) ?g
      (file_lines (concat (function_lines demo_function))) init_instr_state = Inr st"
    using process_lines_total [of default_config "w_rnd demo_world" ?g] by (auto simp: default_config_def)
  then have "add_instrumentation default_config (w_rnd demo_world) ?g
      (concat (function_lines demo_function)) = Inr (emit (trailer default_config ?g st) st)"
    by (simp add: add_instrumentation_def as_globals_of_def demo_world_def has_env_def)
  moreover have "input_file ?g = Some ''/tmp/a.s''" "\<not> just_version ?op"
    by (simp_all add: as_globals_of_def demo_options_def)
  moreover have "w_files demo_world ''/tmp/a.s'' = Some (concat (function_lines demo_function))"
    "w_files demo_world (modified_file ?op) = None" "w_env demo_world ''AFL_INST_RATIO'' = None"
    "w_env demo_world ''__AFL_AS_LOOPCHECK'' = None"
    "w_env demo_world ''__SPA_PROTECTED_FUNCS_PATH'' = None" "length demo_argv = 5"
    by (simp_all add: demo_world_def demo_options_def demo_argv_def)
  ultimately show ?thesis
    by (simp add: as_main_def demo_edit_params read_inst_ratio_def has_env_def AS_LOOP_ENV_VAR_def
        SPA_PROTECTED_FUNCS_PATH_ENV_def spa_open_protected_funcs_list_def rewrite_and_assemble_def
        run_instrumentation_def)
qed


theorem wrapper_assembles_the_rewritten_file_witness:
  "\<exists>r g m ls. as_main default_config demo_world demo_argv = Inr r \<and> wrote r = Some (m, concat ls) \<and>
     code_lines ls = code_lines (rewrite_function default_config g demo_function)"
proof -
  obtain r where r: "as_main default_config demo_world demo_argv = Inr r"
    using demo_main_runs by blast
  have a: "last demo_argv \<noteq> ''--version''" "last_size_option (butlast (tl demo_argv))"
    "last demo_argv = ''/tmp/a.s''"
    by (simp_all add: demo_argv_def last_size_option_def)
  have f: "w_files demo_world (last demo_argv) = Some (concat (function_lines demo_function))"
    "looks_temporary (w_env demo_world) (last demo_argv)"
    "spa_open_protected_funcs_list (w_files demo_world) (w_env demo_world SPA_PROTECTED_FUNCS_PATH_ENV) = Inr []"
    by (simp_all add: a(3) demo_world_def looks_temporary_def tmp_dir_of_def getenv_or_def starts_with_def
        spa_open_protected_funcs_list_def SPA_PROTECTED_FUNCS_PATH_ENV_def)
  have lines: "file_lines (concat (function_lines demo_function)) = concat (map function_lines [demo_function]) @ []"
    using demo_lines by simp
  have rest: "well_formed_rest []" by (simp add: well_formed_rest_def)
  from wrapper_assembles_the_rewritten_file [OF r a(1,2) f(2,1) lines rest f(3) demo_module]
  obtain g m ls xs where "wrote r = Some (m, concat ls)"
    "code_lines ls = code_lines (concat (map (rewrite_function default_config g) [demo_function]) @ map fix_write_mask []) @ xs"
    "xs = [] \<or> bc_scheme default_config = USE_SPA_SHADOW_STACK_PLUS_GLOBAL_RANDVAR \<and> xs = randval_section"
    by blast
  then have "wrote r = Some (m, concat ls)" "code_lines ls = code_lines (rewrite_function default_config g demo_function)"
    by (simp_all add: default_config_def)
  with r show ?thesis by blast
qed

end
