(* ===== verification/Cc_Driver.thy ===== *)
theory Cc_Driver
  imports As_Driver
begin

section \<open>Cc_Driver: the compiler wrappers\<close>

text \<open>
  \<open>find_as\<close>, \<open>edit_params\<close> and \<open>main\<close> of \<open>afl-gcc.c\<close> (75-124, 129-373, 378-412), and the two
  functions of \<open>afl-rustc.c\<close> (32-67, 72-95), built on Linux.  The environment is a function,
  \<open>executable p\<close> says that \<open>access(p, X_OK)\<close> succeeds, and the two directories that the makefile
  compiles in are fields of the build.
\<close>

record cc_world =
  cw_env :: "string \<Rightarrow> string option"
  executable :: "string \<Rightarrow> bool"
  cw_tty :: bool
  AFL_PATH :: string
  LIB_PATH :: string

definition has_cc_env :: "cc_world \<Rightarrow> string \<Rightarrow> bool" where
  "has_cc_env w n = (cw_env w n \<noteq> None)"

subsection \<open>find_as\<close>

definition find_as :: "cc_world \<Rightarrow> string \<Rightarrow> fault + string" where
  "find_as w argv0 =
     (let last_resort =
            (if executable w (AFL_PATH w @ ''/as'') then Inr (AFL_PATH w)
             else Inl (Exited ''Unable to find AFL wrapper binary for as''));
          by_name =
            (case c_strrchr argv0 CHR ''/'' of
               None \<Rightarrow> last_resort
             | Some i \<Rightarrow>
                 if executable w (take i argv0 @ ''/afl-as'') then Inr (take i argv0) else last_resort)
      in case cw_env w ''AFL_PATH'' of
           None \<Rightarrow> by_name
         | Some p \<Rightarrow> if executable w (p @ ''/as'') then Inr p else by_name)"

subsection \<open>edit_params of afl-gcc\<close>

record cc_scan =
  kept :: "string list"
  is_so :: bool
  asan_set :: bool
  fortify_set :: bool

definition base_name :: "string \<Rightarrow> string" where
  "base_name p = (case c_strrchr p CHR ''/'' of None \<Rightarrow> p | Some i \<Rightarrow> drop (Suc i) p)"

definition is_clang_name :: "string \<Rightarrow> bool" where
  "is_clang_name name = (starts_with name ''afl-clang'' \<or> starts_with name ''spa-clang'')"

definition compiler_of :: "cc_world \<Rightarrow> string \<Rightarrow> string" where
  "compiler_of w name =
     (if is_clang_name name
      then (if name = ''afl-clang++'' \<or> name = ''spa-clang++''
            then getenv_or (cw_env w) ''AFL_CXX'' ''clang++''
            else getenv_or (cw_env w) ''AFL_CC'' ''clang'')
      else if name = ''afl-g++'' then getenv_or (cw_env w) ''AFL_CXX'' ''g++''
      else if name = ''afl-gcj'' then getenv_or (cw_env w) ''AFL_GCJ'' ''gcj''
      else getenv_or (cw_env w) ''AFL_CC'' ''gcc'')"

text \<open>The name of the output file that a \<open>-o\<close> option gives, and the test for a shared object.\<close>

definition output_name :: "string \<Rightarrow> string list \<Rightarrow> string option" where
  "output_name cur rest =
     (if drop 2 cur \<noteq> [] then Some (drop 2 cur) else if rest \<noteq> [] then Some (hd rest) else None)"

definition is_so_name :: "string \<Rightarrow> bool" where
  "is_so_name p = (case c_strrchr p CHR ''.'' of None \<Rightarrow> False | Some i \<Rightarrow> drop i p = ''.so'')"

definition note_shared :: "string \<Rightarrow> string list \<Rightarrow> cc_scan \<Rightarrow> cc_scan" where
  "note_shared cur rest s =
     (let s1 = (if starts_with cur ''-shared'' then s\<lparr>is_so := True\<rparr> else s)
      in if \<not> is_so s1 \<and> starts_with cur ''-o''
         then (case output_name cur rest of
                 None \<Rightarrow> s1
               | Some p \<Rightarrow> if is_so_name p then s1\<lparr>is_so := True\<rparr> else s1)
         else s1)"

definition keep_param :: "string \<Rightarrow> cc_scan \<Rightarrow> cc_scan" where
  "keep_param cur s =
     s\<lparr>asan_set := (asan_set s \<or> cur = ''-fsanitize=address'' \<or> cur = ''-fsanitize=memory''),
       fortify_set := (fortify_set s \<or> contains cur ''FORTIFY_SOURCE''),
       kept := kept s @ [cur]\<rparr>"

fun scan_cc_args :: "string list \<Rightarrow> cc_scan \<Rightarrow> cc_scan" where
  "scan_cc_args [] s = s"
| "scan_cc_args (cur # rest) s =
     (if starts_with cur ''-B''
      then scan_cc_args (if drop 2 cur = [] then drop 1 rest else rest) s
      else if cur = ''-integrated-as'' \<or> cur = ''-pipe''
      then scan_cc_args rest (note_shared cur rest s)
      else scan_cc_args rest (keep_param cur (note_shared cur rest s)))"

definition no_builtin_params :: "string list" where
  "no_builtin_params =
     [''-fno-builtin-strcmp'', ''-fno-builtin-strncmp'', ''-fno-builtin-strcasecmp'',
      ''-fno-builtin-strncasecmp'', ''-fno-builtin-memcmp'', ''-fno-builtin-strstr'',
      ''-fno-builtin-strcasestr'']"

definition runtime_params :: "build_config \<Rightarrow> cc_world \<Rightarrow> string list" where
  "runtime_params c w =
     (let lib = (\<lambda>l. [''-Wl,-L='' @ LIB_PATH w, ''-Wl,-l'' @ l, ''-Wl,-rpath='' @ LIB_PATH w])
      in if bc_scheme c = USE_SPA_BUDDY_STACK_TLS_WITH_STK_SIZE then lib ''bustk''
         else if bc_scheme c = USE_SPA_FS_GS_TLS
         then lib ''fsgs'' @ [''-Wno-unused-command-line-argument'']
         else if bc_scheme c = USE_SPA_GS_RSP
         then lib ''gsrsp'' @ [''-Wno-unused-command-line-argument'']
         else [])"

text \<open>
  The sanitizer parameters.  The second test for both sanitizers at once stands in a branch that
  is only taken without \<open>AFL_USE_ASAN\<close>.
\<close>

definition sanitizer_params :: "cc_world \<Rightarrow> bool \<Rightarrow> fault + string list" where
  "sanitizer_params w asan =
     (if asan then Inr []
      else if has_cc_env w ''AFL_USE_ASAN''
      then (if has_cc_env w ''AFL_USE_MSAN''
            then Inl (Exited ''ASAN and MSAN are mutually exclusive'')
            else if has_cc_env w ''AFL_HARDEN''
            then Inl (Exited ''ASAN and AFL_HARDEN are mutually exclusive'')
            else Inr [''-U_FORTIFY_SOURCE'', ''-fsanitize=address''])
      else if has_cc_env w ''AFL_USE_MSAN''
      then (if has_cc_env w ''AFL_USE_ASAN''
            then Inl (Exited ''ASAN and MSAN are mutually exclusive'')
            else if has_cc_env w ''AFL_HARDEN''
            then Inl (Exited ''MSAN and AFL_HARDEN are mutually exclusive'')
            else Inr [''-U_FORTIFY_SOURCE'', ''-fsanitize=memory''])
      else Inr [])"

text \<open>The parameters of the compiler and the variables set in its environment.\<close>

record cc_command =
  cc_params :: "string list"
  env_set :: "(string \<times> string) list"

definition appended_params ::
  "build_config \<Rightarrow> cc_world \<Rightarrow> bool \<Rightarrow> bool \<Rightarrow> string list \<Rightarrow> string list" where
  "appended_params c w clang fortify san =
     (if clang then [''-no-integrated-as''] else []) @
     (if has_cc_env w ''AFL_HARDEN''
      then ''-fstack-protector-all'' # (if \<not> fortify then [''-D_FORTIFY_SOURCE=2''] else [])
      else []) @
     san @
     (if has_cc_env w ''AFL_NO_BUILTIN'' then no_builtin_params else []) @
     runtime_params c w"

definition cc_scan_of :: "string list \<Rightarrow> cc_scan" where
  "cc_scan_of args =
     scan_cc_args args \<lparr>kept = [], is_so = False, asan_set = False, fortify_set = False\<rparr>"

definition cc_edit_params ::
  "build_config \<Rightarrow> cc_world \<Rightarrow> string \<Rightarrow> string list \<Rightarrow> fault + cc_command" where
  "cc_edit_params c w as_path argv =
     (let name = base_name (hd argv);
          clang = is_clang_name name;
          s = cc_scan_of (tl argv)
      in ebind (sanitizer_params w (asan_set s))
        (\<lambda>san. Inr
          \<lparr>cc_params =
             [compiler_of w name] @ kept s @ [''-B'', as_path] @
             appended_params c w clang (fortify_set s) san,
           env_set =
             (if clang then [(CLANG_ENV_VAR, ''1'')] else []) @
             (if asan_set s then [(''AFL_USE_ASAN'', ''1'')] else [])\<rparr>))"

definition cc_main :: "build_config \<Rightarrow> cc_world \<Rightarrow> string list \<Rightarrow> fault + cc_command" where
  "cc_main c w argv =
     (if length argv < 2 then Inl (Exited ''usage'')
      else ebind (find_as w (hd argv)) (\<lambda>as_path. cc_edit_params c w as_path argv))"

subsection \<open>afl-rustc\<close>

definition rustc_edit_params :: "build_config \<Rightarrow> cc_world \<Rightarrow> string list \<Rightarrow> string list" where
  "rustc_edit_params c w argv =
     getenv_or (cw_env w) ''AFL_RUSTC'' ''/usr/bin/rustc'' # tl argv @ [''-C'', ''no-integrated-as''] @
     (if bc_scheme c = USE_SPA_BUDDY_STACK_TLS_WITH_STK_SIZE
      then [''-L='' @ LIB_PATH w, ''-lbustk'', ''-C'', ''link-args=-Wl,-rpath='' @ LIB_PATH w]
      else [])"

definition rustc_main :: "build_config \<Rightarrow> cc_world \<Rightarrow> string list \<Rightarrow> fault + string list" where
  "rustc_main c w argv =
     (if length argv < 2 then Inl (Exited ''usage'') else Inr (rustc_edit_params c w argv))"

subsection \<open>Lemmas\<close>

definition dropped_param :: "string \<Rightarrow> bool" where
  "dropped_param p = (starts_with p ''-B'' \<or> p = ''-integrated-as'' \<or> p = ''-pipe'')"

lemma kept_simps [simp]:
  "kept (note_shared cur rest s) = kept s"
  "kept (keep_param cur s) = kept s @ [cur]"
  by (simp_all add: note_shared_def keep_param_def Let_def split: option.split)

definition keeps :: "string list \<Rightarrow> string list \<Rightarrow> bool" where
  "keeps ks args = (subseq ks args \<and> (\<forall>k \<in> set ks. \<not> dropped_param k))"

lemma keeps_drop: "keeps ks rest \<Longrightarrow> keeps ks (cur # rest)"
  and keeps_Cons: "keeps ks rest \<Longrightarrow> \<not> dropped_param cur \<Longrightarrow> keeps (cur # ks) (cur # rest)"
  by (auto simp: keeps_def)

lemma keeps_drop2: "keeps ks (drop (Suc 0) rest) \<Longrightarrow> keeps ks (cur # rest)"
  by (cases rest) (auto simp: keeps_def)

lemma scan_cc_kept: "\<exists>ks. kept (scan_cc_args args s) = kept s @ ks \<and> keeps ks args"
proof (induction args s rule: scan_cc_args.induct)
  case (1 s)
  then show ?case by (simp add: keeps_def)
next
  case (2 cur rest s)
  consider (B) "starts_with cur ''-B''"
    | (skip) "\<not> starts_with cur ''-B''" "cur = ''-integrated-as'' \<or> cur = ''-pipe''"
    | (keep) "\<not> dropped_param cur"
    by (auto simp: dropped_param_def)
  then show ?case
  proof cases
    case B
    with "2.IH"(1) show ?thesis by (auto intro: keeps_drop keeps_drop2 split: if_splits)
  next
    case skip
    from "2.IH"(2) [OF this] obtain ks
      where "kept (scan_cc_args rest (note_shared cur rest s)) = kept s @ ks" "keeps ks rest"
      by auto
    with skip show ?thesis by (auto intro: keeps_drop)
  next
    case keep
    then have n: "\<not> starts_with cur ''-B''" "\<not> (cur = ''-integrated-as'' \<or> cur = ''-pipe'')"
      by (simp_all add: dropped_param_def)
    from "2.IH"(3) [OF n] obtain ks
      where "kept (scan_cc_args rest (keep_param cur (note_shared cur rest s))) = kept s @ [cur] @ ks"
        "keeps ks rest"
      by auto
    with keep n show ?thesis by (auto intro: keeps_Cons)
  qed
qed

lemma scan_of_kept: "keeps (kept (cc_scan_of args)) args"
proof -
  let ?s = "\<lparr>kept = [], is_so = False, asan_set = False, fortify_set = False\<rparr>"
  obtain ks where "kept (scan_cc_args args ?s) = kept ?s @ ks" "keeps ks args"
    using scan_cc_kept by blast
  then show ?thesis by (simp add: cc_scan_of_def)
qed

lemma scan_cc_plain:
  "\<forall>a \<in> set args. \<not> starts_with a ''-B'' \<Longrightarrow>
   kept (scan_cc_args args s) = kept s @ filter (\<lambda>a. \<not> dropped_param a) args"
  by (induction args arbitrary: s) (auto simp: dropped_param_def)

lemma extra_params:
  assumes "sanitizer_params w a = Inr san"
  shows "length san \<le> 2" "\<forall>p \<in> set san. \<not> dropped_param p"
  using assms
  by (auto simp: sanitizer_params_def dropped_param_def starts_with_def split: if_splits)

lemma runtime_extra:
  "length (runtime_params c w) \<le> 4" "\<forall>p \<in> set (runtime_params c w). \<not> dropped_param p"
  by (auto simp: runtime_params_def dropped_param_def starts_with_def Let_def)

lemma no_builtin_extra: "\<forall>p \<in> set no_builtin_params. \<not> dropped_param p"
  by (simp add: no_builtin_params_def dropped_param_def starts_with_def)

lemma fixed_extra:
  "\<not> dropped_param ''-no-integrated-as''" "\<not> dropped_param ''-fstack-protector-all''"
  "\<not> dropped_param ''-D_FORTIFY_SOURCE=2''"
  by (simp_all add: dropped_param_def starts_with_def)

lemma appended_extra:
  assumes "sanitizer_params w a = Inr san"
  shows "length (appended_params c w clang fortify san) \<le> 16"
    and "\<forall>p \<in> set (appended_params c w clang fortify san). \<not> dropped_param p"
proof -
  show "length (appended_params c w clang fortify san) \<le> 16"
    using extra_params(1) [OF assms] runtime_extra(1) [of c w]
    by (simp add: appended_params_def no_builtin_params_def)
  show "\<forall>p \<in> set (appended_params c w clang fortify san). \<not> dropped_param p"
    using extra_params(2) [OF assms] runtime_extra(2) [of c w] no_builtin_extra fixed_extra
    by (simp add: appended_params_def ball_Un) blast
qed

subsection \<open>Properties\<close>

text \<open>
  C22: the compiler wrapper always routes assembly through the wrapped assembler: the command it
  executes is the compiler, a subsequence of the given parameters without any \<open>-B\<close>,
  \<open>-integrated-as\<close> or \<open>-pipe\<close>, then \<open>-B\<close> with the directory found, then parameters none of
  which is a \<open>-B\<close>, \<open>-integrated-as\<close> or \<open>-pipe\<close>; and it fits the array of \<open>argc + 128\<close> pointers
  with its terminating null pointer.
\<close>

theorem compiler_uses_the_wrapped_assembler:
  assumes "cc_edit_params c w as_path argv = Inr cmd" and "argv \<noteq> []"
  shows "\<exists>cc ks extra. cc_params cmd = cc # ks @ [''-B'', as_path] @ extra \<and>
     subseq ks (tl argv) \<and> (\<forall>p \<in> set (ks @ extra). \<not> dropped_param p) \<and>
     length (cc_params cmd) + 1 \<le> length argv + 128"
proof -
  let ?s = "cc_scan_of (tl argv)"
  obtain san where san: "sanitizer_params w (asan_set ?s) = Inr san"
    using assms(1) by (auto simp: cc_edit_params_def Let_def ebind_Inr_iff)
  define extra where
    "extra = appended_params c w (is_clang_name (base_name (hd argv))) (fortify_set ?s) san"
  obtain ks where ks: "kept ?s = ks" "keeps ks (tl argv)"
    using scan_of_kept by blast
  have cmd: "cc_params cmd = compiler_of w (base_name (hd argv)) # ks @ [''-B'', as_path] @ extra"
    using assms(1) by (auto simp: cc_edit_params_def Let_def san ks(1) extra_def)
  have "length ks \<le> length (tl argv)"
    using ks(2) list_emb_length [of "(=)" ks "tl argv"] by (simp add: keeps_def)
  moreover have "length extra \<le> 16" and e: "\<forall>p \<in> set extra. \<not> dropped_param p"
    using appended_extra [OF san] by (simp_all add: extra_def)
  moreover have "length (cc_params cmd) = length ks + 3 + length extra"
    unfolding cmd by simp
  moreover have "length (tl argv) + 1 = length argv" using assms(2) by simp
  ultimately have "length (cc_params cmd) + 1 \<le> length argv + 128" by linarith
  moreover have "subseq ks (tl argv)" "\<forall>p \<in> set (ks @ extra). \<not> dropped_param p"
    using ks(2) e by (auto simp: keeps_def)
  ultimately show ?thesis
    using cmd by blast
qed

definition demo_cc_world :: cc_world where
  "demo_cc_world =
     \<lparr>cw_env = (\<lambda>_. None), executable = (\<lambda>p. p = ''/opt/spa/afl-as''), cw_tty = False,
      AFL_PATH = ''/opt/spa'', LIB_PATH = ''/opt/spa''\<rparr>"


definition demo_cc_command :: cc_command where
  "demo_cc_command =
     \<lparr>cc_params =
        [''clang'', ''-c'', ''a.c'', ''-B'', ''/opt/spa'', ''-no-integrated-as'',
         ''-Wl,-L=/opt/spa'', ''-Wl,-lgsrsp'', ''-Wl,-rpath=/opt/spa'',
         ''-Wno-unused-command-line-argument''],
      env_set = [(CLANG_ENV_VAR, ''1'')]\<rparr>"

lemma demo_cc_run:
  "cc_edit_params default_config demo_cc_world ''/opt/spa''
     [''/opt/spa/spa-clang'', ''-c'', ''-pipe'', ''-B'', ''/evil'', ''a.c''] = Inr demo_cc_command"
  by (simp add: cc_edit_params_def cc_scan_of_def demo_cc_command_def demo_cc_world_def base_name_def
      is_clang_name_def compiler_of_def getenv_or_def sanitizer_params_def has_cc_env_def
      appended_params_def runtime_params_def default_config_def starts_with_def note_shared_def
      keep_param_def contains_def)

theorem compiler_uses_the_wrapped_assembler_witness:
  "length (cc_params demo_cc_command) + 1 \<le> 6 + 128 \<and>
   (\<exists>cc ks extra. cc_params demo_cc_command = cc # ks @ [''-B'', ''/opt/spa''] @ extra \<and>
      subseq ks [''-c'', ''-pipe'', ''-B'', ''/evil'', ''a.c''])"
  using compiler_uses_the_wrapped_assembler [OF demo_cc_run] by auto

text \<open>
  Where no parameter is a \<open>-B\<close>, nothing else is lost: the compiler gets every given parameter
  but \<open>-integrated-as\<close> and \<open>-pipe\<close>, in order; and \<open>rustc\<close> always gets all of its parameters in
  order, with its integrated assembler switched off.
\<close>

lemma compilers_get_their_parameters:
  assumes "\<forall>a \<in> set (tl argv). \<not> starts_with a ''-B''"
  shows "kept (cc_scan_of (tl argv)) =
       filter (\<lambda>a. a \<noteq> ''-integrated-as'' \<and> a \<noteq> ''-pipe'') (tl argv) \<and>
     (\<exists>extra. tl (rustc_edit_params c w argv) = tl argv @ [''-C'', ''no-integrated-as''] @ extra)"
proof -
  have "filter (\<lambda>a. \<not> dropped_param a) (tl argv) =
      filter (\<lambda>a. a \<noteq> ''-integrated-as'' \<and> a \<noteq> ''-pipe'') (tl argv)"
    using assms by (intro filter_cong) (auto simp: dropped_param_def)
  with scan_cc_plain [OF assms] show ?thesis
    by (simp add: rustc_edit_params_def cc_scan_of_def)
qed

text \<open>
  The directory that \<open>find_as\<close> chooses holds an executable assembler wrapper, and without one
  the wrapper stops before it runs the compiler.
\<close>

lemma find_as_finds_an_executable:
  "case find_as w argv0 of
     Inr dir \<Rightarrow> executable w (dir @ ''/as'') \<or> executable w (dir @ ''/afl-as'')
   | Inl f \<Rightarrow> f = Exited ''Unable to find AFL wrapper binary for as'' \<and>
       \<not> executable w (AFL_PATH w @ ''/as'')"
  by (simp add: find_as_def Let_def split: option.split)

end
