(* ===== verification/Kernel.thy ===== *)
theory Kernel
  imports Spa
begin

section \<open>Kernel: the memory of the process and the system calls the runtimes use\<close>

text \<open>
  The runtime libraries (\<open>gs.rsp.c\<close>, \<open>fsgs.c\<close>, \<open>buddy_tls.c\<close>, \<open>simd_rand.c\<close>) read and write
  8-byte longs and call \<open>mmap\<close>, \<open>munmap\<close>, \<open>mremap\<close>, \<open>mprotect\<close>, \<open>arch_prctl\<close>, \<open>rdrand\<close> and
  \<open>rdtsc\<close>.  The kernel and the processor are not part of the repository: what they answer is a
  parameter, a value of \<open>kernel\<close> that gives for the n-th call the outcome (an address or
  \<open>MAP_FAILED\<close>, success or failure, a random number, a clock value).  What a successful call
  does to the memory of the process is the documented effect of the call.

  Memory is a map from the address of an 8-byte cell to its value, with the access right of each
  address; accesses of the sources are to 8-byte aligned longs, so cells do not overlap.
\<close>

datatype prot = PROT_READ | PROT_RW

instantiation prot :: linorder
begin

definition less_eq_prot :: "prot \<Rightarrow> prot \<Rightarrow> bool" where
  "less_eq_prot p q \<longleftrightarrow> p = PROT_READ \<or> q = PROT_RW"

definition less_prot :: "prot \<Rightarrow> prot \<Rightarrow> bool" where
  "less_prot p q \<longleftrightarrow> p = PROT_READ \<and> q = PROT_RW"

instance
proof
  fix x y z :: prot
  show "(x < y) = (x \<le> y \<and> \<not> y \<le> x)"
    by (cases x; cases y) (simp_all add: less_eq_prot_def less_prot_def)
  show "x \<le> x" by (cases x) (simp_all add: less_eq_prot_def)
  show "x \<le> y \<Longrightarrow> y \<le> z \<Longrightarrow> x \<le> z" by (auto simp: less_eq_prot_def)
  show "x \<le> y \<Longrightarrow> y \<le> x \<Longrightarrow> x = y" by (auto simp: less_eq_prot_def)
  show "x \<le> y \<or> y \<le> x" by (cases x; cases y) (simp_all add: less_eq_prot_def)
qed

end

record vm =
  cells :: "addr \<Rightarrow> u64"
  prot_of :: "addr \<Rightarrow> prot option"

definition load :: "vm \<Rightarrow> addr \<Rightarrow> fault + u64" where
  "load m a = (case prot_of m a of None \<Rightarrow> Inl (Segv a) | Some p \<Rightarrow> Inr (cells m a))"

definition store :: "vm \<Rightarrow> addr \<Rightarrow> u64 \<Rightarrow> fault + vm" where
  "store m a v =
     (case prot_of m a of
        None \<Rightarrow> Inl (Segv a)
      | Some p \<Rightarrow> if PROT_RW \<le> p then Inr (m\<lparr>cells := (cells m)(a := v)\<rparr>) else Inl (Segv a))"

text \<open>The address range \<open>[p, p + len)\<close>; an address is in it when its distance from \<open>p\<close> is below \<open>len\<close>.\<close>

definition in_region :: "addr \<Rightarrow> u64 \<Rightarrow> addr \<Rightarrow> bool" where
  "in_region p len x = (x - p < len)"

definition vm_map :: "addr \<Rightarrow> u64 \<Rightarrow> vm \<Rightarrow> vm" where
  "vm_map p len m =
     m\<lparr>cells := (\<lambda>x. if in_region p len x then 0 else cells m x),
       prot_of := (\<lambda>x. if in_region p len x then Some PROT_RW else prot_of m x)\<rparr>"

definition vm_unmap :: "addr \<Rightarrow> u64 \<Rightarrow> vm \<Rightarrow> vm" where
  "vm_unmap p len m = m\<lparr>prot_of := (\<lambda>x. if in_region p len x then None else prot_of m x)\<rparr>"

definition vm_protect :: "addr \<Rightarrow> u64 \<Rightarrow> prot \<Rightarrow> vm \<Rightarrow> vm" where
  "vm_protect p len pr m =
     m\<lparr>prot_of := (\<lambda>x. if in_region p len x then map_option (\<lambda>_. pr) (prot_of m x) else prot_of m x)\<rparr>"

text \<open>\<open>mremap(old, len, len, MREMAP_MAYMOVE | MREMAP_FIXED, new)\<close> moves the pages of \<open>old\<close>.\<close>

definition vm_move :: "addr \<Rightarrow> u64 \<Rightarrow> addr \<Rightarrow> vm \<Rightarrow> vm" where
  "vm_move old len new m =
     m\<lparr>cells := (\<lambda>x. if in_region new len x then cells m (x - new + old) else cells m x),
       prot_of := (\<lambda>x. if in_region new len x then prot_of m (x - new + old)
                        else if in_region old len x then None else prot_of m x)\<rparr>"

subsection \<open>Answers of the kernel and the processor\<close>

record kernel =
  k_rdrand :: "nat \<Rightarrow> u64"
  k_rdtsc :: "nat \<Rightarrow> u64"
  k_mmap :: "nat \<Rightarrow> vm \<Rightarrow> addr \<Rightarrow> u64 \<Rightarrow> addr option"
  k_mremap :: "nat \<Rightarrow> bool"
  k_set_gs :: "nat \<Rightarrow> bool"
  k_get_gs :: "nat \<Rightarrow> bool"

text \<open>
  The state every runtime keeps: the memory, the GS base register of the thread and the number
  of calls answered so far.  The runtimes extend it with their own variables.
\<close>

record os_state =
  vmem :: vm
  gs_base :: u64
  tick :: nat

definition sys_rdrand :: "kernel \<Rightarrow> 'a os_state_scheme \<Rightarrow> u64 \<times> 'a os_state_scheme" where
  "sys_rdrand k s = (k_rdrand k (tick s), s\<lparr>tick := Suc (tick s)\<rparr>)"

definition sys_rdtsc :: "kernel \<Rightarrow> 'a os_state_scheme \<Rightarrow> u64 \<times> 'a os_state_scheme" where
  "sys_rdtsc k s = (k_rdtsc k (tick s), s\<lparr>tick := Suc (tick s)\<rparr>)"

definition sys_mmap ::
  "kernel \<Rightarrow> addr \<Rightarrow> u64 \<Rightarrow> 'a os_state_scheme \<Rightarrow> addr option \<times> 'a os_state_scheme" where
  "sys_mmap k hint len s =
     (case k_mmap k (tick s) (vmem s) hint len of
        None \<Rightarrow> (None, s\<lparr>tick := Suc (tick s)\<rparr>)
      | Some p \<Rightarrow> (Some p, s\<lparr>tick := Suc (tick s), vmem := vm_map p len (vmem s)\<rparr>))"

definition sys_munmap :: "addr \<Rightarrow> u64 \<Rightarrow> 'a os_state_scheme \<Rightarrow> 'a os_state_scheme" where
  "sys_munmap p len s = s\<lparr>vmem := vm_unmap p len (vmem s)\<rparr>"

text \<open>
  The sources call \<open>mprotect\<close> for one page and do not look at its result; an address that is not
  the start of a page is refused.
\<close>

definition sys_mprotect :: "addr \<Rightarrow> u64 \<Rightarrow> prot \<Rightarrow> 'a os_state_scheme \<Rightarrow> 'a os_state_scheme" where
  "sys_mprotect p len pr s =
     (if unat p mod 4096 = 0 then s\<lparr>vmem := vm_protect p len pr (vmem s)\<rparr> else s)"

definition sys_mremap ::
  "kernel \<Rightarrow> addr \<Rightarrow> u64 \<Rightarrow> addr \<Rightarrow> 'a os_state_scheme \<Rightarrow> addr option \<times> 'a os_state_scheme" where
  "sys_mremap k old len new s =
     (if k_mremap k (tick s)
      then (Some new, s\<lparr>tick := Suc (tick s), vmem := vm_move old len new (vmem s)\<rparr>)
      else (None, s\<lparr>tick := Suc (tick s)\<rparr>))"

definition sys_set_gs :: "kernel \<Rightarrow> u64 \<Rightarrow> 'a os_state_scheme \<Rightarrow> bool \<times> 'a os_state_scheme" where
  "sys_set_gs k v s =
     (if k_set_gs k (tick s) then (True, s\<lparr>tick := Suc (tick s), gs_base := v\<rparr>)
      else (False, s\<lparr>tick := Suc (tick s)\<rparr>))"

definition sys_get_gs :: "kernel \<Rightarrow> 'a os_state_scheme \<Rightarrow> u64 option \<times> 'a os_state_scheme" where
  "sys_get_gs k s =
     ((if k_get_gs k (tick s) then Some (gs_base s) else None), s\<lparr>tick := Suc (tick s)\<rparr>)"

definition sys_load :: "addr \<Rightarrow> 'a os_state_scheme \<Rightarrow> fault + u64" where
  "sys_load a s = load (vmem s) a"

definition sys_store :: "addr \<Rightarrow> u64 \<Rightarrow> 'a os_state_scheme \<Rightarrow> fault + 'a os_state_scheme" where
  "sys_store a v s = ebind (store (vmem s) a v) (\<lambda>m. Inr (s\<lparr>vmem := m\<rparr>))"

text \<open>
  What the runtimes rely on: without \<open>MAP_FIXED\<close>, \<open>mmap\<close> returns a range of the lower half of
  the address space in which nothing was mapped.
\<close>

definition kernel_ok :: "kernel \<Rightarrow> bool" where
  "kernel_ok k \<longleftrightarrow>
     (\<forall>n m hint len p. k_mmap k n m hint len = Some p \<longrightarrow>
        unat p + unat len \<le> 2 ^ 47 \<and> (\<forall>x. in_region p len x \<longrightarrow> prot_of m x = None))"

lemma kernel_okD:
  "kernel_ok k \<Longrightarrow> k_mmap k n m hint len = Some p \<Longrightarrow> in_region p len x \<Longrightarrow> prot_of m x = None"
  "kernel_ok k \<Longrightarrow> k_mmap k n m hint len = Some p \<Longrightarrow> unat p + unat len \<le> 2 ^ 47"
  unfolding kernel_ok_def by blast+

subsection \<open>Loads and stores\<close>

lemma load_Inr_iff: "load m a = Inr v \<longleftrightarrow> prot_of m a \<noteq> None \<and> v = cells m a"
  by (auto simp: load_def split: option.splits)

lemma store_Inr_iff:
  "store m a v = Inr m' \<longleftrightarrow> prot_of m a = Some PROT_RW \<and> m' = m\<lparr>cells := (cells m)(a := v)\<rparr>"
  by (auto simp: store_def less_eq_prot_def split: option.splits if_splits)

lemma sys_load_mapped [simp]: "prot_of (vmem s) a = Some p \<Longrightarrow> sys_load a s = Inr (cells (vmem s) a)"
  by (simp add: sys_load_def load_def)

lemma sys_load_unmapped [simp]: "prot_of (vmem s) a = None \<Longrightarrow> sys_load a s = Inl (Segv a)"
  by (simp add: sys_load_def load_def)

lemma sys_store_rw [simp]:
  "prot_of (vmem s) a = Some PROT_RW \<Longrightarrow>
   sys_store a v s = Inr (s\<lparr>vmem := (vmem s)\<lparr>cells := (cells (vmem s))(a := v)\<rparr>\<rparr>)"
  by (simp add: sys_store_def store_def)

lemma sys_store_unmapped [simp]: "prot_of (vmem s) a = None \<Longrightarrow> sys_store a v s = Inl (Segv a)"
  by (simp add: sys_store_def store_def)

lemma sys_store_ro [simp]: "prot_of (vmem s) a = Some PROT_READ \<Longrightarrow> sys_store a v s = Inl (Segv a)"
  by (simp add: sys_store_def store_def less_eq_prot_def)

subsection \<open>Regions\<close>

lemma in_region_self [simp]: "0 < len \<Longrightarrow> in_region p len p"
  by (simp add: in_region_def)

lemma in_region_offset: "in_region p len (p + d) \<longleftrightarrow> d < len"
  by (simp add: in_region_def)

lemma in_region_offset' [simp]: "in_region p len (d + p) \<longleftrightarrow> d < len"
  by (simp add: in_region_def)

lemma in_region_between:
  assumes "(p :: addr) \<le> e"
  shows "in_region p (e - p) a \<longleftrightarrow> p \<le> a \<and> a < e"
  using assms unsigned_less [where ?'a = nat and w = e]
  by (auto simp: in_region_def word_less_nat_alt word_le_nat_alt unat_sub_if')

lemma vm_map_simps [simp]:
  "prot_of (vm_map p len m) x = (if in_region p len x then Some PROT_RW else prot_of m x)"
  "cells (vm_map p len m) x = (if in_region p len x then 0 else cells m x)"
  by (simp_all add: vm_map_def)

lemma vm_unmap_simps [simp]:
  "prot_of (vm_unmap p len m) x = (if in_region p len x then None else prot_of m x)"
  "cells (vm_unmap p len m) x = cells m x"
  by (simp_all add: vm_unmap_def)

lemma vm_protect_simps [simp]:
  "prot_of (vm_protect p len pr m) x =
     (if in_region p len x then map_option (\<lambda>_. pr) (prot_of m x) else prot_of m x)"
  "cells (vm_protect p len pr m) x = cells m x"
  by (simp_all add: vm_protect_def)

lemma vm_move_simps [simp]:
  "prot_of (vm_move old len new m) x =
     (if in_region new len x then prot_of m (x - new + old)
      else if in_region old len x then None else prot_of m x)"
  "cells (vm_move old len new m) x = (if in_region new len x then cells m (x - new + old) else cells m x)"
  by (simp_all add: vm_move_def)

text \<open>Unmapping a fresh mapping again restores the rights of every address.\<close>

lemma prot_of_unmap_map:
  "(\<And>x. in_region p len x \<Longrightarrow> prot_of m x = None) \<Longrightarrow> prot_of (vm_unmap p len (vm_map p len m)) = prot_of m"
  by (auto simp: fun_eq_iff)

subsection \<open>Effects on the memory\<close>

definition put_cell :: "addr \<Rightarrow> u64 \<Rightarrow> 'a os_state_scheme \<Rightarrow> 'a os_state_scheme" where
  "put_cell a v s = s\<lparr>vmem := (vmem s)\<lparr>cells := (cells (vmem s))(a := v)\<rparr>\<rparr>"

lemma put_cell_simps [simp]:
  "prot_of (vmem (put_cell a v s)) = prot_of (vmem s)"
  "cells (vmem (put_cell a v s)) = (cells (vmem s))(a := v)"
  "gs_base (put_cell a v s) = gs_base s" "tick (put_cell a v s) = tick s"
  by (simp_all add: put_cell_def)

text \<open>Nothing that was mapped has changed, and nothing else is mapped.\<close>

definition same_mem :: "vm \<Rightarrow> vm \<Rightarrow> bool" where
  "same_mem m m' \<longleftrightarrow> prot_of m' = prot_of m \<and> (\<forall>x. prot_of m x \<noteq> None \<longrightarrow> cells m' x = cells m x)"

lemma same_mem_refl [simp]: "same_mem m m"
  and same_mem_trans: "same_mem m m' \<Longrightarrow> same_mem m' m'' \<Longrightarrow> same_mem m m''"
  by (auto simp: same_mem_def)

lemma same_mem_rejected:
  "(\<And>x. in_region p len x \<Longrightarrow> prot_of m x = None) \<Longrightarrow> same_mem m (vm_unmap p len (vm_map p len m))"
  by (auto simp: same_mem_def prot_of_unmap_map)

definition fresh_block :: "addr \<Rightarrow> u64 \<Rightarrow> vm \<Rightarrow> vm \<Rightarrow> bool" where
  "fresh_block p len m m' \<longleftrightarrow>
     (\<forall>x. in_region p len x \<longrightarrow> prot_of m x = None) \<and> unat p + unat len \<le> 2 ^ 47 \<and>
     prot_of m' = (\<lambda>x. if in_region p len x then Some PROT_RW else prot_of m x) \<and>
     (\<forall>x. prot_of m x \<noteq> None \<longrightarrow> cells m' x = cells m x)"

subsection \<open>Threads\<close>

text \<open>
  What the two thread runtimes share: the object that \<open>pthread_create\<close> passes to the entry of the
  new thread, the routine a thread starts with (the cleaner of the runtime, or the runtime's entry
  with such an object), and glibc's number of rounds of thread-specific-data destructors.
\<close>

datatype arg_info = ArgInfo (start_routine: addr) (start_arg: addr)

datatype thread_start = Cleaner | Wrapped addr

text \<open>What glibc answers about the stack of the calling thread.\<close>

record thread_attr =
  getattr_ok :: bool
  getstack :: "(addr \<times> u64) option"

definition PTHREAD_DESTRUCTOR_ITERATIONS :: nat where "PTHREAD_DESTRUCTOR_ITERATIONS = 4"

end
