(* ===== verification/Gs_Rsp.thy ===== *)
theory Gs_Rsp
  imports Kernel
begin

section \<open>Gs_Rsp: the runtime of the GS/RSP scheme\<close>

text \<open>
  \<open>gs.rsp.c\<close>.  A thread's shadow stack is a block of 10 MB at an address that is a multiple of
  8 MB; the GS base register holds the distance between the call stack and the shadow stack (plus
  the size of the user half of the address space).  A metadata struct stands at a fixed offset in
  the block and is found from the stack pointer alone.  \<open>gs_rsp_runtime_rerandomize\<close> moves the
  block to a new random address.

  Every function that reads \<open>%rsp\<close> takes the value it reads as an argument.
\<close>

subsection \<open>Constants and data\<close>

definition SPA_MAX_MMAP_ATTEMPTS :: nat where "SPA_MAX_MMAP_ATTEMPTS = 20"
definition REAL_SHADOW_STACK_SIZE :: u64 where
  "REAL_SHADOW_STACK_SIZE = DEF_BUDDY_CALL_STACK_SIZE + push_bit 20 2"
definition METADATA_OFFSET_ON_SHADOW_STACK :: u64 where
  "METADATA_OFFSET_ON_SHADOW_STACK = DEF_BUDDY_CALL_STACK_SIZE + push_bit 20 1 + push_bit 19 1"
definition INIT_SHADOW_STACK_OFFSET :: u64 where
  "INIT_SHADOW_STACK_OFFSET = DEF_BUDDY_CALL_STACK_SIZE"
definition MAX_THREAD_BUF_CNT :: nat where "MAX_THREAD_BUF_CNT = 1024"
definition CPU_CYCLES_AFTER_THREAD_EXITING :: u64 where
  "CPU_CYCLES_AFTER_THREAD_EXITING = CPU_CYCLES_PER_RANDOMIZATION * 1000"
definition MAX_GS_BASE_ADDR :: u64 where "MAX_GS_BASE_ADDR = 0x7FFFFFFFEFFF"

lemma gs_rsp_sizes:
  "REAL_SHADOW_STACK_SIZE = 10485760" "METADATA_OFFSET_ON_SHADOW_STACK = 9961472"
  "INIT_SHADOW_STACK_OFFSET = 8388608"
  by (simp_all add: REAL_SHADOW_STACK_SIZE_def METADATA_OFFSET_ON_SHADOW_STACK_def
      INIT_SHADOW_STACK_OFFSET_def DEF_sizes push_bit_eq_mult)

record thread_region =
  tr_valid :: bool
  tr_shadow_stack :: addr
  tr_shadow_stack_size :: u64
  tr_expired_time :: u64
  tr_tid :: u64

text \<open>\<open>struct gs_rsp_metadata\<close>: six fields of 8 bytes.\<close>

datatype gr_field =
  gr_shadow_stack | gr_is_randomizing | gr_cpu_cycles | gr_state | gr_diff | gr_relaxing

fun gr_field_offset :: "gr_field \<Rightarrow> u64" where
  "gr_field_offset gr_shadow_stack = 0"
| "gr_field_offset gr_is_randomizing = 8"
| "gr_field_offset gr_cpu_cycles = 16"
| "gr_field_offset gr_state = 24"
| "gr_field_offset gr_diff = 32"
| "gr_field_offset gr_relaxing = 40"

record gs_rsp_state = os_state +
  gs_rsp_flash_stack_inited :: bool
  relaxing_sandbox_during_init :: bool
  cleanup_key_value :: nat
  gsrsp_total_rand_cnt :: u64
  gsrsp_total_fail_rand_cnt :: u64
  gsrsp_total_cpu_cycles :: u64
  gsrsp_total_attempts :: "u64 list"
  thread_info :: "thread_region list"
  gsrsp_total_crash_cnt :: u64
  real_pthread_create_known :: bool

definition get_field :: "addr \<Rightarrow> gr_field \<Rightarrow> gs_rsp_state \<Rightarrow> fault + u64" where
  "get_field md f s = sys_load (md + gr_field_offset f) s"

definition set_field :: "addr \<Rightarrow> gr_field \<Rightarrow> u64 \<Rightarrow> gs_rsp_state \<Rightarrow> fault + gs_rsp_state" where
  "set_field md f v s = sys_store (md + gr_field_offset f) v s"

subsection \<open>Metadata\<close>

definition get_gs_rsp_metadata_by_shadow_stack :: "addr \<Rightarrow> addr" where
  "get_gs_rsp_metadata_by_shadow_stack shadow_stack = shadow_stack + METADATA_OFFSET_ON_SHADOW_STACK"

definition get_gs_rsp_metadata_by_rsp ::
  "kernel \<Rightarrow> u64 \<Rightarrow> gs_rsp_state \<Rightarrow> addr option \<times> gs_rsp_state" where
  "get_gs_rsp_metadata_by_rsp k rsp s =
     (case sys_get_gs k s of
        (None, s') \<Rightarrow> (None, s')
      | (Some gs, s') \<Rightarrow>
          (let ssp = rsp + gs - SPA_USER_SPACE_SIZE;
               shadow_stack = ssp AND DEF_BUDDY_CALL_STACK_SIZE_MASK
           in (Some (get_gs_rsp_metadata_by_shadow_stack shadow_stack), s')))"

definition unsw_inc_asm_js_crash_cnt :: "gs_rsp_state \<Rightarrow> gs_rsp_state" where
  "unsw_inc_asm_js_crash_cnt s = s\<lparr>gsrsp_total_crash_cnt := gsrsp_total_crash_cnt s + 1\<rparr>"

fun set_fields :: "addr \<Rightarrow> (gr_field \<times> u64) list \<Rightarrow> gs_rsp_state \<Rightarrow> fault + gs_rsp_state" where
  "set_fields md [] s = Inr s"
| "set_fields md ((f, v) # fvs) s = ebind (set_field md f v s) (set_fields md fvs)"

definition init_metadata_on_shadow_stack ::
  "addr \<Rightarrow> u64 \<Rightarrow> gs_rsp_state \<Rightarrow> fault + gs_rsp_state" where
  "init_metadata_on_shadow_stack shadow_stack diff s =
     set_fields (get_gs_rsp_metadata_by_shadow_stack shadow_stack)
       ([(gr_shadow_stack, 0), (gr_is_randomizing, 0), (gr_cpu_cycles, 0), (gr_state, 0),
         (gr_diff, 0), (gr_relaxing, 0)] @
        [(gr_shadow_stack, shadow_stack), (gr_is_randomizing, 0), (gr_cpu_cycles, 0),
         (gr_relaxing, 0), (gr_diff, diff)]) s"

subsection \<open>Regions of exited threads\<close>

fun add_memory_region :: "thread_region \<Rightarrow> thread_region list \<Rightarrow> thread_region list" where
  "add_memory_region r [] = []"
| "add_memory_region r (t # ts) =
     (if \<not> tr_valid t then r\<lparr>tr_valid := True\<rparr> # ts else t # add_memory_region r ts)"

text \<open>One pass of the cleaner thread over the table, between two calls of \<open>sleep\<close>.\<close>

fun release_memory_regions ::
  "kernel \<Rightarrow> thread_region list \<Rightarrow> 'a os_state_scheme \<Rightarrow> thread_region list \<times> 'a os_state_scheme" where
  "release_memory_regions k [] s = ([], s)"
| "release_memory_regions k (t # ts) s =
     (if tr_valid t
      then
        (let (now, s1) = sys_rdtsc k s in
         if CPU_CYCLES_AFTER_THREAD_EXITING < now - tr_expired_time t
         then (let (ts', s2) = release_memory_regions k ts
                     (sys_munmap (tr_shadow_stack t) (tr_shadow_stack_size t) s1)
               in (t\<lparr>tr_valid := False\<rparr> # ts', s2))
         else (let (ts', s2) = release_memory_regions k ts s1 in (t # ts', s2)))
      else (let (ts', s2) = release_memory_regions k ts s in (t # ts', s2)))"

subsection \<open>Memory at a random address\<close>

definition mmap_hint :: "u64 \<Rightarrow> u64 \<Rightarrow> u64" where
  "mmap_hint adjusted_rsp r =
     (let x = r mod SPA_MAX_SHADOW_STACK_ADDR;
          y = (if adjusted_rsp > 0 then x mod adjusted_rsp else x)
      in y AND SPA_SHADOW_STACK_8MB_RAND_ADDR_MASK)"

text \<open>
  The loop: the result, the number of attempts made and the state.  The random number is drawn
  before the test that ends the loop.
\<close>

function mmap_attempts ::
  "kernel \<Rightarrow> u64 \<Rightarrow> u64 \<Rightarrow> nat \<Rightarrow> 'a os_state_scheme \<Rightarrow> addr option \<times> nat \<times> 'a os_state_scheme" where
  "mmap_attempts k adjusted_rsp sz i s =
     (let (r, s1) = sys_rdrand k s;
          x = mmap_hint adjusted_rsp r
      in if i > SPA_MAX_MMAP_ATTEMPTS then (None, i, s1)
         else
           (case sys_mmap k x sz s1 of
              (None, s2) \<Rightarrow> mmap_attempts k adjusted_rsp sz (i + 1) s2
            | (Some allocated, s2) \<Rightarrow>
                if allocated AND SPA_8MB_MASK \<noteq> 0 \<or> allocated > adjusted_rsp
                then mmap_attempts k adjusted_rsp sz (i + 1) (sys_munmap allocated sz s2)
                else (Some allocated, i + 1, s2)))"
  by pat_completeness auto
termination
  by (relation "measure (\<lambda>(k, a, sz, i, s). SPA_MAX_MMAP_ATTEMPTS + 1 - i)") auto

declare mmap_attempts.simps [simp del]

definition count_attempt :: "nat \<Rightarrow> gs_rsp_state \<Rightarrow> gs_rsp_state" where
  "count_attempt i s =
     s\<lparr>gsrsp_total_attempts := (gsrsp_total_attempts s)[i := gsrsp_total_attempts s ! i + 1]\<rparr>"

definition get_memory_at_random ::
  "kernel \<Rightarrow> u64 \<Rightarrow> u64 \<Rightarrow> bool \<Rightarrow> gs_rsp_state \<Rightarrow> addr option \<times> gs_rsp_state" where
  "get_memory_at_random k rsp sz init s =
     (let adjusted_rsp = rsp - 2 * REAL_SHADOW_STACK_SIZE;
          (addr, i, s1) = mmap_attempts k adjusted_rsp sz 0 s
      in (addr,
          if i < SPA_MAX_MMAP_ATTEMPTS then (if init then s1 else count_attempt i s1)
          else count_attempt SPA_MAX_MMAP_ATTEMPTS s1))"

subsection \<open>Initialisation of a thread\<close>

text \<open>The loop that repeats \<open>get_memory_at_random\<close> until it succeeds; it need not end.\<close>

partial_function (option) alloc_shadow_stack ::
  "kernel \<Rightarrow> u64 \<Rightarrow> gs_rsp_state \<Rightarrow> (addr \<times> gs_rsp_state) option" where
  "alloc_shadow_stack k rsp s =
     (case get_memory_at_random k rsp REAL_SHADOW_STACK_SIZE True s of
        (Some p, s') \<Rightarrow> Some (p, s')
      | (None, s') \<Rightarrow> alloc_shadow_stack k rsp s')"

definition set_call_stack_info :: "addr \<Rightarrow> gs_rsp_state \<Rightarrow> fault + gs_rsp_state" where
  "set_call_stack_info md s = set_field md gr_state FLASH_STACK_INITED s"

text \<open>From the allocated block on; the result of \<open>arch_prctl\<close> is not looked at.\<close>

definition setup_shadow_stack :: "kernel \<Rightarrow> u64 \<Rightarrow> addr \<Rightarrow> gs_rsp_state \<Rightarrow> fault + gs_rsp_state" where
  "setup_shadow_stack k rsp shadow_stack s =
     (let diff = shadow_stack + INIT_SHADOW_STACK_OFFSET + SPA_USER_SPACE_SIZE - rsp
      in ebind (init_metadata_on_shadow_stack shadow_stack diff s)
           (\<lambda>s1. let (r, s2) = sys_set_gs k diff s1
                 in set_call_stack_info (get_gs_rsp_metadata_by_shadow_stack shadow_stack) s2))"

definition do_init_shadow_stack ::
  "kernel \<Rightarrow> u64 \<Rightarrow> u64 \<Rightarrow> gs_rsp_state \<Rightarrow> (fault + gs_rsp_state) option" where
  "do_init_shadow_stack k rsp rsp_alloc s =
     (case alloc_shadow_stack k rsp_alloc s of
        None \<Rightarrow> None
      | Some (shadow_stack, s1) \<Rightarrow> Some (setup_shadow_stack k rsp shadow_stack s1))"

definition init_shadow_stack ::
  "kernel \<Rightarrow> u64 \<Rightarrow> u64 \<Rightarrow> gs_rsp_state \<Rightarrow> (fault + gs_rsp_state) option" where
  "init_shadow_stack k rsp rsp_alloc s =
     (if gs_rsp_flash_stack_inited s then Some (Inr s)
      else do_init_shadow_stack k rsp rsp_alloc (s\<lparr>gs_rsp_flash_stack_inited := True\<rparr>))"

definition init_main_shadow_stack ::
  "kernel \<Rightarrow> u64 \<Rightarrow> u64 \<Rightarrow> gs_rsp_state \<Rightarrow> (fault + gs_rsp_state) option" where
  "init_main_shadow_stack = init_shadow_stack"

subsection \<open>Threads\<close>

definition release_shadow_stack ::
  "kernel \<Rightarrow> u64 \<Rightarrow> u64 \<Rightarrow> gs_rsp_state \<Rightarrow> fault + gs_rsp_state" where
  "release_shadow_stack k rsp tid s =
     (case get_gs_rsp_metadata_by_rsp k rsp s of
        (None, s1) \<Rightarrow> Inr s1
      | (Some md, s1) \<Rightarrow>
          ebind (get_field md gr_shadow_stack s1)
            (\<lambda>shadow_stack.
               let (now, s2) = sys_rdtsc k s1
               in Inr (s2\<lparr>thread_info := add_memory_region
                        \<lparr>tr_valid = False, tr_shadow_stack = shadow_stack,
                         tr_shadow_stack_size = REAL_SHADOW_STACK_SIZE,
                         tr_expired_time = now, tr_tid = tid\<rparr> (thread_info s2)\<rparr>)))"

definition release_memory_region_pass :: "kernel \<Rightarrow> gs_rsp_state \<Rightarrow> gs_rsp_state" where
  "release_memory_region_pass k s =
     (let (ts, s1) = release_memory_regions k (thread_info s) s in s1\<lparr>thread_info := ts\<rparr>)"

text \<open>
  The entry of a new thread: what it runs after its shadow stack is set up.  \<open>heap\<close> gives the
  object that \<open>pthread_create\<close> passed.
\<close>

definition do_start_routine ::
  "kernel \<Rightarrow> u64 \<Rightarrow> u64 \<Rightarrow> (addr \<Rightarrow> arg_info option) \<Rightarrow> addr \<Rightarrow> gs_rsp_state \<Rightarrow>
   (fault + (addr \<times> addr) \<times> (addr \<Rightarrow> arg_info option) \<times> gs_rsp_state) option" where
  "do_start_routine k rsp rsp_alloc heap arg s =
     map_option
       (\<lambda>r. ebind r (\<lambda>s1.
          case heap arg of
            None \<Rightarrow> Inl (Segv arg)
          | Some argInfo \<Rightarrow>
              Inr ((start_routine argInfo, start_arg argInfo), heap(arg := None),
                   s1\<lparr>cleanup_key_value := 1\<rparr>)))
       (init_shadow_stack k rsp rsp_alloc s)"

text \<open>
  \<open>pthread_create\<close>: the threads that the real function is asked for, each with the stack size of
  its attributes (\<open>None\<close> for the default ones) and the routine it runs; the caller's attribute
  object, if any, with its stack size afterwards; and the heap.  \<open>malloc\<close> is a parameter.
\<close>

definition pthread_create ::
  "((addr \<Rightarrow> arg_info option) \<Rightarrow> addr option) \<Rightarrow> u64 option \<Rightarrow> addr \<Rightarrow> addr \<Rightarrow>
   (addr \<Rightarrow> arg_info option) \<Rightarrow> gs_rsp_state \<Rightarrow>
   fault + (u64 option \<times> thread_start) list \<times> u64 option \<times> (addr \<Rightarrow> arg_info option) \<times> gs_rsp_state" where
  "pthread_create malloc attr start arg heap s =
     (let first = \<not> real_pthread_create_known s;
          s1 = s\<lparr>real_pthread_create_known := True\<rparr>;
          stacksize = DEF_BUDDY_CALL_STACK_SIZE
      in case malloc heap of
           None \<Rightarrow> Inl (Segv 0)
         | Some p \<Rightarrow>
             Inr ((if first then [(None, Cleaner)] else []) @ [(Some stacksize, Wrapped p)],
                  map_option (\<lambda>_. stacksize) attr,
                  heap(p \<mapsto> ArgInfo start arg), s1))"

definition thread_cleanup_handler ::
  "kernel \<Rightarrow> u64 \<Rightarrow> u64 \<Rightarrow> nat \<Rightarrow> gs_rsp_state \<Rightarrow> fault + gs_rsp_state" where
  "thread_cleanup_handler k rsp tid iter s =
     (if iter < PTHREAD_DESTRUCTOR_ITERATIONS then Inr (s\<lparr>cleanup_key_value := iter + 1\<rparr>)
      else release_shadow_stack k rsp tid s)"

definition gs_rsp_allow_system_call_during_shuffling ::
  "kernel \<Rightarrow> u64 \<Rightarrow> gs_rsp_state \<Rightarrow> fault + u64 \<times> gs_rsp_state" where
  "gs_rsp_allow_system_call_during_shuffling k rsp s =
     (if relaxing_sandbox_during_init s then Inr (1, s)
      else (case get_gs_rsp_metadata_by_rsp k rsp s of
              (None, s1) \<Rightarrow> Inl (Segv (gr_field_offset gr_is_randomizing))
            | (Some md, s1) \<Rightarrow> ebind (get_field md gr_is_randomizing s1) (\<lambda>r. Inr (r, s1))))"

subsection \<open>Moving the shadow stack\<close>

definition fail_rand :: "gs_rsp_state \<Rightarrow> gs_rsp_state" where
  "fail_rand s = s\<lparr>gsrsp_total_fail_rand_cnt := gsrsp_total_fail_rand_cnt s + 1\<rparr>"

text \<open>Taking the move back: restore the two fields and unmap the new block.\<close>

definition undo_move ::
  "addr \<Rightarrow> addr \<Rightarrow> u64 \<Rightarrow> addr \<Rightarrow> gs_rsp_state \<Rightarrow> fault + addr \<times> gs_rsp_state" where
  "undo_move md old delta new s =
     ebind (set_field md gr_shadow_stack old (fail_rand s)) (\<lambda>s1.
     ebind (get_field md gr_diff s1) (\<lambda>d.
     ebind (set_field md gr_diff (d - delta) s1) (\<lambda>s2.
     Inr (md, sys_munmap new REAL_SHADOW_STACK_SIZE s2))))"

text \<open>The branch of a successful allocation; the result is where the metadata is afterwards.\<close>

definition move_shadow_stack ::
  "kernel \<Rightarrow> addr \<Rightarrow> addr \<Rightarrow> gs_rsp_state \<Rightarrow> fault + addr \<times> gs_rsp_state" where
  "move_shadow_stack k md new s =
     ebind (get_field md gr_shadow_stack s) (\<lambda>old.
     ebind (get_field md gr_diff s) (\<lambda>d.
     let delta = new - old; diff = d + delta
     in if diff <s 0 \<or> MAX_GS_BASE_ADDR <s diff
        then Inr (md, sys_munmap new REAL_SHADOW_STACK_SIZE s)
        else
          ebind (set_field md gr_shadow_stack new s) (\<lambda>s1.
          ebind (set_field md gr_diff diff s1) (\<lambda>s2.
          case sys_mremap k old REAL_SHADOW_STACK_SIZE new s2 of
            (None, s3) \<Rightarrow> undo_move md old delta new s3
          | (Some shadow_stack, s3) \<Rightarrow>
              (case sys_set_gs k diff s3 of
                 (False, s4) \<Rightarrow> undo_move md old delta new s4
               | (True, s4) \<Rightarrow> Inr (get_gs_rsp_metadata_by_shadow_stack shadow_stack, s4))))))"

definition rand_exit :: "kernel \<Rightarrow> u64 \<Rightarrow> addr \<Rightarrow> gs_rsp_state \<Rightarrow> fault + gs_rsp_state" where
  "rand_exit k from_clock md s =
     ebind (set_field md gr_is_randomizing 0 s) (\<lambda>s1.
       let (to_clock, s2) = sys_rdtsc k (s1\<lparr>gsrsp_total_rand_cnt := gsrsp_total_rand_cnt s1 + 1\<rparr>)
       in Inr (s2\<lparr>gsrsp_total_cpu_cycles := gsrsp_total_cpu_cycles s2 + (to_clock - from_clock)\<rparr>))"

text \<open>From the setting of \<open>is_randomizing\<close> on.\<close>

definition shuffle ::
  "kernel \<Rightarrow> u64 \<Rightarrow> u64 \<Rightarrow> addr \<Rightarrow> gs_rsp_state \<Rightarrow> fault + gs_rsp_state" where
  "shuffle k rsp_alloc from_clock md s =
     ebind (set_field md gr_is_randomizing 1 s) (\<lambda>s1.
     ebind (get_field md gr_cpu_cycles s1) (\<lambda>last_clocks.
     let (cur_clocks, s2) = sys_rdtsc k s1
     in if cur_clocks - last_clocks < CPU_CYCLES_PER_RANDOMIZATION
        then set_field md gr_is_randomizing 0 s2
        else
          ebind (set_field md gr_cpu_cycles cur_clocks s2) (\<lambda>s3.
          case get_memory_at_random k rsp_alloc REAL_SHADOW_STACK_SIZE False s3 of
            (None, s4) \<Rightarrow> rand_exit k from_clock md (fail_rand s4)
          | (Some new_shadow_stack, s4) \<Rightarrow>
              ebind (move_shadow_stack k md new_shadow_stack s4)
                (\<lambda>(md', s5). rand_exit k from_clock md' s5))))"

definition gs_rsp_runtime_rerandomize ::
  "kernel \<Rightarrow> u64 \<Rightarrow> u64 \<Rightarrow> gs_rsp_state \<Rightarrow> fault + gs_rsp_state" where
  "gs_rsp_runtime_rerandomize k rsp rsp_alloc s =
     (let (from_clock, s0) = sys_rdtsc k s
      in if \<not> gs_rsp_flash_stack_inited s0 then Inr s0
         else
           (case get_gs_rsp_metadata_by_rsp k rsp s0 of
              (None, s1) \<Rightarrow> Inr s1
            | (Some md, s1) \<Rightarrow>
                ebind (get_field md gr_state s1) (\<lambda>st.
                if st \<noteq> FLASH_STACK_INITED then Inr s1
                else ebind (get_field md gr_is_randomizing s1) (\<lambda>b.
                  if b \<noteq> 0 then Inr s1 else shuffle k rsp_alloc from_clock md s1))))"

text \<open>The hooks of \<open>rt_lib.c\<close> call it as \<open>DO_RANDOMIZATION\<close>.\<close>

definition gs_DO_RANDOMIZATION ::
  "kernel \<Rightarrow> u64 \<Rightarrow> u64 \<Rightarrow> gs_rsp_state \<Rightarrow> (fault + gs_rsp_state) option" where
  "gs_DO_RANDOMIZATION k rsp rsp_alloc s = Some (gs_rsp_runtime_rerandomize k rsp rsp_alloc s)"


subsection \<open>Addresses\<close>

lemma call_stack_mask: "DEF_BUDDY_CALL_STACK_SIZE_MASK = NOT (mask 23)"
  using neg_exp_eq_not_mask [of 23] by (simp add: DEF_sizes)

lemma aligned_iff: "sh AND SPA_8MB_MASK = 0 \<longleftrightarrow> unat sh mod 2 ^ 23 = 0"
  by (simp add: SPA_8MB_MASK_mask take_bit_eq_mask [symmetric] unat_eq_0 [symmetric] unat_take_bit)

lemma aligned_add_mask:
  assumes "sh AND SPA_8MB_MASK = 0" and "unat e < 2 ^ 23"
  shows "(sh + e) AND DEF_BUDDY_CALL_STACK_SIZE_MASK = sh"
proof -
  obtain q where q: "unat sh = q * 2 ^ 23"
    using assms(1) unfolding aligned_iff by (metis mod_0_imp_dvd dvd_def mult.commute)
  have "unat sh < 2 ^ 64" using unsigned_less [where ?'a = nat and w = sh] by simp
  then have "q * 2 ^ 23 + unat e < 2 ^ 64" using assms(2) q by simp
  then have "unat (sh + e) = q * 2 ^ 23 + unat e"
    using q by (simp add: unat_word_ariths)
  moreover have "(q * 2 ^ 23 + unat e) div 2 ^ 23 = q" using assms(2) by simp
  ultimately have "unat ((sh + e) AND NOT (mask 23)) = unat sh"
    using q by (simp add: unat_and_not_mask)
  then show ?thesis unfolding call_stack_mask by (simp add: word_unat_eq_iff)
qed

text \<open>The stack pointers from which the metadata is found: below \<open>rsp0\<close>, by at most 8 MB.\<close>

definition in_window :: "u64 \<Rightarrow> u64 \<Rightarrow> bool" where
  "in_window rsp0 rsp = (0 < rsp0 - rsp \<and> rsp0 - rsp \<le> DEF_BUDDY_CALL_STACK_SIZE)"

lemma window_mask:
  assumes "sh AND SPA_8MB_MASK = 0" and "in_window rsp0 rsp"
  shows "(sh + (DEF_BUDDY_CALL_STACK_SIZE - (rsp0 - rsp))) AND DEF_BUDDY_CALL_STACK_SIZE_MASK = sh"
proof (rule aligned_add_mask [OF assms(1)])
  have "0 < unat (rsp0 - rsp)" "unat (rsp0 - rsp) \<le> 8388608"
    using assms(2) by (simp_all add: in_window_def DEF_sizes word_less_nat_alt word_le_nat_alt)
  moreover have "unat (8388608 - (rsp0 - rsp)) = 8388608 - unat (rsp0 - rsp)"
    using assms(2) by (simp add: unat_sub in_window_def DEF_sizes)
  ultimately show "unat (DEF_BUDDY_CALL_STACK_SIZE - (rsp0 - rsp)) < 2 ^ 23"
    by (simp add: DEF_sizes)
qed

lemma gr_field_offset_inj: "gr_field_offset f = gr_field_offset g \<longleftrightarrow> f = g"
  by (cases f; cases g) simp_all

lemma field_in_region: "in_region sh REAL_SHADOW_STACK_SIZE
    (get_gs_rsp_metadata_by_shadow_stack sh + gr_field_offset f)"
  by (cases f)
     (simp_all add: in_region_def get_gs_rsp_metadata_by_shadow_stack_def gs_rsp_sizes
       word_less_nat_alt unat_word_ariths)

declare gr_field_offset.simps [simp del]

subsection \<open>The invariant of a thread\<close>

abbreviation md_of :: "addr \<Rightarrow> addr" where
  "md_of \<equiv> get_gs_rsp_metadata_by_shadow_stack"

definition fld :: "addr \<Rightarrow> gr_field \<Rightarrow> gs_rsp_state \<Rightarrow> u64" where
  "fld sh f s = cells (vmem s) (md_of sh + gr_field_offset f)"

definition is_field :: "addr \<Rightarrow> addr \<Rightarrow> bool" where
  "is_field sh x = (\<exists>f. x = md_of sh + gr_field_offset f)"

definition gs_for :: "addr \<Rightarrow> u64 \<Rightarrow> u64" where
  "gs_for sh rsp0 = sh + INIT_SHADOW_STACK_OFFSET + SPA_USER_SPACE_SIZE - rsp0"

text \<open>
  \<open>sh\<close> is the thread's shadow stack, \<open>rsp0\<close> the stack pointer at its initialisation and \<open>r\<close> the
  value of \<open>is_randomizing\<close>.
\<close>

definition shadow_ok :: "u64 \<Rightarrow> addr \<Rightarrow> u64 \<Rightarrow> gs_rsp_state \<Rightarrow> bool" where
  "shadow_ok r sh rsp0 s \<longleftrightarrow>
     sh AND SPA_8MB_MASK = 0 \<and>
     (\<forall>x. in_region sh REAL_SHADOW_STACK_SIZE x \<longrightarrow> prot_of (vmem s) x = Some PROT_RW) \<and>
     gs_base s = gs_for sh rsp0 \<and> gs_rsp_flash_stack_inited s \<and>
     fld sh gr_shadow_stack s = sh \<and> fld sh gr_diff s = gs_base s \<and>
     fld sh gr_state s = FLASH_STACK_INITED \<and> fld sh gr_is_randomizing s = r"

text \<open>
  From \<open>s\<close> to \<open>s'\<close> the shadow stack moved from \<open>sh\<close> to \<open>sh'\<close> with its content, and nothing else
  that was mapped has changed.
\<close>

definition moved :: "addr \<Rightarrow> addr \<Rightarrow> gs_rsp_state \<Rightarrow> gs_rsp_state \<Rightarrow> bool" where
  "moved sh sh' s s' \<longleftrightarrow>
     (\<forall>d. d < REAL_SHADOW_STACK_SIZE \<and> \<not> is_field sh (sh + d) \<longrightarrow>
        cells (vmem s') (sh' + d) = cells (vmem s) (sh + d)) \<and>
     (\<forall>x. prot_of (vmem s) x \<noteq> None \<and> \<not> in_region sh REAL_SHADOW_STACK_SIZE x \<longrightarrow>
        \<not> in_region sh' REAL_SHADOW_STACK_SIZE x \<and>
        prot_of (vmem s') x = prot_of (vmem s) x \<and> cells (vmem s') x = cells (vmem s) x)"

lemma is_field_shift: "is_field sh (sh + d) \<longleftrightarrow> is_field sh' (sh' + d)"
  by (simp add: is_field_def get_gs_rsp_metadata_by_shadow_stack_def add.assoc)

lemma moved_trans: "moved sh1 sh2 s1 s2 \<Longrightarrow> moved sh2 sh3 s2 s3 \<Longrightarrow> moved sh1 sh3 s1 s3"
  unfolding moved_def using is_field_shift [of sh1 _ sh2] by (metis (no_types, lifting))

lemma field_mapped:
  "shadow_ok r sh rsp0 s \<Longrightarrow> prot_of (vmem s) (md_of sh + gr_field_offset f) = Some PROT_RW"
  using field_in_region by (simp add: shadow_ok_def)

lemma get_field_ok: "shadow_ok r sh rsp0 s \<Longrightarrow> get_field (md_of sh) f s = Inr (fld sh f s)"
  by (simp add: get_field_def field_mapped fld_def)

lemma put_cell_inited [simp]:
  "gs_rsp_flash_stack_inited (put_cell a v s) = gs_rsp_flash_stack_inited s"
  by (simp add: put_cell_def)

lemma set_field_ok:
  "prot_of (vmem s) (md_of sh + gr_field_offset f) = Some PROT_RW \<Longrightarrow>
   set_field (md_of sh) f v s = Inr (put_cell (md_of sh + gr_field_offset f) v s)"
  by (simp add: set_field_def put_cell_def)

lemma fld_put [simp]:
  "fld sh g (put_cell (md_of sh + gr_field_offset f) v s) = (if g = f then v else fld sh g s)"
  by (simp add: fld_def gr_field_offset_inj)

lemma moved_put: "moved sh sh s (put_cell (md_of sh + gr_field_offset f) v s)"
  using field_in_region [of sh f] by (auto simp: moved_def is_field_def)


subsection \<open>What get_memory_at_random returns\<close>

definition attempts_result ::
  "u64 \<Rightarrow> u64 \<Rightarrow> nat \<Rightarrow> 'a os_state_scheme \<Rightarrow> addr option \<times> nat \<times> 'a os_state_scheme \<Rightarrow> bool" where
  "attempts_result adj sz i s res =
     (case res of (r, j, s') \<Rightarrow>
        i \<le> j \<and> j \<le> SPA_MAX_MMAP_ATTEMPTS + 1 \<and>
        tick s < tick s' \<and> tick s' \<le> tick s + 2 * (j - i) + 1 \<and>
        s' = s\<lparr>tick := tick s', vmem := vmem s'\<rparr> \<and>
        (case r of
           None \<Rightarrow> j = SPA_MAX_MMAP_ATTEMPTS + 1 \<and> same_mem (vmem s) (vmem s')
         | Some p \<Rightarrow> p AND SPA_8MB_MASK = 0 \<and> p \<le> adj \<and> fresh_block p sz (vmem s) (vmem s')))"

lemma attempts_result_step:
  assumes "attempts_result adj sz (i + 1) t res" and "t = s\<lparr>tick := tick s + 2, vmem := vmem t\<rparr>"
    and "same_mem (vmem s) (vmem t)"
  shows "attempts_result adj sz i s res"
proof -
  obtain r j s' where res: "res = (r, j, s')" by (cases res) auto
  have "fresh_block p sz (vmem s) (vmem s')" if "fresh_block p sz (vmem t) (vmem s')" for p
    using that assms(3) by (auto simp: fresh_block_def same_mem_def)
  moreover have "tick t = tick s + 2" by (subst assms(2)) simp
  moreover have "s' = s\<lparr>tick := tick s', vmem := vmem s'\<rparr>" if "s' = t\<lparr>tick := tick s', vmem := vmem s'\<rparr>"
    by (subst that, subst assms(2)) simp
  ultimately show ?thesis
    using assms(1,3) unfolding res attempts_result_def
    by (auto intro: same_mem_trans split: option.splits)
qed

lemma mmap_attempts_ok:
  "kernel_ok k \<Longrightarrow> i \<le> SPA_MAX_MMAP_ATTEMPTS + 1 \<Longrightarrow>
   attempts_result adj sz i s (mmap_attempts k adj sz i s)"
proof (induction k adj sz i s rule: mmap_attempts.induct)
  case (1 k adj sz i s)
  let ?s1 = "s\<lparr>tick := Suc (tick s)\<rparr>"
  let ?x = "mmap_hint adj (k_rdrand k (tick s))"
  have rd: "sys_rdrand k s = (k_rdrand k (tick s), ?s1)" by (simp add: sys_rdrand_def)
  note IH = "1.IH" [OF rd [symmetric] refl]
  show ?case
  proof (cases "i > SPA_MAX_MMAP_ATTEMPTS")
    case True
    then show ?thesis
      using "1.prems"(2) by (subst mmap_attempts.simps) (simp add: rd attempts_result_def)
  next
    case False
    show ?thesis
    proof (cases "k_mmap k (tick ?s1) (vmem ?s1) ?x sz")
      case None
      let ?t = "s\<lparr>tick := Suc (Suc (tick s))\<rparr>"
      have mm: "sys_mmap k ?x sz ?s1 = (None, ?t)" using None by (simp add: sys_mmap_def)
      have "attempts_result adj sz (i + 1) ?t (mmap_attempts k adj sz (i + 1) ?t)"
        using IH(1) [OF refl False mm [symmetric] refl] "1.prems" False by simp
      then have "attempts_result adj sz i s (mmap_attempts k adj sz (i + 1) ?t)"
        by (rule attempts_result_step) simp_all
      then show ?thesis by (subst mmap_attempts.simps) (simp add: rd mm False)
    next
      case (Some p)
      let ?t = "s\<lparr>tick := Suc (Suc (tick s)), vmem := vm_map p sz (vmem s)\<rparr>"
      have mm: "sys_mmap k ?x sz ?s1 = (Some p, ?t)" using Some by (simp add: sys_mmap_def)
      note free = kernel_okD(1) [OF "1.prems"(1) Some]
      have rejected: "same_mem (vmem s) (vm_unmap p sz (vm_map p sz (vmem s)))"
        by (rule same_mem_rejected) (use free in simp)
      show ?thesis
      proof (cases "p AND SPA_8MB_MASK \<noteq> 0 \<or> p > adj")
        case True
        let ?u = "sys_munmap p sz ?t"
        have "attempts_result adj sz (i + 1) ?u (mmap_attempts k adj sz (i + 1) ?u)"
          using IH(2) [OF refl False mm [symmetric] refl True] "1.prems" False by simp
        then have "attempts_result adj sz i s (mmap_attempts k adj sz (i + 1) ?u)"
          by (rule attempts_result_step) (use rejected in \<open>simp_all add: sys_munmap_def\<close>)
        then show ?thesis using True by (subst mmap_attempts.simps) (simp add: rd mm False)
      next
        case good: False
        have "fresh_block p sz (vmem s) (vm_map p sz (vmem s))"
          using free kernel_okD(2) [OF "1.prems"(1) Some] by (auto simp: fresh_block_def fun_eq_iff)
        then show ?thesis
          using good False by (subst mmap_attempts.simps) (auto simp: rd mm attempts_result_def linorder_not_less)
      qed
    qed
  qed
qed

text \<open>What the allocation leaves of a runtime state.\<close>

lemma get_memory_at_random_ok:
  assumes "kernel_ok k" and "get_memory_at_random k rsp sz init s = (r, s')"
  shows "gs_base s' = gs_base s" "gs_rsp_flash_stack_inited s' = gs_rsp_flash_stack_inited s"
    "tick s < tick s'" "tick s' \<le> tick s + 43"
    "r = None \<Longrightarrow> same_mem (vmem s) (vmem s')"
    "r = Some p \<Longrightarrow> p AND SPA_8MB_MASK = 0 \<and> p \<le> rsp - 2 * REAL_SHADOW_STACK_SIZE \<and>
       fresh_block p sz (vmem s) (vmem s')"
proof -
  obtain j t where att: "mmap_attempts k (rsp - 2 * REAL_SHADOW_STACK_SIZE) sz 0 s = (r, j, t)"
    using assms(2) by (auto simp: get_memory_at_random_def Let_def split: prod.splits)
  have res: "attempts_result (rsp - 2 * REAL_SHADOW_STACK_SIZE) sz 0 s (r, j, t)"
    using mmap_attempts_ok [OF assms(1), of 0 "rsp - 2 * REAL_SHADOW_STACK_SIZE" sz s] att by simp
  have s': "s' = (if j < SPA_MAX_MMAP_ATTEMPTS then (if init then t else count_attempt j t)
          else count_attempt SPA_MAX_MMAP_ATTEMPTS t)"
    using assms(2) att by (simp add: get_memory_at_random_def)
  have t: "t = s\<lparr>tick := tick t, vmem := vmem t\<rparr>" using res by (simp add: attempts_result_def)
  have "gs_base t = gs_base s" "gs_rsp_flash_stack_inited t = gs_rsp_flash_stack_inited s"
    by (subst t, simp)+
  then show "gs_base s' = gs_base s" "gs_rsp_flash_stack_inited s' = gs_rsp_flash_stack_inited s"
    by (simp_all add: s' count_attempt_def)
  have v: "vmem s' = vmem t" "tick s' = tick t" by (simp_all add: s' count_attempt_def)
  show "tick s < tick s'" "tick s' \<le> tick s + 43"
    using res v unfolding attempts_result_def SPA_MAX_MMAP_ATTEMPTS_def prod.case by linarith+
  show "r = None \<Longrightarrow> same_mem (vmem s) (vmem s')"
    "r = Some p \<Longrightarrow> p AND SPA_8MB_MASK = 0 \<and> p \<le> rsp - 2 * REAL_SHADOW_STACK_SIZE \<and>
       fresh_block p sz (vmem s) (vmem s')"
    using res v by (simp_all add: attempts_result_def)
qed


subsection \<open>The stages of a randomization\<close>

lemma shadow_ok_put:
  assumes "shadow_ok r sh rsp0 s"
  shows "shadow_ok v sh rsp0 (put_cell (md_of sh + gr_field_offset gr_is_randomizing) v s)"
    and "shadow_ok r sh rsp0 (put_cell (md_of sh + gr_field_offset gr_cpu_cycles) v s)"
  using assms by (simp_all add: shadow_ok_def)

lemma metadata_by_rsp:
  assumes "shadow_ok r sh rsp0 s" and "in_window rsp0 rsp" and "k_get_gs k (tick s)"
  shows "get_gs_rsp_metadata_by_rsp k rsp s = (Some (md_of sh), s\<lparr>tick := Suc (tick s)\<rparr>)"
proof -
  have a: "sh AND SPA_8MB_MASK = 0" and g: "gs_base s = gs_for sh rsp0"
    using assms(1) by (simp_all add: shadow_ok_def)
  have "rsp + gs_base s - SPA_USER_SPACE_SIZE = sh + (DEF_BUDDY_CALL_STACK_SIZE - (rsp0 - rsp))"
    by (simp add: g gs_for_def INIT_SHADOW_STACK_OFFSET_def)
  then have "(rsp + gs_base s - SPA_USER_SPACE_SIZE) AND DEF_BUDDY_CALL_STACK_SIZE_MASK = sh"
    by (simp only: window_mask [OF a assms(2)])
  then show ?thesis
    using assms(3) by (simp add: get_gs_rsp_metadata_by_rsp_def sys_get_gs_def)
qed

lemma shadow_ok_same:
  assumes "shadow_ok r sh rsp0 s" and "same_mem (vmem s) (vmem s')" and "gs_base s' = gs_base s"
    and "gs_rsp_flash_stack_inited s' = gs_rsp_flash_stack_inited s"
  shows "shadow_ok r sh rsp0 s'" and "moved sh sh s s'"
proof -
  have "fld sh f s' = fld sh f s" for f
    using assms(2) field_mapped [OF assms(1), of f] by (simp add: fld_def same_mem_def)
  then show "shadow_ok r sh rsp0 s'"
    using assms by (simp add: shadow_ok_def same_mem_def)
  show "moved sh sh s s'"
    using assms(1,2) unfolding moved_def shadow_ok_def same_mem_def by (auto simp: in_region_offset)
qed

lemma shadow_ok_fresh:
  assumes "shadow_ok r sh rsp0 s" and "fresh_block p len (vmem s) (vmem s')"
    and "gs_base s' = gs_base s" and "gs_rsp_flash_stack_inited s' = gs_rsp_flash_stack_inited s"
  shows "shadow_ok r sh rsp0 s'" and "moved sh sh s s'"
    and "\<And>x. in_region p len x \<Longrightarrow> \<not> in_region sh REAL_SHADOW_STACK_SIZE x"
proof -
  have mapped: "prot_of (vmem s') x = prot_of (vmem s) x" "cells (vmem s') x = cells (vmem s) x"
    if "prot_of (vmem s) x \<noteq> None" for x
    using assms(2) that by (auto simp: fresh_block_def)
  have "fld sh f s' = fld sh f s" for f
    using mapped field_mapped [OF assms(1), of f] by (simp add: fld_def)
  then show "shadow_ok r sh rsp0 s'"
    using assms(1,3,4) mapped by (simp add: shadow_ok_def)
  show "moved sh sh s s'"
    using assms(1) mapped unfolding moved_def shadow_ok_def by (auto simp: in_region_offset)
  show "\<not> in_region sh REAL_SHADOW_STACK_SIZE x" if "in_region p len x" for x
    using assms(1,2) that by (auto simp: fresh_block_def shadow_ok_def)
qed

text \<open>The new block is unmapped again, after some metadata fields were written.\<close>

lemma moved_back:
  assumes "shadow_ok r sh rsp0 s0" and "fresh_block new len (vmem s0) (vmem s)"
    and "prot_of m = prot_of (vmem s)" and "\<And>x. \<not> is_field sh x \<Longrightarrow> cells m x = cells (vmem s) x"
    and "vmem s' = vm_unmap new len m"
  shows "moved sh sh s0 s'"
proof -
  have prot: "prot_of (vmem s') = prot_of (vmem s0)"
    using assms(2,3,5) by (auto simp: fresh_block_def fun_eq_iff)
  have cell: "cells (vmem s') x = cells (vmem s0) x" if "prot_of (vmem s0) x \<noteq> None" "\<not> is_field sh x" for x
    using assms(2,4,5) that by (simp add: fresh_block_def)
  have field: "in_region sh REAL_SHADOW_STACK_SIZE x" if "is_field sh x" for x
    using that field_in_region by (auto simp: is_field_def)
  have "prot_of (vmem s0) (sh + d) \<noteq> None" if "d < REAL_SHADOW_STACK_SIZE" for d
    using assms(1) that by (simp add: shadow_ok_def in_region_offset)
  with cell prot field show ?thesis unfolding moved_def by metis
qed

lemma shadow_ok_unmapped:
  assumes ok: "shadow_ok r sh rsp0 s0" and fresh: "fresh_block new len (vmem s0) (vmem s)"
    and "prot_of m = prot_of (vmem s)" and "vmem s' = vm_unmap new len m"
    and "\<And>f. f \<noteq> gr_cpu_cycles \<Longrightarrow> cells m (md_of sh + gr_field_offset f) = fld sh f s0"
    and "gs_base s' = gs_base s0" and "gs_rsp_flash_stack_inited s' = gs_rsp_flash_stack_inited s0"
  shows "shadow_ok r sh rsp0 s'"
proof -
  have "prot_of (vmem s') = prot_of (vmem s0)"
    using assms(2,3,4) by (auto simp: fresh_block_def fun_eq_iff)
  then show ?thesis
    using ok assms(4-7) by (simp add: shadow_ok_def fld_def)
qed

lemma cells_put_field:
  "cells (vmem (put_cell (md_of sh + gr_field_offset f) v s)) (md_of sh + gr_field_offset g) =
     (if g = f then v else cells (vmem s) (md_of sh + gr_field_offset g))"
  by (simp add: gr_field_offset_inj)

text \<open>The state after \<open>mremap\<close> and \<open>arch_prctl\<close>.\<close>

lemma moved_to_new:
  assumes ok: "shadow_ok 1 sh rsp0 s0" and fresh: "fresh_block new REAL_SHADOW_STACK_SIZE (vmem s0) (vmem s)"
    and al: "new AND SPA_8MB_MASK = 0"
    and m: "prot_of m = prot_of (vmem s)" "\<And>x. \<not> is_field sh x \<Longrightarrow> cells m x = cells (vmem s) x"
    and f: "cells m (md_of sh + gr_field_offset gr_shadow_stack) = new"
      "cells m (md_of sh + gr_field_offset gr_diff) = gs_for new rsp0"
      "cells m (md_of sh + gr_field_offset gr_state) = FLASH_STACK_INITED"
      "cells m (md_of sh + gr_field_offset gr_is_randomizing) = 1"
    and s': "vmem s' = vm_move sh REAL_SHADOW_STACK_SIZE new m" "gs_base s' = gs_for new rsp0"
      "gs_rsp_flash_stack_inited s'"
  shows "shadow_ok 1 new rsp0 s'" and "moved sh new s0 s'"
proof -
  have disj: "\<not> in_region new REAL_SHADOW_STACK_SIZE x" if "prot_of (vmem s0) x \<noteq> None" for x
    using fresh that by (auto simp: fresh_block_def)
  have old: "prot_of (vmem s0) (sh + d) = Some PROT_RW" if "d < REAL_SHADOW_STACK_SIZE" for d
    using ok that by (simp add: shadow_ok_def in_region_offset)
  have same: "prot_of m x = prot_of (vmem s0) x"
    "\<not> is_field sh x \<Longrightarrow> cells m x = cells (vmem s0) x" if "prot_of (vmem s0) x \<noteq> None" for x
    using fresh m that disj [OF that] by (auto simp: fresh_block_def)
  have at: "md_of new + gr_field_offset g - new + sh = md_of sh + gr_field_offset g" for g
    by (simp add: get_gs_rsp_metadata_by_shadow_stack_def)
  have fld: "fld new g s' = cells m (md_of sh + gr_field_offset g)" for g
    using field_in_region [of new g] by (simp add: fld_def s'(1) at)
  have prot: "prot_of (vmem s') x = Some PROT_RW" if "in_region new REAL_SHADOW_STACK_SIZE x" for x
  proof -
    have "x - new < REAL_SHADOW_STACK_SIZE" using that by (simp add: in_region_def)
    then have "prot_of m (sh + (x - new)) = Some PROT_RW" using old same(1) by simp
    then show ?thesis using that by (simp add: s'(1) add.commute)
  qed
  show "shadow_ok 1 new rsp0 s'"
    using al prot s'(2,3) f by (simp add: shadow_ok_def fld)
  show "moved sh new s0 s'"
    unfolding moved_def
  proof (intro conjI allI impI)
    fix d assume d: "d < REAL_SHADOW_STACK_SIZE \<and> \<not> is_field sh (sh + d)"
    then have "cells (vmem s') (new + d) = cells m (sh + d)"
      by (simp add: s'(1) in_region_offset add.commute)
    then show "cells (vmem s') (new + d) = cells (vmem s0) (sh + d)"
      using same(2) [of "sh + d"] old d by simp
  next
    fix x assume x: "prot_of (vmem s0) x \<noteq> None \<and> \<not> in_region sh REAL_SHADOW_STACK_SIZE x"
    then have nf: "\<not> is_field sh x" using field_in_region by (auto simp: is_field_def)
    show "\<not> in_region new REAL_SHADOW_STACK_SIZE x" using disj x by blast
    then show "prot_of (vmem s') x = prot_of (vmem s0) x" "cells (vmem s') x = cells (vmem s0) x"
      using same [of x] x nf by (simp_all add: s'(1))
  qed
qed


lemma sys_mremap_cases:
  "sys_mremap k old len new s =
     (if k_mremap k (tick s)
      then (Some new, s\<lparr>tick := Suc (tick s), vmem := vm_move old len new (vmem s)\<rparr>)
      else (None, s\<lparr>tick := Suc (tick s)\<rparr>))"
  by (simp add: sys_mremap_def)

lemma undo_move_ok:
  assumes "prot_of (vmem s) (md_of sh + gr_field_offset gr_shadow_stack) = Some PROT_RW"
    and "prot_of (vmem s) (md_of sh + gr_field_offset gr_diff) = Some PROT_RW"
  shows "undo_move (md_of sh) old delta new s =
     Inr (md_of sh, sys_munmap new REAL_SHADOW_STACK_SIZE
       (put_cell (md_of sh + gr_field_offset gr_diff) (fld sh gr_diff s - delta)
         (put_cell (md_of sh + gr_field_offset gr_shadow_stack) old (fail_rand s))))"
proof -
  have "fld sh f (fail_rand s) = fld sh f s" "vmem (fail_rand s) = vmem s" for f
    by (simp_all add: fld_def fail_rand_def)
  then show ?thesis
    using assms by (simp add: undo_move_def set_field_ok get_field_def gr_field_offset_inj flip: fld_def)
qed

lemma move_shadow_stack_ok:
  assumes ok: "shadow_ok 1 sh rsp0 s0" and fresh: "fresh_block new REAL_SHADOW_STACK_SIZE (vmem s0) (vmem s)"
    and al: "new AND SPA_8MB_MASK = 0" and kept: "gs_base s = gs_base s0"
    "gs_rsp_flash_stack_inited s = gs_rsp_flash_stack_inited s0"
    and set_gs: "\<forall>n. k_set_gs k n"
  shows "\<exists>sh' s'. move_shadow_stack k (md_of sh) new s = Inr (md_of sh', s') \<and>
     shadow_ok 1 sh' rsp0 s' \<and> moved sh sh' s0 s'"
proof -
  let ?S = "md_of sh + gr_field_offset gr_shadow_stack"
  let ?D = "md_of sh + gr_field_offset gr_diff"
  let ?d = "fld sh gr_diff s" and ?delta = "new - sh"
  have oks: "shadow_ok 1 sh rsp0 s"
    by (rule shadow_ok_fresh(1) [OF ok fresh kept])
  note rw = field_mapped [OF oks]
  have S: "fld sh gr_shadow_stack s = sh" and D: "?d = gs_for sh rsp0" and G: "gs_base s = gs_for sh rsp0"
    using oks by (simp_all add: shadow_ok_def)
  have same: "fld sh f s = fld sh f s0" for f
    using fresh field_mapped [OF ok, of f] by (auto simp: fld_def fresh_block_def)
  have diff: "gs_for sh rsp0 + ?delta = gs_for new rsp0" by (simp add: gs_for_def)
  let ?s2 = "put_cell ?D (?d + ?delta) (put_cell ?S new s)"
  have start: "move_shadow_stack k (md_of sh) new s =
     (if ?d + ?delta <s 0 \<or> MAX_GS_BASE_ADDR <s ?d + ?delta
      then Inr (md_of sh, sys_munmap new REAL_SHADOW_STACK_SIZE s)
      else (case sys_mremap k sh REAL_SHADOW_STACK_SIZE new ?s2 of
              (None, s3) \<Rightarrow> undo_move (md_of sh) sh ?delta new s3
            | (Some shadow_stack, s3) \<Rightarrow>
                (case sys_set_gs k (?d + ?delta) s3 of
                   (False, s4) \<Rightarrow> undo_move (md_of sh) sh ?delta new s4
                 | (True, s4) \<Rightarrow> Inr (md_of shadow_stack, s4))))"
    using S by (simp add: move_shadow_stack_def get_field_ok [OF oks] set_field_ok rw Let_def)
  have nf: "\<not> is_field sh x \<Longrightarrow> x \<noteq> ?S \<and> x \<noteq> ?D" for x by (auto simp: is_field_def)
  show ?thesis
  proof (cases "?d + ?delta <s 0 \<or> MAX_GS_BASE_ADDR <s ?d + ?delta")
    case True
    let ?s' = "sys_munmap new REAL_SHADOW_STACK_SIZE s"
    have "shadow_ok 1 sh rsp0 ?s'"
      by (rule shadow_ok_unmapped [OF ok fresh, of "vmem s"])
        (simp_all add: sys_munmap_def kept flip: fld_def same)
    moreover have "moved sh sh s0 ?s'"
      by (rule moved_back [OF ok fresh, of "vmem s"]) (simp_all add: sys_munmap_def)
    ultimately show ?thesis using start True by auto
  next
    case inside: False
    show ?thesis
    proof (cases "k_mremap k (tick ?s2)")
      case False
      let ?s3 = "?s2\<lparr>tick := Suc (tick ?s2)\<rparr>"
      let ?m = "put_cell ?D (fld sh gr_diff ?s3 - ?delta) (put_cell ?S sh (fail_rand ?s3))"
      let ?s' = "sys_munmap new REAL_SHADOW_STACK_SIZE ?m"
      have "move_shadow_stack k (md_of sh) new s = Inr (md_of sh, ?s')"
        using start inside False rw by (simp add: sys_mremap_cases undo_move_ok)
      moreover have "fld sh gr_diff ?s3 - ?delta = ?d"
        by (simp add: fld_def cells_put_field)
      then have "shadow_ok 1 sh rsp0 ?s'"
        using D S by (intro shadow_ok_unmapped [OF ok fresh, of "vmem ?m"])
          (simp_all add: sys_munmap_def fail_rand_def kept cells_put_field put_cell_def
            gr_field_offset_inj same [symmetric] fld_def [symmetric])
      moreover have "moved sh sh s0 ?s'"
        using nf by (intro moved_back [OF ok fresh, of "vmem ?m"])
          (simp_all add: sys_munmap_def fail_rand_def)
      ultimately show ?thesis by blast
    next
      case True
      let ?s3 = "?s2\<lparr>tick := Suc (tick ?s2), vmem := vm_move sh REAL_SHADOW_STACK_SIZE new (vmem ?s2)\<rparr>"
      let ?s4 = "?s3\<lparr>tick := Suc (tick ?s3), gs_base := ?d + ?delta\<rparr>"
      have "move_shadow_stack k (md_of sh) new s = Inr (md_of new, ?s4)"
        using start inside True set_gs by (simp add: sys_mremap_cases sys_set_gs_def)
      moreover have m: "prot_of (vmem ?s2) = prot_of (vmem s)"
        "\<And>x. \<not> is_field sh x \<Longrightarrow> cells (vmem ?s2) x = cells (vmem s) x"
        using nf by simp_all
      have f: "cells (vmem ?s2) (md_of sh + gr_field_offset gr_shadow_stack) = new"
        "cells (vmem ?s2) (md_of sh + gr_field_offset gr_diff) = gs_for new rsp0"
        "cells (vmem ?s2) (md_of sh + gr_field_offset gr_state) = FLASH_STACK_INITED"
        "cells (vmem ?s2) (md_of sh + gr_field_offset gr_is_randomizing) = 1"
        using oks D diff by (simp_all only: cells_put_field gr_field.distinct if_False if_True refl
            fld_def shadow_ok_def)
      have v: "vmem ?s4 = vm_move sh REAL_SHADOW_STACK_SIZE new (vmem ?s2)"
        "gs_rsp_flash_stack_inited ?s4"
        using oks by (simp_all add: shadow_ok_def)
      have g: "gs_base ?s4 = gs_for new rsp0"
      proof -
        have "gs_base ?s4 = ?d + ?delta" by simp
        then show ?thesis by (simp only: D diff)
      qed
      note moved_to_new [OF ok fresh al m f v(1) g v(2)]
      ultimately show ?thesis by blast
    qed
  qed
qed


lemma rand_exit_ok:
  assumes "shadow_ok 1 sh rsp0 s"
  shows "\<exists>s'. rand_exit k from_clock (md_of sh) s = Inr s' \<and> shadow_ok 0 sh rsp0 s' \<and> moved sh sh s s'"
proof -
  let ?s1 = "put_cell (md_of sh + gr_field_offset gr_is_randomizing) 0 s"
  have ok: "shadow_ok 0 sh rsp0 ?s1" and mv: "moved sh sh s ?s1"
    by (rule shadow_ok_put(1) [OF assms], rule moved_put)
  have "\<exists>s'. rand_exit k from_clock (md_of sh) s = Inr s' \<and> vmem s' = vmem ?s1 \<and> gs_base s' = gs_base ?s1 \<and>
      gs_rsp_flash_stack_inited s' = gs_rsp_flash_stack_inited ?s1"
    using field_mapped [OF assms] by (simp add: rand_exit_def set_field_ok sys_rdtsc_def Let_def)
  then obtain s' where s': "rand_exit k from_clock (md_of sh) s = Inr s'" "vmem s' = vmem ?s1"
    "gs_base s' = gs_base ?s1" "gs_rsp_flash_stack_inited s' = gs_rsp_flash_stack_inited ?s1"
    by blast
  have "same_mem (vmem ?s1) (vmem s')" using s'(2) by simp
  from shadow_ok_same [OF ok this s'(3,4)] s'(1) moved_trans [OF mv] show ?thesis by blast
qed

text \<open>From the clock test on, with the block of the thread marked as being randomized.\<close>

lemma shuffle_ok:
  assumes k: "kernel_ok k" "\<forall>n. k_set_gs k n" and ok: "shadow_ok 0 sh rsp0 s"
  shows "\<exists>sh' s'. shuffle k rsp_alloc from_clock (md_of sh) s = Inr s' \<and>
     shadow_ok 0 sh' rsp0 s' \<and> moved sh sh' s s'"
proof -
  let ?s1 = "put_cell (md_of sh + gr_field_offset gr_is_randomizing) 1 s"
  let ?s2 = "?s1\<lparr>tick := Suc (tick ?s1)\<rparr>"
  let ?now = "k_rdtsc k (tick ?s1)"
  have ok1: "shadow_ok 1 sh rsp0 ?s1" and mv1: "moved sh sh s ?s1"
    by (rule shadow_ok_put(1) [OF ok], rule moved_put)
  have ok2: "shadow_ok 1 sh rsp0 ?s2" and mv2: "moved sh sh s ?s2"
    using shadow_ok_same [OF ok1, of ?s2] moved_trans [OF mv1, of sh ?s2] by simp_all
  have start: "shuffle k rsp_alloc from_clock (md_of sh) s =
    (if ?now - fld sh gr_cpu_cycles ?s1 < CPU_CYCLES_PER_RANDOMIZATION
     then set_field (md_of sh) gr_is_randomizing 0 ?s2
     else ebind (set_field (md_of sh) gr_cpu_cycles ?now ?s2) (\<lambda>s3.
          case get_memory_at_random k rsp_alloc REAL_SHADOW_STACK_SIZE False s3 of
            (None, s4) \<Rightarrow> rand_exit k from_clock (md_of sh) (fail_rand s4)
          | (Some new_shadow_stack, s4) \<Rightarrow>
              ebind (move_shadow_stack k (md_of sh) new_shadow_stack s4)
                (\<lambda>(md', s5). rand_exit k from_clock md' s5)))"
    by (simp add: shuffle_def set_field_ok field_mapped [OF ok] get_field_ok [OF ok1] sys_rdtsc_def
        Let_def del: fld_put)
  show ?thesis
  proof (cases "?now - fld sh gr_cpu_cycles ?s1 < CPU_CYCLES_PER_RANDOMIZATION")
    case True
    let ?s' = "put_cell (md_of sh + gr_field_offset gr_is_randomizing) 0 ?s2"
    from True have "shuffle k rsp_alloc from_clock (md_of sh) s = Inr ?s'"
      unfolding start by (simp only: if_True set_field_ok [OF field_mapped [OF ok2]])
    with shadow_ok_put(1) [OF ok2, of 0] moved_trans [OF mv2 moved_put] show ?thesis by blast
  next
    case False
    let ?s3 = "put_cell (md_of sh + gr_field_offset gr_cpu_cycles) ?now ?s2"
    have ok3: "shadow_ok 1 sh rsp0 ?s3" and mv3: "moved sh sh s ?s3"
      by (rule shadow_ok_put(2) [OF ok2], rule moved_trans [OF mv2 moved_put])
    obtain r s4 where alloc: "get_memory_at_random k rsp_alloc REAL_SHADOW_STACK_SIZE False ?s3 = (r, s4)"
      by (cases "get_memory_at_random k rsp_alloc REAL_SHADOW_STACK_SIZE False ?s3") auto
    note gm = get_memory_at_random_ok [OF k(1) alloc]
    have go: "shuffle k rsp_alloc from_clock (md_of sh) s =
      (case r of None \<Rightarrow> rand_exit k from_clock (md_of sh) (fail_rand s4)
       | Some new \<Rightarrow> ebind (move_shadow_stack k (md_of sh) new s4)
           (\<lambda>(md', s5). rand_exit k from_clock md' s5))"
      unfolding start
      by (simp only: False if_False set_field_ok [OF field_mapped [OF ok2], of gr_cpu_cycles ?now]
          ebind_simps alloc prod.case)
    show ?thesis
    proof (cases r)
      case None
      have "shadow_ok 1 sh rsp0 (fail_rand s4)" "moved sh sh ?s3 (fail_rand s4)"
        using shadow_ok_same [OF ok3, of "fail_rand s4"] gm(1,2) gm(5) [OF None]
        by (simp_all add: fail_rand_def)
      then obtain s' where s': "rand_exit k from_clock (md_of sh) (fail_rand s4) = Inr s'"
        "shadow_ok 0 sh rsp0 s'" "moved sh sh s s'"
        using rand_exit_ok moved_trans [OF mv3] moved_trans by blast
      moreover have "shuffle k rsp_alloc from_clock (md_of sh) s = Inr s'"
        unfolding go by (simp only: None option.case s'(1))
      ultimately show ?thesis by blast
    next
      case (Some new)
      from move_shadow_stack_ok [OF ok3 _ _ gm(1,2) k(2)] gm(6) [OF Some]
      obtain sh' s5 where mv5: "move_shadow_stack k (md_of sh) new s4 = Inr (md_of sh', s5)"
        "shadow_ok 1 sh' rsp0 s5" "moved sh sh' ?s3 s5"
        by blast
      obtain s' where s': "rand_exit k from_clock (md_of sh') s5 = Inr s'"
        "shadow_ok 0 sh' rsp0 s'" "moved sh' sh' s5 s'"
        using rand_exit_ok [OF mv5(2)] by blast
      have "shuffle k rsp_alloc from_clock (md_of sh) s = Inr s'"
        unfolding go by (simp only: Some option.case mv5(1) ebind_simps prod.case s'(1))
      with s'(2) moved_trans [OF moved_trans [OF mv3 mv5(3)] s'(3)] show ?thesis by blast
    qed
  qed
qed


subsection \<open>Initialisation ends and establishes the invariant\<close>

lemma setup_shadow_stack_ok:
  assumes "k_set_gs k (tick s)" and al: "sh AND SPA_8MB_MASK = 0"
    and rw: "\<And>x. in_region sh REAL_SHADOW_STACK_SIZE x \<Longrightarrow> prot_of (vmem s) x = Some PROT_RW"
    and "gs_rsp_flash_stack_inited s"
  shows "\<exists>s'. setup_shadow_stack k rsp sh s = Inr s' \<and> shadow_ok 0 sh rsp s' \<and>
     prot_of (vmem s') = prot_of (vmem s) \<and>
     (\<forall>x. \<not> is_field sh x \<longrightarrow> cells (vmem s') x = cells (vmem s) x)"
proof -
  note field_rw = rw [OF field_in_region]
  have f: "set_field (md_of sh) f v t = Inr (put_cell (md_of sh + gr_field_offset f) v t)"
    if "prot_of (vmem t) = prot_of (vmem s)" for f v t
    using that field_rw by (simp add: set_field_ok)
  let ?p = "\<lambda>f v t. put_cell (md_of sh + gr_field_offset f) v t"
  let ?s1 = "?p gr_diff (gs_for sh rsp) (?p gr_relaxing 0 (?p gr_cpu_cycles 0 (?p gr_is_randomizing 0
    (?p gr_shadow_stack sh (?p gr_relaxing 0 (?p gr_diff 0 (?p gr_state 0 (?p gr_cpu_cycles 0
    (?p gr_is_randomizing 0 (?p gr_shadow_stack 0 s))))))))))"
  let ?s2 = "?s1\<lparr>tick := Suc (tick s), gs_base := gs_for sh rsp\<rparr>"
  let ?s3 = "?p gr_state FLASH_STACK_INITED ?s2"
  have "init_metadata_on_shadow_stack sh (gs_for sh rsp) s = Inr ?s1"
    by (simp add: init_metadata_on_shadow_stack_def f)
  then have "setup_shadow_stack k rsp sh s = Inr ?s3"
    using assms(1)
    by (simp add: setup_shadow_stack_def Let_def sys_set_gs_def set_call_stack_info_def f
        flip: gs_for_def)
  moreover have "shadow_ok 0 sh rsp ?s3"
    using al rw assms(4) by (simp add: shadow_ok_def) (simp add: fld_def gr_field_offset_inj)
  moreover have "\<forall>x. \<not> is_field sh x \<longrightarrow> cells (vmem ?s3) x = cells (vmem s) x"
    by (auto simp: is_field_def)
  ultimately show ?thesis by simp
qed

text \<open>From the \<open>n\<close>-th call on, the kernel grants the hint it is given.\<close>

definition grants_hints_from :: "nat \<Rightarrow> kernel \<Rightarrow> vm \<Rightarrow> u64 \<Rightarrow> bool" where
  "grants_hints_from n k m adj \<longleftrightarrow>
     (\<forall>t \<ge> n. \<forall>m'. prot_of m' = prot_of m \<longrightarrow>
        (let x = mmap_hint adj (k_rdrand k t)
         in k_mmap k (Suc t) m' x REAL_SHADOW_STACK_SIZE = Some x))"

lemma mmap_hint_good:
  assumes "0 < adj"
  shows "mmap_hint adj r AND SPA_8MB_MASK = 0" and "mmap_hint adj r \<le> adj"
proof -
  have "SPA_SHADOW_STACK_8MB_RAND_ADDR_MASK AND SPA_8MB_MASK = (0 :: u64)"
    by (simp add: SPA_SHADOW_STACK_8MB_RAND_ADDR_MASK_def SPA_8MB_MASK_def)
  then show "mmap_hint adj r AND SPA_8MB_MASK = 0"
    by (simp add: mmap_hint_def Let_def and.assoc)
  have "x AND m \<le> x" for x m :: u64 by (simp add: word_and_le2)
  moreover have "x mod adj \<le> adj" for x using assms by (simp add: order_less_imp_le word_mod_less_divisor)
  ultimately show "mmap_hint adj r \<le> adj"
    using assms order_trans unfolding mmap_hint_def Let_def by (simp) blast
qed

lemma granted_attempt:
  assumes "grants_hints_from n k (vmem s) adj" and "n \<le> tick s" and "0 < adj"
  shows "\<exists>p j s'. mmap_attempts k adj REAL_SHADOW_STACK_SIZE 0 s = (Some p, j, s')"
proof -
  let ?x = "mmap_hint adj (k_rdrand k (tick s))"
  have "k_mmap k (Suc (tick s)) (vmem s) ?x REAL_SHADOW_STACK_SIZE = Some ?x"
    using assms(1,2) by (simp add: grants_hints_from_def Let_def)
  moreover have "\<not> ?x > adj" using mmap_hint_good(2) [OF assms(3)] by (simp add: linorder_not_less)
  ultimately show ?thesis
    using mmap_hint_good(1) [OF assms(3)]
    by (subst mmap_attempts.simps) (simp add: sys_rdrand_def sys_mmap_def)
qed

lemma alloc_shadow_stack_ends:
  assumes "kernel_ok k" and "0 < rsp - 2 * REAL_SHADOW_STACK_SIZE"
    and "grants_hints_from n k (vmem s) (rsp - 2 * REAL_SHADOW_STACK_SIZE)"
  shows "\<exists>p s'. alloc_shadow_stack k rsp s = Some (p, s') \<and> p AND SPA_8MB_MASK = 0 \<and>
     fresh_block p REAL_SHADOW_STACK_SIZE (vmem s) (vmem s') \<and>
     gs_rsp_flash_stack_inited s' = gs_rsp_flash_stack_inited s"
  using assms(3)
proof (induction "n - tick s" arbitrary: s rule: less_induct)
  case less
  obtain r s1 where gm: "get_memory_at_random k rsp REAL_SHADOW_STACK_SIZE True s = (r, s1)"
    by (cases "get_memory_at_random k rsp REAL_SHADOW_STACK_SIZE True s") auto
  note ok = get_memory_at_random_ok [OF assms(1) gm]
  show ?case
  proof (cases r)
    case (Some p)
    then show ?thesis
      using gm ok(2) ok(6) [OF Some] by (subst alloc_shadow_stack.simps) simp
  next
    case None
    have "\<not> n \<le> tick s"
      using granted_attempt [OF less.prems _ assms(2)] gm None
      by (auto simp: get_memory_at_random_def Let_def)
    then have "n - tick s1 < n - tick s" using ok(3) by linarith
    moreover have same: "same_mem (vmem s) (vmem s1)" by (rule ok(5) [OF None])
    then have "grants_hints_from n k (vmem s1) (rsp - 2 * REAL_SHADOW_STACK_SIZE)"
      using less.prems by (simp add: grants_hints_from_def same_mem_def)
    ultimately obtain p s' where p: "alloc_shadow_stack k rsp s1 = Some (p, s')" "p AND SPA_8MB_MASK = 0"
      "fresh_block p REAL_SHADOW_STACK_SIZE (vmem s1) (vmem s')"
      "gs_rsp_flash_stack_inited s' = gs_rsp_flash_stack_inited s1"
      using less.hyps by blast
    have "fresh_block p REAL_SHADOW_STACK_SIZE (vmem s) (vmem s')"
      using p(3) same by (auto simp: fresh_block_def same_mem_def)
    then show ?thesis
      using gm None p ok(2) by (subst alloc_shadow_stack.simps) simp
  qed
qed

end
