(* ===== verification/Thread_Table.thy ===== *)
theory Thread_Table
  imports Kernel "HOL-Library.Multiset"
begin

section \<open>Thread_Table: the table of memory blocks of exited threads\<close>

text \<open>
  Both runtimes keep a fixed array of the blocks that exited threads leave behind; a cleaner
  thread unmaps them later.  The contract of \<open>add_memory_region\<close> as a locale: an entry goes to the
  first free slot of the array, and an array without a free slot is left as it is.  From it
  follows what the table holds after an insertion, for any type of entries.
\<close>

text \<open>
  What a pass of the cleaner does: some entries are released, and what is unmapped are the blocks
  of these.
\<close>

definition emptied :: "(nat \<Rightarrow> addr set) \<Rightarrow> (nat \<Rightarrow> addr set) \<Rightarrow> vm \<Rightarrow> vm \<Rightarrow> bool" where
  "emptied W W' m m' \<longleftrightarrow> (\<forall>n. W' n = W n \<or> W' n = {}) \<and>
     (\<forall>x. prot_of m' x = (if \<exists>n. x \<in> W n \<and> W' n = {} then None else prot_of m x)) \<and> cells m' = cells m"

lemma emptiedD:
  assumes "emptied W W' m m'"
  shows "W' n = W n \<or> W' n = {}"
    and "prot_of m' x = (if \<exists>n. x \<in> W n \<and> W' n = {} then None else prot_of m x)"
    and "cells m' = cells m"
  using assms unfolding emptied_def by blast+

locale region_table =
  fixes add :: "'r \<Rightarrow> 'r list \<Rightarrow> 'r list"
    and valid :: "'r \<Rightarrow> bool"
    and mark :: "'r \<Rightarrow> 'r"
  assumes add_Nil: "add r [] = []"
    and add_free: "\<not> valid t \<Longrightarrow> add r (t # ts) = mark r # ts"
    and add_used: "valid t \<Longrightarrow> add r (t # ts) = t # add r ts"
    and valid_mark: "valid (mark r)"
begin

definition held :: "'r list \<Rightarrow> 'r multiset" where
  "held ts = mset (filter valid ts)"

lemma length_add: "length (add r ts) = length ts"
proof (induction ts)
  case Nil
  then show ?case by (simp add: add_Nil)
next
  case (Cons t ts)
  then show ?case by (cases "valid t") (simp_all add: add_free add_used)
qed

lemma add_full: "list_all valid ts \<Longrightarrow> add r ts = ts"
  by (induction ts) (simp_all add: add_Nil add_used)

lemma add_cases: "add r ts = ts \<or> (\<exists>n < length ts. \<not> valid (ts ! n) \<and> add r ts = ts[n := mark r])"
proof (induction ts)
  case Nil
  then show ?case by (simp add: add_Nil)
next
  case (Cons t ts)
  show ?case
  proof (cases "valid t")
    case True
    from Cons.IH show ?thesis
    proof
      assume "\<exists>n < length ts. \<not> valid (ts ! n) \<and> add r ts = ts[n := mark r]"
      then obtain n where "n < length ts" "\<not> valid (ts ! n)" "add r ts = ts[n := mark r]" by blast
      with True have "Suc n < length (t # ts) \<and> \<not> valid ((t # ts) ! Suc n) \<and>
          add r (t # ts) = (t # ts)[Suc n := mark r]"
        by (simp add: add_used)
      then show ?thesis by blast
    qed (simp add: True add_used)
  next
    case False
    then have "0 < length (t # ts) \<and> \<not> valid ((t # ts) ! 0) \<and> add r (t # ts) = (t # ts)[0 := mark r]"
      by (simp add: add_free)
    then show ?thesis by blast
  qed
qed

text \<open>The blocks that the entries in use will unmap, by their place in the table.\<close>

definition waiting_in :: "('r \<Rightarrow> addr set) \<Rightarrow> 'r list \<Rightarrow> nat \<Rightarrow> addr set" where
  "waiting_in block ts n = (if n < length ts \<and> valid (ts ! n) then block (ts ! n) else {})"

lemma waiting_in_Cons:
  "waiting_in block (t # ts) 0 = (if valid t then block t else {})"
  "waiting_in block (t # ts) (Suc n) = waiting_in block ts n"
  by (simp_all add: waiting_in_def)

lemma emptied_keep:
  assumes "emptied (waiting_in block ts) (waiting_in block ts') m m'"
  shows "emptied (waiting_in block (t # ts)) (waiting_in block (t # ts')) m m'"
proof -
  have "(\<exists>n. x \<in> waiting_in block (t # ts) n \<and> waiting_in block (t # ts') n = {}) \<longleftrightarrow>
      (\<exists>n. x \<in> waiting_in block ts n \<and> waiting_in block ts' n = {})" for x
  proof
    assume "\<exists>n. x \<in> waiting_in block (t # ts) n \<and> waiting_in block (t # ts') n = {}"
    then obtain n where n: "x \<in> waiting_in block (t # ts) n" "waiting_in block (t # ts') n = {}" by blast
    then obtain n' where "n = Suc n'" by (cases n) (simp_all add: waiting_in_Cons)
    with n show "\<exists>n. x \<in> waiting_in block ts n \<and> waiting_in block ts' n = {}"
      by (auto simp: waiting_in_Cons)
  next
    assume "\<exists>n. x \<in> waiting_in block ts n \<and> waiting_in block ts' n = {}"
    then show "\<exists>n. x \<in> waiting_in block (t # ts) n \<and> waiting_in block (t # ts') n = {}"
      by (metis waiting_in_Cons(2))
  qed
  moreover have "waiting_in block (t # ts') n = waiting_in block (t # ts) n \<or> waiting_in block (t # ts') n = {}" for n
    using assms by (cases n) (simp_all add: waiting_in_Cons emptied_def)
  ultimately show ?thesis using assms by (simp add: emptied_def)
qed

lemma emptied_release:
  assumes "emptied (waiting_in block ts) (waiting_in block ts') m1 m'" and t: "valid t" "\<not> valid t'"
    and m1: "\<And>x. prot_of m1 x = (if x \<in> block t then None else prot_of m x)" "cells m1 = cells m"
  shows "emptied (waiting_in block (t # ts)) (waiting_in block (t' # ts')) m m'"
proof -
  have "(\<exists>n. x \<in> waiting_in block (t # ts) n \<and> waiting_in block (t' # ts') n = {}) \<longleftrightarrow>
      x \<in> block t \<or> (\<exists>n. x \<in> waiting_in block ts n \<and> waiting_in block ts' n = {})" for x
  proof
    assume "\<exists>n. x \<in> waiting_in block (t # ts) n \<and> waiting_in block (t' # ts') n = {}"
    then obtain n where "x \<in> waiting_in block (t # ts) n" "waiting_in block (t' # ts') n = {}" by blast
    then show "x \<in> block t \<or> (\<exists>n. x \<in> waiting_in block ts n \<and> waiting_in block ts' n = {})"
      using t by (cases n) (auto simp: waiting_in_Cons)
  next
    assume "x \<in> block t \<or> (\<exists>n. x \<in> waiting_in block ts n \<and> waiting_in block ts' n = {})"
    then show "\<exists>n. x \<in> waiting_in block (t # ts) n \<and> waiting_in block (t' # ts') n = {}"
      using t by (metis waiting_in_Cons)
  qed
  moreover have "waiting_in block (t' # ts') n = waiting_in block (t # ts) n \<or> waiting_in block (t' # ts') n = {}" for n
    using assms(1) t by (cases n) (simp_all add: waiting_in_Cons emptied_def)
  moreover have "prot_of m' x =
      (if x \<in> block t \<or> (\<exists>n. x \<in> waiting_in block ts n \<and> waiting_in block ts' n = {}) then None else prot_of m x)" for x
    unfolding emptiedD(2) [OF assms(1), of x] m1(1)
    by (cases "\<exists>n. x \<in> waiting_in block ts n \<and> waiting_in block ts' n = {}"; cases "x \<in> block t")
      (simp_all only: simp_thms if_True if_False)
  ultimately show ?thesis using assms(1) unfolding emptied_def m1 by simp
qed

lemma waiting_in_add:
  assumes "block (mark r) = X"
  shows "waiting_in block (add r ts) = waiting_in block ts \<or>
    (\<exists>n. waiting_in block ts n = {} \<and> waiting_in block (add r ts) = (waiting_in block ts)(n := X))"
  using add_cases [of r ts]
proof
  assume "\<exists>n < length ts. \<not> valid (ts ! n) \<and> add r ts = ts[n := mark r]"
  then obtain n where n: "n < length ts" "\<not> valid (ts ! n)" "add r ts = ts[n := mark r]" by blast
  have "waiting_in block (add r ts) m = ((waiting_in block ts)(n := X)) m" for m
    using n assms by (simp add: waiting_in_def valid_mark)
  moreover have "waiting_in block ts n = {}" using n by (simp add: waiting_in_def)
  ultimately show ?thesis by blast
qed simp

lemma held_add: "\<not> list_all valid ts \<Longrightarrow> held (add r ts) = add_mset (mark r) (held ts)"
proof (induction ts)
  case Nil
  then show ?case by simp
next
  case (Cons t ts)
  then show ?case by (cases "valid t") (simp_all add: add_free add_used held_def valid_mark)
qed

end

end
