(* ===== verification/Rerandomizer.thy ===== *)
theory Rerandomizer
  imports Prelude
begin

section \<open>Rerandomizer: the contract of the three rerandomizing runtimes\<close>

text \<open>
  A runtime that rerandomizes: called when its invariant holds and with arguments it is ready for,
  it returns, keeps the invariant and keeps, for every live frame, the content of the frame's slot
  (where slots move and are blinded, what the exit sequence would read from the slot).  From the
  contract: in any interleaving of calls with work of the program that leaves the slot of a frame
  alone, the content of the frame's slot stays what it is, and no call gets stuck.

  \<open>run p\<close> is the call with arguments \<open>p\<close> (the answers of the kernel, the stack pointer).
\<close>

inductive run_step ::
  "('p \<Rightarrow> 's \<Rightarrow> (fault + 's) option) \<Rightarrow> ('s \<Rightarrow> bool) \<Rightarrow> ('p \<Rightarrow> 's \<Rightarrow> bool) \<Rightarrow> ('p \<Rightarrow> addr \<Rightarrow> bool) \<Rightarrow>
   ('s \<Rightarrow> addr \<Rightarrow> u64) \<Rightarrow> addr \<Rightarrow> 's \<Rightarrow> 's \<Rightarrow> bool"
  for run good ready live content a where
  program: "good t \<Longrightarrow> content t a = content s a \<Longrightarrow> run_step run good ready live content a s t"
| rerandomize: "ready p s \<Longrightarrow> live p a \<Longrightarrow> run p s = Some (Inr t) \<Longrightarrow>
     run_step run good ready live content a s t"

inductive_cases run_stepE: "run_step run good ready live content a s t"

locale rerandomizer =
  fixes run :: "'p \<Rightarrow> 's \<Rightarrow> (fault + 's) option"
    and good :: "'s \<Rightarrow> bool"
    and ready :: "'p \<Rightarrow> 's \<Rightarrow> bool"
    and live :: "'p \<Rightarrow> addr \<Rightarrow> bool"
    and content :: "'s \<Rightarrow> addr \<Rightarrow> u64"
  assumes run_keeps: "good s \<Longrightarrow> ready p s \<Longrightarrow>
    \<exists>s'. run p s = Some (Inr s') \<and> good s' \<and> (\<forall>a. live p a \<longrightarrow> content s' a = content s a)"
begin

lemma step_keeps:
  assumes "run_step run good ready live content a s t" and "good s"
  shows "good t \<and> content t a = content s a"
  using assms(1)
proof (rule run_stepE)
  fix p assume "ready p s" "live p a" "run p s = Some (Inr t)"
  then show ?thesis using run_keeps [OF assms(2), of p] by auto
qed blast

lemma steps_keep:
  assumes "(run_step run good ready live content a)\<^sup>*\<^sup>* s t" and "good s"
  shows "good t" and "content t a = content s a"
proof -
  have "good t \<and> content t a = content s a"
    using assms
  proof (induction rule: rtranclp_induct)
    case (step t u)
    then show ?case using step_keeps [OF step.hyps(2)] by simp
  qed simp
  then show "good t" "content t a = content s a" by simp_all
qed

text \<open>No reachable call fails or runs forever.\<close>

lemma never_stuck:
  assumes "(run_step run good ready live content a)\<^sup>*\<^sup>* s t" and "good s" and "ready p t"
  shows "\<exists>u. run p t = Some (Inr u)"
  using run_keeps [OF steps_keep(1) [OF assms(1,2)] assms(3)] by blast

end

end
