(* ===== verification/Rt_Hooks.thy ===== *)
theory Rt_Hooks
  imports Rerandomizer
begin

section \<open>Rt_Hooks: the hooks that trigger rerandomization\<close>

text \<open>
  \<open>rt_lib.c\<close>.  A hook replaces a function of libc: it looks up the real function (once, with
  \<open>dlsym\<close>), calls it, and runs \<open>DO_RANDOMIZATION\<close> before or after the call.  Which hooks are compiled
  is a switch per hook (\<open>SPA_ENABLE_HOOK_...\<close>); as the file stands, none is.  \<open>DO_RANDOMIZATION\<close> of a
  scheme stands with the scheme's runtime.

  Parameters: \<open>dl h\<close> says whether \<open>dlsym\<close> finds the function; \<open>rnd\<close> is \<open>DO_RANDOMIZATION\<close> of the
  scheme; \<open>real\<close> is the real function, from argument and state to result and state (\<open>None\<close> when it
  does not return).  The state carries which function pointers are set.
\<close>

subsection \<open>Hooks\<close>

datatype hook =
    H_write
  | H_puts
  | H_gets
  | H_getppid
  | H_getpid
  | H_pthread_self
  | H_epoll_wait
  | H_sendto
  | H_sendmsg
  | H_fork
  | H_sendfile
  | H_send
  | H_writev
  | H_read
  | H_recvfrom
  | H_recvmsg
  | H_recv

text \<open>The switches as the file has them: all are in comments or under \<open>#if 0\<close>.\<close>

definition SPA_ENABLE_HOOK :: "hook \<Rightarrow> bool" where
  "SPA_ENABLE_HOOK h = False"

type_synonym pointers = "hook \<Rightarrow> bool"
type_synonym ('a, 'r, 's) real_function = "'a \<Rightarrow> 's \<Rightarrow> ('r \<times> 's) option"
type_synonym ('r, 's) hook_result = "(fault + 'r \<times> pointers \<times> 's) option"
type_synonym ('a, 'r, 's) hook_type =
  "(hook \<Rightarrow> bool) \<Rightarrow> ('s \<Rightarrow> (fault + 's) option) \<Rightarrow> ('a, 'r, 's) real_function \<Rightarrow> 'a \<Rightarrow> pointers \<Rightarrow> 's \<Rightarrow>
   ('r, 's) hook_result"

definition resolve :: "(hook \<Rightarrow> bool) \<Rightarrow> hook \<Rightarrow> pointers \<Rightarrow> pointers" where
  "resolve dl h fs = (if \<not> fs h then fs(h := dl h) else fs)"

text \<open>A call through the pointer; a null pointer faults.\<close>

definition call_real ::
  "('a, 'r, 's) real_function \<Rightarrow> hook \<Rightarrow> 'a \<Rightarrow> pointers \<Rightarrow> 's \<Rightarrow> (fault + 'r \<times> 's) option" where
  "call_real real h x fs s = (if fs h then map_option Inr (real x s) else Some (Inl (Segv 0)))"

definition call_then_randomize ::
  "hook \<Rightarrow> ('a, 'r, 's) hook_type" where
  "call_then_randomize h dl rnd real x fs s =
     (let fs' = resolve dl h fs
      in tbind (call_real real h x fs' s) (\<lambda>(n, s1).
         tbind (rnd s1) (\<lambda>s2. Some (Inr (n, fs', s2)))))"

definition randomize_then_call ::
  "hook \<Rightarrow> ('a, 'r, 's) hook_type" where
  "randomize_then_call h dl rnd real x fs s =
     (let fs' = resolve dl h fs
      in tbind (rnd s) (\<lambda>s1.
         tbind (call_real real h x fs' s1) (\<lambda>(n, s2). Some (Inr (n, fs', s2)))))"

definition only_call ::
  "hook \<Rightarrow> ('a, 'r, 's) hook_type" where
  "only_call h dl rnd real x fs s =
     (let fs' = resolve dl h fs
      in tbind (call_real real h x fs' s) (\<lambda>(n, s1). Some (Inr (n, fs', s1))))"

text \<open>The hook functions: output calls first, input first rerandomizes, \<open>fork\<close> only calls.\<close>

definition hook_write :: "('a, 'r, 's) hook_type" where "hook_write = call_then_randomize H_write"
definition hook_puts :: "('a, 'r, 's) hook_type" where "hook_puts = call_then_randomize H_puts"
definition hook_gets :: "('a, 'r, 's) hook_type" where "hook_gets = randomize_then_call H_gets"
definition hook_getppid :: "('a, 'r, 's) hook_type" where "hook_getppid = randomize_then_call H_getppid"
definition hook_getpid :: "('a, 'r, 's) hook_type" where "hook_getpid = randomize_then_call H_getpid"
definition hook_pthread_self :: "('a, 'r, 's) hook_type" where "hook_pthread_self = randomize_then_call H_pthread_self"
definition hook_epoll_wait :: "('a, 'r, 's) hook_type" where "hook_epoll_wait = call_then_randomize H_epoll_wait"
definition hook_sendto :: "('a, 'r, 's) hook_type" where "hook_sendto = call_then_randomize H_sendto"
definition hook_sendmsg :: "('a, 'r, 's) hook_type" where "hook_sendmsg = call_then_randomize H_sendmsg"
definition hook_fork :: "('a, 'r, 's) hook_type" where "hook_fork = only_call H_fork"
definition hook_sendfile :: "('a, 'r, 's) hook_type" where "hook_sendfile = call_then_randomize H_sendfile"
definition hook_send :: "('a, 'r, 's) hook_type" where "hook_send = call_then_randomize H_send"
definition hook_writev :: "('a, 'r, 's) hook_type" where "hook_writev = call_then_randomize H_writev"
definition hook_read :: "('a, 'r, 's) hook_type" where "hook_read = randomize_then_call H_read"
definition hook_recvfrom :: "('a, 'r, 's) hook_type" where "hook_recvfrom = randomize_then_call H_recvfrom"
definition hook_recvmsg :: "('a, 'r, 's) hook_type" where "hook_recvmsg = randomize_then_call H_recvmsg"
definition hook_recv :: "('a, 'r, 's) hook_type" where "hook_recv = randomize_then_call H_recv"

definition hook_function ::
  "hook \<Rightarrow> ('a, 'r, 's) hook_type" where
  "hook_function h =
     (case h of
        H_write \<Rightarrow> hook_write
      | H_puts \<Rightarrow> hook_puts
      | H_gets \<Rightarrow> hook_gets
      | H_getppid \<Rightarrow> hook_getppid
      | H_getpid \<Rightarrow> hook_getpid
      | H_pthread_self \<Rightarrow> hook_pthread_self
      | H_epoll_wait \<Rightarrow> hook_epoll_wait
      | H_sendto \<Rightarrow> hook_sendto
      | H_sendmsg \<Rightarrow> hook_sendmsg
      | H_fork \<Rightarrow> hook_fork
      | H_sendfile \<Rightarrow> hook_sendfile
      | H_send \<Rightarrow> hook_send
      | H_writev \<Rightarrow> hook_writev
      | H_read \<Rightarrow> hook_read
      | H_recvfrom \<Rightarrow> hook_recvfrom
      | H_recvmsg \<Rightarrow> hook_recvmsg
      | H_recv \<Rightarrow> hook_recv)"

lemmas hook_defs =
  hook_write_def hook_puts_def hook_gets_def hook_getppid_def hook_getpid_def
  hook_pthread_self_def hook_epoll_wait_def hook_sendto_def hook_sendmsg_def hook_fork_def
  hook_sendfile_def hook_send_def hook_writev_def hook_read_def hook_recvfrom_def
  hook_recvmsg_def hook_recv_def

text \<open>A call of the program, which a compiled hook intercepts.\<close>

definition intercepted ::
  "(hook \<Rightarrow> bool) \<Rightarrow> hook \<Rightarrow> ('a, 'r, 's) hook_type" where
  "intercepted sw h dl rnd real x fs s =
     (if sw h then hook_function h dl rnd real x fs s
      else map_option (\<lambda>(n, s1). Inr (n, fs, s1)) (real x s))"

text \<open>Looking up all compiled hooks, in the order of the code.\<close>

definition hook_order :: "hook list" where
  "hook_order = [H_write, H_puts, H_gets, H_getppid, H_getpid, H_pthread_self,
     H_epoll_wait, H_sendto, H_sendmsg, H_fork, H_sendfile, H_send,
     H_writev, H_read, H_recvfrom, H_recvmsg, H_recv]"

definition buddy_init_rt_lib_hooker :: "(hook \<Rightarrow> bool) \<Rightarrow> (hook \<Rightarrow> bool) \<Rightarrow> pointers \<Rightarrow> pointers" where
  "buddy_init_rt_lib_hooker sw dl fs = fold (\<lambda>h fs. if sw h then resolve dl h fs else fs) hook_order fs"

subsection \<open>Lemmas\<close>

lemma hook_function_cases:
  "hook_function h dl rnd real x fs s \<in>
     {only_call h dl rnd real x fs s, call_then_randomize h dl rnd real x fs s,
      randomize_then_call h dl rnd real x fs s}"
  by (cases h) (simp_all add: hook_function_def hook_defs)

lemma resolve_found: "dl h \<Longrightarrow> resolve dl h fs h"
  by (simp add: resolve_def)

lemma call_real_found: "fs h \<Longrightarrow> call_real real h x fs s = map_option Inr (real x s)"
  by (simp add: call_real_def)

text \<open>The look-up sets the pointers of the compiled hooks that exist, and no others.\<close>

lemma fold_resolve:
  "distinct hs \<Longrightarrow> fold (\<lambda>h fs. if sw h then resolve dl h fs else fs) hs fs h =
     (if h \<in> set hs \<and> sw h then fs h \<or> dl h else fs h)"
  by (induction hs arbitrary: fs) (auto simp: resolve_def)

lemma hook_order_all: "h \<in> set hook_order" "distinct hook_order"
  by (cases h; simp add: hook_order_def) (simp add: hook_order_def)

lemma hooker_eq: "buddy_init_rt_lib_hooker sw dl fs h = (fs h \<or> sw h \<and> dl h)"
  by (simp add: buddy_init_rt_lib_hooker_def fold_resolve hook_order_all)

text \<open>With the switches of the file every call is the real call.\<close>

lemma no_hook_compiled:
  "intercepted SPA_ENABLE_HOOK h dl rnd real x fs s = map_option (\<lambda>(n, s1). Inr (n, fs, s1)) (real x s)"
  "buddy_init_rt_lib_hooker SPA_ENABLE_HOOK dl fs = fs"
  by (simp_all add: intercepted_def SPA_ENABLE_HOOK_def hooker_eq fun_eq_iff)

text \<open>
  With the contract of a rerandomizing runtime: where the real function returns and does no more
  to the thread than work of the program may, a hooked call returns the real function's result and
  is an interleaving of program and rerandomization.
\<close>

context rerandomizer
begin

lemma hooked_call:
  assumes good: "good s" and ready: "\<And>t. good t \<Longrightarrow> ready p t" and live: "live p a"
    and dl: "\<And>h. sw h \<Longrightarrow> dl h"
    and real: "\<And>t. good t \<Longrightarrow> \<exists>n u. real x t = Some (n, u) \<and> good u \<and> content u a = content t a"
  shows "\<exists>n fs' t v w. intercepted sw h dl (run p) real x fs s = Some (Inr (n, fs', t)) \<and>
    (run_step run good ready live content a)\<^sup>*\<^sup>* s v \<and> real x v = Some (n, w) \<and>
    (run_step run good ready live content a)\<^sup>*\<^sup>* w t \<and> good t \<and> content t a = content s a"
proof -
  let ?R = "(run_step run good ready live content a)\<^sup>*\<^sup>*"
  have randomize: "\<exists>u. run p t = Some (Inr u) \<and> ?R t u \<and> good u \<and> content u a = content t a" if "good t" for t
    using run_keeps [OF that ready [OF that]] live that ready run_step.rerandomize
    by (metis r_into_rtranclp)
  obtain n u where u: "real x s = Some (n, u)" "good u" "content u a = content s a"
    using real [OF good] by blast
  show ?thesis
  proof (cases "sw h")
    case False
    then show ?thesis using u by (auto simp: intercepted_def)
  next
    case True
    have fs: "resolve dl h fs h" using dl [OF True] by (rule resolve_found)
    let ?call = "\<lambda>f. f h dl (run p) real x fs s"
    consider "?call hook_function = ?call only_call" | "?call hook_function = ?call call_then_randomize"
      | "?call hook_function = ?call randomize_then_call"
      using hook_function_cases [of h dl "run p" real x fs s] by auto
    then show ?thesis
    proof cases
      case 1
      then show ?thesis using True u fs by (auto simp: intercepted_def only_call_def Let_def call_real_found)
    next
      case 2
      obtain t where "run p u = Some (Inr t)" "?R u t" "good t" "content t a = content u a"
        using randomize [OF u(2)] by blast
      with 2 show ?thesis using True u fs
        by (auto simp: intercepted_def call_then_randomize_def Let_def call_real_found)
    next
      case 3
      obtain v where v: "run p s = Some (Inr v)" "?R s v" "good v" "content v a = content s a"
        using randomize [OF good] by blast
      obtain n' w where "real x v = Some (n', w)" "good w" "content w a = content v a"
        using real [OF v(3)] by blast
      with 3 v show ?thesis using True fs
        by (auto simp: intercepted_def randomize_then_call_def Let_def call_real_found)
    qed
  qed
qed

end

end
