(* ===== verification/Gs_Rsp_Props.thy ===== *)
theory Gs_Rsp_Props
  imports Gs_Rsp Thread_Table Rt_Hooks
begin

section \<open>Gs_Rsp_Props: what the runtime of the GS/RSP scheme guarantees\<close>

text \<open>
  The properties of \<open>gs.rsp.c\<close>, over the lemmas of \<open>Gs_Rsp\<close>.  The shadow slot of a return
  address at \<open>a\<close> on the call stack is the address that the instrumented code uses:
  \<open>%gs:(a - SPA_USER_SPACE_SIZE)\<close>.
\<close>

definition shadow_slot :: "'a os_state_scheme \<Rightarrow> addr \<Rightarrow> addr" where
  "shadow_slot s a = gs_base s + a - SPA_USER_SPACE_SIZE"

text \<open>The call stack addresses whose slots lie in the shadow stack, below its metadata.\<close>

definition covered :: "u64 \<Rightarrow> addr \<Rightarrow> bool" where
  "covered rsp0 a = (a - (rsp0 - DEF_BUDDY_CALL_STACK_SIZE) < METADATA_OFFSET_ON_SHADOW_STACK)"

definition grant_if_free :: "nat \<Rightarrow> vm \<Rightarrow> addr \<Rightarrow> u64 \<Rightarrow> addr option" where
  "grant_if_free n m hint len =
     (if unat hint + unat len \<le> 2 ^ 47 \<and> (\<forall>x. in_region hint len x \<longrightarrow> prot_of m x = None)
      then Some hint else None)"

definition demo_kernel :: kernel where
  "demo_kernel =
     \<lparr>k_rdrand = (\<lambda>_. 0x100000000000), k_rdtsc = (\<lambda>n. of_nat n * 0x10000000), k_mmap = grant_if_free,
      k_mremap = (\<lambda>_. True), k_set_gs = (\<lambda>_. True), k_get_gs = (\<lambda>_. True)\<rparr>"

lemma demo_kernel_ok: "kernel_ok demo_kernel"
  by (auto simp: kernel_ok_def demo_kernel_def grant_if_free_def split: if_splits)

definition demo_block :: addr where "demo_block = 0x200000000000"
definition demo_rsp :: u64 where "demo_rsp = 0x7ffff7000000"

definition demo_field_value :: "addr \<Rightarrow> u64" where
  "demo_field_value x =
     (if x = md_of demo_block + gr_field_offset gr_shadow_stack then demo_block
      else if x = md_of demo_block + gr_field_offset gr_diff then gs_for demo_block demo_rsp
      else if x = md_of demo_block + gr_field_offset gr_state then FLASH_STACK_INITED
      else 0)"

definition demo_thread :: gs_rsp_state where
  "demo_thread =
     \<lparr>vmem = \<lparr>cells = demo_field_value,
              prot_of = (\<lambda>x. if in_region demo_block REAL_SHADOW_STACK_SIZE x then Some PROT_RW else None)\<rparr>,
      gs_base = gs_for demo_block demo_rsp, tick = 0,
      gs_rsp_flash_stack_inited = True, relaxing_sandbox_during_init = False, cleanup_key_value = 0,
      gsrsp_total_rand_cnt = 0, gsrsp_total_fail_rand_cnt = 0, gsrsp_total_cpu_cycles = 0,
      gsrsp_total_attempts = replicate 21 0, thread_info = [], gsrsp_total_crash_cnt = 0,
      real_pthread_create_known = False\<rparr>"

lemma demo_thread_ok: "shadow_ok 0 demo_block demo_rsp demo_thread"
  by (simp add: shadow_ok_def demo_thread_def fld_def demo_field_value_def gr_field_offset_inj)
     (simp add: demo_block_def SPA_8MB_MASK_def)

lemma demo_in_window: "in_window demo_rsp (demo_rsp - 64)"
  by (simp add: in_window_def DEF_sizes)

lemma shadow_slot_in_block:
  assumes "shadow_ok r sh rsp0 s"
  shows "shadow_slot s a = sh + (a - (rsp0 - DEF_BUDDY_CALL_STACK_SIZE))"
  using assms by (simp add: shadow_slot_def shadow_ok_def gs_for_def INIT_SHADOW_STACK_OFFSET_def)

lemma below_metadata:
  assumes "d < METADATA_OFFSET_ON_SHADOW_STACK"
  shows "d < REAL_SHADOW_STACK_SIZE" and "\<not> is_field sh (sh + d)"
proof -
  show "d < REAL_SHADOW_STACK_SIZE"
    using assms by (simp add: gs_rsp_sizes word_less_nat_alt)
  have "sh + d \<noteq> md_of sh + gr_field_offset f" for f
  proof
    assume "sh + d = md_of sh + gr_field_offset f"
    then have "d = METADATA_OFFSET_ON_SHADOW_STACK + gr_field_offset f"
      by (simp add: get_gs_rsp_metadata_by_shadow_stack_def)
    with assms show False
      by (cases f) (simp_all add: gs_rsp_sizes gr_field_offset.simps word_less_nat_alt)
  qed
  then show "\<not> is_field sh (sh + d)" by (auto simp: is_field_def)
qed

lemma moved_slots:
  assumes "shadow_ok r sh rsp0 s" and "shadow_ok r' sh' rsp0 s'" and "moved sh sh' s s'"
    and "covered rsp0 a"
  shows "cells (vmem s') (shadow_slot s' a) = cells (vmem s) (shadow_slot s a)"
  using below_metadata(1) [of "a - (rsp0 - DEF_BUDDY_CALL_STACK_SIZE)"]
    below_metadata(2) [of "a - (rsp0 - DEF_BUDDY_CALL_STACK_SIZE)" sh] assms
  by (simp add: shadow_slot_in_block covered_def moved_def)

lemma rerandomize_ok:
  assumes "kernel_ok k" and "\<forall>n. k_set_gs k n" and "\<forall>n. k_get_gs k n"
    and "shadow_ok 0 sh rsp0 s" and "in_window rsp0 rsp"
  shows "\<exists>sh' s'. gs_rsp_runtime_rerandomize k rsp rsp_alloc s = Inr s' \<and> shadow_ok 0 sh' rsp0 s' \<and>
     moved sh sh' s s'"
proof -
  let ?s0 = "s\<lparr>tick := Suc (tick s)\<rparr>"
  let ?s1 = "?s0\<lparr>tick := Suc (tick ?s0)\<rparr>"
  have ok0: "shadow_ok 0 sh rsp0 ?s0"
    using shadow_ok_same [OF assms(4), of ?s0] by simp
  have ok1: "shadow_ok 0 sh rsp0 ?s1" and mv1: "moved sh sh s ?s1"
    using shadow_ok_same [OF assms(4), of ?s1] by simp_all
  have md: "get_gs_rsp_metadata_by_rsp k rsp ?s0 = (Some (md_of sh), ?s1)"
    using metadata_by_rsp [OF ok0 assms(5)] assms(3) by simp
  have "fld sh gr_state ?s1 = FLASH_STACK_INITED" "fld sh gr_is_randomizing ?s1 = 0"
    "gs_rsp_flash_stack_inited s"
    using ok1 by (simp_all add: shadow_ok_def)
  then have "gs_rsp_runtime_rerandomize k rsp rsp_alloc s =
      shuffle k rsp_alloc (k_rdtsc k (tick s)) (md_of sh) ?s1"
    using md get_field_ok [OF ok1]
    by (simp add: gs_rsp_runtime_rerandomize_def sys_rdtsc_def)
  with shuffle_ok [OF assms(1,2) ok1, of rsp_alloc "k_rdtsc k (tick s)"] moved_trans [OF mv1]
  show ?thesis by fastforce
qed

text \<open>
  The contract of \<open>Rerandomizer\<close>; a call has the kernel's answers, the stack pointer that the
  lookup reads and the one that the allocation reads.
\<close>

definition gs_content :: "'a os_state_scheme \<Rightarrow> addr \<Rightarrow> u64" where
  "gs_content s a = cells (vmem s) (shadow_slot s a)"

definition gs_good :: "u64 \<Rightarrow> gs_rsp_state \<Rightarrow> bool" where
  "gs_good rsp0 s \<longleftrightarrow> (\<exists>sh. shadow_ok 0 sh rsp0 s)"

definition gs_ready :: "u64 \<Rightarrow> kernel \<times> u64 \<times> u64 \<Rightarrow> gs_rsp_state \<Rightarrow> bool" where
  "gs_ready rsp0 p s \<longleftrightarrow> kernel_ok (fst p) \<and> (\<forall>n. k_set_gs (fst p) n) \<and> (\<forall>n. k_get_gs (fst p) n) \<and>
     in_window rsp0 (fst (snd p))"

definition gs_run :: "kernel \<times> u64 \<times> u64 \<Rightarrow> gs_rsp_state \<Rightarrow> (fault + gs_rsp_state) option" where
  "gs_run p s = Some (gs_rsp_runtime_rerandomize (fst p) (fst (snd p)) (snd (snd p)) s)"

interpretation gs_rerand: rerandomizer
  gs_run "gs_good rsp0" "gs_ready rsp0" "\<lambda>p. covered rsp0" gs_content
  for rsp0
proof unfold_locales
  fix s p
  assume "gs_good rsp0 s" and p: "gs_ready rsp0 p s"
  then obtain sh where ok: "shadow_ok 0 sh rsp0 s" by (auto simp: gs_good_def)
  with rerandomize_ok [of "fst p" sh rsp0 s "fst (snd p)" "snd (snd p)"] p obtain sh' s' where
    "gs_rsp_runtime_rerandomize (fst p) (fst (snd p)) (snd (snd p)) s = Inr s'"
    "shadow_ok 0 sh' rsp0 s'" "moved sh sh' s s'"
    unfolding gs_ready_def by blast
  then show "\<exists>s'. gs_run p s = Some (Inr s') \<and> gs_good rsp0 s' \<and>
      (\<forall>a. covered rsp0 a \<longrightarrow> gs_content s' a = gs_content s a)"
    using moved_slots [OF ok] unfolding gs_run_def gs_good_def gs_content_def by blast
qed

subsection \<open>Properties\<close>

text \<open>
  C2: rerandomization is safe.  Whatever random numbers, clock values, free addresses and
  \<open>mremap\<close> results it meets, \<open>gs_rsp_runtime_rerandomize\<close> called from a stack frame below the one
  that initialised the thread returns, keeps the thread's invariant and keeps the content of every
  shadow slot: the slot of each return address, recomputed from the new GS base, holds what it
  held, and no other mapped memory has changed.
\<close>

theorem rerandomization_keeps_return_addresses:
  assumes "kernel_ok k" and "\<forall>n. k_set_gs k n" and "\<forall>n. k_get_gs k n"
    and "shadow_ok 0 sh rsp0 s" and "in_window rsp0 rsp"
  shows "\<exists>sh' s'. gs_rsp_runtime_rerandomize k rsp rsp_alloc s = Inr s' \<and> shadow_ok 0 sh' rsp0 s' \<and>
     (\<forall>a. covered rsp0 a \<longrightarrow> cells (vmem s') (shadow_slot s' a) = cells (vmem s) (shadow_slot s a)) \<and>
     (\<forall>x. prot_of (vmem s) x \<noteq> None \<and> \<not> in_region sh REAL_SHADOW_STACK_SIZE x \<longrightarrow>
        prot_of (vmem s') x = prot_of (vmem s) x \<and> cells (vmem s') x = cells (vmem s) x)"
proof -
  obtain sh' s' where s': "gs_rsp_runtime_rerandomize k rsp rsp_alloc s = Inr s'"
    "shadow_ok 0 sh' rsp0 s'" "moved sh sh' s s'"
    using rerandomize_ok [OF assms] by blast
  with moved_slots [OF assms(4) s'(2,3)] show ?thesis unfolding moved_def by blast
qed

theorem rerandomization_keeps_return_addresses_witness:
  "\<exists>sh' s'. gs_rsp_runtime_rerandomize demo_kernel (demo_rsp - 64) (demo_rsp - 96) demo_thread = Inr s' \<and>
     shadow_ok 0 sh' demo_rsp s' \<and>
     cells (vmem s') (shadow_slot s' (demo_rsp - 8)) =
       cells (vmem demo_thread) (shadow_slot demo_thread (demo_rsp - 8))"
proof -
  have "covered demo_rsp (demo_rsp - 8)"
    by (simp add: covered_def DEF_sizes gs_rsp_sizes)
  moreover have "\<forall>n. k_set_gs demo_kernel n" "\<forall>n. k_get_gs demo_kernel n"
    by (simp_all add: demo_kernel_def)
  ultimately show ?thesis
    using rerandomization_keeps_return_addresses
      [OF demo_kernel_ok _ _ demo_thread_ok demo_in_window, of "demo_rsp - 96"] by blast
qed


lemma upper_mask:
  assumes "sh AND SPA_8MB_MASK = 0" and "rsp - rsp0 < DEF_BUDDY_CALL_STACK_SIZE"
  shows "(sh + DEF_BUDDY_CALL_STACK_SIZE + (rsp - rsp0)) AND DEF_BUDDY_CALL_STACK_SIZE_MASK =
    sh + DEF_BUDDY_CALL_STACK_SIZE"
proof (rule aligned_add_mask)
  have e: "unat (sh + 8388608) = (unat sh + 2 ^ 23) mod 2 ^ 64"
    by (simp add: unat_word_ariths)
  have "(2 :: nat) ^ 23 dvd unat sh + 2 ^ 23"
    using assms(1) unfolding aligned_iff by (metis dvd_add_triv_right_iff mod_0_imp_dvd)
  moreover have "(2 :: nat) ^ 23 dvd 2 ^ 64" by (rule le_imp_power_dvd) simp
  ultimately have "unat (sh + 8388608) mod 2 ^ 23 = 0"
    unfolding e by (meson dvd_imp_mod_0 dvd_mod)
  then show "(sh + DEF_BUDDY_CALL_STACK_SIZE) AND SPA_8MB_MASK = 0"
    unfolding aligned_iff by (simp add: DEF_sizes)
  show "unat (rsp - rsp0) < 2 ^ 23"
    using assms(2) by (simp add: DEF_sizes word_less_nat_alt)
qed

text \<open>
  C28: the metadata lookup by stack pointer does not reach as far as the shadow slots.  Slots are
  there for frames up to 1.5 MB above the frame that initialised the thread, but from any of these
  frames the lookup rounds to the block's upper part and finds an address behind the block; where
  that address is not mapped, rerandomization ends the process.
\<close>

theorem lookup_from_outer_frame_faults:
  assumes "\<forall>n. k_get_gs k n" and "shadow_ok r sh rsp0 s"
    and "rsp - rsp0 < DEF_BUDDY_CALL_STACK_SIZE"
    and "prot_of (vmem s) (md_of (sh + DEF_BUDDY_CALL_STACK_SIZE) + gr_field_offset gr_state) = None"
  shows "\<exists>x. gs_rsp_runtime_rerandomize k rsp rsp_alloc s = Inl (Segv x) \<and>
    \<not> in_region sh REAL_SHADOW_STACK_SIZE x"
proof -
  let ?x = "md_of (sh + DEF_BUDDY_CALL_STACK_SIZE) + gr_field_offset gr_state"
  have a: "sh AND SPA_8MB_MASK = 0" and g: "gs_base s = gs_for sh rsp0" and "gs_rsp_flash_stack_inited s"
    using assms(2) by (simp_all add: shadow_ok_def)
  moreover have "rsp + gs_for sh rsp0 - SPA_USER_SPACE_SIZE = sh + DEF_BUDDY_CALL_STACK_SIZE + (rsp - rsp0)"
    by (simp add: gs_for_def INIT_SHADOW_STACK_OFFSET_def)
  then have m: "(rsp + gs_base s - SPA_USER_SPACE_SIZE) AND DEF_BUDDY_CALL_STACK_SIZE_MASK =
      sh + DEF_BUDDY_CALL_STACK_SIZE"
    by (simp only: g upper_mask [OF a assms(3)])
  ultimately have "gs_rsp_runtime_rerandomize k rsp rsp_alloc s = Inl (Segv ?x)"
    using assms(1,4)
    by (simp add: gs_rsp_runtime_rerandomize_def sys_rdtsc_def get_gs_rsp_metadata_by_rsp_def
        sys_get_gs_def Let_def get_field_def)
  moreover have "\<not> in_region sh REAL_SHADOW_STACK_SIZE ?x"
    using assms(2,4) by (auto simp: shadow_ok_def)
  ultimately show ?thesis by blast
qed

theorem lookup_from_outer_frame_faults_witness:
  "\<exists>x. gs_rsp_runtime_rerandomize demo_kernel (demo_rsp + 256) demo_rsp demo_thread = Inl (Segv x)"
proof -
  have "prot_of (vmem demo_thread)
      (md_of (demo_block + DEF_BUDDY_CALL_STACK_SIZE) + gr_field_offset gr_state) = None"
    by (simp add: demo_thread_def in_region_def get_gs_rsp_metadata_by_shadow_stack_def gs_rsp_sizes
        DEF_sizes gr_field_offset.simps)
  then show ?thesis
    using lookup_from_outer_frame_faults
      [of demo_kernel 0 demo_block demo_rsp demo_thread "demo_rsp + 256" demo_rsp] demo_thread_ok
    by (auto simp: demo_kernel_def DEF_sizes)
qed

text \<open>
  C32: the error path of \<open>arch_prctl\<close> is wrong: when the shadow stack has been moved and setting
  the GS base then fails, the code takes the move back through the old address of the metadata,
  which moved with the shadow stack; the process ends with an access to unmapped memory.
\<close>

theorem failed_arch_prctl_faults:
  assumes "\<forall>n. k_mremap k n" and "\<forall>n. \<not> k_set_gs k n" and "shadow_ok 1 sh rsp0 s0"
    and "fresh_block new REAL_SHADOW_STACK_SIZE (vmem s0) (vmem s)" and "gs_base s = gs_base s0"
    and "gs_rsp_flash_stack_inited s = gs_rsp_flash_stack_inited s0"
    and "\<not> gs_for new rsp0 <s 0" and "\<not> MAX_GS_BASE_ADDR <s gs_for new rsp0"
  shows "move_shadow_stack k (md_of sh) new s =
    Inl (Segv (md_of sh + gr_field_offset gr_shadow_stack))"
proof -
  have ok: "shadow_ok 1 sh rsp0 s"
    and disj: "\<And>x. in_region new REAL_SHADOW_STACK_SIZE x \<Longrightarrow> \<not> in_region sh REAL_SHADOW_STACK_SIZE x"
    using shadow_ok_fresh(1,3) [OF assms(3-6)] by blast+
  have f: "fld sh gr_shadow_stack s = sh" "fld sh gr_diff s = gs_for sh rsp0"
    using ok by (simp_all add: shadow_ok_def)
  have d: "gs_for sh rsp0 + (new - sh) = gs_for new rsp0" by (simp add: gs_for_def)
  let ?S = "md_of sh + gr_field_offset gr_shadow_stack"
  have "in_region sh REAL_SHADOW_STACK_SIZE ?S" by (rule field_in_region)
  then have "\<not> in_region new REAL_SHADOW_STACK_SIZE ?S" using disj by blast
  then have gone: "prot_of (vm_move sh REAL_SHADOW_STACK_SIZE new m) ?S = None" for m
    using field_in_region [of sh gr_shadow_stack] by simp
  have undo: "undo_move (md_of sh) old delta new t = Inl (Segv ?S)"
    if "vmem t = vm_move sh REAL_SHADOW_STACK_SIZE new m" for t m old delta
    using gone [of m] that by (simp add: undo_move_def set_field_def fail_rand_def)
  show ?thesis
    using assms(1,2,7,8) f d
    by (simp add: move_shadow_stack_def get_field_ok [OF ok] set_field_ok field_mapped [OF ok] Let_def
        sys_mremap_def sys_set_gs_def undo)
qed

definition demo_new :: addr where "demo_new = 0x300000000000"

definition demo_busy :: gs_rsp_state where
  "demo_busy = put_cell (md_of demo_block + gr_field_offset gr_is_randomizing) 1 demo_thread"

lemma demo_fresh:
  "fresh_block demo_new REAL_SHADOW_STACK_SIZE (vmem demo_busy)
     (vm_map demo_new REAL_SHADOW_STACK_SIZE (vmem demo_busy))"
proof -
  have "\<not> in_region demo_block REAL_SHADOW_STACK_SIZE x" if "in_region demo_new REAL_SHADOW_STACK_SIZE x" for x
  proof
    assume "in_region demo_block REAL_SHADOW_STACK_SIZE x"
    moreover have "x - demo_block = (x - demo_new) + 0x100000000000"
      by (simp add: demo_block_def demo_new_def)
    ultimately show False
      using that
      by (simp add: in_region_def gs_rsp_sizes word_less_nat_alt unat_word_ariths)
  qed
  then show ?thesis
    by (auto simp: fresh_block_def demo_busy_def demo_thread_def demo_new_def gs_rsp_sizes fun_eq_iff)
qed

theorem failed_arch_prctl_faults_witness:
  "move_shadow_stack (demo_kernel\<lparr>k_set_gs := \<lambda>_. False\<rparr>) (md_of demo_block) demo_new
     (demo_busy\<lparr>vmem := vm_map demo_new REAL_SHADOW_STACK_SIZE (vmem demo_busy)\<rparr>) =
   Inl (Segv (md_of demo_block + gr_field_offset gr_shadow_stack))"
proof -
  let ?s = "demo_busy\<lparr>vmem := vm_map demo_new REAL_SHADOW_STACK_SIZE (vmem demo_busy)\<rparr>"
  have busy: "shadow_ok 1 demo_block demo_rsp demo_busy"
    unfolding demo_busy_def by (rule shadow_ok_put(1) [OF demo_thread_ok])
  have fresh: "fresh_block demo_new REAL_SHADOW_STACK_SIZE (vmem demo_busy) (vmem ?s)"
    using demo_fresh by simp
  have gs: "\<not> gs_for demo_new demo_rsp <s 0" "\<not> MAX_GS_BASE_ADDR <s gs_for demo_new demo_rsp"
    by (simp_all add: gs_for_def demo_new_def demo_rsp_def gs_rsp_sizes SPA_USER_SPACE_SIZE_def
        MAX_GS_BASE_ADDR_def word_sless_alt)
  show ?thesis
    by (rule failed_arch_prctl_faults [OF _ _ busy fresh _ _ gs]) (simp_all add: demo_kernel_def)
qed


text \<open>
  C23: the allocation of a shadow stack makes at most 21 attempts and leaks nothing.  A block that
  it returns is a multiple of 8 MB, at most \<open>rsp\<close> less 20 MB and was free before; every block that
  it rejected is unmapped again, and the memory that was mapped before keeps its rights and its
  content.
\<close>

theorem get_memory_at_random_is_bounded_and_clean:
  assumes "kernel_ok k" and "get_memory_at_random k rsp len init s = (r, s')"
  shows "tick s' \<le> tick s + 43 \<and>
    (case r of
       None \<Rightarrow> same_mem (vmem s) (vmem s')
     | Some p \<Rightarrow> p AND SPA_8MB_MASK = 0 \<and> p \<le> rsp - 2 * REAL_SHADOW_STACK_SIZE \<and>
         fresh_block p len (vmem s) (vmem s'))"
  using get_memory_at_random_ok [OF assms] by (auto split: option.split)

definition demo_hint :: addr where "demo_hint = 0x100000000000"

lemma demo_mmap_hint:
  "mmap_hint (demo_rsp - 2 * REAL_SHADOW_STACK_SIZE) (k_rdrand demo_kernel n) = demo_hint"
  by (simp add: mmap_hint_def demo_kernel_def demo_rsp_def gs_rsp_sizes SPA_MAX_SHADOW_STACK_ADDR_def
      DEF_sizes SPA_SHADOW_STACK_8MB_RAND_ADDR_MASK_def Let_def demo_hint_def)

definition demo_empty :: gs_rsp_state where
  "demo_empty = demo_thread\<lparr>vmem := \<lparr>cells = \<lambda>_. 0, prot_of = \<lambda>_. None\<rparr>,
     gs_rsp_flash_stack_inited := False\<rparr>"

lemma demo_grants:
  "grants_hints_from 0 demo_kernel (vmem demo_empty) (demo_rsp - 2 * REAL_SHADOW_STACK_SIZE)"
  unfolding grants_hints_from_def demo_mmap_hint Let_def
  by (simp add: demo_kernel_def grant_if_free_def demo_empty_def demo_hint_def gs_rsp_sizes)

theorem get_memory_at_random_is_bounded_and_clean_witness:
  "\<exists>p s'. get_memory_at_random demo_kernel demo_rsp REAL_SHADOW_STACK_SIZE True demo_empty = (Some p, s') \<and>
     p AND SPA_8MB_MASK = 0 \<and> fresh_block p REAL_SHADOW_STACK_SIZE (vmem demo_empty) (vmem s')"
proof -
  have "0 < demo_rsp - 2 * REAL_SHADOW_STACK_SIZE" by (simp add: demo_rsp_def gs_rsp_sizes)
  then obtain p s' where
    gm: "get_memory_at_random demo_kernel demo_rsp REAL_SHADOW_STACK_SIZE True demo_empty = (Some p, s')"
    using granted_attempt [OF demo_grants]
    by (auto simp: get_memory_at_random_def Let_def)
  from get_memory_at_random_is_bounded_and_clean [OF demo_kernel_ok gm] gm show ?thesis by auto
qed

lemma init_ok:
  assumes "kernel_ok k" and "\<forall>n. k_set_gs k n" and "0 < rsp_alloc - 2 * REAL_SHADOW_STACK_SIZE"
    and "grants_hints_from n k (vmem s) (rsp_alloc - 2 * REAL_SHADOW_STACK_SIZE)"
    and "\<not> gs_rsp_flash_stack_inited s"
  shows "\<exists>sh s'. init_shadow_stack k rsp rsp_alloc s = Some (Inr s') \<and> shadow_ok 0 sh rsp s' \<and>
     (\<forall>x. prot_of (vmem s) x \<noteq> None \<longrightarrow> \<not> in_region sh REAL_SHADOW_STACK_SIZE x \<and>
        prot_of (vmem s') x = prot_of (vmem s) x \<and> cells (vmem s') x = cells (vmem s) x)"
proof -
  let ?s1 = "s\<lparr>gs_rsp_flash_stack_inited := True\<rparr>"
  have "grants_hints_from n k (vmem ?s1) (rsp_alloc - 2 * REAL_SHADOW_STACK_SIZE)"
    using assms(4) by simp
  then obtain sh s2 where al: "alloc_shadow_stack k rsp_alloc ?s1 = Some (sh, s2)"
    "sh AND SPA_8MB_MASK = 0" "fresh_block sh REAL_SHADOW_STACK_SIZE (vmem ?s1) (vmem s2)"
    "gs_rsp_flash_stack_inited s2 = gs_rsp_flash_stack_inited ?s1"
    using alloc_shadow_stack_ends [OF assms(1,3)] by blast
  have rw: "in_region sh REAL_SHADOW_STACK_SIZE x \<Longrightarrow> prot_of (vmem s2) x = Some PROT_RW" for x
    using al(3) by (simp add: fresh_block_def)
  have "k_set_gs k (tick s2)" "gs_rsp_flash_stack_inited s2" using assms(2) al(4) by simp_all
  then obtain s' where s': "setup_shadow_stack k rsp sh s2 = Inr s'" "shadow_ok 0 sh rsp s'"
    "prot_of (vmem s') = prot_of (vmem s2)"
    "\<And>x. \<not> is_field sh x \<Longrightarrow> cells (vmem s') x = cells (vmem s2) x"
    using setup_shadow_stack_ok [OF _ al(2) rw] by blast
  have "\<not> in_region sh REAL_SHADOW_STACK_SIZE x \<and> prot_of (vmem s') x = prot_of (vmem s) x \<and> cells (vmem s') x = cells (vmem s) x"
    if "prot_of (vmem s) x \<noteq> None" for x
  proof -
    have "\<not> in_region sh REAL_SHADOW_STACK_SIZE x" using al(3) that by (auto simp: fresh_block_def)
    then have "\<not> is_field sh x" using field_in_region by (auto simp: is_field_def)
    then show ?thesis using s'(3,4) al(3) that by (auto simp: fresh_block_def)
  qed
  with s'(1,2) al(1) assms(5) show ?thesis
    by (simp add: init_shadow_stack_def do_init_shadow_stack_def) blast
qed

text \<open>
  C10: the initialisation of a thread returns, if from some call on the kernel grants the random
  address it is asked for, and it establishes the invariant that rerandomization keeps: a fresh
  block with the metadata in it, the GS base at the block's distance from the call stack, and
  nothing else that was mapped has changed.  A second call does nothing.
\<close>

theorem initialisation_returns_and_establishes_the_invariant:
  assumes "kernel_ok k" and "\<forall>n. k_set_gs k n" and "0 < rsp_alloc - 2 * REAL_SHADOW_STACK_SIZE"
    and "grants_hints_from n k (vmem s) (rsp_alloc - 2 * REAL_SHADOW_STACK_SIZE)"
    and "\<not> gs_rsp_flash_stack_inited s"
  shows "\<exists>sh s'. init_main_shadow_stack k rsp rsp_alloc s = Some (Inr s') \<and> shadow_ok 0 sh rsp s' \<and>
     init_shadow_stack k rsp' rsp_alloc' s' = Some (Inr s') \<and>
     (\<forall>x. prot_of (vmem s) x \<noteq> None \<longrightarrow>
        prot_of (vmem s') x = prot_of (vmem s) x \<and> cells (vmem s') x = cells (vmem s) x)"
proof -
  have "init_shadow_stack k rsp' rsp_alloc' s' = Some (Inr s')" if "shadow_ok 0 sh rsp s'" for sh s'
    using that by (simp add: init_shadow_stack_def shadow_ok_def)
  with init_ok [OF assms, of rsp] show ?thesis
    unfolding init_main_shadow_stack_def by blast
qed

theorem initialisation_returns_and_establishes_the_invariant_witness:
  "\<exists>sh s'. init_main_shadow_stack demo_kernel demo_rsp demo_rsp demo_empty = Some (Inr s') \<and>
     shadow_ok 0 sh demo_rsp s'"
proof -
  have "0 < demo_rsp - 2 * REAL_SHADOW_STACK_SIZE" "\<forall>n. k_set_gs demo_kernel n"
    "\<not> gs_rsp_flash_stack_inited demo_empty"
    by (simp_all add: demo_rsp_def gs_rsp_sizes demo_kernel_def demo_empty_def)
  then show ?thesis
    using initialisation_returns_and_establishes_the_invariant
      [OF demo_kernel_ok _ _ demo_grants, of demo_rsp demo_rsp demo_rsp] by blast
qed


subsection \<open>Exited threads\<close>

interpretation gs_table: region_table add_memory_region tr_valid "tr_valid_update (\<lambda>_. True)"
  by unfold_locales simp_all

text \<open>
  The table of exited threads: an added region is held, marked as valid, next to all that were
  held before; but when all 1024 entries are in use, it is dropped without an error, and its
  memory is never unmapped.
\<close>

lemma exited_thread_region_is_held_or_dropped:
  "gs_table.held (add_memory_region r ts) =
     (if list_all tr_valid ts then gs_table.held ts
      else add_mset (r\<lparr>tr_valid := True\<rparr>) (gs_table.held ts))"
  using gs_table.add_full [of ts r] gs_table.held_add [of ts r] by simp

text \<open>
  Whether a pass of the cleaner releases an entry for which it read \<open>now\<close> from the clock.  A pass reads
  the clock once for each entry in use, so the reading for the \<open>i\<close>-th entry is the one after as many
  calls as entries before it are in use.
\<close>

definition expired :: "u64 \<Rightarrow> thread_region \<Rightarrow> bool" where
  "expired now t = (tr_valid t \<and> CPU_CYCLES_AFTER_THREAD_EXITING < now - tr_expired_time t)"

definition clock_at :: "kernel \<Rightarrow> nat \<Rightarrow> thread_region list \<Rightarrow> nat \<Rightarrow> u64" where
  "clock_at k n ts i = k_rdtsc k (n + length (filter tr_valid (take i ts)))"

lemma clock_at_Cons:
  "clock_at k n (t # ts) 0 = k_rdtsc k n"
  "clock_at k n (t # ts) (Suc i) = clock_at k (if tr_valid t then Suc n else n) ts i"
  by (simp_all add: clock_at_def)

text \<open>What a pass does with the entry \<open>t\<close>, and the addresses that it unmaps.\<close>

definition after_pass :: "u64 \<Rightarrow> thread_region \<Rightarrow> thread_region" where
  "after_pass now t = (if expired now t then t\<lparr>tr_valid := False\<rparr> else t)"

definition passed :: "(nat \<Rightarrow> u64) \<Rightarrow> thread_region list \<Rightarrow> thread_region list" where
  "passed now ts = map (\<lambda>i. after_pass (now i) (ts ! i)) [0..<length ts]"

definition pass_unmaps :: "(nat \<Rightarrow> u64) \<Rightarrow> thread_region list \<Rightarrow> addr \<Rightarrow> bool" where
  "pass_unmaps now ts x \<longleftrightarrow> (\<exists>i < length ts. expired (now i) (ts ! i) \<and>
     in_region (tr_shadow_stack (ts ! i)) (tr_shadow_stack_size (ts ! i)) x)"

lemma passed_Cons: "passed now (t # ts) = after_pass (now 0) t # passed (\<lambda>i. now (Suc i)) ts"
  by (rule nth_equalityI) (auto simp: passed_def nth_Cons simp del: upt_Suc split: nat.splits)

lemma pass_unmaps_Cons:
  "pass_unmaps now (t # ts) x \<longleftrightarrow>
     expired (now 0) t \<and> in_region (tr_shadow_stack t) (tr_shadow_stack_size t) x \<or>
     pass_unmaps (\<lambda>i. now (Suc i)) ts x"
  unfolding pass_unmaps_def by (auto simp: less_Suc_eq_0_disj)

lemma release_pass_at:
  "fst (release_memory_regions k ts s) = passed (clock_at k (tick s) ts) ts \<and>
   prot_of (vmem (snd (release_memory_regions k ts s))) x =
     (if pass_unmaps (clock_at k (tick s) ts) ts x then None else prot_of (vmem s) x) \<and>
   cells (vmem (snd (release_memory_regions k ts s))) = cells (vmem s)"
proof (induction ts arbitrary: s)
  case Nil
  then show ?case by (simp add: pass_unmaps_def passed_def)
next
  case (Cons t ts)
  let ?s1 = "s\<lparr>tick := Suc (tick s)\<rparr>"
  let ?now = "k_rdtsc k (tick s)"
  have rd: "sys_rdtsc k s = (?now, ?s1)" by (simp add: sys_rdtsc_def)
  note parts = passed_Cons pass_unmaps_Cons clock_at_Cons
  consider (free) "\<not> tr_valid t" | (old) "expired ?now t" | (young) "tr_valid t" "\<not> expired ?now t"
    by blast
  then show ?case
  proof cases
    case free
    have run: "release_memory_regions k (t # ts) s =
        (t # fst (release_memory_regions k ts s), snd (release_memory_regions k ts s))"
      using free by (simp add: case_prod_beta Let_def)
    from free Cons.IH [of s] show ?thesis
      unfolding parts run by (simp add: after_pass_def expired_def)
  next
    case old
    let ?u = "sys_munmap (tr_shadow_stack t) (tr_shadow_stack_size t) ?s1"
    have u: "tick ?u = Suc (tick s)" "cells (vmem ?u) = cells (vmem s)"
      "prot_of (vmem ?u) x = (if in_region (tr_shadow_stack t) (tr_shadow_stack_size t) x then None else prot_of (vmem s) x)"
      by (auto simp: sys_munmap_def)
    have run: "release_memory_regions k (t # ts) s =
        (t\<lparr>tr_valid := False\<rparr> # fst (release_memory_regions k ts ?u), snd (release_memory_regions k ts ?u))"
      using old by (simp add: expired_def case_prod_beta Let_def rd)
    have "tr_valid t" using old by (simp add: expired_def)
    with old Cons.IH [of ?u] show ?thesis
      unfolding parts run u by (simp add: after_pass_def)
  next
    case young
    have run: "release_memory_regions k (t # ts) s =
        (t # fst (release_memory_regions k ts ?s1), snd (release_memory_regions k ts ?s1))"
      using young by (simp add: expired_def case_prod_beta Let_def rd)
    from young Cons.IH [of ?s1] show ?thesis
      unfolding parts run by (simp add: after_pass_def)
  qed
qed

text \<open>With a clock that stands still.\<close>

lemma release_pass:
  assumes "\<forall>n. k_rdtsc k n = now"
  shows "fst (release_memory_regions k ts s) =
       map (\<lambda>t. if expired now t then t\<lparr>tr_valid := False\<rparr> else t) ts \<and>
     prot_of (vmem (snd (release_memory_regions k ts s))) x =
       (if \<exists>t \<in> set ts. expired now t \<and> in_region (tr_shadow_stack t) (tr_shadow_stack_size t) x then None
        else prot_of (vmem s) x)"
proof -
  have now: "clock_at k (tick s) ts = (\<lambda>i. now)" using assms by (simp add: fun_eq_iff clock_at_def)
  have "passed (\<lambda>i. now) ts = map (after_pass now) ts"
    unfolding passed_def by (rule nth_equalityI) simp_all
  moreover have "pass_unmaps (\<lambda>i. now) ts x \<longleftrightarrow>
      (\<exists>t \<in> set ts. expired now t \<and> in_region (tr_shadow_stack t) (tr_shadow_stack_size t) x)"
    unfolding pass_unmaps_def by (metis in_set_conv_nth)
  moreover note release_pass_at [of k ts s x]
  ultimately show ?thesis by (simp add: now after_pass_def cong: map_cong)
qed

text \<open>
  C27: a pass of the cleaner releases exactly the expired entries and unmaps exactly their memory,
  whatever the clock shows at each of its readings.  An entry in use is released when the reading that
  the pass makes for it lies more than \<open>CPU_CYCLES_AFTER_THREAD_EXITING\<close> behind the time of its thread's
  end; every other entry stays as it is.  An address loses its right if and only if it lies in the block
  of a released entry, so the block of a thread that is not in the table is not touched; no byte is
  written.
\<close>

theorem cleaner_unmaps_exactly_the_expired:
  "thread_info (release_memory_region_pass k s) =
     map (\<lambda>i. let t = thread_info s ! i in
            if expired (clock_at k (tick s) (thread_info s) i) t then t\<lparr>tr_valid := False\<rparr> else t)
       [0..<length (thread_info s)] \<and>
   prot_of (vmem (release_memory_region_pass k s)) x =
     (if \<exists>i < length (thread_info s). let t = thread_info s ! i in
           expired (clock_at k (tick s) (thread_info s) i) t \<and>
           in_region (tr_shadow_stack t) (tr_shadow_stack_size t) x
      then None else prot_of (vmem s) x) \<and>
   cells (vmem (release_memory_region_pass k s)) = cells (vmem s)"
  using release_pass_at [of k "thread_info s" s x]
  by (simp add: release_memory_region_pass_def case_prod_beta Let_def pass_unmaps_def passed_def after_pass_def)

definition demo_region :: "u64 \<Rightarrow> thread_region" where
  "demo_region expired_time =
     \<lparr>tr_valid = True, tr_shadow_stack = demo_block, tr_shadow_stack_size = REAL_SHADOW_STACK_SIZE,
      tr_expired_time = expired_time, tr_tid = 1\<rparr>"

text \<open>Between the readings for the two entries the clock passes the second one's time.\<close>

theorem cleaner_unmaps_exactly_the_expired_witness:
  "thread_info (release_memory_region_pass (demo_kernel\<lparr>k_rdtsc := \<lambda>n. 40000000000 + of_nat n * 60000000000\<rparr>)
      (demo_thread\<lparr>thread_info := [demo_region 39000000000, demo_region 39000000001, demo_region 0]\<rparr>)) =
     [demo_region 39000000000, (demo_region 39000000001)\<lparr>tr_valid := False\<rparr>, (demo_region 0)\<lparr>tr_valid := False\<rparr>]"
  unfolding cleaner_unmaps_exactly_the_expired [THEN conjunct1]
  by (simp add: expired_def demo_region_def CPU_CYCLES_AFTER_THREAD_EXITING_def demo_thread_def clock_at_def
      CPU_CYCLES_PER_RANDOMIZATION_val upt_conv_Cons)

text \<open>
  One round of glibc's calls of thread-specific-data destructors: a non-zero value is reset and
  handed to the destructor.  There are \<open>PTHREAD_DESTRUCTOR_ITERATIONS\<close> rounds at the end of a thread.
\<close>

definition destructor_round ::
  "kernel \<Rightarrow> u64 \<Rightarrow> u64 \<Rightarrow> gs_rsp_state \<Rightarrow> fault + gs_rsp_state" where
  "destructor_round k rsp tid s =
     (if cleanup_key_value s = 0 then Inr s
      else thread_cleanup_handler k rsp tid (cleanup_key_value s) (s\<lparr>cleanup_key_value := 0\<rparr>))"

fun destructor_rounds ::
  "nat \<Rightarrow> kernel \<Rightarrow> u64 \<Rightarrow> u64 \<Rightarrow> gs_rsp_state \<Rightarrow> fault + gs_rsp_state" where
  "destructor_rounds 0 k rsp tid s = Inr s"
| "destructor_rounds (Suc n) k rsp tid s = ebind (destructor_round k rsp tid s) (destructor_rounds n k rsp tid)"

lemma round_counts:
  assumes "0 < cleanup_key_value s" and "cleanup_key_value s < PTHREAD_DESTRUCTOR_ITERATIONS"
  shows "destructor_round k rsp tid s = Inr (s\<lparr>cleanup_key_value := Suc (cleanup_key_value s)\<rparr>)"
  using assms by (simp add: destructor_round_def thread_cleanup_handler_def)

lemma counting_rounds:
  "cleanup_key_value s = 1 \<Longrightarrow>
   destructor_rounds 3 k rsp tid s = Inr (s\<lparr>cleanup_key_value := 4\<rparr>)"
  by (simp add: numeral_3_eq_3 round_counts PTHREAD_DESTRUCTOR_ITERATIONS_def)

lemma release_round:
  assumes "\<forall>n. k_get_gs k n" and "shadow_ok r sh rsp0 s" and "in_window rsp0 rsp"
    and "cleanup_key_value s = PTHREAD_DESTRUCTOR_ITERATIONS"
  shows "destructor_round k rsp tid s =
    Inr (s\<lparr>cleanup_key_value := 0, tick := Suc (Suc (tick s)), thread_info := add_memory_region
         \<lparr>tr_valid = False, tr_shadow_stack = sh, tr_shadow_stack_size = REAL_SHADOW_STACK_SIZE,
          tr_expired_time = k_rdtsc k (tick s + 1), tr_tid = tid\<rparr> (thread_info s)\<rparr>)"
proof -
  let ?s1 = "s\<lparr>cleanup_key_value := 0\<rparr>"
  let ?s2 = "?s1\<lparr>tick := Suc (tick s)\<rparr>"
  have ok: "shadow_ok r sh rsp0 ?s1" "shadow_ok r sh rsp0 ?s2"
    using shadow_ok_same(1) [OF assms(2), of ?s1] shadow_ok_same(1) [OF assms(2), of ?s2] by simp_all
  have sh: "fld sh gr_shadow_stack ?s2 = sh" using ok(2) by (simp add: shadow_ok_def)
  have "get_gs_rsp_metadata_by_rsp k rsp ?s1 = (Some (md_of sh), ?s2)"
    using metadata_by_rsp [OF ok(1) assms(3)] assms(1) by simp
  then show ?thesis
    using get_field_ok [OF ok(2), of gr_shadow_stack] sh assms(4)
    by (simp add: destructor_round_def thread_cleanup_handler_def
        PTHREAD_DESTRUCTOR_ITERATIONS_def release_shadow_stack_def sys_rdtsc_def Let_def)
qed

lemma rounds_append:
  "destructor_rounds (m + n) k rsp tid s = ebind (destructor_rounds m k rsp tid s) (destructor_rounds n k rsp tid)"
  by (induction m arbitrary: s) (simp_all add: ebind_def split: sum.splits)

lemma last_round:
  assumes "\<forall>n. k_get_gs k n" and "shadow_ok r sh rsp0 s" and "in_window rsp0 rsp"
    and "cleanup_key_value s = 1"
  shows "destructor_rounds PTHREAD_DESTRUCTOR_ITERATIONS k rsp tid s =
    Inr (s\<lparr>cleanup_key_value := 0, tick := Suc (Suc (tick s)), thread_info := add_memory_region
         \<lparr>tr_valid = False, tr_shadow_stack = sh, tr_shadow_stack_size = REAL_SHADOW_STACK_SIZE,
          tr_expired_time = k_rdtsc k (tick s + 1), tr_tid = tid\<rparr> (thread_info s)\<rparr>)"
proof -
  let ?s = "s\<lparr>cleanup_key_value := PTHREAD_DESTRUCTOR_ITERATIONS\<rparr>"
  have ok: "shadow_ok r sh rsp0 ?s" using shadow_ok_same(1) [OF assms(2), of ?s] by simp
  have n: "PTHREAD_DESTRUCTOR_ITERATIONS = 3 + 1" "PTHREAD_DESTRUCTOR_ITERATIONS = 4"
    by (simp_all add: PTHREAD_DESTRUCTOR_ITERATIONS_def)
  have "destructor_rounds PTHREAD_DESTRUCTOR_ITERATIONS k rsp tid s = destructor_rounds 1 k rsp tid ?s"
    unfolding n(1) rounds_append counting_rounds [OF assms(4)] by simp
  with release_round [OF assms(1) ok assms(3), of tid] show ?thesis by simp
qed

text \<open>
  C26: at the end of a thread the shadow stack is handed to the cleaner in the last of glibc's
  destructor rounds, not earlier: the first three only count, so that the other destructors can
  still run on the shadow stack, and the fourth registers the thread's block.
\<close>

theorem shadow_stack_is_released_in_the_last_round:
  assumes "\<forall>n. k_get_gs k n" and "shadow_ok r sh rsp0 s" and "in_window rsp0 rsp"
    and "cleanup_key_value s = 1"
  shows "destructor_rounds 3 k rsp tid s = Inr (s\<lparr>cleanup_key_value := 4\<rparr>) \<and>
    (\<exists>s'. destructor_rounds PTHREAD_DESTRUCTOR_ITERATIONS k rsp tid s = Inr s' \<and>
       vmem s' = vmem s \<and>
       thread_info s' = add_memory_region
         \<lparr>tr_valid = False, tr_shadow_stack = sh, tr_shadow_stack_size = REAL_SHADOW_STACK_SIZE,
          tr_expired_time = k_rdtsc k (tick s + 1), tr_tid = tid\<rparr> (thread_info s))"
  using counting_rounds [OF assms(4)] last_round [OF assms] by simp

theorem shadow_stack_is_released_in_the_last_round_witness:
  "\<exists>s'. destructor_rounds 4 demo_kernel (demo_rsp - 64) 7 (demo_thread\<lparr>cleanup_key_value := 1,
        thread_info := [(demo_region 0)\<lparr>tr_valid := False\<rparr>]\<rparr>) = Inr s' \<and>
     map tr_shadow_stack (thread_info s') = [demo_block] \<and> map tr_tid (thread_info s') = [7]"
proof -
  let ?s = "demo_thread\<lparr>cleanup_key_value := 1, thread_info := [(demo_region 0)\<lparr>tr_valid := False\<rparr>]\<rparr>"
  have "shadow_ok 0 demo_block demo_rsp ?s"
    using shadow_ok_same(1) [OF demo_thread_ok, of ?s] by simp
  moreover have "\<forall>n. k_get_gs demo_kernel n" by (simp add: demo_kernel_def)
  ultimately show ?thesis
    using shadow_stack_is_released_in_the_last_round
      [of demo_kernel 0 demo_block demo_rsp ?s "demo_rsp - 64" 7] demo_in_window
    by (auto simp: PTHREAD_DESTRUCTOR_ITERATIONS_def demo_region_def)
qed

end
