(* ===== verification/Threads.thy ===== *)
theory Threads
  imports Kernel
begin

section \<open>Threads: many threads on one runtime\<close>

text \<open>
  The runtimes \<open>gs.rsp.c\<close> and \<open>fsgs.c\<close> serve all threads of a process: the threads share the
  memory, the table of exited threads and the statistics, and each has its own GS base and
  \<open>__thread\<close> variables.  This theory composes any number of threads: they start, work, rerandomize
  and exit in any order, while the cleaner thread makes its passes.  A call of the runtime is one
  step, from its start to its end.

  What a runtime offers is a value of \<open>runtime\<close>; what it promises for one thread is the locale
  \<open>threaded_runtime\<close>.  From the promises for one thread follows that no thread disturbs another.
\<close>

subsection \<open>A runtime\<close>

text \<open>
  The process is a value of \<open>'s\<close>; the variables of a thread are a value of \<open>'l\<close>, and \<open>rt_view l s\<close>
  is the process as the thread with variables \<open>l\<close> sees it.  \<open>rt_ok d b s\<close> is the invariant of a
  thread described by \<open>d\<close> (its stack pointer at initialisation) whose memory blocks are \<open>b\<close>;
  \<open>rt_own b\<close> are the addresses of the blocks and \<open>rt_meta b\<close> those of the metadata in them.
  \<open>rt_content s a\<close> is what the exit sequence of the function with its return address at \<open>a\<close> jumps
  to, and \<open>rt_frame d a\<close> says that this function has a slot.  \<open>rt_waiting s n\<close> are the addresses that
  the n-th entry of the table of exited threads will unmap.

  A thread ends in rounds of destructors, each a call \<open>rt_exit\<close> of the runtime's own one.
  \<open>rt_rounds d\<close> describes the thread after a round that is not the last, \<open>rt_exits\<close> says that the
  next round is the last one, which hands the blocks over to the cleaner.
\<close>

record ('s, 'l, 'd, 'b, 'p, 'q, 'e) runtime =
  rt_view :: "'l \<Rightarrow> 's \<Rightarrow> 's"
  rt_local :: "'s \<Rightarrow> 'l"
  rt_fresh :: 'l
  rt_vm :: "'s \<Rightarrow> vm"
  rt_ok :: "'d \<Rightarrow> 'b \<Rightarrow> 's \<Rightarrow> bool"
  rt_own :: "'b \<Rightarrow> addr set"
  rt_meta :: "'b \<Rightarrow> addr set"
  rt_frame :: "'d \<Rightarrow> addr \<Rightarrow> bool"
  rt_content :: "'s \<Rightarrow> addr \<Rightarrow> u64"
  rt_waiting :: "'s \<Rightarrow> nat \<Rightarrow> addr set"
  rt_ready :: "'d \<Rightarrow> 'p \<Rightarrow> 's \<Rightarrow> bool"
  rt_live :: "'d \<Rightarrow> 'p \<Rightarrow> addr \<Rightarrow> bool"
  rt_rerand :: "'p \<Rightarrow> 's \<Rightarrow> (fault + 's) option"
  rt_starts :: "'d \<Rightarrow> 'q \<Rightarrow> 's \<Rightarrow> bool"
  rt_start :: "'q \<Rightarrow> 's \<Rightarrow> (fault + 's) option"
  rt_rounds :: "'d \<Rightarrow> 'd option"
  rt_exits :: "'d \<Rightarrow> 'e \<Rightarrow> 's \<Rightarrow> bool"
  rt_exit :: "'e \<Rightarrow> 's \<Rightarrow> fault + 's"
  rt_clean :: "kernel \<Rightarrow> 's \<Rightarrow> 's"

text \<open>The process with its running threads.\<close>

record ('s, 'l, 'd) world =
  shared :: 's
  threads :: "nat \<Rightarrow> ('d \<times> 'l) option"

text \<open>
  The steps, for a set \<open>F\<close> of live functions, each a thread and the stack address of its return
  address.  \<open>work\<close> is anything that leaves alone the access rights of the blocks of the running
  and of the exited threads, the metadata, and the slots of the functions in \<open>F\<close>: code of any
  thread, the entry of a function, or an attacker who writes to the call stacks.  A thread
  rerandomizes from a frame below its functions in \<open>F\<close>.  At its end it makes its rounds of
  destructors, between which it still works and rerandomizes; in \<open>exit\<close>, the last round, it hands
  over its blocks, after its functions in \<open>F\<close> have returned.  What the thread does after that, such
  as destructors that glibc calls later in the same round, is \<open>work\<close>: it does not call the runtime
  any more.  (A thread that does so breaks the invariant: see
  \<open>rerandomization_after_release_leaves_a_stale_entry\<close> in \<open>Gs_Threads\<close>.)
\<close>

inductive world_step ::
  "('s, 'l, 'd, 'b, 'p, 'q, 'e) runtime \<Rightarrow> (nat \<times> addr) set \<Rightarrow> ('s, 'l, 'd) world \<Rightarrow> ('s, 'l, 'd) world \<Rightarrow> bool"
  for rt F where
  work: "(\<And>i d l b x. threads w i = Some (d, l) \<Longrightarrow> rt_ok rt d b (rt_view rt l (shared w)) \<Longrightarrow>
            x \<in> rt_own rt b \<Longrightarrow> prot_of (rt_vm rt s) x = prot_of (rt_vm rt (shared w)) x) \<Longrightarrow>
     (\<And>i d l b x. threads w i = Some (d, l) \<Longrightarrow> rt_ok rt d b (rt_view rt l (shared w)) \<Longrightarrow>
            x \<in> rt_meta rt b \<Longrightarrow> cells (rt_vm rt s) x = cells (rt_vm rt (shared w)) x) \<Longrightarrow>
     rt_waiting rt s = rt_waiting rt (shared w) \<Longrightarrow>
     (\<And>n x. x \<in> rt_waiting rt (shared w) n \<Longrightarrow> prot_of (rt_vm rt s) x = prot_of (rt_vm rt (shared w)) x) \<Longrightarrow>
     (\<And>i a d l. (i, a) \<in> F \<Longrightarrow> threads w i = Some (d, l) \<Longrightarrow>
            rt_content rt (rt_view rt l s) a = rt_content rt (rt_view rt l (shared w)) a) \<Longrightarrow>
     world_step rt F w (w\<lparr>shared := s\<rparr>)"
| rerandomize: "threads w i = Some (d, l) \<Longrightarrow> rt_ready rt d p (rt_view rt l (shared w)) \<Longrightarrow>
     (\<And>a. (i, a) \<in> F \<Longrightarrow> rt_live rt d p a) \<Longrightarrow>
     rt_rerand rt p (rt_view rt l (shared w)) = Some (Inr s) \<Longrightarrow>
     world_step rt F w \<lparr>shared = s, threads = (threads w)(i \<mapsto> (d, rt_local rt s))\<rparr>"
| start: "threads w i = None \<Longrightarrow> rt_starts rt d q (rt_view rt (rt_fresh rt) (shared w)) \<Longrightarrow>
     rt_start rt q (rt_view rt (rt_fresh rt) (shared w)) = Some (Inr s) \<Longrightarrow>
     world_step rt F w \<lparr>shared = s, threads = (threads w)(i \<mapsto> (d, rt_local rt s))\<rparr>"
| round: "threads w i = Some (d, l) \<Longrightarrow> rt_rounds rt d = Some d' \<Longrightarrow>
     rt_exit rt e (rt_view rt l (shared w)) = Inr s \<Longrightarrow>
     world_step rt F w \<lparr>shared = s, threads = (threads w)(i \<mapsto> (d', rt_local rt s))\<rparr>"
| exit: "threads w i = Some (d, l) \<Longrightarrow> rt_exits rt d e (rt_view rt l (shared w)) \<Longrightarrow>
     i \<notin> fst ` F \<Longrightarrow> rt_exit rt e (rt_view rt l (shared w)) = Inr s \<Longrightarrow>
     world_step rt F w \<lparr>shared = s, threads = (threads w)(i := None)\<rparr>"
| clean: "world_step rt F w (w\<lparr>shared := rt_clean rt k (shared w)\<rparr>)"

inductive_cases world_stepE: "world_step rt F w w'"

subsection \<open>The invariant of the process\<close>

text \<open>
  Every running thread satisfies its invariant with some blocks; the blocks of the running threads
  and of the exited ones are pairwise disjoint; and the blocks of the exited ones are mapped.
\<close>

definition blocks_ok ::
  "('s, 'l, 'd, 'b, 'p, 'q, 'e) runtime \<Rightarrow> ('s, 'l, 'd) world \<Rightarrow> (nat \<Rightarrow> 'b) \<Rightarrow> bool" where
  "blocks_ok rt w B \<longleftrightarrow>
     (\<forall>i d l. threads w i = Some (d, l) \<longrightarrow> rt_ok rt d (B i) (rt_view rt l (shared w))) \<and>
     (\<forall>i j. threads w i \<noteq> None \<longrightarrow> threads w j \<noteq> None \<longrightarrow> i \<noteq> j \<longrightarrow> rt_own rt (B i) \<inter> rt_own rt (B j) = {}) \<and>
     (\<forall>i n. threads w i \<noteq> None \<longrightarrow> rt_own rt (B i) \<inter> rt_waiting rt (shared w) n = {}) \<and>
     (\<forall>n m. n \<noteq> m \<longrightarrow> rt_waiting rt (shared w) n \<inter> rt_waiting rt (shared w) m = {}) \<and>
     (\<forall>n x. x \<in> rt_waiting rt (shared w) n \<longrightarrow> prot_of (rt_vm rt (shared w)) x \<noteq> None)"

definition world_ok :: "('s, 'l, 'd, 'b, 'p, 'q, 'e) runtime \<Rightarrow> ('s, 'l, 'd) world \<Rightarrow> bool" where
  "world_ok rt w \<longleftrightarrow> (\<exists>B. blocks_ok rt w B)"

text \<open>The functions of \<open>F\<close> have slots, and where the exit sequence of one of them jumps to.\<close>

definition tracks :: "('s, 'l, 'd, 'b, 'p, 'q, 'e) runtime \<Rightarrow> (nat \<times> addr) set \<Rightarrow> ('s, 'l, 'd) world \<Rightarrow> bool" where
  "tracks rt F w \<longleftrightarrow> (\<forall>(i, a) \<in> F. \<exists>d l. threads w i = Some (d, l) \<and> rt_frame rt d a)"

definition target ::
  "('s, 'l, 'd, 'b, 'p, 'q, 'e) runtime \<Rightarrow> ('s, 'l, 'd) world \<Rightarrow> nat \<Rightarrow> addr \<Rightarrow> u64 option" where
  "target rt w i a = map_option (\<lambda>(d, l). rt_content rt (rt_view rt l (shared w)) a) (threads w i)"

lemma blocks_okD:
  assumes "blocks_ok rt w B"
  shows "threads w i = Some (d, l) \<Longrightarrow> rt_ok rt d (B i) (rt_view rt l (shared w))"
    and "threads w i = Some t \<Longrightarrow> threads w j = Some u \<Longrightarrow> i \<noteq> j \<Longrightarrow> x \<in> rt_own rt (B i) \<Longrightarrow> x \<notin> rt_own rt (B j)"
    and "threads w i = Some t \<Longrightarrow> x \<in> rt_own rt (B i) \<Longrightarrow> x \<notin> rt_waiting rt (shared w) n"
    and "n \<noteq> m \<Longrightarrow> x \<in> rt_waiting rt (shared w) n \<Longrightarrow> x \<notin> rt_waiting rt (shared w) m"
    and "x \<in> rt_waiting rt (shared w) n \<Longrightarrow> prot_of (rt_vm rt (shared w)) x \<noteq> None"
  using assms unfolding blocks_ok_def by blast+

lemma blocks_okI:
  assumes "\<And>i d l. threads w i = Some (d, l) \<Longrightarrow> rt_ok rt d (B i) (rt_view rt l (shared w))"
    and "\<And>i j t u. threads w i = Some t \<Longrightarrow> threads w j = Some u \<Longrightarrow> i \<noteq> j \<Longrightarrow> rt_own rt (B i) \<inter> rt_own rt (B j) = {}"
    and "\<And>i t n. threads w i = Some t \<Longrightarrow> rt_own rt (B i) \<inter> rt_waiting rt (shared w) n = {}"
    and "\<And>n m. n \<noteq> m \<Longrightarrow> rt_waiting rt (shared w) n \<inter> rt_waiting rt (shared w) m = {}"
    and "\<And>n x. x \<in> rt_waiting rt (shared w) n \<Longrightarrow> prot_of (rt_vm rt (shared w)) x \<noteq> None"
  shows "blocks_ok rt w B"
  unfolding blocks_ok_def using assms by fast

lemma blocks_disjoint:
  assumes "blocks_ok rt w B"
  shows "threads w i = Some t \<Longrightarrow> threads w j = Some u \<Longrightarrow> i \<noteq> j \<Longrightarrow> rt_own rt (B i) \<inter> rt_own rt (B j) = {}"
    and "threads w i = Some t \<Longrightarrow> rt_own rt (B i) \<inter> rt_waiting rt (shared w) n = {}"
    and "n \<noteq> m \<Longrightarrow> rt_waiting rt (shared w) n \<inter> rt_waiting rt (shared w) m = {}"
  using assms unfolding blocks_ok_def by blast+

subsection \<open>What a runtime promises for one thread\<close>

text \<open>The step changes no mapped memory outside the thread's old blocks, and the new ones avoid it.\<close>

definition framed :: "('s, 'l, 'd, 'b, 'p, 'q, 'e) runtime \<Rightarrow> addr set \<Rightarrow> addr set \<Rightarrow> 's \<Rightarrow> 's \<Rightarrow> bool" where
  "framed rt X Y s s' \<longleftrightarrow>
     (\<forall>x. prot_of (rt_vm rt s) x \<noteq> None \<and> x \<notin> X \<longrightarrow>
        x \<notin> Y \<and> prot_of (rt_vm rt s') x = prot_of (rt_vm rt s) x \<and> cells (rt_vm rt s') x = cells (rt_vm rt s) x)"

locale threaded_runtime =
  fixes rt :: "('s, 'l, 'd, 'b, 'p, 'q, 'e) runtime"
  assumes view: "rt_local rt (rt_view rt l s) = l" "rt_vm rt (rt_view rt l s) = rt_vm rt s"
      "rt_waiting rt (rt_view rt l s) = rt_waiting rt s"
    and view_local: "rt_view rt l (rt_view rt l' s) = rt_view rt l s" "rt_view rt (rt_local rt s) s = s"
    and ok_mapped: "rt_ok rt d b s \<Longrightarrow> x \<in> rt_own rt b \<Longrightarrow> prot_of (rt_vm rt s) x \<noteq> None"
    and meta_own: "rt_meta rt b \<subseteq> rt_own rt b"
    and ok_local: "rt_ok rt d b s \<Longrightarrow> rt_local rt s' = rt_local rt s \<Longrightarrow>
      (\<And>x. x \<in> rt_own rt b \<Longrightarrow> prot_of (rt_vm rt s') x = prot_of (rt_vm rt s) x) \<Longrightarrow>
      (\<And>x. x \<in> rt_meta rt b \<Longrightarrow> cells (rt_vm rt s') x = cells (rt_vm rt s) x) \<Longrightarrow> rt_ok rt d b s'"
    and content_local: "rt_ok rt d b s \<Longrightarrow> rt_local rt s' = rt_local rt s \<Longrightarrow>
      (\<And>x. x \<in> rt_own rt b \<Longrightarrow> cells (rt_vm rt s') x = cells (rt_vm rt s) x) \<Longrightarrow> rt_frame rt d a \<Longrightarrow>
      rt_content rt s' a = rt_content rt s a"
    and rerand_ok: "rt_ok rt d b s \<Longrightarrow> rt_ready rt d p s \<Longrightarrow>
      \<exists>b' s'. rt_rerand rt p s = Some (Inr s') \<and> rt_ok rt d b' s' \<and> rt_waiting rt s' = rt_waiting rt s \<and>
        framed rt (rt_own rt b) (rt_own rt b') s s' \<and>
        (\<forall>a. rt_frame rt d a \<longrightarrow> rt_live rt d p a \<longrightarrow> rt_content rt s' a = rt_content rt s a)"
    and start_ok: "rt_starts rt d q s \<Longrightarrow>
      \<exists>b s'. rt_start rt q s = Some (Inr s') \<and> rt_ok rt d b s' \<and> rt_waiting rt s' = rt_waiting rt s \<and>
        framed rt {} (rt_own rt b) s s'"
    and round_ok: "rt_ok rt d b s \<Longrightarrow> rt_rounds rt d = Some d' \<Longrightarrow>
      \<exists>s'. rt_exit rt e s = Inr s' \<and> rt_ok rt d' b s' \<and> rt_vm rt s' = rt_vm rt s \<and>
        rt_waiting rt s' = rt_waiting rt s \<and> rt_frame rt d' = rt_frame rt d \<and>
        (\<forall>a. rt_content rt s' a = rt_content rt s a)"
    and exit_ok: "rt_ok rt d b s \<Longrightarrow> rt_exits rt d e s \<Longrightarrow>
      \<exists>s'. rt_exit rt e s = Inr s' \<and> rt_vm rt s' = rt_vm rt s \<and>
        (rt_waiting rt s' = rt_waiting rt s \<or>
         (\<exists>n. rt_waiting rt s n = {} \<and> rt_waiting rt s' = (rt_waiting rt s)(n := rt_own rt b)))"
    and clean_ok: "rt_waiting rt (rt_clean rt k s) n = rt_waiting rt s n \<or> rt_waiting rt (rt_clean rt k s) n = {}"
      "prot_of (rt_vm rt (rt_clean rt k s)) x =
        (if \<exists>n. x \<in> rt_waiting rt s n \<and> rt_waiting rt (rt_clean rt k s) n = {} then None
         else prot_of (rt_vm rt s) x)"
      "cells (rt_vm rt (rt_clean rt k s)) = cells (rt_vm rt s)"
begin

text \<open>A thread does not notice a step that leaves its blocks as they are.\<close>

lemma other_ok:
  assumes "rt_ok rt d b (rt_view rt l s)"
    and "\<And>x. x \<in> rt_own rt b \<Longrightarrow> prot_of (rt_vm rt s') x = prot_of (rt_vm rt s) x"
    and "\<And>x. x \<in> rt_meta rt b \<Longrightarrow> cells (rt_vm rt s') x = cells (rt_vm rt s) x"
  shows "rt_ok rt d b (rt_view rt l s')"
  by (rule ok_local [OF assms(1)]) (simp_all add: view assms(2,3))

lemma other_content:
  assumes "rt_ok rt d b (rt_view rt l s)" and "rt_frame rt d a"
    and "\<And>x. x \<in> rt_own rt b \<Longrightarrow> cells (rt_vm rt s') x = cells (rt_vm rt s) x"
  shows "rt_content rt (rt_view rt l s') a = rt_content rt (rt_view rt l s) a"
  by (rule content_local [OF assms(1) _ _ assms(2)]) (simp_all add: view assms(3))

lemma own_mapped:
  assumes "blocks_ok rt w B" and "threads w i = Some (d, l)" and "x \<in> rt_own rt (B i)"
  shows "prot_of (rt_vm rt (shared w)) x \<noteq> None"
  using ok_mapped [OF blocks_okD(1) [OF assms(1,2)] assms(3)] by (simp add: view)

text \<open>
  A call of the runtime by one thread, from blocks \<open>X\<close> to blocks \<open>b\<close>: the blocks of the others and
  those of the exited threads are as they were.
\<close>

lemma call_keeps_others:
  assumes B: "blocks_ok rt w B" and fr: "framed rt X (rt_own rt b) (rt_view rt l (shared w)) s"
    and X: "X = {} \<and> threads w i = None \<or> X = rt_own rt (B i) \<and> threads w i \<noteq> None"
    and j: "threads w j = Some (dj, lj)" "j \<noteq> i"
  shows "x \<in> rt_own rt (B j) \<Longrightarrow> x \<notin> rt_own rt b"
    and "x \<in> rt_own rt (B j) \<Longrightarrow> prot_of (rt_vm rt s) x = prot_of (rt_vm rt (shared w)) x"
    and "x \<in> rt_own rt (B j) \<Longrightarrow> cells (rt_vm rt s) x = cells (rt_vm rt (shared w)) x"
proof -
  have "x \<notin> X" if "x \<in> rt_own rt (B j)"
    using X blocks_okD(2) [OF B j(1) _ j(2) that] by auto
  then show "x \<in> rt_own rt (B j) \<Longrightarrow> x \<notin> rt_own rt b"
    and "x \<in> rt_own rt (B j) \<Longrightarrow> prot_of (rt_vm rt s) x = prot_of (rt_vm rt (shared w)) x"
    and "x \<in> rt_own rt (B j) \<Longrightarrow> cells (rt_vm rt s) x = cells (rt_vm rt (shared w)) x"
    using fr own_mapped [OF B j(1)] unfolding framed_def view by blast+
qed

lemma call_keeps_waiting:
  assumes B: "blocks_ok rt w B" and fr: "framed rt X (rt_own rt b) (rt_view rt l (shared w)) s"
    and X: "X = {} \<and> threads w i = None \<or> X = rt_own rt (B i) \<and> threads w i \<noteq> None"
    and x: "x \<in> rt_waiting rt (shared w) n"
  shows "x \<notin> rt_own rt b" and "prot_of (rt_vm rt s) x = prot_of (rt_vm rt (shared w)) x"
proof -
  have "x \<notin> X" using X x blocks_okD(3) [OF B] by auto
  then show "x \<notin> rt_own rt b" "prot_of (rt_vm rt s) x = prot_of (rt_vm rt (shared w)) x"
    using fr blocks_okD(5) [OF B x] unfolding framed_def view by blast+
qed

lemma call_ok:
  assumes B: "blocks_ok rt w B" and fr: "framed rt X (rt_own rt b) (rt_view rt l (shared w)) s"
    and X: "X = {} \<and> threads w i = None \<or> X = rt_own rt (B i) \<and> threads w i \<noteq> None"
    and ok: "rt_ok rt d b s" and waiting: "rt_waiting rt s = rt_waiting rt (shared w)"
  shows "blocks_ok rt \<lparr>shared = s, threads = (threads w)(i \<mapsto> (d, rt_local rt s))\<rparr> (B(i := b))"
proof -
  note others = call_keeps_others [OF B fr X] and waits = call_keeps_waiting [OF B fr X]
  have ok': "rt_ok rt d b (rt_view rt (rt_local rt s) s)" by (simp add: view_local ok)
  have "rt_ok rt dj (B j) (rt_view rt lj s)" if "threads w j = Some (dj, lj)" "j \<noteq> i" for j dj lj
    using other_ok [OF blocks_okD(1) [OF B that(1)]] others(2,3) [OF that] meta_own by blast
  moreover have "rt_own rt (B j) \<inter> rt_own rt b = {}" if "threads w j \<noteq> None" "j \<noteq> i" for j
    using that others(1) by fastforce
  moreover have "rt_own rt b \<inter> rt_waiting rt (shared w) n = {}" for n using waits(1) by blast
  ultimately show ?thesis
    using B ok' waits(2) unfolding blocks_ok_def by (auto simp: waiting Int_commute)
qed

text \<open>Every step keeps the invariant and what the functions of \<open>F\<close> return to.\<close>

lemma work_keeps:
  assumes B: "blocks_ok rt w B"
    and "\<And>i d l b x. threads w i = Some (d, l) \<Longrightarrow> rt_ok rt d b (rt_view rt l (shared w)) \<Longrightarrow>
      x \<in> rt_own rt b \<Longrightarrow> prot_of (rt_vm rt s) x = prot_of (rt_vm rt (shared w)) x"
    and "\<And>i d l b x. threads w i = Some (d, l) \<Longrightarrow> rt_ok rt d b (rt_view rt l (shared w)) \<Longrightarrow>
      x \<in> rt_meta rt b \<Longrightarrow> cells (rt_vm rt s) x = cells (rt_vm rt (shared w)) x"
    and "rt_waiting rt s = rt_waiting rt (shared w)"
    and "\<And>n x. x \<in> rt_waiting rt (shared w) n \<Longrightarrow> prot_of (rt_vm rt s) x = prot_of (rt_vm rt (shared w)) x"
  shows "blocks_ok rt (w\<lparr>shared := s\<rparr>) B"
proof -
  have "rt_ok rt d (B i) (rt_view rt l s)" if "threads w i = Some (d, l)" for i d l
    using other_ok [OF blocks_okD(1) [OF B that]] assms(2,3) [OF that blocks_okD(1) [OF B that]] by blast
  with B assms(4,5) show ?thesis unfolding blocks_ok_def by simp
qed

lemma exit_keeps:
  assumes B: "blocks_ok rt w B" and i: "threads w i = Some (d, l)" and "rt_exits rt d e (rt_view rt l (shared w))"
    and s: "rt_exit rt e (rt_view rt l (shared w)) = Inr s"
  shows "blocks_ok rt \<lparr>shared = s, threads = (threads w)(i := None)\<rparr> B" and "rt_vm rt s = rt_vm rt (shared w)"
proof -
  let ?W = "rt_waiting rt (shared w)"
  note dis = blocks_disjoint [OF B]
  from exit_ok [OF blocks_okD(1) [OF B i] assms(3)] s
  show vm: "rt_vm rt s = rt_vm rt (shared w)" by (auto simp: view)
  from exit_ok [OF blocks_okD(1) [OF B i] assms(3)] s
  consider (full) "rt_waiting rt s = ?W" | (added) n0 where "?W n0 = {}" "rt_waiting rt s = ?W(n0 := rt_own rt (B i))"
    by (auto simp: view)
  then have waits: "x \<in> rt_waiting rt s n \<Longrightarrow> x \<in> ?W n \<or> x \<in> rt_own rt (B i) \<and> ?W n = {} \<and>
      (\<forall>m. m \<noteq> n \<longrightarrow> rt_waiting rt s m = ?W m)" for x n
    by cases (auto split: if_splits)
  show "blocks_ok rt \<lparr>shared = s, threads = (threads w)(i := None)\<rparr> B"
  proof (rule blocks_okI, simp_all add: vm split: if_splits)
    fix j dj lj assume "threads w j = Some (dj, lj)"
    then show "rt_ok rt dj (B j) (rt_view rt lj s)"
      using other_ok [OF blocks_okD(1) [OF B], of j _ _ s] by (simp add: vm)
  next
    fix j j' t u assume "threads w j = Some t" "threads w j' = Some u" "j \<noteq> j'"
    then show "rt_own rt (B j) \<inter> rt_own rt (B j') = {}" by (rule dis(1))
  next
    fix j t n assume j: "threads w j = Some t" "j \<noteq> i"
    then show "rt_own rt (B j) \<inter> rt_waiting rt s n = {}"
      using waits dis(1) [OF j(1) i j(2)] dis(2) [OF j(1)] by blast
  next
    fix n m :: nat assume nm: "n \<noteq> m"
    have "x \<notin> rt_waiting rt s m" if x: "x \<in> rt_waiting rt s n" for x
      using waits [OF x] waits [of x m] dis(2) [OF i] dis(3) [OF nm] nm by fastforce
    then show "rt_waiting rt s n \<inter> rt_waiting rt s m = {}" by blast
  next
    fix n x assume "x \<in> rt_waiting rt s n"
    then show "\<exists>y. prot_of (rt_vm rt (shared w)) x = Some y"
      using waits blocks_okD(5) [OF B] own_mapped [OF B i] by blast
  qed
qed

lemma clean_keeps:
  assumes B: "blocks_ok rt w B"
  shows "blocks_ok rt (w\<lparr>shared := rt_clean rt k (shared w)\<rparr>) B"
proof -
  let ?s = "rt_clean rt k (shared w)" and ?W = "rt_waiting rt (shared w)"
  note dis = blocks_disjoint [OF B]
  have sub: "x \<in> ?W n" if "x \<in> rt_waiting rt ?s n" for x n
    using clean_ok(1) [of k "shared w" n] that by auto
  show ?thesis
  proof (rule blocks_okI, simp_all)
    fix i d l assume i: "threads w i = Some (d, l)"
    have "prot_of (rt_vm rt ?s) x = prot_of (rt_vm rt (shared w)) x" if "x \<in> rt_own rt (B i)" for x
      using blocks_okD(3) [OF B i that] by (simp add: clean_ok(2))
    then show "rt_ok rt d (B i) (rt_view rt l ?s)"
      using other_ok [OF blocks_okD(1) [OF B i]] by (simp add: clean_ok(3))
  next
    fix i j t u assume "threads w i = Some t" "threads w j = Some u" "i \<noteq> j"
    then show "rt_own rt (B i) \<inter> rt_own rt (B j) = {}" by (rule dis(1))
  next
    fix i t n assume "threads w i = Some t"
    then show "rt_own rt (B i) \<inter> rt_waiting rt ?s n = {}" using sub dis(2) by blast
  next
    fix n m :: nat assume "n \<noteq> m"
    then show "rt_waiting rt ?s n \<inter> rt_waiting rt ?s m = {}" using sub dis(3) by blast
  next
    fix n x assume x: "x \<in> rt_waiting rt ?s n"
    have "rt_waiting rt ?s m \<noteq> {}" if "x \<in> ?W m" for m
      using x blocks_okD(4) [OF B _ sub [OF x], of m] that by (cases "n = m") auto
    then have "prot_of (rt_vm rt ?s) x = prot_of (rt_vm rt (shared w)) x"
      by (subst clean_ok(2)) (simp, blast)
    then show "\<exists>y. prot_of (rt_vm rt ?s) x = Some y"
      using blocks_okD(5) [OF B sub [OF x]] by simp
  qed
qed

text \<open>A call by thread \<open>i\<close>: what the functions of the other threads return to.\<close>

lemma call_keeps_targets:
  assumes B: "blocks_ok rt w B" and fr: "framed rt X (rt_own rt b) (rt_view rt l (shared w)) s"
    and X: "X = {} \<and> threads w i = None \<or> X = rt_own rt (B i) \<and> threads w i \<noteq> None"
    and j: "threads w j = Some (dj, lj)" "j \<noteq> i" and "rt_frame rt dj a"
  shows "target rt \<lparr>shared = s, threads = (threads w)(i := t)\<rparr> j a = target rt w j a"
  using other_content [OF blocks_okD(1) [OF B j(1)] assms(6), of s] call_keeps_others(3) [OF B fr X j] j
  by (simp add: target_def)

lemma tracks_upd:
  assumes "tracks rt F w" and "\<And>a. (i, a) \<in> F \<Longrightarrow> \<exists>d l. t = Some (d, l) \<and> rt_frame rt d a"
  shows "tracks rt F \<lparr>shared = s, threads = (threads w)(i := t)\<rparr>"
  using assms unfolding tracks_def by fastforce

lemma tracksD:
  assumes "tracks rt F w" and "(i, a) \<in> F"
  obtains d l where "threads w i = Some (d, l)" and "rt_frame rt d a"
  using assms by (auto simp: tracks_def)

definition keeps :: "(nat \<times> addr) set \<Rightarrow> ('s, 'l, 'd) world \<Rightarrow> ('s, 'l, 'd) world \<Rightarrow> bool" where
  "keeps F w w' \<longleftrightarrow> world_ok rt w' \<and> tracks rt F w' \<and> (\<forall>(j, a) \<in> F. target rt w' j a = target rt w j a)"

lemma keepsI:
  assumes "blocks_ok rt w' B" and "tracks rt F w'" and "\<And>j a. (j, a) \<in> F \<Longrightarrow> target rt w' j a = target rt w j a"
  shows "keeps F w w'"
  using assms unfolding keeps_def world_ok_def by blast

lemma rerandomize_keeps:
  assumes B: "blocks_ok rt w B" and tr: "tracks rt F w"
    and i: "threads w i = Some (d, l)" and p: "rt_ready rt d p (rt_view rt l (shared w))"
    and live: "\<And>a. (i, a) \<in> F \<Longrightarrow> rt_live rt d p a"
    and s: "rt_rerand rt p (rt_view rt l (shared w)) = Some (Inr s)"
    and w': "w' = \<lparr>shared = s, threads = (threads w)(i \<mapsto> (d, rt_local rt s))\<rparr>"
  shows "keeps F w w'"
proof -
  from rerand_ok [OF blocks_okD(1) [OF B i] p] s obtain b where
    ok: "rt_ok rt d b s" "rt_waiting rt s = rt_waiting rt (shared w)"
    and fr: "framed rt (rt_own rt (B i)) (rt_own rt b) (rt_view rt l (shared w)) s"
    and c: "\<And>a. rt_frame rt d a \<Longrightarrow> rt_live rt d p a \<Longrightarrow> rt_content rt s a = rt_content rt (rt_view rt l (shared w)) a"
    by (auto simp: view)
  have X: "rt_own rt (B i) = {} \<and> threads w i = None \<or> rt_own rt (B i) = rt_own rt (B i) \<and> threads w i \<noteq> None"
    using i by simp
  have own: "rt_frame rt d a" if "(i, a) \<in> F" for a
    using tracksD [OF tr that] i by auto
  have "target rt w' j a = target rt w j a" if f: "(j, a) \<in> F" for j a
  proof (cases "j = i")
    case True
    with f c [OF own live] i show ?thesis by (simp add: w' target_def view_local)
  next
    case False
    show ?thesis
      unfolding w' by (rule tracksD [OF tr f]) (rule call_keeps_targets [OF B fr X _ False])
  qed
  moreover have "tracks rt F w'" unfolding w' by (rule tracks_upd [OF tr]) (simp add: own)
  moreover have "blocks_ok rt w' (B(i := b))" unfolding w' by (rule call_ok [OF B fr X ok])
  ultimately show ?thesis by (intro keepsI)
qed

lemma start_keeps:
  assumes B: "blocks_ok rt w B" and tr: "tracks rt F w"
    and i: "threads w i = None" and q: "rt_starts rt d q (rt_view rt (rt_fresh rt) (shared w))"
    and s: "rt_start rt q (rt_view rt (rt_fresh rt) (shared w)) = Some (Inr s)"
    and w': "w' = \<lparr>shared = s, threads = (threads w)(i \<mapsto> (d, rt_local rt s))\<rparr>"
  shows "keeps F w w'"
proof -
  from start_ok [OF q] s obtain b where
    ok: "rt_ok rt d b s" "rt_waiting rt s = rt_waiting rt (shared w)"
    and fr: "framed rt {} (rt_own rt b) (rt_view rt (rt_fresh rt) (shared w)) s"
    by (auto simp: view)
  have X: "{} = ({} :: addr set) \<and> threads w i = None \<or> {} = rt_own rt (B i) \<and> threads w i \<noteq> None"
    using i by simp
  have none: "(i, a) \<notin> F" for a
  proof
    assume "(i, a) \<in> F"
    show False by (rule tracksD [OF tr \<open>(i, a) \<in> F\<close>]) (simp add: i)
  qed
  have "target rt w' j a = target rt w j a" if f: "(j, a) \<in> F" for j a
  proof -
    have ne: "j \<noteq> i" using f none by blast
    show ?thesis
      unfolding w' by (rule tracksD [OF tr f]) (rule call_keeps_targets [OF B fr X _ ne])
  qed
  moreover have "tracks rt F w'" unfolding w' by (rule tracks_upd [OF tr]) (simp add: none)
  moreover have "blocks_ok rt w' (B(i := b))" unfolding w' by (rule call_ok [OF B fr X ok])
  ultimately show ?thesis by (intro keepsI)
qed

lemma same_memory_targets:
  assumes B: "blocks_ok rt w B" and tr: "tracks rt F w" and f: "(j, a) \<in> F" "threads w' j = threads w j"
    and "cells (rt_vm rt (shared w')) = cells (rt_vm rt (shared w))"
  shows "target rt w' j a = target rt w j a"
proof -
  obtain d l where t: "threads w j = Some (d, l)" "rt_frame rt d a" by (rule tracksD [OF tr f(1)])
  have "rt_content rt (rt_view rt l (shared w')) a = rt_content rt (rt_view rt l (shared w)) a"
    by (rule other_content [OF blocks_okD(1) [OF B t(1)] t(2)]) (simp add: assms(5))
  then show ?thesis by (simp add: target_def f(2) t(1))
qed

lemma work_step:
  assumes B: "blocks_ok rt w B" and tr: "tracks rt F w"
    and rights: "\<And>i d l b x. threads w i = Some (d, l) \<Longrightarrow> rt_ok rt d b (rt_view rt l (shared w)) \<Longrightarrow>
      x \<in> rt_own rt b \<Longrightarrow> prot_of (rt_vm rt s) x = prot_of (rt_vm rt (shared w)) x"
    and meta: "\<And>i d l b x. threads w i = Some (d, l) \<Longrightarrow> rt_ok rt d b (rt_view rt l (shared w)) \<Longrightarrow>
      x \<in> rt_meta rt b \<Longrightarrow> cells (rt_vm rt s) x = cells (rt_vm rt (shared w)) x"
    and waits: "rt_waiting rt s = rt_waiting rt (shared w)"
      "\<And>n x. x \<in> rt_waiting rt (shared w) n \<Longrightarrow> prot_of (rt_vm rt s) x = prot_of (rt_vm rt (shared w)) x"
    and slots: "\<And>i a d l. (i, a) \<in> F \<Longrightarrow> threads w i = Some (d, l) \<Longrightarrow>
      rt_content rt (rt_view rt l s) a = rt_content rt (rt_view rt l (shared w)) a"
  shows "keeps F w (w\<lparr>shared := s\<rparr>)"
proof (rule keepsI)
  show "blocks_ok rt (w\<lparr>shared := s\<rparr>) B"
    by (rule work_keeps [OF B]) (fact rights, fact meta, fact waits(1), fact waits(2))
  show "tracks rt F (w\<lparr>shared := s\<rparr>)" using tr by (simp add: tracks_def)
  fix j a assume f: "(j, a) \<in> F"
  show "target rt (w\<lparr>shared := s\<rparr>) j a = target rt w j a"
    by (rule tracksD [OF tr f]) (simp add: target_def slots [OF f])
qed

lemma exit_step:
  assumes B: "blocks_ok rt w B" and tr: "tracks rt F w"
    and i: "threads w i = Some (d, l)" "rt_exits rt d e (rt_view rt l (shared w))" "i \<notin> fst ` F"
    and s: "rt_exit rt e (rt_view rt l (shared w)) = Inr s"
  shows "keeps F w \<lparr>shared = s, threads = (threads w)(i := None)\<rparr>"
proof (rule keepsI)
  note ex = exit_keeps [OF B i(1,2) s]
  have out: "j \<noteq> i" if "(j, a) \<in> F" for j a using imageI [OF that, of fst] i(3) by auto
  show "blocks_ok rt \<lparr>shared = s, threads = (threads w)(i := None)\<rparr> B" by (rule ex(1))
  show "tracks rt F \<lparr>shared = s, threads = (threads w)(i := None)\<rparr>"
    by (rule tracks_upd [OF tr]) (blast dest: out)
  fix j a assume f: "(j, a) \<in> F"
  show "target rt \<lparr>shared = s, threads = (threads w)(i := None)\<rparr> j a = target rt w j a"
    by (rule same_memory_targets [OF B tr f]) (simp_all add: ex(2) out [OF f])
qed

lemma round_step:
  assumes B: "blocks_ok rt w B" and tr: "tracks rt F w"
    and i: "threads w i = Some (d, l)" "rt_rounds rt d = Some d'"
    and s: "rt_exit rt e (rt_view rt l (shared w)) = Inr s"
    and w': "w' = \<lparr>shared = s, threads = (threads w)(i \<mapsto> (d', rt_local rt s))\<rparr>"
  shows "keeps F w w'"
proof -
  from round_ok [OF blocks_okD(1) [OF B i(1)] i(2), of e] s have
    ok: "rt_ok rt d' (B i) s" "rt_waiting rt s = rt_waiting rt (shared w)" "rt_vm rt s = rt_vm rt (shared w)"
    and same: "rt_frame rt d' = rt_frame rt d" "\<And>a. rt_content rt s a = rt_content rt (rt_view rt l (shared w)) a"
    by (auto simp: view)
  have fr: "framed rt (rt_own rt (B i)) (rt_own rt (B i)) (rt_view rt l (shared w)) s"
    by (simp add: framed_def ok(3) view)
  have X: "rt_own rt (B i) = {} \<and> threads w i = None \<or> rt_own rt (B i) = rt_own rt (B i) \<and> threads w i \<noteq> None"
    using i by simp
  have own: "rt_frame rt d' a" if "(i, a) \<in> F" for a
    using tracksD [OF tr that] i(1) same(1) by auto
  have "target rt w' j a = target rt w j a" if f: "(j, a) \<in> F" for j a
  proof (cases "j = i")
    case True
    with i(1) same(2) show ?thesis by (simp add: w' target_def view_local)
  next
    case False
    show ?thesis
      unfolding w' by (rule tracksD [OF tr f]) (rule call_keeps_targets [OF B fr X _ False])
  qed
  moreover have "tracks rt F w'" unfolding w' by (rule tracks_upd [OF tr]) (simp add: own)
  moreover have "blocks_ok rt w' (B(i := B i))" unfolding w' by (rule call_ok [OF B fr X ok(1,2)])
  ultimately show ?thesis by (intro keepsI)
qed

lemma clean_step:
  assumes B: "blocks_ok rt w B" and tr: "tracks rt F w"
  shows "keeps F w (w\<lparr>shared := rt_clean rt k (shared w)\<rparr>)"
proof (rule keepsI)
  let ?w' = "w\<lparr>shared := rt_clean rt k (shared w)\<rparr>"
  show "blocks_ok rt ?w' B" by (rule clean_keeps [OF B])
  show "tracks rt F ?w'" using tr by (simp add: tracks_def)
  fix j a assume "(j, a) \<in> F"
  then show "target rt ?w' j a = target rt w j a"
    by (rule same_memory_targets [OF B tr]) (simp_all add: clean_ok(3))
qed

lemma step_keeps:
  assumes "world_step rt F w w'" and "world_ok rt w" and tr: "tracks rt F w"
  shows "keeps F w w'"
proof -
  obtain B where B: "blocks_ok rt w B" using assms(2) by (auto simp: world_ok_def)
  from assms(1) show ?thesis
  proof cases
    case (work s)
    show ?thesis
      unfolding work(1)
      by (rule work_step [OF B tr]) (fact work(2), fact work(3), fact work(4), fact work(5), fact work(6))
  next
    case (rerandomize i d l p s)
    show ?thesis
      by (rule rerandomize_keeps [OF B tr])
        (fact rerandomize(2), fact rerandomize(3), fact rerandomize(4), fact rerandomize(5), fact rerandomize(1))
  next
    case (start i d q s)
    show ?thesis
      by (rule start_keeps [OF B tr]) (fact start(2), fact start(3), fact start(4), fact start(1))
  next
    case (round i d l d' e s)
    show ?thesis
      by (rule round_step [OF B tr]) (fact round(2), fact round(3), fact round(4), fact round(1))
  next
    case (exit i d l e s)
    show ?thesis
      unfolding exit(1) by (rule exit_step [OF B tr]) (fact exit(2), fact exit(3), fact exit(4), fact exit(5))
  next
    case (clean k)
    show ?thesis unfolding clean by (rule clean_step [OF B tr])
  qed
qed

lemma steps_keep:
  assumes "(world_step rt F)\<^sup>*\<^sup>* w w'" and "world_ok rt w" and "tracks rt F w"
  shows "world_ok rt w'" and "tracks rt F w'" and "(i, a) \<in> F \<Longrightarrow> target rt w' i a = target rt w i a"
proof -
  have "keeps F w w'"
    using assms(1)
  proof (induction rule: rtranclp_induct)
    case base
    show ?case using assms(2,3) by (simp add: keeps_def)
  next
    case (step v u)
    then have "keeps F v u" using step_keeps by (simp add: keeps_def)
    with step.IH show ?case by (simp add: keeps_def case_prod_beta)
  qed
  then show "world_ok rt w'" "tracks rt F w'" "(i, a) \<in> F \<Longrightarrow> target rt w' i a = target rt w i a"
    by (auto simp: keeps_def)
qed

text \<open>A thread may write to its own blocks outside the metadata.\<close>

lemma own_write:
  assumes B: "blocks_ok rt w B" and i: "threads w i = Some (d, l)"
    and pr: "prot_of (rt_vm rt s) = prot_of (rt_vm rt (shared w))"
    and ce: "\<And>x. x \<notin> rt_own rt (B i) - rt_meta rt (B i) \<Longrightarrow> cells (rt_vm rt s) x = cells (rt_vm rt (shared w)) x"
    and wt: "rt_waiting rt s = rt_waiting rt (shared w)"
  shows "blocks_ok rt (w\<lparr>shared := s\<rparr>) B"
proof (rule blocks_okI, simp_all add: pr wt)
  note dis = blocks_disjoint [OF B]
  fix j dj lj assume j: "threads w j = Some (dj, lj)"
  have "cells (rt_vm rt s) x = cells (rt_vm rt (shared w)) x" if "x \<in> rt_meta rt (B j)" for x
    using that ce blocks_okD(2) [OF B j i] meta_own by (cases "j = i") blast+
  then show "rt_ok rt dj (B j) (rt_view rt lj s)"
    by (intro other_ok [OF blocks_okD(1) [OF B j]]) (simp_all add: pr)
qed (use blocks_disjoint [OF B] blocks_okD(5) [OF B] in \<open>simp_all\<close>)

text \<open>
  A function whose entry is such a write: when it is in \<open>F\<close>, its slot keeps what the entry wrote.
\<close>

lemma entry_survives:
  assumes B: "blocks_ok rt w B" and i: "threads w i = Some (d, l)"
    and pr: "prot_of (rt_vm rt s) = prot_of (rt_vm rt (shared w))"
    and ce: "\<And>x. x \<notin> rt_own rt (B i) - rt_meta rt (B i) \<Longrightarrow> cells (rt_vm rt s) x = cells (rt_vm rt (shared w)) x"
    and wt: "rt_waiting rt s = rt_waiting rt (shared w)"
    and tr: "tracks rt F w" and f: "(i, a) \<in> F" and steps: "(world_step rt F)\<^sup>*\<^sup>* (w\<lparr>shared := s\<rparr>) w'"
  shows "world_ok rt w'"
    and "\<exists>d' l'. threads w' i = Some (d', l') \<and>
      rt_content rt (rt_view rt l' (shared w')) a = rt_content rt (rt_view rt l s) a"
proof -
  have ok: "world_ok rt (w\<lparr>shared := s\<rparr>)"
    using own_write [OF B i pr ce wt] by (auto simp: world_ok_def)
  have "tracks rt F (w\<lparr>shared := s\<rparr>)" using tr by (simp add: tracks_def)
  note keep = steps_keep [OF steps ok this]
  show "world_ok rt w'" by (rule keep(1))
  have "target rt w' i a = Some (rt_content rt (rt_view rt l s) a)"
    using keep(3) [OF f] i by (simp add: target_def)
  then show "\<exists>d' l'. threads w' i = Some (d', l') \<and>
      rt_content rt (rt_view rt l' (shared w')) a = rt_content rt (rt_view rt l s) a"
    by (auto simp: target_def)
qed

text \<open>At the start of the process there is no thread and no entry in the table.\<close>

lemma reachable_ok:
  assumes "(world_step rt {})\<^sup>*\<^sup>* w0 w" and "threads w0 = Map.empty" and "\<And>n. rt_waiting rt (shared w0) n = {}"
  shows "world_ok rt w"
proof (rule steps_keep(1) [OF assms(1)])
  show "world_ok rt w0" using assms(2,3) by (simp add: world_ok_def blocks_ok_def)
  show "tracks rt {} w0" by (simp add: tracks_def)
qed

text \<open>No call of the runtime by a running thread fails or runs forever.\<close>

lemma calls_return:
  assumes "world_ok rt w" and "threads w i = Some (d, l)"
  shows "rt_ready rt d p (rt_view rt l (shared w)) \<Longrightarrow>
      \<exists>s. rt_rerand rt p (rt_view rt l (shared w)) = Some (Inr s)"
    and "rt_rounds rt d \<noteq> None \<or> rt_exits rt d e (rt_view rt l (shared w)) \<Longrightarrow>
      \<exists>s. rt_exit rt e (rt_view rt l (shared w)) = Inr s"
proof -
  obtain B where ok: "rt_ok rt d (B i) (rt_view rt l (shared w))"
    using assms by (auto simp: world_ok_def dest: blocks_okD(1))
  show "rt_ready rt d p (rt_view rt l (shared w)) \<Longrightarrow>
      \<exists>s. rt_rerand rt p (rt_view rt l (shared w)) = Some (Inr s)"
    using rerand_ok [OF ok] by blast
  show "rt_rounds rt d \<noteq> None \<or> rt_exits rt d e (rt_view rt l (shared w)) \<Longrightarrow>
      \<exists>s. rt_exit rt e (rt_view rt l (shared w)) = Inr s"
    using exit_ok [OF ok] round_ok [OF ok] by blast
qed

text \<open>The memory of a running thread is never unmapped by the cleaner.\<close>

lemma cleaner_spares_the_running:
  assumes "blocks_ok rt w B" and "threads w i = Some (d, l)" and "x \<in> rt_own rt (B i)"
  shows "prot_of (rt_vm rt (rt_clean rt k (shared w))) x = prot_of (rt_vm rt (shared w)) x"
  using blocks_okD(3) [OF assms] by (simp add: clean_ok(2))

end

end
