(* ===== verification/Gs_Threads.thy ===== *)
theory Gs_Threads
  imports Gs_Rsp_Props Threads
begin

section \<open>Gs_Threads: many threads on the runtime of the GS/RSP scheme\<close>

text \<open>
  The runtime of \<open>gs.rsp.c\<close> as a value of \<open>runtime\<close>, and that it keeps the promises of
  \<open>threaded_runtime\<close>.  A thread's own variables are the GS base, the \<open>__thread\<close> variables and the
  value of the cleanup key; everything else is shared.  A thread is described by its stack pointer
  at initialisation and the value of its cleanup key.
\<close>

subsection \<open>The variables of a thread\<close>

record gs_local =
  gl_gs_base :: u64
  gl_inited :: bool
  gl_relaxing :: bool
  gl_key :: nat

definition gs_view :: "gs_local \<Rightarrow> gs_rsp_state \<Rightarrow> gs_rsp_state" where
  "gs_view l s = s\<lparr>gs_base := gl_gs_base l, gs_rsp_flash_stack_inited := gl_inited l,
     relaxing_sandbox_during_init := gl_relaxing l, cleanup_key_value := gl_key l\<rparr>"

definition gs_local_of :: "gs_rsp_state \<Rightarrow> gs_local" where
  "gs_local_of s = \<lparr>gl_gs_base = gs_base s, gl_inited = gs_rsp_flash_stack_inited s,
     gl_relaxing = relaxing_sandbox_during_init s, gl_key = cleanup_key_value s\<rparr>"

definition gs_fresh :: gs_local where
  "gs_fresh = \<lparr>gl_gs_base = 0, gl_inited = False, gl_relaxing = False, gl_key = 0\<rparr>"

lemma gs_view_simps [simp]:
  "vmem (gs_view l s) = vmem s" "thread_info (gs_view l s) = thread_info s" "gs_local_of (gs_view l s) = l"
  "gs_view l (gs_view l' s) = gs_view l s" "gs_view (gs_local_of s) s = s"
  "gs_base (gs_view l s) = gl_gs_base l"
  by (simp_all add: gs_view_def gs_local_of_def)

lemma gs_local_eqD:
  assumes "gs_local_of s' = gs_local_of s"
  shows "gs_base s' = gs_base s" "gs_rsp_flash_stack_inited s' = gs_rsp_flash_stack_inited s"
    "cleanup_key_value s' = cleanup_key_value s"
  using assms by (simp_all add: gs_local_of_def)

subsection \<open>What the calls leave alone\<close>

text \<open>A call of the runtime changes neither the table nor the cleanup key.\<close>

definition table_kept :: "gs_rsp_state \<Rightarrow> gs_rsp_state \<Rightarrow> bool" where
  "table_kept s s' \<longleftrightarrow> thread_info s' = thread_info s \<and> cleanup_key_value s' = cleanup_key_value s"

lemma table_kept_refl [simp]: "table_kept s s"
  and table_kept_trans: "table_kept s t \<Longrightarrow> table_kept t u \<Longrightarrow> table_kept s u"
  by (simp_all add: table_kept_def)

lemma sys_store_table: "sys_store a v s = Inr s' \<Longrightarrow> table_kept s s'"
  by (auto simp: sys_store_def table_kept_def ebind_Inr_iff)

lemma get_memory_at_random_table:
  assumes "kernel_ok k" and "get_memory_at_random k rsp sz init s = (r, s')"
  shows "table_kept s s'"
proof -
  obtain j t where att: "mmap_attempts k (rsp - 2 * REAL_SHADOW_STACK_SIZE) sz 0 s = (r, j, t)"
    using assms(2) by (auto simp: get_memory_at_random_def Let_def split: prod.splits)
  have "t = s\<lparr>tick := tick t, vmem := vmem t\<rparr>"
    using mmap_attempts_ok [OF assms(1), of 0 "rsp - 2 * REAL_SHADOW_STACK_SIZE" sz s] att
    by (simp add: attempts_result_def)
  from arg_cong [OF this, of thread_info] arg_cong [OF this, of cleanup_key_value]
  have "table_kept s t" by (simp add: table_kept_def)
  moreover have "table_kept t s'"
    using assms(2) att by (auto simp: get_memory_at_random_def count_attempt_def table_kept_def split: if_splits)
  ultimately show ?thesis by (rule table_kept_trans)
qed

lemmas table_kept_simps =
  table_kept_def ebind_Inr_iff get_field_def set_field_def sys_load_def sys_store_def sys_rdtsc_def
  sys_get_gs_def sys_set_gs_def sys_mremap_def sys_munmap_def fail_rand_def Let_def

lemma set_field_table: "set_field md f v s = Inr s' \<Longrightarrow> table_kept s s'"
  by (simp add: set_field_def sys_store_table)

lemma undo_move_table:
  assumes "undo_move md old delta new s = Inr (md', s')"
  shows "table_kept s s'"
proof -
  obtain s1 d s2 where "set_field md gr_shadow_stack old (fail_rand s) = Inr s1"
    "set_field md gr_diff d s1 = Inr s2" "s' = sys_munmap new REAL_SHADOW_STACK_SIZE s2"
    using assms by (auto simp: undo_move_def ebind_Inr_iff)
  then show ?thesis
    using set_field_table [of md gr_shadow_stack old "fail_rand s" s1] set_field_table [of md gr_diff d s1 s2]
    by (simp add: table_kept_def fail_rand_def sys_munmap_def)
qed

lemma move_shadow_stack_table:
  assumes "move_shadow_stack k md new s = Inr (md', s')"
  shows "table_kept s s'"
proof -
  obtain old d where od: "get_field md gr_shadow_stack s = Inr old" "get_field md gr_diff s = Inr d"
    using assms by (auto simp: move_shadow_stack_def ebind_Inr_iff)
  let ?diff = "d + (new - old)"
  show ?thesis
  proof (cases "?diff <s 0 \<or> MAX_GS_BASE_ADDR <s ?diff")
    case True
    then show ?thesis
      using assms od by (auto simp: move_shadow_stack_def Let_def table_kept_def sys_munmap_def)
  next
    case False
    obtain s1 s2 where s12: "set_field md gr_shadow_stack new s = Inr s1" "set_field md gr_diff ?diff s1 = Inr s2"
      using assms od False by (auto simp: move_shadow_stack_def Let_def ebind_Inr_iff)
    obtain r s3 where mr: "sys_mremap k old REAL_SHADOW_STACK_SIZE new s2 = (r, s3)" by fastforce
    obtain g s4 where gs: "sys_set_gs k ?diff s3 = (g, s4)" by fastforce
    have t: "table_kept s s3" "table_kept s3 s4"
      using set_field_table [OF s12(1)] set_field_table [OF s12(2)] mr gs
      by (auto simp: table_kept_def sys_mremap_def sys_set_gs_def split: if_splits)
    have "table_kept s3 s'"
    proof (cases r)
      case None
      then have "undo_move md old (new - old) new s3 = Inr (md', s')"
        using assms od False s12 mr by (simp add: move_shadow_stack_def Let_def)
      then show ?thesis by (rule undo_move_table)
    next
      case (Some p)
      show ?thesis
      proof (cases g)
        case True
        then show ?thesis using assms od False s12 mr gs Some t(2) by (simp add: move_shadow_stack_def Let_def)
      next
        case False
        then have "undo_move md old (new - old) new s4 = Inr (md', s')"
          using assms od \<open>\<not> (?diff <s 0 \<or> MAX_GS_BASE_ADDR <s ?diff)\<close> s12 mr gs Some
          by (simp add: move_shadow_stack_def Let_def)
        then have "table_kept s4 s'" by (rule undo_move_table)
        with t(2) show ?thesis by (rule table_kept_trans)
      qed
    qed
    with t(1) show ?thesis by (rule table_kept_trans)
  qed
qed

lemma rand_exit_table: "rand_exit k from_clock md s = Inr s' \<Longrightarrow> table_kept s s'"
  by (auto simp: rand_exit_def table_kept_simps)

lemma shuffle_table:
  assumes k: "kernel_ok k" and s': "shuffle k rsp_alloc from_clock md s = Inr s'"
  shows "table_kept s s'"
proof -
  obtain s1 last where s1: "set_field md gr_is_randomizing 1 s = Inr s1" "get_field md gr_cpu_cycles s1 = Inr last"
    using s' by (auto simp: shuffle_def ebind_Inr_iff)
  let ?s2 = "s1\<lparr>tick := Suc (tick s1)\<rparr>" and ?now = "k_rdtsc k (tick s1)"
  have t2: "table_kept s ?s2"
    using s1(1) by (auto simp: table_kept_simps)
  show ?thesis
  proof (cases "?now - last < CPU_CYCLES_PER_RANDOMIZATION")
    case True
    then have "set_field md gr_is_randomizing 0 ?s2 = Inr s'"
      using s' s1 by (simp add: shuffle_def sys_rdtsc_def)
    then have "table_kept ?s2 s'" by (auto simp: table_kept_simps)
    with t2 show ?thesis by (rule table_kept_trans)
  next
    case False
    obtain s3 where s3: "set_field md gr_cpu_cycles ?now ?s2 = Inr s3"
      using s' s1 False by (auto simp: shuffle_def sys_rdtsc_def ebind_Inr_iff)
    obtain r s4 where gm: "get_memory_at_random k rsp_alloc REAL_SHADOW_STACK_SIZE False s3 = (r, s4)"
      by fastforce
    have rest: "(case r of None \<Rightarrow> rand_exit k from_clock md (fail_rand s4)
         | Some new \<Rightarrow> ebind (move_shadow_stack k md new s4) (\<lambda>(md', s5). rand_exit k from_clock md' s5)) = Inr s'"
      using s' s1 False s3 gm by (simp add: shuffle_def sys_rdtsc_def)
    have "table_kept ?s2 s3" using s3 by (auto simp: table_kept_simps)
    moreover have "table_kept s3 s4" by (rule get_memory_at_random_table [OF k gm])
    moreover have "table_kept s4 s'"
    proof (cases r)
      case None
      then show ?thesis using rest rand_exit_table [of k from_clock md "fail_rand s4" s']
        by (simp add: table_kept_def fail_rand_def)
    next
      case (Some new)
      then show ?thesis using rest
        by (auto simp: ebind_Inr_iff dest!: move_shadow_stack_table rand_exit_table intro: table_kept_trans)
    qed
    ultimately show ?thesis using t2 table_kept_trans by blast
  qed
qed

lemma rerandomize_table:
  assumes "kernel_ok k" and "gs_rsp_runtime_rerandomize k rsp rsp_alloc s = Inr s'"
  shows "table_kept s s'"
proof -
  let ?s0 = "s\<lparr>tick := Suc (tick s)\<rparr>"
  obtain r s1 where md: "get_gs_rsp_metadata_by_rsp k rsp ?s0 = (r, s1)" by fastforce
  have t: "table_kept s s1" "table_kept s ?s0"
    using md by (auto simp: get_gs_rsp_metadata_by_rsp_def table_kept_simps split: if_splits)
  show ?thesis
    using assms(2) md t
    by (auto simp: gs_rsp_runtime_rerandomize_def sys_rdtsc_def ebind_Inr_iff split: if_splits option.splits
        intro: table_kept_trans dest!: shuffle_table [OF assms(1)])
qed

lemma alloc_shadow_stack_table:
  assumes "kernel_ok k" and "alloc_shadow_stack k rsp s = Some (p, s')"
  shows "table_kept s s'"
proof -
  have "kernel_ok k \<longrightarrow> table_kept s (snd (p, s'))"
  proof (rule alloc_shadow_stack.raw_induct [OF _ assms(2)], intro impI)
    fix alloc k rsp s ps
    assume IH: "\<And>k rsp s ps. alloc k rsp s = Some ps \<Longrightarrow> kernel_ok k \<longrightarrow> table_kept s (snd ps)"
      and body: "(case get_memory_at_random k rsp REAL_SHADOW_STACK_SIZE True s of
          (Some p, s') \<Rightarrow> Some (p, s') | (None, s') \<Rightarrow> alloc k rsp s') = Some ps"
      and k: "kernel_ok k"
    obtain r t where gm: "get_memory_at_random k rsp REAL_SHADOW_STACK_SIZE True s = (r, t)" by fastforce
    note t = get_memory_at_random_table [OF k gm]
    show "table_kept s (snd ps)"
    proof (cases r)
      case None
      with body gm have "alloc k rsp t = Some ps" by simp
      from IH [OF this] k t show ?thesis by (blast intro: table_kept_trans)
    next
      case (Some p)
      with body gm t show ?thesis by auto
    qed
  qed
  with assms(1) show ?thesis by simp
qed

lemma set_fields_table: "set_fields md fvs s = Inr s' \<Longrightarrow> table_kept s s'"
proof (induction fvs arbitrary: s)
  case (Cons fv fvs)
  obtain f v where fv: "fv = (f, v)" by (cases fv)
  with Cons.prems obtain t where "set_field md f v s = Inr t" "set_fields md fvs t = Inr s'"
    by (auto simp: ebind_Inr_iff)
  then show ?case using Cons.IH set_field_table table_kept_trans by blast
qed simp

lemma init_shadow_stack_table:
  assumes k: "kernel_ok k" and s': "init_shadow_stack k rsp rsp_alloc s = Some (Inr s')"
  shows "table_kept s s'"
proof (cases "gs_rsp_flash_stack_inited s")
  case False
  let ?s0 = "s\<lparr>gs_rsp_flash_stack_inited := True\<rparr>"
  obtain sh s1 where al: "alloc_shadow_stack k rsp_alloc ?s0 = Some (sh, s1)"
    and set: "setup_shadow_stack k rsp sh s1 = Inr s'"
    using s' False by (auto simp: init_shadow_stack_def do_init_shadow_stack_def split: option.splits)
  obtain s2 where s2: "init_metadata_on_shadow_stack sh (sh + INIT_SHADOW_STACK_OFFSET + SPA_USER_SPACE_SIZE - rsp) s1 = Inr s2"
    using set by (auto simp: setup_shadow_stack_def Let_def ebind_Inr_iff)
  obtain g s3 where gs: "sys_set_gs k (sh + INIT_SHADOW_STACK_OFFSET + SPA_USER_SPACE_SIZE - rsp) s2 = (g, s3)"
    by fastforce
  have "table_kept ?s0 s1" by (rule alloc_shadow_stack_table [OF k al])
  moreover have "table_kept s1 s2"
    using s2 set_fields_table unfolding init_metadata_on_shadow_stack_def by blast
  moreover have "table_kept s2 s3" using gs by (auto simp: sys_set_gs_def table_kept_def split: if_splits)
  moreover have "table_kept s3 s'"
    using set s2 gs set_field_table by (simp add: setup_shadow_stack_def set_call_stack_info_def)
  ultimately show ?thesis by (simp add: table_kept_def)
qed (use s' in \<open>simp add: init_shadow_stack_def\<close>)

subsection \<open>The table of exited threads\<close>

definition region_block :: "thread_region \<Rightarrow> addr set" where
  "region_block t = {x. in_region (tr_shadow_stack t) (tr_shadow_stack_size t) x}"

definition gs_waiting :: "gs_rsp_state \<Rightarrow> nat \<Rightarrow> addr set" where
  "gs_waiting s = gs_table.waiting_in region_block (thread_info s)"

text \<open>A pass of the cleaner, under any clock.\<close>

lemma release_empties:
  "emptied (gs_table.waiting_in region_block ts)
     (gs_table.waiting_in region_block (fst (release_memory_regions k ts s)))
     (vmem s) (vmem (snd (release_memory_regions k ts s)))"
proof (induction ts arbitrary: s)
  case Nil
  show ?case by (simp add: emptied_def gs_table.waiting_in_def)
next
  case (Cons t ts)
  let ?s1 = "s\<lparr>tick := Suc (tick s)\<rparr>"
  have rd: "sys_rdtsc k s = (k_rdtsc k (tick s), ?s1)" by (simp add: sys_rdtsc_def)
  consider (free) "\<not> tr_valid t"
    | (old) "tr_valid t" "CPU_CYCLES_AFTER_THREAD_EXITING < k_rdtsc k (tick s) - tr_expired_time t"
    | (young) "tr_valid t" "\<not> CPU_CYCLES_AFTER_THREAD_EXITING < k_rdtsc k (tick s) - tr_expired_time t"
    by blast
  then show ?case
  proof cases
    case free
    then show ?thesis using gs_table.emptied_keep [OF Cons.IH [of s]] by (simp add: case_prod_beta Let_def)
  next
    case old
    let ?u = "sys_munmap (tr_shadow_stack t) (tr_shadow_stack_size t) ?s1"
    have "emptied (gs_table.waiting_in region_block (t # ts))
        (gs_table.waiting_in region_block (t\<lparr>tr_valid := False\<rparr> # fst (release_memory_regions k ts ?u)))
        (vmem s) (vmem (snd (release_memory_regions k ts ?u)))"
      by (rule gs_table.emptied_release [OF Cons.IH old(1)]) (auto simp: sys_munmap_def region_block_def)
    then show ?thesis using old by (simp add: case_prod_beta Let_def rd)
  next
    case young
    then show ?thesis using gs_table.emptied_keep [OF Cons.IH [of ?s1]] by (simp add: case_prod_beta Let_def rd)
  qed
qed

lemma pass_empties:
  "emptied (gs_waiting s) (gs_waiting (release_memory_region_pass k s)) (vmem s) (vmem (release_memory_region_pass k s))"
  using release_empties [of "thread_info s" k s]
  by (simp add: release_memory_region_pass_def case_prod_beta Let_def gs_waiting_def)

subsection \<open>The runtime\<close>

type_synonym gs_desc = "u64 \<times> nat"
type_synonym gs_start_args = "kernel \<times> u64 \<times> u64 \<times> ((addr \<Rightarrow> arg_info option) \<times> addr) option"

text \<open>
  The start of a thread, up to the call of its routine: the main thread runs the constructor of the
  library, all others \<open>do_start_routine\<close> with the object that \<open>pthread_create\<close> passed.
\<close>

definition gs_start :: "gs_start_args \<Rightarrow> gs_rsp_state \<Rightarrow> (fault + gs_rsp_state) option" where
  "gs_start = (\<lambda>(k, rsp, rsp_alloc, obj) s.
     (case obj of
        None \<Rightarrow> init_main_shadow_stack k rsp rsp_alloc s
      | Some (heap, arg) \<Rightarrow>
          map_option (\<lambda>r. ebind r (\<lambda>(call, heap', s'). Inr s')) (do_start_routine k rsp rsp_alloc heap arg s)))"

definition gs_starts :: "gs_desc \<Rightarrow> gs_start_args \<Rightarrow> gs_rsp_state \<Rightarrow> bool" where
  "gs_starts d = (\<lambda>(k, rsp, rsp_alloc, obj) s. kernel_ok k \<and> (\<forall>n. k_set_gs k n) \<and>
     0 < rsp_alloc - 2 * REAL_SHADOW_STACK_SIZE \<and>
     (\<exists>n. grants_hints_from n k (vmem s) (rsp_alloc - 2 * REAL_SHADOW_STACK_SIZE)) \<and>
     \<not> gs_rsp_flash_stack_inited s \<and>
     (case obj of
        None \<Rightarrow> d = (rsp, cleanup_key_value s)
      | Some (heap, arg) \<Rightarrow> d = (rsp, 1) \<and> heap arg \<noteq> None))"

text \<open>
  The end of a thread that \<open>pthread_create\<close> started, in glibc's rounds of destructors: the value of the
  cleanup key counts them, and the last one releases the shadow stack.
\<close>

definition gs_exit :: "kernel \<times> u64 \<times> u64 \<Rightarrow> gs_rsp_state \<Rightarrow> fault + gs_rsp_state" where
  "gs_exit = (\<lambda>(k, rsp, tid). destructor_round k rsp tid)"

definition gs_rounds :: "gs_desc \<Rightarrow> gs_desc option" where
  "gs_rounds d =
     (if 0 < snd d \<and> snd d < PTHREAD_DESTRUCTOR_ITERATIONS then Some (fst d, Suc (snd d)) else None)"

definition gs_exits :: "gs_desc \<Rightarrow> kernel \<times> u64 \<times> u64 \<Rightarrow> gs_rsp_state \<Rightarrow> bool" where
  "gs_exits d = (\<lambda>(k, rsp, tid) s. (\<forall>n. k_get_gs k n) \<and> in_window (fst d) rsp \<and>
     snd d = PTHREAD_DESTRUCTOR_ITERATIONS)"

definition gs_runtime ::
  "(gs_rsp_state, gs_local, gs_desc, addr, kernel \<times> u64 \<times> u64, gs_start_args, kernel \<times> u64 \<times> u64) runtime" where
  "gs_runtime =
     \<lparr>rt_view = gs_view, rt_local = gs_local_of, rt_fresh = gs_fresh, rt_vm = vmem,
      rt_ok = (\<lambda>d sh s. shadow_ok 0 sh (fst d) s \<and> cleanup_key_value s = snd d),
      rt_own = (\<lambda>sh. {x. in_region sh REAL_SHADOW_STACK_SIZE x}), rt_meta = (\<lambda>sh. {x. is_field sh x}),
      rt_frame = (\<lambda>d. covered (fst d)), rt_content = gs_content, rt_waiting = gs_waiting,
      rt_ready = (\<lambda>d. gs_ready (fst d)), rt_live = (\<lambda>d p a. True), rt_rerand = gs_run,
      rt_starts = gs_starts, rt_start = gs_start, rt_rounds = gs_rounds, rt_exits = gs_exits,
      rt_exit = gs_exit, rt_clean = release_memory_region_pass\<rparr>"

lemma gs_runtime_simps [simp]:
  "rt_view gs_runtime = gs_view" "rt_local gs_runtime = gs_local_of" "rt_fresh gs_runtime = gs_fresh"
  "rt_vm gs_runtime = vmem"
  "rt_ok gs_runtime d sh s \<longleftrightarrow> shadow_ok 0 sh (fst d) s \<and> cleanup_key_value s = snd d"
  "rt_own gs_runtime sh = {x. in_region sh REAL_SHADOW_STACK_SIZE x}" "rt_meta gs_runtime sh = {x. is_field sh x}"
  "rt_frame gs_runtime d = covered (fst d)" "rt_content gs_runtime = gs_content"
  "rt_waiting gs_runtime = gs_waiting" "rt_ready gs_runtime d = gs_ready (fst d)" "rt_live gs_runtime d p a"
  "rt_rerand gs_runtime = gs_run" "rt_starts gs_runtime = gs_starts" "rt_start gs_runtime = gs_start"
  "rt_rounds gs_runtime = gs_rounds" "rt_exits gs_runtime = gs_exits" "rt_exit gs_runtime = gs_exit"
  "rt_clean gs_runtime = release_memory_region_pass"
  by (simp_all add: gs_runtime_def)

lemma field_mapped_prot:
  "shadow_ok r sh rsp0 s \<Longrightarrow> in_region sh REAL_SHADOW_STACK_SIZE x \<Longrightarrow> prot_of (vmem s) x = Some PROT_RW"
  by (simp add: shadow_ok_def)

lemma shadow_ok_local:
  assumes ok: "shadow_ok r sh rsp0 s" and l: "gs_local_of s' = gs_local_of s"
    and pr: "\<And>x. in_region sh REAL_SHADOW_STACK_SIZE x \<Longrightarrow> prot_of (vmem s') x = prot_of (vmem s) x"
    and ce: "\<And>x. is_field sh x \<Longrightarrow> cells (vmem s') x = cells (vmem s) x"
  shows "shadow_ok r sh rsp0 s'"
proof -
  have "fld sh f s' = fld sh f s" for f
    using ce [of "md_of sh + gr_field_offset f"] by (auto simp: fld_def is_field_def)
  then show ?thesis
    using ok pr gs_local_eqD [OF l] by (simp add: shadow_ok_def)
qed

lemma covered_in_block:
  assumes "shadow_ok r sh rsp0 s" and "covered rsp0 a"
  shows "in_region sh REAL_SHADOW_STACK_SIZE (shadow_slot s a)"
  using below_metadata(1) [of "a - (rsp0 - DEF_BUDDY_CALL_STACK_SIZE)"] assms(2)
  by (simp add: shadow_slot_in_block [OF assms(1)] in_region_def covered_def)

lemma covered_no_field:
  assumes "shadow_ok r sh rsp0 s" and "covered rsp0 a"
  shows "\<not> is_field sh (shadow_slot s a)"
  unfolding shadow_slot_in_block [OF assms(1)]
  using assms(2) by (intro below_metadata(2)) (simp add: covered_def)

interpretation gs_threads: threaded_runtime gs_runtime
proof unfold_locales
  fix d b and s s' :: gs_rsp_state
  assume ok: "rt_ok gs_runtime d b s" and l: "rt_local gs_runtime s' = rt_local gs_runtime s"
  note l' = gs_local_eqD [OF l [simplified]]
  show "rt_ok gs_runtime d b s'"
    if "\<And>x. x \<in> rt_own gs_runtime b \<Longrightarrow> prot_of (rt_vm gs_runtime s') x = prot_of (rt_vm gs_runtime s) x"
      "\<And>x. x \<in> rt_meta gs_runtime b \<Longrightarrow> cells (rt_vm gs_runtime s') x = cells (rt_vm gs_runtime s) x"
    using ok l l' that shadow_ok_local [of 0 b "fst d" s s'] by simp
  show "rt_content gs_runtime s' a = rt_content gs_runtime s a"
    if "\<And>x. x \<in> rt_own gs_runtime b \<Longrightarrow> cells (rt_vm gs_runtime s') x = cells (rt_vm gs_runtime s) x"
      "rt_frame gs_runtime d a" for a
    using ok that covered_in_block [of 0 b "fst d" s a] l' by (simp add: gs_content_def shadow_slot_def)
next
  fix d b p and s :: gs_rsp_state
  assume ok: "rt_ok gs_runtime d b s" and p: "rt_ready gs_runtime d p s"
  from ok p rerandomize_ok [of "fst p" b "fst d" s "fst (snd p)" "snd (snd p)"] obtain sh' s' where
    run: "gs_rsp_runtime_rerandomize (fst p) (fst (snd p)) (snd (snd p)) s = Inr s'"
    and ok': "shadow_ok 0 sh' (fst d) s'" "moved b sh' s s'"
    unfolding gs_ready_def gs_runtime_simps by blast
  from rerandomize_table [OF _ run] p have "table_kept s s'" by (simp add: gs_ready_def)
  then have "rt_ok gs_runtime d sh' s'" "rt_waiting gs_runtime s' = rt_waiting gs_runtime s"
    using ok ok' by (simp_all add: table_kept_def gs_waiting_def)
  moreover have "framed gs_runtime (rt_own gs_runtime b) (rt_own gs_runtime sh') s s'"
    using ok'(2) by (simp add: framed_def moved_def)
  moreover have "\<forall>a. rt_frame gs_runtime d a \<longrightarrow> rt_live gs_runtime d p a \<longrightarrow> rt_content gs_runtime s' a = rt_content gs_runtime s a"
    using moved_slots [OF conjunct1 [OF ok [simplified]] ok'] by (simp add: gs_content_def)
  moreover have "rt_rerand gs_runtime p s = Some (Inr s')" using run by (simp add: gs_run_def)
  ultimately show "\<exists>b' s'. rt_rerand gs_runtime p s = Some (Inr s') \<and> rt_ok gs_runtime d b' s' \<and>
      rt_waiting gs_runtime s' = rt_waiting gs_runtime s \<and>
      framed gs_runtime (rt_own gs_runtime b) (rt_own gs_runtime b') s s' \<and>
      (\<forall>a. rt_frame gs_runtime d a \<longrightarrow> rt_live gs_runtime d p a \<longrightarrow> rt_content gs_runtime s' a = rt_content gs_runtime s a)"
    by blast
next
  fix d q and s :: gs_rsp_state
  assume q: "rt_starts gs_runtime d q s"
  obtain k rsp rsp_alloc obj where qs: "q = (k, rsp, rsp_alloc, obj)" by (cases q) blast
  have i: "\<not> gs_rsp_flash_stack_inited s" and k: "kernel_ok k"
    using q by (simp_all add: qs gs_starts_def)
  from q obtain n where "\<forall>n. k_set_gs k n" "0 < rsp_alloc - 2 * REAL_SHADOW_STACK_SIZE"
    "grants_hints_from n k (vmem s) (rsp_alloc - 2 * REAL_SHADOW_STACK_SIZE)"
    by (auto simp: qs gs_starts_def)
  from init_ok [OF k this i, of rsp] obtain sh s1 where
    init: "init_shadow_stack k rsp rsp_alloc s = Some (Inr s1)" "shadow_ok 0 sh rsp s1"
    "\<forall>x. prot_of (vmem s) x \<noteq> None \<longrightarrow> \<not> in_region sh REAL_SHADOW_STACK_SIZE x \<and>
        prot_of (vmem s1) x = prot_of (vmem s) x \<and> cells (vmem s1) x = cells (vmem s) x"
    by blast
  have table: "thread_info s1 = thread_info s" "cleanup_key_value s1 = cleanup_key_value s"
    using init_shadow_stack_table [OF k init(1)] by (simp_all add: table_kept_def)
  let ?s' = "s1\<lparr>cleanup_key_value := snd d\<rparr>"
  have "rt_start gs_runtime q s = Some (Inr ?s')" and d: "fst d = rsp"
    using init(1) q table(2)
    by (auto simp: qs gs_start_def gs_starts_def do_start_routine_def init_main_shadow_stack_def split: option.splits)
  moreover have "rt_ok gs_runtime d sh ?s'"
    using shadow_ok_same(1) [OF init(2), of ?s'] by (simp add: d)
  moreover have "rt_waiting gs_runtime ?s' = rt_waiting gs_runtime s"
    by (simp add: gs_waiting_def table)
  moreover have "framed gs_runtime {} (rt_own gs_runtime sh) s ?s'"
    using init(3) by (simp add: framed_def)
  ultimately show "\<exists>b s'. rt_start gs_runtime q s = Some (Inr s') \<and> rt_ok gs_runtime d b s' \<and>
      rt_waiting gs_runtime s' = rt_waiting gs_runtime s \<and> framed gs_runtime {} (rt_own gs_runtime b) s s'"
    by blast
next
  fix d b d' e and s :: gs_rsp_state
  assume ok: "rt_ok gs_runtime d b s" and d': "rt_rounds gs_runtime d = Some d'"
  let ?s' = "s\<lparr>cleanup_key_value := snd d'\<rparr>"
  have "rt_exit gs_runtime e s = Inr ?s'" and f: "fst d' = fst d"
    using ok d' round_counts [of s] by (auto simp: gs_rounds_def gs_exit_def case_prod_beta split: if_splits)
  moreover have "rt_ok gs_runtime d' b ?s'"
    using ok shadow_ok_same(1) [of 0 b "fst d" s ?s'] by (simp add: f)
  moreover have "gs_content ?s' a = gs_content s a" for a by (simp add: gs_content_def shadow_slot_def)
  ultimately show "\<exists>s'. rt_exit gs_runtime e s = Inr s' \<and> rt_ok gs_runtime d' b s' \<and>
      rt_vm gs_runtime s' = rt_vm gs_runtime s \<and> rt_waiting gs_runtime s' = rt_waiting gs_runtime s \<and>
      rt_frame gs_runtime d' = rt_frame gs_runtime d \<and>
      (\<forall>a. rt_content gs_runtime s' a = rt_content gs_runtime s a)"
    by (intro exI [of _ ?s']) (simp add: gs_waiting_def)
next
  fix d b e and s :: gs_rsp_state
  assume ok: "rt_ok gs_runtime d b s" and e: "rt_exits gs_runtime d e s"
  obtain k rsp tid where es: "e = (k, rsp, tid)" by (cases e) blast
  have h: "\<forall>n. k_get_gs k n" "in_window (fst d) rsp" "cleanup_key_value s = PTHREAD_DESTRUCTOR_ITERATIONS" "shadow_ok 0 b (fst d) s"
    using ok e by (simp_all add: es gs_exits_def)
  let ?r = "\<lparr>tr_valid = False, tr_shadow_stack = b, tr_shadow_stack_size = REAL_SHADOW_STACK_SIZE,
    tr_expired_time = k_rdtsc k (tick s + 1), tr_tid = tid\<rparr>"
  let ?s' = "s\<lparr>cleanup_key_value := 0, tick := Suc (Suc (tick s)), thread_info := add_memory_region ?r (thread_info s)\<rparr>"
  have "rt_exit gs_runtime e s = Inr ?s'"
    using release_round [OF h(1,4,2,3), of tid] by (simp add: es gs_exit_def)
  moreover have "rt_waiting gs_runtime ?s' = rt_waiting gs_runtime s \<or>
      (\<exists>n. rt_waiting gs_runtime s n = {} \<and>
        rt_waiting gs_runtime ?s' = (rt_waiting gs_runtime s)(n := rt_own gs_runtime b))"
    using gs_table.waiting_in_add [of region_block ?r "rt_own gs_runtime b" "thread_info s"]
    by (simp add: gs_waiting_def region_block_def)
  moreover have "rt_vm gs_runtime ?s' = rt_vm gs_runtime s" by simp
  ultimately show "\<exists>s'. rt_exit gs_runtime e s = Inr s' \<and> rt_vm gs_runtime s' = rt_vm gs_runtime s \<and>
      (rt_waiting gs_runtime s' = rt_waiting gs_runtime s \<or>
       (\<exists>n. rt_waiting gs_runtime s n = {} \<and>
         rt_waiting gs_runtime s' = (rt_waiting gs_runtime s)(n := rt_own gs_runtime b)))"
    by blast
next
  fix k n x and s :: gs_rsp_state
  note em = emptiedD [OF pass_empties [of s k]]
  show "rt_waiting gs_runtime (rt_clean gs_runtime k s) n = rt_waiting gs_runtime s n \<or>
      rt_waiting gs_runtime (rt_clean gs_runtime k s) n = {}"
    unfolding gs_runtime_simps by (rule em(1))
  show "prot_of (rt_vm gs_runtime (rt_clean gs_runtime k s)) x =
      (if \<exists>n. x \<in> rt_waiting gs_runtime s n \<and> rt_waiting gs_runtime (rt_clean gs_runtime k s) n = {} then None
       else prot_of (rt_vm gs_runtime s) x)"
    unfolding gs_runtime_simps by (rule em(2))
  show "cells (rt_vm gs_runtime (rt_clean gs_runtime k s)) = cells (rt_vm gs_runtime s)"
    unfolding gs_runtime_simps by (rule em(3))
next
  fix d b x and s :: gs_rsp_state
  show "rt_ok gs_runtime d b s \<Longrightarrow> x \<in> rt_own gs_runtime b \<Longrightarrow> prot_of (rt_vm gs_runtime s) x \<noteq> None"
    by (auto simp: field_mapped_prot)
  show "rt_meta gs_runtime b \<subseteq> rt_own gs_runtime b"
    using field_in_region by (auto simp: is_field_def)
qed (simp_all add: gs_waiting_def)

subsection \<open>Properties\<close>

text \<open>
  C33: threads do not disturb each other as long as none calls the runtime after its release.  Start
  from a process without threads and with no entry of the table in use; let any number of threads
  start, run, rerandomize, make their rounds of destructors and exit, and the cleaner make its passes,
  in any order, where a thread that has handed over its shadow stack, in its last round, does not
  rerandomize any more.  Then every running thread satisfies the invariant with a shadow stack of its
  own, no two of which overlap, and a pass of the cleaner leaves all of them mapped.  Without the
  condition the claim is false: the next property.
\<close>

theorem threads_have_disjoint_shadow_stacks:
  assumes "(world_step gs_runtime {})\<^sup>*\<^sup>* w0 w" and "threads w0 = Map.empty"
    and "\<forall>t \<in> set (thread_info (shared w0)). \<not> tr_valid t"
  shows "\<exists>B. (\<forall>i d l. threads w i = Some (d, l) \<longrightarrow> shadow_ok 0 (B i) (fst d) (gs_view l (shared w))) \<and>
    (\<forall>i j x. threads w i \<noteq> None \<and> threads w j \<noteq> None \<and> i \<noteq> j \<and> in_region (B i) REAL_SHADOW_STACK_SIZE x \<longrightarrow>
       \<not> in_region (B j) REAL_SHADOW_STACK_SIZE x) \<and>
    (\<forall>i k x. threads w i \<noteq> None \<and> in_region (B i) REAL_SHADOW_STACK_SIZE x \<longrightarrow>
       prot_of (vmem (release_memory_region_pass k (shared w))) x = Some PROT_RW)"
proof -
  have "gs_waiting (shared w0) n = {}" for n
    using assms(3) by (auto simp: gs_waiting_def gs_table.waiting_in_def dest: nth_mem)
  then obtain B where B: "blocks_ok gs_runtime w B"
    using gs_threads.reachable_ok [OF assms(1,2)] by (auto simp: world_ok_def)
  have ok: "shadow_ok 0 (B i) (fst d) (gs_view l (shared w))" if "threads w i = Some (d, l)" for i d l
    using blocks_okD(1) [OF B that] by simp
  moreover have "\<not> in_region (B j) REAL_SHADOW_STACK_SIZE x"
    if "threads w i \<noteq> None" "threads w j \<noteq> None" "i \<noteq> j" "in_region (B i) REAL_SHADOW_STACK_SIZE x" for i j x
    using that blocks_okD(2) [OF B, of i _ j] by auto
  moreover have "prot_of (vmem (release_memory_region_pass k (shared w))) x = Some PROT_RW"
    if i: "threads w i \<noteq> None" "in_region (B i) REAL_SHADOW_STACK_SIZE x" for i k x
  proof -
    obtain d l where t: "threads w i = Some (d, l)" using i(1) by auto
    show ?thesis
      using gs_threads.cleaner_spares_the_running [OF B t, of x k] field_mapped_prot [OF ok [OF t] i(2)] i(2) by simp
  qed
  ultimately show ?thesis by blast
qed

text \<open>Two threads whose blocks the kernel grants at two addresses.\<close>

definition demo_grant :: "u64 \<Rightarrow> kernel" where
  "demo_grant h = demo_kernel\<lparr>k_rdrand := \<lambda>_. h\<rparr>"

definition demo_places :: "u64 set" where
  "demo_places = {0x100000000000, 0x180000000000}"

lemma demo_grant_hint:
  "h \<in> demo_places \<Longrightarrow> mmap_hint (demo_rsp - 2 * REAL_SHADOW_STACK_SIZE) h = h"
  by (auto simp: demo_places_def mmap_hint_def demo_rsp_def gs_rsp_sizes SPA_MAX_SHADOW_STACK_ADDR_def
      DEF_sizes SPA_SHADOW_STACK_8MB_RAND_ADDR_MASK_def Let_def)

lemma demo_grant_mmap:
  assumes "h \<in> demo_places" and "\<And>x. in_region h REAL_SHADOW_STACK_SIZE x \<Longrightarrow> prot_of m x = None"
  shows "k_mmap (demo_grant h) n m h REAL_SHADOW_STACK_SIZE = Some h"
  using assms by (auto simp: demo_grant_def demo_kernel_def grant_if_free_def demo_places_def gs_rsp_sizes)

lemma demo_grant_starts:
  assumes "h \<in> demo_places" and "\<And>x. in_region h REAL_SHADOW_STACK_SIZE x \<Longrightarrow> prot_of (vmem s) x = None"
    and "\<not> gs_rsp_flash_stack_inited s"
  shows "gs_starts (rsp, cleanup_key_value s) (demo_grant h, rsp, demo_rsp, None) s"
    and "heap arg \<noteq> None \<Longrightarrow> gs_starts (rsp, 1) (demo_grant h, rsp, demo_rsp, Some (heap, arg)) s"
proof -
  have "kernel_ok (demo_grant h)" "\<forall>n. k_set_gs (demo_grant h) n"
    using demo_kernel_ok by (simp_all add: kernel_ok_def demo_grant_def) (simp add: demo_kernel_def)
  moreover have "0 < demo_rsp - 2 * REAL_SHADOW_STACK_SIZE" by (simp add: demo_rsp_def gs_rsp_sizes)
  moreover have "k_rdrand (demo_grant h) n = h" for n by (simp add: demo_grant_def)
  then have "grants_hints_from 0 (demo_grant h) (vmem s) (demo_rsp - 2 * REAL_SHADOW_STACK_SIZE)"
    using demo_grant_hint [OF assms(1)] demo_grant_mmap [OF assms(1)] assms(2)
    by (simp add: grants_hints_from_def)
  ultimately show "gs_starts (rsp, cleanup_key_value s) (demo_grant h, rsp, demo_rsp, None) s"
    "heap arg \<noteq> None \<Longrightarrow> gs_starts (rsp, 1) (demo_grant h, rsp, demo_rsp, Some (heap, arg)) s"
    using assms(3) by (auto simp: gs_starts_def)
qed

text \<open>Exactly the granted block is mapped by the start of a thread.\<close>

lemma demo_init_rights:
  assumes h: "h \<in> demo_places" and free: "\<And>x. in_region h REAL_SHADOW_STACK_SIZE x \<Longrightarrow> prot_of (vmem s) x = None"
    and i: "\<not> gs_rsp_flash_stack_inited s"
    and s': "init_shadow_stack (demo_grant h) rsp demo_rsp s = Some (Inr s')"
  shows "prot_of (vmem s') = (\<lambda>x. if in_region h REAL_SHADOW_STACK_SIZE x then Some PROT_RW else prot_of (vmem s) x)"
proof -
  let ?k = "demo_grant h" and ?adj = "demo_rsp - 2 * REAL_SHADOW_STACK_SIZE"
  let ?s0 = "s\<lparr>gs_rsp_flash_stack_inited := True\<rparr>"
  let ?s1 = "?s0\<lparr>tick := Suc (Suc (tick s)), vmem := vm_map h REAL_SHADOW_STACK_SIZE (vmem s)\<rparr>"
  have r: "k_rdrand ?k n = h" for n by (simp add: demo_grant_def)
  have mm: "k_mmap ?k n (vmem s) h REAL_SHADOW_STACK_SIZE = Some h" for n
    by (rule demo_grant_mmap [OF h free])
  have good: "h AND SPA_8MB_MASK = 0" "\<not> ?adj < h"
    using h by (auto simp: demo_places_def SPA_8MB_MASK_def demo_rsp_def gs_rsp_sizes)
  have "mmap_attempts ?k ?adj REAL_SHADOW_STACK_SIZE 0 ?s0 = (Some h, 1, ?s1)"
    using mm good demo_grant_hint [OF h]
    by (subst mmap_attempts.simps) (simp add: sys_rdrand_def sys_mmap_def r Let_def)
  then have "get_memory_at_random ?k demo_rsp REAL_SHADOW_STACK_SIZE True ?s0 = (Some h, ?s1)"
    by (simp add: get_memory_at_random_def SPA_MAX_MMAP_ATTEMPTS_def)
  then have "alloc_shadow_stack ?k demo_rsp ?s0 = Some (h, ?s1)"
    by (subst alloc_shadow_stack.simps) simp
  then have set: "setup_shadow_stack ?k rsp h ?s1 = Inr s'"
    using s' i by (simp add: init_shadow_stack_def do_init_shadow_stack_def)
  have "k_set_gs ?k n" for n by (simp add: demo_grant_def demo_kernel_def)
  from setup_shadow_stack_ok [OF this good(1), of ?s1 rsp] set show ?thesis
    by (auto simp: fun_eq_iff)
qed

theorem threads_have_disjoint_shadow_stacks_witness:
  "\<exists>w B. (world_step gs_runtime {})\<^sup>*\<^sup>* \<lparr>shared = demo_empty, threads = Map.empty\<rparr> w \<and>
     threads w 0 \<noteq> None \<and> threads w 1 \<noteq> None \<and>
     (\<forall>x. in_region (B 0) REAL_SHADOW_STACK_SIZE x \<longrightarrow> \<not> in_region (B (1 :: nat)) REAL_SHADOW_STACK_SIZE x \<and>
        prot_of (vmem (release_memory_region_pass demo_kernel (shared w))) x = Some PROT_RW)"
proof -
  let ?w0 = "\<lparr>shared = demo_empty, threads = Map.empty\<rparr> :: (gs_rsp_state, gs_local, gs_desc) world"
  let ?A = "0x100000000000 :: u64" and ?B = "0x180000000000 :: u64"
  let ?s0 = "gs_view gs_fresh demo_empty"
  let ?q0 = "(demo_grant ?A, demo_rsp, demo_rsp, None) :: gs_start_args"
  have pl: "?A \<in> demo_places" "?B \<in> demo_places" by (simp_all add: demo_places_def)
  have fresh: "\<not> gs_rsp_flash_stack_inited (gs_view gs_fresh s)" "cleanup_key_value (gs_view gs_fresh s) = 0" for s
    by (simp_all add: gs_view_def gs_fresh_def)
  have none: "prot_of (vmem ?s0) x = None" for x by (simp add: demo_empty_def)
  have q0: "rt_starts gs_runtime (demo_rsp, 0) ?q0 (rt_view gs_runtime (rt_fresh gs_runtime) (shared ?w0))"
    using demo_grant_starts(1) [OF pl(1) none fresh(1), of demo_rsp] fresh(2) by simp
  from gs_threads.start_ok [OF q0] obtain s1 where
    s1: "rt_start gs_runtime ?q0 (rt_view gs_runtime (rt_fresh gs_runtime) (shared ?w0)) = Some (Inr s1)" by blast
  let ?w1 = "\<lparr>shared = s1, threads = (threads ?w0)(0 \<mapsto> ((demo_rsp, 0), rt_local gs_runtime s1))\<rparr>"
  have w1: "world_step gs_runtime {} ?w0 ?w1"
    by (rule world_step.start [OF _ q0 s1]) simp
  have "init_shadow_stack (demo_grant ?A) demo_rsp demo_rsp ?s0 = Some (Inr s1)"
    using s1 by (simp add: gs_start_def init_main_shadow_stack_def)
  from demo_init_rights [OF pl(1) none fresh(1) this]
  have p1: "prot_of (vmem s1) = (\<lambda>x. if in_region ?A REAL_SHADOW_STACK_SIZE x then Some PROT_RW else None)"
    by (simp only: none)
  have "\<not> in_region ?A REAL_SHADOW_STACK_SIZE x" if "in_region ?B REAL_SHADOW_STACK_SIZE x" for x
  proof -
    obtain y where y: "x = ?B + y" by (metis add.commute diff_add_cancel)
    have lt: "unat y < 10485760" using that by (simp add: y in_region_def gs_rsp_sizes word_less_nat_alt)
    have "?B + y - ?A = 0x80000000000 + y" by simp
    moreover have "unat (0x80000000000 + y) = 0x80000000000 + unat y"
      using lt by (simp add: unat_word_ariths)
    ultimately show ?thesis by (simp add: y in_region_def gs_rsp_sizes word_less_nat_alt)
  qed
  then have free: "prot_of (vmem (gs_view gs_fresh s1)) x = None" if "in_region ?B REAL_SHADOW_STACK_SIZE x" for x
    using that by (simp add: p1)
  let ?q1 = "(demo_grant ?B, 0x7fff00000000, demo_rsp, Some (Map.empty(8 \<mapsto> ArgInfo 16 24), 8)) :: gs_start_args"
  have q1: "rt_starts gs_runtime (0x7fff00000000, 1) ?q1 (rt_view gs_runtime (rt_fresh gs_runtime) (shared ?w1))"
    using demo_grant_starts(2) [OF pl(2) free fresh(1), of "Map.empty(8 \<mapsto> ArgInfo 16 24)" 8 "0x7fff00000000"] by simp
  from gs_threads.start_ok [OF q1] obtain s2 where
    s2: "rt_start gs_runtime ?q1 (rt_view gs_runtime (rt_fresh gs_runtime) (shared ?w1)) = Some (Inr s2)" by blast
  obtain w2 where w2: "w2 = \<lparr>shared = s2, threads = (threads ?w1)(1 \<mapsto> ((0x7fff00000000, 1), rt_local gs_runtime s2))\<rparr>"
    by blast
  have "world_step gs_runtime {} ?w1 w2"
    unfolding w2 by (rule world_step.start [OF _ q1 s2]) simp
  then have steps: "(world_step gs_runtime {})\<^sup>*\<^sup>* ?w0 w2"
    by (intro converse_rtranclp_into_rtranclp [where r = "world_step gs_runtime {}", OF w1] r_into_rtranclp)
  have live: "threads w2 0 \<noteq> None" "threads w2 1 \<noteq> None" by (simp_all add: w2)
  have "\<forall>t \<in> set (thread_info (shared ?w0)). \<not> tr_valid t" by (simp add: demo_empty_def demo_thread_def)
  from threads_have_disjoint_shadow_stacks [OF steps _ this] obtain B where
    "\<forall>i j x. threads w2 i \<noteq> None \<and> threads w2 j \<noteq> None \<and> i \<noteq> j \<and> in_region (B i) REAL_SHADOW_STACK_SIZE x \<longrightarrow>
       \<not> in_region (B j) REAL_SHADOW_STACK_SIZE x"
    "\<forall>i k x. threads w2 i \<noteq> None \<and> in_region (B i) REAL_SHADOW_STACK_SIZE x \<longrightarrow>
       prot_of (vmem (release_memory_region_pass k (shared w2))) x = Some PROT_RW"
    by auto
  with live have "\<forall>x. in_region (B 0) REAL_SHADOW_STACK_SIZE x \<longrightarrow> \<not> in_region (B 1) REAL_SHADOW_STACK_SIZE x \<and>
      prot_of (vmem (release_memory_region_pass demo_kernel (shared w2))) x = Some PROT_RW"
    by (metis zero_neq_one)
  with steps live show ?thesis by blast
qed

text \<open>
  C39: a rerandomization after the last destructor round leaves a stale entry.  The last round
  registers the block that the thread has then; a library call of a destructor that runs later in
  the same round may move the thread's shadow stack.  The table then holds the old block, which is
  not the thread's any more, and not the new one.  When another thread has got memory at the old
  address, the cleaner unmaps that thread's shadow stack while it runs.
\<close>

theorem rerandomization_after_release_leaves_a_stale_entry:
  assumes "kernel_ok k" and "\<forall>n. k_set_gs k n" and "\<forall>n. k_get_gs k n"
    and "shadow_ok 0 sh rsp0 s" and "in_window rsp0 rsp" and "\<not> list_all tr_valid (thread_info s)"
    and "thread_cleanup_handler k rsp tid PTHREAD_DESTRUCTOR_ITERATIONS s = Inr s1"
  shows "\<exists>sh' s2. gs_rsp_runtime_rerandomize k rsp rsp_alloc s1 = Inr s2 \<and> shadow_ok 0 sh' rsp0 s2 \<and>
    gs_table.held (thread_info s2) = add_mset
      \<lparr>tr_valid = True, tr_shadow_stack = sh, tr_shadow_stack_size = REAL_SHADOW_STACK_SIZE,
       tr_expired_time = k_rdtsc k (tick s + 1), tr_tid = tid\<rparr> (gs_table.held (thread_info s)) \<and>
    (\<forall>t rsp1 k' now x. shadow_ok 0 sh rsp1 t \<and> thread_info t = thread_info s2 \<and> (\<forall>n. k_rdtsc k' n = now) \<and>
       CPU_CYCLES_AFTER_THREAD_EXITING < now - k_rdtsc k (tick s + 1) \<and> in_region sh REAL_SHADOW_STACK_SIZE x \<longrightarrow>
       prot_of (vmem (release_memory_region_pass k' t)) x = None)"
proof -
  let ?r = "\<lparr>tr_valid = False, tr_shadow_stack = sh, tr_shadow_stack_size = REAL_SHADOW_STACK_SIZE,
       tr_expired_time = k_rdtsc k (tick s + 1), tr_tid = tid\<rparr>"
  let ?s1 = "s\<lparr>tick := Suc (Suc (tick s)), thread_info := add_memory_region ?r (thread_info s)\<rparr>"
  let ?m = "s\<lparr>tick := Suc (tick s)\<rparr>"
  have ok: "shadow_ok 0 sh rsp0 ?m" "shadow_ok 0 sh rsp0 ?s1"
    using shadow_ok_same(1) [OF assms(4), of ?m] shadow_ok_same(1) [OF assms(4), of ?s1] by simp_all
  have sh: "fld sh gr_shadow_stack ?m = sh" using ok(1) by (simp add: shadow_ok_def)
  have "get_gs_rsp_metadata_by_rsp k rsp s = (Some (md_of sh), ?m)"
    using metadata_by_rsp [OF assms(4,5)] assms(3) by simp
  then have s1: "s1 = ?s1"
    using assms(7) get_field_ok [OF ok(1), of gr_shadow_stack] sh
    by (simp add: thread_cleanup_handler_def release_shadow_stack_def sys_rdtsc_def Let_def)
  obtain sh' s2 where s2: "gs_rsp_runtime_rerandomize k rsp rsp_alloc s1 = Inr s2" "shadow_ok 0 sh' rsp0 s2"
    using rerandomize_ok [OF assms(1-3) ok(2) assms(5)] unfolding s1 by blast
  have table: "thread_info s2 = add_memory_region ?r (thread_info s)"
    using rerandomize_table [OF assms(1) s2(1)] by (simp add: table_kept_def s1)
  then have held: "gs_table.held (thread_info s2) = add_mset (?r\<lparr>tr_valid := True\<rparr>) (gs_table.held (thread_info s))"
    using gs_table.held_add [OF assms(6)] by simp
  then have "?r\<lparr>tr_valid := True\<rparr> \<in># gs_table.held (thread_info s2)" by simp
  then have "?r\<lparr>tr_valid := True\<rparr> \<in> set (thread_info s2)" by (simp add: gs_table.held_def)
  then have "prot_of (vmem (release_memory_region_pass k' t)) x = None"
    if "thread_info t = thread_info s2" "\<forall>n. k_rdtsc k' n = now"
      "CPU_CYCLES_AFTER_THREAD_EXITING < now - k_rdtsc k (tick s + 1)" "in_region sh REAL_SHADOW_STACK_SIZE x"
    for t k' now x
    using release_pass [OF that(2), of "thread_info t" t x] that(1,3,4)
    by (auto simp: release_memory_region_pass_def case_prod_beta Let_def expired_def intro!: bexI [of _ "?r\<lparr>tr_valid := True\<rparr>"])
  with s2 held show ?thesis by auto
qed

text \<open>The table of the process has one free entry; then a second thread runs at the old address.\<close>

theorem rerandomization_after_release_leaves_a_stale_entry_witness:
  "\<exists>s1 s2. thread_cleanup_handler demo_kernel (demo_rsp - 64) 7 4
      (demo_thread\<lparr>thread_info := [(demo_region 0)\<lparr>tr_valid := False\<rparr>]\<rparr>) = Inr s1 \<and>
    gs_rsp_runtime_rerandomize demo_kernel (demo_rsp - 64) (demo_rsp - 96) s1 = Inr s2 \<and>
    prot_of (vmem (release_memory_region_pass (demo_kernel\<lparr>k_rdtsc := \<lambda>_. 0xF00000000000\<rparr>)
      (demo_thread\<lparr>thread_info := thread_info s2\<rparr>))) demo_block = None"
proof -
  let ?s = "demo_thread\<lparr>thread_info := [(demo_region 0)\<lparr>tr_valid := False\<rparr>]\<rparr>"
  have ok: "shadow_ok 0 demo_block demo_rsp (demo_thread\<lparr>thread_info := ts\<rparr>)" for ts
    using shadow_ok_same(1) [OF demo_thread_ok, of "demo_thread\<lparr>thread_info := ts\<rparr>"] by simp
  have k: "\<forall>n. k_set_gs demo_kernel n" "\<forall>n. k_get_gs demo_kernel n" by (simp_all add: demo_kernel_def)
  have free: "\<not> list_all tr_valid (thread_info ?s)" by simp
  have "get_gs_rsp_metadata_by_rsp demo_kernel (demo_rsp - 64) ?s = (Some (md_of demo_block), ?s\<lparr>tick := Suc (tick ?s)\<rparr>)"
    using metadata_by_rsp [OF ok demo_in_window] k(2) by simp
  moreover have "shadow_ok 0 demo_block demo_rsp (?s\<lparr>tick := Suc (tick ?s)\<rparr>)"
    using shadow_ok_same(1) [OF demo_thread_ok, of "?s\<lparr>tick := Suc (tick ?s)\<rparr>"] by simp
  ultimately obtain s1 where s1: "thread_cleanup_handler demo_kernel (demo_rsp - 64) 7 PTHREAD_DESTRUCTOR_ITERATIONS ?s = Inr s1"
    using get_field_ok by (simp add: thread_cleanup_handler_def release_shadow_stack_def sys_rdtsc_def Let_def)
  from rerandomization_after_release_leaves_a_stale_entry
    [OF demo_kernel_ok k ok demo_in_window free s1, of "demo_rsp - 96"] obtain s2 where
    s2: "gs_rsp_runtime_rerandomize demo_kernel (demo_rsp - 64) (demo_rsp - 96) s1 = Inr s2"
    and cl: "\<And>t rsp1 k' now x. shadow_ok 0 demo_block rsp1 t \<and> thread_info t = thread_info s2 \<and> (\<forall>n. k_rdtsc k' n = now) \<and>
       CPU_CYCLES_AFTER_THREAD_EXITING < now - k_rdtsc demo_kernel (tick ?s + 1) \<and>
       in_region demo_block REAL_SHADOW_STACK_SIZE x \<Longrightarrow> prot_of (vmem (release_memory_region_pass k' t)) x = None"
    by auto
  have "prot_of (vmem (release_memory_region_pass (demo_kernel\<lparr>k_rdtsc := \<lambda>_. 0xF00000000000\<rparr>)
      (demo_thread\<lparr>thread_info := thread_info s2\<rparr>))) demo_block = None"
  proof (rule cl [of demo_rsp _ _ "0xF00000000000"], intro conjI)
    show "shadow_ok 0 demo_block demo_rsp (demo_thread\<lparr>thread_info := thread_info s2\<rparr>)" by (rule ok)
  qed (simp_all add: demo_kernel_def demo_thread_def CPU_CYCLES_AFTER_THREAD_EXITING_def
      CPU_CYCLES_PER_RANDOMIZATION_val gs_rsp_sizes)
  with s1 s2 show ?thesis by (auto simp: PTHREAD_DESTRUCTOR_ITERATIONS_def)
qed

end
