(* ===== verification/Avx2.thy ===== *)
theory Avx2
  imports Kernel
begin

section \<open>Avx2: adding a value to every cell of a shadow stack\<close>

text \<open>
  \<open>avx2_64_x_4_add\<close>, which \<open>fsgs.c\<close> and \<open>simd_rand.c\<close> both define with the same text: four cells
  are loaded, added and stored at a time, from a start that is aligned down to 32 bytes.  The
  reference is \<open>add_cells\<close>, one addition per cell of the range.
\<close>

definition avx2_step :: "addr \<Rightarrow> u64 \<Rightarrow> 'a os_state_scheme \<Rightarrow> fault + 'a os_state_scheme" where
  "avx2_step p x s =
     ebind (sys_load p s) (\<lambda>a0.
     ebind (sys_load (p + 8) s) (\<lambda>a1.
     ebind (sys_load (p + 16) s) (\<lambda>a2.
     ebind (sys_load (p + 24) s) (\<lambda>a3.
     ebind (sys_store p (a0 + x) s) (\<lambda>s1.
     ebind (sys_store (p + 8) (a1 + x) s1) (\<lambda>s2.
     ebind (sys_store (p + 16) (a2 + x) s2) (\<lambda>s3.
     sys_store (p + 24) (a3 + x) s3)))))))"

text \<open>The loop ends by a comparison of pointers; from an address near \<open>2 ^ 64\<close> it would not.\<close>

partial_function (option) avx2_loop ::
  "addr \<Rightarrow> addr \<Rightarrow> u64 \<Rightarrow> 'a os_state_scheme \<Rightarrow> (fault + 'a os_state_scheme) option" where
  "avx2_loop p e x s =
     (if p < e
      then (case avx2_step p x s of Inl f \<Rightarrow> Some (Inl f) | Inr s' \<Rightarrow> avx2_loop (p + 32) e x s')
      else Some (Inr s))"

definition avx2_64_x_4_add ::
  "addr \<Rightarrow> addr \<Rightarrow> u64 \<Rightarrow> 'a os_state_scheme \<Rightarrow> (fault + 'a os_state_scheme) option" where
  "avx2_64_x_4_add ss_ptr ss_end x s = avx2_loop (ss_ptr AND (- 32)) ss_end x s"

subsection \<open>The reference\<close>

definition add_cells :: "addr \<Rightarrow> addr \<Rightarrow> u64 \<Rightarrow> vm \<Rightarrow> vm" where
  "add_cells p e x m =
     m\<lparr>cells := (\<lambda>a. if in_region p (e - p) a \<and> unat (a - p) mod 8 = 0 then cells m a + x else cells m a)\<rparr>"

lemma add_cells_simps [simp]:
  "prot_of (add_cells p e x m) = prot_of m"
  "cells (add_cells p e x m) a =
     (if in_region p (e - p) a \<and> unat (a - p) mod 8 = 0 then cells m a + x else cells m a)"
  by (simp_all add: add_cells_def)

lemma avx2_step_ok:
  assumes "\<And>d. d < 32 \<Longrightarrow> unat d mod 8 = 0 \<Longrightarrow> prot_of (vmem s) (p + d) = Some PROT_RW"
  shows "avx2_step p x s = Inr (s\<lparr>vmem := add_cells p (p + 32) x (vmem s)\<rparr>)"
proof -
  have rw: "prot_of (vmem s) p = Some PROT_RW" "prot_of (vmem s) (p + 8) = Some PROT_RW"
    "prot_of (vmem s) (p + 16) = Some PROT_RW" "prot_of (vmem s) (p + 24) = Some PROT_RW"
    using assms [of 0] assms [of 8] assms [of 16] assms [of 24] by simp_all
  have lanes: "in_region p 32 a \<and> unat (a - p) mod 8 = 0 \<longleftrightarrow>
      a = p \<or> a = p + 8 \<or> a = p + 16 \<or> a = p + 24" for a
  proof
    assume "in_region p 32 a \<and> unat (a - p) mod 8 = 0"
    then have "unat (a - p) < 32" "unat (a - p) mod 8 = 0"
      by (simp_all add: in_region_def word_less_nat_alt)
    then have "unat (a - p) \<in> {0, 8, 16, 24}" by auto
    then have "a - p \<in> {0, 8, 16, 24}"
      by (simp add: word_unat_eq_iff)
    then show "a = p \<or> a = p + 8 \<or> a = p + 16 \<or> a = p + 24"
      by (auto simp: eq_diff_eq diff_eq_eq add.commute)
  qed (auto simp: in_region_def)
  have "(cells (vmem s))(p := cells (vmem s) p + x, p + 8 := cells (vmem s) (p + 8) + x,
      p + 16 := cells (vmem s) (p + 16) + x, p + 24 := cells (vmem s) (p + 24) + x) =
    cells (add_cells p (p + 32) x (vmem s))"
    by (rule ext) (auto simp: lanes)
  then have "(vmem s)\<lparr>cells := (cells (vmem s))(p := cells (vmem s) p + x, p + 8 := cells (vmem s) (p + 8) + x,
      p + 16 := cells (vmem s) (p + 16) + x, p + 24 := cells (vmem s) (p + 24) + x)\<rparr> =
    add_cells p (p + 32) x (vmem s)"
    by (simp add: add_cells_def)
  then show ?thesis
    by (simp add: avx2_step_def rw)
qed

text \<open>The range from \<open>p\<close> is the lanes at \<open>p\<close> and the range from \<open>p + 32\<close>.\<close>

lemma unat_minus_32:
  "unat (d - 32 :: addr) = (if unat d < 32 then 2 ^ 64 - 32 + unat d else unat d - 32)"
proof (cases "unat d < 32")
  case True
  have "unat (d - 32) = (unat d + unat (- 32 :: addr)) mod 2 ^ 64"
    unfolding diff_conv_add_uminus by (simp only: unat_word_ariths) simp
  then show ?thesis using True by simp
next
  case False
  then have "(32 :: addr) \<le> d" by (simp add: word_le_nat_alt)
  then show ?thesis using False by (simp add: unat_sub)
qed

lemma mod_8_minus_32: "\<not> d < 32 \<Longrightarrow> (d - 32) mod 8 = d mod (8 :: nat)"
  using mod_mult_self2 [of "d - 32" 8 4] by (simp add: linorder_not_less)

lemma add_in_part:
  "(P \<longleftrightarrow> Q \<or> R) \<and> \<not> (Q \<and> R) \<Longrightarrow>
   (if Q then (if R then v + x else v) + x else if R then v + x else v) = (if P then v + x else (v :: u64))"
  by auto

lemma add_cells_step:
  assumes "32 \<le> unat (e - p)"
  shows "add_cells (p + 32) e x (add_cells p (p + 32) x m) = add_cells p e x m"
proof -
  let ?in = "\<lambda>p e a. in_region p (e - p) a \<and> unat (a - p) mod 8 = 0"
  have "(?in p e a \<longleftrightarrow> ?in (p + 32) e a \<or> ?in p (p + 32) a) \<and> \<not> (?in (p + 32) e a \<and> ?in p (p + 32) a)" for a
  proof -
    have sub: "a - (p + 32) = a - p - 32" "e - (p + 32) = e - p - 32" "p + 32 - p = 32" by simp_all
    have "unat (e - p) < 2 ^ 64" using unsigned_less [where ?'a = nat and w = "e - p"] by simp
    then show ?thesis
      using assms mod_8_minus_32 [of "unat (a - p)"]
      unfolding in_region_def sub word_less_nat_alt unat_minus_32
      by (cases "unat (a - p) < 32") auto
  qed
  note split_range = this
  have "cells (add_cells (p + 32) e x (add_cells p (p + 32) x m)) a = cells (add_cells p e x m) a" for a
    unfolding add_cells_simps by (rule add_in_part) (rule split_range)
  then show ?thesis by (simp add: add_cells_def fun_eq_iff)
qed

text \<open>
  The loop ends and equals the reference, where the range is a multiple of 32 bytes, does not
  reach the end of the address space and can be written.
\<close>

lemma avx2_loop_ok:
  assumes "unat (e - p) = 32 * n" and "unat p + 32 * n < 2 ^ 64"
    and "\<And>d. d < e - p \<Longrightarrow> unat d mod 8 = 0 \<Longrightarrow> prot_of (vmem s) (p + d) = Some PROT_RW"
  shows "avx2_loop p e x s = Some (Inr (s\<lparr>vmem := add_cells p e x (vmem s)\<rparr>))"
  using assms
proof (induction n arbitrary: p s)
  case 0
  then have "e = p" by (simp add: unat_eq_0)
  then show ?case by (subst avx2_loop.simps) (simp add: add_cells_def in_region_def)
next
  case (Suc n)
  let ?s' = "s\<lparr>vmem := add_cells p (p + 32) x (vmem s)\<rparr>"
  have len: "unat (e - (p + 32)) = 32 * n"
    using Suc.prems(1) unat_minus_32 [of "e - p"] by (simp add: diff_diff_eq [symmetric] del: diff_diff_eq)
  have up: "unat (p + 32) = unat p + 32"
    using Suc.prems(2) by (simp add: unat_word_ariths)
  have "unat e = unat p + 32 * Suc n"
  proof -
    have "unat (p + (e - p)) = unat p + unat (e - p)"
      by (subst unat_word_ariths) (use Suc.prems(1,2) in simp)
    then show ?thesis using Suc.prems(1) by simp
  qed
  then have "p < e" by (simp add: word_less_nat_alt)
  moreover have "avx2_step p x s = Inr ?s'"
  proof (rule avx2_step_ok)
    fix d :: addr assume "d < 32" "unat d mod 8 = 0"
    then show "prot_of (vmem s) (p + d) = Some PROT_RW"
      using Suc.prems(1) by (intro Suc.prems(3)) (simp_all add: word_less_nat_alt)
  qed
  moreover have "avx2_loop (p + 32) e x ?s' =
      Some (Inr (?s'\<lparr>vmem := add_cells (p + 32) e x (vmem ?s')\<rparr>))"
  proof (rule Suc.IH [OF len])
    show "unat (p + 32) + 32 * n < 2 ^ 64" using up Suc.prems(2) by simp
  next
    fix d assume d: "d < e - (p + 32)" "unat d mod 8 = 0"
    then have "unat d < 32 * n" using len by (simp add: word_less_nat_alt)
    then have "unat (d + 32) = unat d + 32"
      using Suc.prems(2) by (simp add: unat_word_ariths)
    then have "d + 32 < e - p" "unat (d + 32) mod 8 = 0"
      using \<open>unat d < 32 * n\<close> d(2) Suc.prems(1) by (simp_all add: word_less_nat_alt) presburger
    then show "prot_of (vmem ?s') (p + 32 + d) = Some PROT_RW"
      using Suc.prems(3) [of "d + 32"] by (simp add: ac_simps)
  qed
  ultimately show ?case
    using Suc.prems(1) add_cells_step [of e p x "vmem s"]
    by (subst avx2_loop.simps) simp
qed

lemma align_32: "unat (p AND (- 32) :: addr) = unat p div 32 * 32"
  using unat_and_not_mask [of p 5] neg_exp_eq_not_mask [of 5] by simp

lemma avx2_add_ok:
  assumes "unat e mod 32 = 0" and "p AND (- 32) \<le> e"
    and "\<And>a. in_region (p AND (- 32)) (e - (p AND (- 32))) a \<Longrightarrow> unat a mod 8 = 0 \<Longrightarrow>
      prot_of (vmem s) a = Some PROT_RW"
  shows "avx2_64_x_4_add p e x s = Some (Inr (s\<lparr>vmem := add_cells (p AND (- 32)) e x (vmem s)\<rparr>))"
proof -
  let ?q = "p AND (- 32) :: addr"
  have q: "unat ?q mod 32 = 0" "unat ?q \<le> unat e" "unat e < 2 ^ 64"
    using align_32 [of p] assms(2) unsigned_less [where ?'a = nat and w = e]
    by (simp_all add: word_le_nat_alt)
  have diff: "unat (e - ?q) = unat e - unat ?q" by (rule unat_sub) (rule assms(2))
  have n: "unat (e - ?q) = 32 * (unat (e - ?q) div 32)"
    unfolding diff using q(1) assms(1) by (metis dvd_diff_nat dvd_eq_mod_eq_0 dvd_mult_div_cancel)
  show ?thesis
    unfolding avx2_64_x_4_add_def
  proof (rule avx2_loop_ok [OF n])
    show "unat ?q + 32 * (unat (e - ?q) div 32) < 2 ^ 64"
      using n diff q(2,3) by linarith
    fix d :: addr assume d: "d < e - ?q" "unat d mod 8 = 0"
    have "unat d < unat e - unat ?q"
      using d(1) diff by (simp add: word_less_nat_alt)
    then have "unat (?q + d) = unat ?q + unat d"
      using q(2,3) by (subst unat_word_ariths) simp
    moreover have "unat ?q mod 8 = 0" using q(1) by presburger
    ultimately have "unat (?q + d) mod 8 = 0" using d(2) by presburger
    then show "prot_of (vmem s) (?q + d) = Some PROT_RW"
      using d(1) by (intro assms(3)) (simp_all add: in_region_offset)
  qed
qed

text \<open>
  C29: the vector loop refines one addition per cell.  For an upper bound that is 32-byte aligned and
  a range that can be written, \<open>avx2_64_x_4_add\<close> ends and has added the value to every 8-byte cell
  between the lower bound aligned down to 32 bytes and the upper bound, and to nothing else.
\<close>

theorem avx2_add_equals_reference:
  assumes "unat e mod 32 = 0" and "p \<le> e"
    and "\<And>a. in_region (p AND (- 32)) (e - (p AND (- 32))) a \<Longrightarrow> unat a mod 8 = 0 \<Longrightarrow>
      prot_of (vmem s) a = Some PROT_RW"
  shows "\<exists>s'. avx2_64_x_4_add p e x s = Some (Inr s') \<and> prot_of (vmem s') = prot_of (vmem s) \<and>
    gs_base s' = gs_base s \<and> tick s' = tick s \<and>
    (\<forall>a. unat a mod 8 = 0 \<longrightarrow> cells (vmem s') a =
       (if unat p div 32 * 32 \<le> unat a \<and> a < e then cells (vmem s) a + x else cells (vmem s) a))"
proof -
  let ?q = "p AND (- 32) :: addr"
  have "unat ?q \<le> unat p" by (simp add: align_32)
  then have le: "?q \<le> e" using assms(2) by (simp add: word_le_nat_alt)
  have in_range: "in_region ?q (e - ?q) a \<and> unat (a - ?q) mod 8 = 0 \<longleftrightarrow> ?q \<le> a \<and> a < e"
    if a: "unat a mod 8 = 0" for a
  proof (cases "?q \<le> a")
    case True
    have "unat ?q mod 8 = 0" unfolding align_32 by presburger
    then have "(unat a - unat ?q) mod 8 = 0" using a by (metis dvd_diff_nat dvd_eq_mod_eq_0)
    then show ?thesis
      using True le by (auto simp: in_region_def word_less_nat_alt word_le_nat_alt unat_sub)
  next
    case False
    then have "unat e - unat ?q \<le> unat (a - ?q)"
      using unsigned_less [where ?'a = nat and w = e]
      by (simp add: unat_sub_if' word_le_nat_alt)
    then have "\<not> a - ?q < e - ?q"
      using le by (simp add: word_less_nat_alt unat_sub)
    then show ?thesis using False by (simp add: in_region_def)
  qed
  have "avx2_64_x_4_add p e x s = Some (Inr (s\<lparr>vmem := add_cells ?q e x (vmem s)\<rparr>))"
    by (rule avx2_add_ok [OF assms(1) le assms(3)])
  moreover have "cells (add_cells ?q e x (vmem s)) a =
      (if unat p div 32 * 32 \<le> unat a \<and> a < e then cells (vmem s) a + x else cells (vmem s) a)"
    if a: "unat a mod 8 = 0" for a
    unfolding add_cells_simps in_range [OF a] by (simp add: word_le_nat_alt align_32)
  ultimately show ?thesis by simp
qed

definition demo_os :: os_state where
  "demo_os = \<lparr>vmem = \<lparr>cells = \<lambda>_. 7, prot_of = \<lambda>_. Some PROT_RW\<rparr>, gs_base = 0, tick = 0\<rparr>"

theorem avx2_add_equals_reference_witness:
  "\<exists>s'. avx2_64_x_4_add 0x1028 0x1060 5 demo_os = Some (Inr s') \<and>
     map (cells (vmem s')) [0x1018, 0x1020, 0x1028, 0x1058, 0x1060] = [7, 12, 12, 12, 7]"
proof -
  have "\<exists>s'. avx2_64_x_4_add 0x1028 0x1060 5 demo_os = Some (Inr s') \<and>
      prot_of (vmem s') = prot_of (vmem demo_os) \<and> gs_base s' = gs_base demo_os \<and> tick s' = tick demo_os \<and>
      (\<forall>a. unat a mod 8 = 0 \<longrightarrow> cells (vmem s') a =
         (if unat (0x1028 :: addr) div 32 * 32 \<le> unat a \<and> a < 0x1060
          then cells (vmem demo_os) a + 5 else cells (vmem demo_os) a))"
    by (rule avx2_add_equals_reference) (simp_all add: demo_os_def)
  then show ?thesis by (auto simp: demo_os_def)
qed

end
