(* ===== verification/Fs_Gs.thy ===== *)
theory Fs_Gs
  imports Avx2
begin

section \<open>Fs_Gs: the runtime of the FS/GS scheme\<close>

text \<open>
  \<open>fsgs.c\<close>.  The GS base register of a thread points to its metadata page; a shadow stack of 9 MB
  stands at an unrelated address, at the distance \<open>diff\<close> of the metadata from the call stack.  With
  \<open>SPA_ENABLE_GS_MSR\<close> every slot holds the return address plus the random value \<open>R\<close> of the metadata.
  \<open>fsgs_runtime_rerandomize\<close> changes \<open>R\<close> and every slot, and moves the page and the stack.

  Functions that read \<open>%rsp\<close> take the value as an argument.  Loops that need not end are in the
  option monad.
\<close>

subsection \<open>Constants and data\<close>

definition FS_MAX_MMAP_ATTEMPTS :: nat where "FS_MAX_MMAP_ATTEMPTS = 5"
definition FS_REAL_SHADOW_STACK_SIZE :: u64 where
  "FS_REAL_SHADOW_STACK_SIZE = DEF_BUDDY_CALL_STACK_SIZE + push_bit 20 1"
definition REAL_META_DATA_SIZE :: u64 where "REAL_META_DATA_SIZE = PAGE_SIZE"
definition FS_CPU_CYCLES_AFTER_THREAD_EXITING :: u64 where
  "FS_CPU_CYCLES_AFTER_THREAD_EXITING = CPU_CYCLES_PER_RANDOMIZATION * 1000 * 10"

lemma fs_sizes: "FS_REAL_SHADOW_STACK_SIZE = 9437184" "REAL_META_DATA_SIZE = 4096"
  by (simp_all add: FS_REAL_SHADOW_STACK_SIZE_def REAL_META_DATA_SIZE_def PAGE_SIZE_def DEF_sizes
      push_bit_eq_mult)

record fs_region =
  fr_valid :: bool
  fr_metadata :: addr
  fr_metadata_size :: u64
  fr_shadow_stack :: addr
  fr_shadow_stack_size :: u64
  fr_expired_time :: u64
  fr_tid :: u64

record fs_gs_state = os_state +
  unsw_flash_stack_inited :: bool
  relaxing_sandbox :: u32
  fs_cleanup_key_value :: nat
  fs_thread_info :: "fs_region list"
  total_crash_cnt :: u64
  fs_pthread_create_known :: bool
  fs_pthread_exit_known :: bool

definition fs_get :: "addr \<Rightarrow> gs_field \<Rightarrow> fs_gs_state \<Rightarrow> fault + u64" where
  "fs_get md f s = sys_load (md + GET_GS_METADATA_FIELD_OFFSET f) s"

definition fs_set :: "addr \<Rightarrow> gs_field \<Rightarrow> u64 \<Rightarrow> fs_gs_state \<Rightarrow> fault + fs_gs_state" where
  "fs_set md f v s = sys_store (md + GET_GS_METADATA_FIELD_OFFSET f) v s"

fun fs_set_all :: "addr \<Rightarrow> (gs_field \<times> u64) list \<Rightarrow> fs_gs_state \<Rightarrow> fault + fs_gs_state" where
  "fs_set_all md [] s = Inr s"
| "fs_set_all md ((f, v) # fvs) s = ebind (fs_set md f v s) (fs_set_all md fvs)"

fun fs_get_all :: "addr \<Rightarrow> gs_field list \<Rightarrow> fs_gs_state \<Rightarrow> fault + (gs_field \<times> u64) list" where
  "fs_get_all md [] s = Inr []"
| "fs_get_all md (f # fs) s =
     ebind (fs_get md f s) (\<lambda>v. ebind (fs_get_all md fs s) (\<lambda>fvs. Inr ((f, v) # fvs)))"

text \<open>The fields in the order of the struct.\<close>

definition gs_fields :: "gs_field list" where
  "gs_fields = [gm_self_addr, gm_diff, gm_R, gm_is_randomizing, gm_shadow_stack, gm_cpu_cycles,
     gm_state, gm_shadow_stack_top, gm_call_stack_top, gm_ratio_factor, gm_saved_diff, gm_relaxing]"

lemma gs_fields_complete: "f \<in> set gs_fields" "distinct gs_fields"
  by (cases f; simp add: gs_fields_def) (simp add: gs_fields_def)

subsection \<open>Small operations\<close>

definition fs_unsw_inc_asm_js_crash_cnt :: "fs_gs_state \<Rightarrow> fs_gs_state" where
  "fs_unsw_inc_asm_js_crash_cnt s = s\<lparr>total_crash_cnt := total_crash_cnt s + 1\<rparr>"

definition spa_is_relaxing_sandbox :: "fs_gs_state \<Rightarrow> u32" where
  "spa_is_relaxing_sandbox s = relaxing_sandbox s"

definition spa_set_relaxing_sandbox :: "u32 \<Rightarrow> fs_gs_state \<Rightarrow> fs_gs_state" where
  "spa_set_relaxing_sandbox v s = s\<lparr>relaxing_sandbox := v\<rparr>"

fun fs_add_memory_region :: "fs_region \<Rightarrow> fs_region list \<Rightarrow> fs_region list" where
  "fs_add_memory_region r [] = []"
| "fs_add_memory_region r (t # ts) =
     (if \<not> fr_valid t then r\<lparr>fr_valid := True\<rparr> # ts else t # fs_add_memory_region r ts)"

text \<open>One pass of the cleaner over the table.\<close>

fun fs_release_memory_regions ::
  "kernel \<Rightarrow> fs_region list \<Rightarrow> 'a os_state_scheme \<Rightarrow> fs_region list \<times> 'a os_state_scheme" where
  "fs_release_memory_regions k [] s = ([], s)"
| "fs_release_memory_regions k (t # ts) s =
     (if fr_valid t
      then
        (let (now, s1) = sys_rdtsc k s in
         if FS_CPU_CYCLES_AFTER_THREAD_EXITING < now - fr_expired_time t
         then (let (ts', s2) = fs_release_memory_regions k ts
                     (sys_munmap (fr_metadata t) (fr_metadata_size t)
                       (sys_munmap (fr_shadow_stack t) (fr_shadow_stack_size t) s1))
               in (t\<lparr>fr_valid := False\<rparr> # ts', s2))
         else (let (ts', s2) = fs_release_memory_regions k ts s1 in (t # ts', s2)))
      else (let (ts', s2) = fs_release_memory_regions k ts s in (t # ts', s2)))"

definition fs_release_memory_region_pass :: "kernel \<Rightarrow> fs_gs_state \<Rightarrow> fs_gs_state" where
  "fs_release_memory_region_pass k s =
     (let (ts, s1) = fs_release_memory_regions k (fs_thread_info s) s in s1\<lparr>fs_thread_info := ts\<rparr>)"

subsection \<open>Memory at a random address\<close>

partial_function (option) fs_mmap_attempts ::
  "kernel \<Rightarrow> u64 \<Rightarrow> nat \<Rightarrow> 'a os_state_scheme \<Rightarrow> (addr \<times> 'a os_state_scheme) option" where
  "fs_mmap_attempts k sz i s =
     (let (r, s1) = sys_rdrand k s;
          x = (if i > FS_MAX_MMAP_ATTEMPTS then 0 else r AND 0x7FFFFFFFF000)
      in case sys_mmap k x sz s1 of
           (None, s2) \<Rightarrow> fs_mmap_attempts k sz (i + 1) s2
         | (Some allocated, s2) \<Rightarrow> Some (allocated, s2))"

definition fs_get_memory_at_random ::
  "kernel \<Rightarrow> u64 \<Rightarrow> 'a os_state_scheme \<Rightarrow> (addr \<times> 'a os_state_scheme) option" where
  "fs_get_memory_at_random k sz s = fs_mmap_attempts k sz 0 s"

subsection \<open>Initialisation of a thread\<close>

definition fs_set_call_stack_info :: "thread_attr \<Rightarrow> addr \<Rightarrow> fs_gs_state \<Rightarrow> fault + fs_gs_state" where
  "fs_set_call_stack_info ta md s =
     (if \<not> getattr_ok ta then Inl (Aborted ''pthread_getattr_np().'')
      else case getstack ta of
        None \<Rightarrow> Inl (Aborted ''pthread_attr_getstack().'')
      | Some (stack_low, sz) \<Rightarrow>
          (let high = stack_low + sz;
               stack_high = (if high < stack_low + DEF_BUDDY_CALL_STACK_SIZE
                             then stack_low + DEF_BUDDY_CALL_STACK_SIZE else high)
           in ebind (fs_set md gm_call_stack_top stack_high s) (\<lambda>s1.
              ebind (fs_get md gm_shadow_stack s1) (\<lambda>sh.
              ebind (fs_set md gm_shadow_stack_top (sh + DEF_BUDDY_CALL_STACK_SIZE) s1) (\<lambda>s2.
              fs_set md gm_state FLASH_STACK_INITED s2)))))"

text \<open>From the two allocated blocks on; the result of \<open>arch_prctl\<close> is not looked at.\<close>

definition fs_setup ::
  "kernel \<Rightarrow> thread_attr \<Rightarrow> u64 \<Rightarrow> addr \<Rightarrow> addr \<Rightarrow> fs_gs_state \<Rightarrow> fault + fs_gs_state" where
  "fs_setup k ta rsp md shadow_stack s =
     (let diff = shadow_stack + DEF_BUDDY_CALL_STACK_SIZE - rsp
      in ebind (fs_set_all md
                 (map (\<lambda>f. (f, 0)) gs_fields @
                  [(gm_self_addr, md), (gm_diff, diff), (gm_shadow_stack, shadow_stack),
                   (gm_cpu_cycles, 0), (gm_is_randomizing, 0),
                   (gm_ratio_factor, DEFAULT_CHANGING_MOVING_RATIO)]) s) (\<lambda>s1.
         let (r, s2) = sys_rdrand k s1
         in ebind (fs_set md gm_R r s2) (\<lambda>s3.
            let (ok, s4) = sys_set_gs k md s3
            in fs_set_call_stack_info ta md s4)))"

definition fs_do_init_shadow_stack ::
  "kernel \<Rightarrow> thread_attr \<Rightarrow> u64 \<Rightarrow> fs_gs_state \<Rightarrow> (fault + fs_gs_state) option" where
  "fs_do_init_shadow_stack k ta rsp s =
     (case fs_get_memory_at_random k REAL_META_DATA_SIZE s of
        None \<Rightarrow> None
      | Some (md, s1) \<Rightarrow>
          (case fs_get_memory_at_random k FS_REAL_SHADOW_STACK_SIZE s1 of
             None \<Rightarrow> None
           | Some (shadow_stack, s2) \<Rightarrow> Some (fs_setup k ta rsp md shadow_stack s2)))"

definition fs_init_shadow_stack ::
  "kernel \<Rightarrow> thread_attr \<Rightarrow> u64 \<Rightarrow> fs_gs_state \<Rightarrow> (fault + fs_gs_state) option" where
  "fs_init_shadow_stack k ta rsp s =
     (if unsw_flash_stack_inited s then Some (Inr s)
      else fs_do_init_shadow_stack k ta rsp (s\<lparr>unsw_flash_stack_inited := True\<rparr>))"

definition fs_init_main_shadow_stack ::
  "kernel \<Rightarrow> thread_attr \<Rightarrow> u64 \<Rightarrow> fs_gs_state \<Rightarrow> (fault + fs_gs_state) option" where
  "fs_init_main_shadow_stack = fs_init_shadow_stack"

subsection \<open>Threads\<close>

text \<open>\<open>GET_GS_VALUE_AT_OFFSET(0)\<close> reads \<open>%gs:(0)\<close>.\<close>

definition GET_GS_VALUE_AT_OFFSET :: "u64 \<Rightarrow> fs_gs_state \<Rightarrow> fault + u64" where
  "GET_GS_VALUE_AT_OFFSET off s = sys_load (gs_base s + off) s"

definition fs_release_shadow_stack :: "kernel \<Rightarrow> u64 \<Rightarrow> fs_gs_state \<Rightarrow> fault + fs_gs_state" where
  "fs_release_shadow_stack k tid s =
     ebind (GET_GS_VALUE_AT_OFFSET 0 s) (\<lambda>md.
     ebind (fs_get md gm_shadow_stack s) (\<lambda>shadow_stack.
       let (now, s1) = sys_rdtsc k s
       in Inr (s1\<lparr>fs_thread_info := fs_add_memory_region
                \<lparr>fr_valid = False, fr_metadata = md, fr_metadata_size = REAL_META_DATA_SIZE,
                 fr_shadow_stack = shadow_stack, fr_shadow_stack_size = FS_REAL_SHADOW_STACK_SIZE,
                 fr_expired_time = now, fr_tid = tid\<rparr> (fs_thread_info s1)\<rparr>)))"

text \<open>The entry of a new thread, up to the call of the routine with its argument.\<close>

definition fs_do_start_routine ::
  "kernel \<Rightarrow> thread_attr \<Rightarrow> u64 \<Rightarrow> (addr \<Rightarrow> arg_info option) \<Rightarrow> addr \<Rightarrow> fs_gs_state \<Rightarrow>
   (fault + (addr \<times> addr) \<times> (addr \<Rightarrow> arg_info option) \<times> fs_gs_state) option" where
  "fs_do_start_routine k ta rsp heap arg s =
     tbind (fs_init_shadow_stack k ta rsp s) (\<lambda>s1.
       Some (case heap arg of
          None \<Rightarrow> Inl (Segv arg)
        | Some argInfo \<Rightarrow>
            Inr ((start_routine argInfo, start_arg argInfo), heap(arg := None),
                 s1\<lparr>fs_cleanup_key_value := 1\<rparr>)))"

text \<open>
  \<open>pthread_create\<close>: the threads that the real function is asked for, with the stack size of their
  attributes (\<open>None\<close> for the default ones); the caller's attribute object, if any; the heap.
\<close>

definition fs_pthread_create ::
  "((addr \<Rightarrow> arg_info option) \<Rightarrow> addr option) \<Rightarrow> u64 option \<Rightarrow> addr \<Rightarrow> addr \<Rightarrow>
   (addr \<Rightarrow> arg_info option) \<Rightarrow> fs_gs_state \<Rightarrow>
   fault + (u64 option \<times> thread_start) list \<times> u64 option \<times> (addr \<Rightarrow> arg_info option) \<times> fs_gs_state" where
  "fs_pthread_create malloc attr start arg heap s =
     (let first = \<not> fs_pthread_create_known s;
          s1 = s\<lparr>fs_pthread_create_known := True\<rparr>;
          stacksize = DEF_BUDDY_CALL_STACK_SIZE
      in case malloc heap of
           None \<Rightarrow> Inl (Segv 0)
         | Some p \<Rightarrow>
             Inr ((if first then [(None, Cleaner)] else []) @ [(Some stacksize, Wrapped p)],
                  map_option (\<lambda>_. stacksize) attr,
                  heap(p \<mapsto> ArgInfo start arg), s1))"

text \<open>What is handed on to the real \<open>pthread_exit\<close>.\<close>

definition fs_pthread_exit :: "addr \<Rightarrow> fs_gs_state \<Rightarrow> addr \<times> fs_gs_state" where
  "fs_pthread_exit retval s = (retval, s\<lparr>fs_pthread_exit_known := True\<rparr>)"

definition fs_thread_cleanup_handler ::
  "kernel \<Rightarrow> u64 \<Rightarrow> nat \<Rightarrow> fs_gs_state \<Rightarrow> fault + fs_gs_state" where
  "fs_thread_cleanup_handler k tid iter s =
     (if iter < PTHREAD_DESTRUCTOR_ITERATIONS then Inr (s\<lparr>fs_cleanup_key_value := iter + 1\<rparr>)
      else fs_release_shadow_stack k tid s)"

subsection \<open>Rerandomization\<close>

text \<open>A new \<open>R\<close>, and its change added to every slot from the stack pointer's on.\<close>

definition fs_reblind ::
  "build_config \<Rightarrow> kernel \<Rightarrow> u64 \<Rightarrow> addr \<Rightarrow> fs_gs_state \<Rightarrow> (fault + fs_gs_state) option" where
  "fs_reblind c k rsp md s =
     (if SPA_ENABLE_GS_MSR c
      then
        (let (delta, s1) = sys_rdrand k s
         in tbind (Some (fs_get md gm_R s1)) (\<lambda>r.
            tbind (Some (fs_set md gm_R (r + delta) s1)) (\<lambda>s2.
            tbind (Some (fs_get md gm_shadow_stack_top s2)) (\<lambda>top.
            tbind (Some (fs_get md gm_call_stack_top s2)) (\<lambda>call_top.
            avx2_64_x_4_add (top - (call_top - rsp)) top delta s2)))))
      else Some (Inr s))"

text \<open>
  The metadata is copied to its new page, the shadow stack moved, and the old page unmapped.  A
  failing \<open>mremap\<close> returns \<open>MAP_FAILED\<close>, which is stored as if it were an address.
\<close>

definition fs_switch ::
  "kernel \<Rightarrow> addr \<Rightarrow> addr \<Rightarrow> addr \<Rightarrow> fs_gs_state \<Rightarrow> fault + addr \<times> fs_gs_state" where
  "fs_switch k old new new_shadow_stack s =
     ebind (fs_get_all old gs_fields s) (\<lambda>fvs.
     ebind (fs_set_all new fvs s) (\<lambda>s1.
     ebind (fs_get old gm_diff s1) (\<lambda>d.
     ebind (fs_get old gm_shadow_stack s1) (\<lambda>old_shadow_stack.
     ebind (fs_set new gm_diff (d + (new_shadow_stack - old_shadow_stack)) s1) (\<lambda>s2.
     ebind (fs_set new gm_self_addr new s2) (\<lambda>s3.
     let (r, s4) = sys_mremap k old_shadow_stack FS_REAL_SHADOW_STACK_SIZE new_shadow_stack s3;
         shadow_stack = (case r of Some p \<Rightarrow> p | None \<Rightarrow> - 1)
     in ebind (fs_set new gm_shadow_stack shadow_stack s4) (\<lambda>s5.
        ebind (fs_set new gm_shadow_stack_top (shadow_stack + DEF_BUDDY_CALL_STACK_SIZE) s5) (\<lambda>s6.
        let (ok, s7) = sys_set_gs k new s6
        in Inr (new, sys_munmap old REAL_META_DATA_SIZE s7)))))))))"

definition fs_move ::
  "kernel \<Rightarrow> addr \<Rightarrow> fs_gs_state \<Rightarrow> (fault + addr \<times> fs_gs_state) option" where
  "fs_move k old s =
     (case fs_get_memory_at_random k REAL_META_DATA_SIZE s of
        None \<Rightarrow> None
      | Some (new, s1) \<Rightarrow>
          (case fs_get_memory_at_random k FS_REAL_SHADOW_STACK_SIZE s1 of
             None \<Rightarrow> None
           | Some (new_shadow_stack, s2) \<Rightarrow> Some (fs_switch k old new new_shadow_stack s2)))"

text \<open>The fast-moving part: one moving for \<open>DEFAULT_CHANGING_MOVING_RATIO\<close> changes.\<close>

definition fs_maybe_move ::
  "kernel \<Rightarrow> addr \<Rightarrow> fs_gs_state \<Rightarrow> (fault + addr \<times> fs_gs_state) option" where
  "fs_maybe_move k md s =
     tbind (Some (fs_get md gm_ratio_factor s)) (\<lambda>ratio.
     tbind (Some (fs_set md gm_ratio_factor (ratio - 1) s)) (\<lambda>s1.
     if ratio - 1 \<le>s 0
     then tbind (Some (fs_set md gm_ratio_factor DEFAULT_CHANGING_MOVING_RATIO s1)) (fs_move k md)
     else Some (Inr (md, s1))))"

definition fs_rand_exit :: "addr \<Rightarrow> fs_gs_state \<Rightarrow> fault + fs_gs_state" where
  "fs_rand_exit md s =
     ebind (fs_set md gm_is_randomizing 0 s) (\<lambda>s1. Inr (sys_mprotect md REAL_META_DATA_SIZE PROT_READ s1))"

text \<open>From the setting of \<open>is_randomizing\<close> on.\<close>

definition fs_shuffle ::
  "build_config \<Rightarrow> kernel \<Rightarrow> u64 \<Rightarrow> addr \<Rightarrow> fs_gs_state \<Rightarrow> (fault + fs_gs_state) option" where
  "fs_shuffle c k rsp md s =
     tbind (Some (fs_set md gm_is_randomizing 1 s)) (\<lambda>s1.
     tbind (Some (fs_get md gm_cpu_cycles s1)) (\<lambda>last_clocks.
     let (cur_clocks, s2) = sys_rdtsc k s1
     in if cur_clocks - last_clocks < CPU_CYCLES_PER_RANDOMIZATION
        then Some (fs_set md gm_is_randomizing 0 s2)
        else
          tbind (Some (fs_set md gm_cpu_cycles cur_clocks s2)) (\<lambda>s3.
          tbind (fs_reblind c k rsp md s3) (\<lambda>s4.
          tbind (fs_maybe_move k md s4) (\<lambda>(md', s5). Some (fs_rand_exit md' s5))))))"

definition fsgs_runtime_rerandomize ::
  "build_config \<Rightarrow> kernel \<Rightarrow> u64 \<Rightarrow> fs_gs_state \<Rightarrow> (fault + fs_gs_state) option" where
  "fsgs_runtime_rerandomize c k rsp s =
     (if \<not> unsw_flash_stack_inited s then Some (Inr s)
      else
        tbind (Some (GET_GS_VALUE_AT_OFFSET 0 s)) (\<lambda>md.
        tbind (Some (fs_get md gm_state s)) (\<lambda>st.
        if st \<noteq> FLASH_STACK_INITED then Some (Inr s)
        else tbind (Some (fs_get md gm_is_randomizing s)) (\<lambda>b.
          if b \<noteq> 0 then Some (Inr s)
          else fs_shuffle c k rsp md (sys_mprotect md REAL_META_DATA_SIZE PROT_RW s)))))"

text \<open>The hooks of \<open>rt_lib.c\<close> call it as \<open>DO_RANDOMIZATION\<close>.\<close>

definition fs_DO_RANDOMIZATION ::
  "build_config \<Rightarrow> kernel \<Rightarrow> u64 \<Rightarrow> fs_gs_state \<Rightarrow> (fault + fs_gs_state) option" where
  "fs_DO_RANDOMIZATION c k rsp s = fsgs_runtime_rerandomize c k rsp s"

end
