(* ===== verification/Fs_Lemmas.thy ===== *)
theory Fs_Lemmas
  imports Fs_Gs
begin

section \<open>Fs_Lemmas: the stages of initialisation and rerandomization of the FS/GS runtime\<close>

text \<open>
  The invariant of a thread in two parts: \<open>fs_mem\<close> on where the metadata page and the shadow stack
  are mapped, \<open>fs_meta\<close> on the fields.  Each stage of \<open>fsgs.c\<close> gets a lemma; what a stage does to
  the rest of the memory is \<open>fs_frame\<close>.
\<close>

subsection \<open>The invariant of a thread\<close>

definition fs_fld :: "addr \<Rightarrow> gs_field \<Rightarrow> 'a os_state_scheme \<Rightarrow> u64" where
  "fs_fld md f s = cells (vmem s) (md + GET_GS_METADATA_FIELD_OFFSET f)"

abbreviation in_page :: "addr \<Rightarrow> addr \<Rightarrow> bool" where
  "in_page md \<equiv> in_region md REAL_META_DATA_SIZE"

abbreviation in_stack :: "addr \<Rightarrow> addr \<Rightarrow> bool" where
  "in_stack sh \<equiv> in_region sh FS_REAL_SHADOW_STACK_SIZE"

definition fs_mem :: "prot \<Rightarrow> addr \<Rightarrow> addr \<Rightarrow> 'a os_state_scheme \<Rightarrow> bool" where
  "fs_mem w md sh s \<longleftrightarrow>
     unat md mod 4096 = 0 \<and> unat sh mod 4096 = 0 \<and> unat sh + 9437184 \<le> 2 ^ 47 \<and>
     (\<forall>x. in_page md x \<longrightarrow> prot_of (vmem s) x = Some w) \<and>
     (\<forall>x. in_stack sh x \<longrightarrow> prot_of (vmem s) x = Some PROT_RW) \<and>
     (\<forall>x. in_page md x \<longrightarrow> \<not> in_stack sh x)"

text \<open>
  \<open>v\<close> is what the field \<open>shadow_stack\<close> holds: the shadow stack, or \<open>MAP_FAILED\<close> after a failed move.
\<close>

definition fs_meta_at :: "addr \<Rightarrow> addr \<Rightarrow> addr \<Rightarrow> addr \<Rightarrow> u64 \<Rightarrow> fs_gs_state \<Rightarrow> bool" where
  "fs_meta_at v md sh ct rsp0 s \<longleftrightarrow>
     gs_base s = md \<and> unsw_flash_stack_inited s \<and>
     fs_fld md gm_self_addr s = md \<and> fs_fld md gm_diff s = sh + DEF_BUDDY_CALL_STACK_SIZE - rsp0 \<and>
     fs_fld md gm_shadow_stack s = v \<and> fs_fld md gm_shadow_stack_top s = v + DEF_BUDDY_CALL_STACK_SIZE \<and>
     fs_fld md gm_call_stack_top s = ct \<and> fs_fld md gm_state s = FLASH_STACK_INITED"

abbreviation fs_meta :: "addr \<Rightarrow> addr \<Rightarrow> addr \<Rightarrow> u64 \<Rightarrow> fs_gs_state \<Rightarrow> bool" where
  "fs_meta md sh \<equiv> fs_meta_at sh md sh"

definition fs_frame :: "addr \<Rightarrow> addr \<Rightarrow> addr \<Rightarrow> addr \<Rightarrow> 'a os_state_scheme \<Rightarrow> 'a os_state_scheme \<Rightarrow> bool" where
  "fs_frame md sh md' sh' s s' \<longleftrightarrow>
     (\<forall>x. prot_of (vmem s) x \<noteq> None \<and> \<not> in_page md x \<and> \<not> in_stack sh x \<longrightarrow>
        \<not> in_page md' x \<and> \<not> in_stack sh' x \<and>
        prot_of (vmem s') x = prot_of (vmem s) x \<and> cells (vmem s') x = cells (vmem s) x)"

text \<open>The content of the shadow stack, by distance from its start.\<close>

definition fs_slots :: "addr \<Rightarrow> 'a os_state_scheme \<Rightarrow> u64 \<Rightarrow> u64" where
  "fs_slots sh s d = cells (vmem s) (sh + d)"

declare GET_GS_METADATA_FIELD_OFFSET.simps [simp del]

lemma fs_field_in_page [simp]: "in_page md (md + GET_GS_METADATA_FIELD_OFFSET f)"
  by (cases f) (simp_all add: in_region_def fs_sizes GET_GS_METADATA_FIELD_OFFSET.simps)

lemma fs_frame_refl [simp]: "fs_frame md sh md sh s s"
  and fs_frame_trans:
    "fs_frame md1 sh1 md2 sh2 s1 s2 \<Longrightarrow> fs_frame md2 sh2 md3 sh3 s2 s3 \<Longrightarrow> fs_frame md1 sh1 md3 sh3 s1 s3"
  by (auto simp: fs_frame_def)

subsection \<open>Fields\<close>

lemma fs_get_ok: "fs_mem w md sh s \<Longrightarrow> fs_get md f s = Inr (fs_fld md f s)"
  by (simp add: fs_get_def fs_mem_def fs_fld_def)

lemma fs_set_rw:
  "prot_of (vmem s) (md + GET_GS_METADATA_FIELD_OFFSET f) = Some PROT_RW \<Longrightarrow>
   fs_set md f v s = Inr (put_cell (md + GET_GS_METADATA_FIELD_OFFSET f) v s)"
  by (simp add: fs_set_def put_cell_def)

lemma fs_set_ok:
  "fs_mem PROT_RW md sh s \<Longrightarrow> fs_set md f v s = Inr (put_cell (md + GET_GS_METADATA_FIELD_OFFSET f) v s)"
  by (simp add: fs_set_rw fs_mem_def)

lemma put_cell_fs_inited [simp]:
  "unsw_flash_stack_inited (put_cell a v s) = unsw_flash_stack_inited s"
  by (simp add: put_cell_def)

lemma fs_fld_put [simp]:
  "fs_fld md g (put_cell (md + GET_GS_METADATA_FIELD_OFFSET f) v s) = (if g = f then v else fs_fld md g s)"
  by (simp add: fs_fld_def gs_field_offset_inj)

lemma fs_mem_put [simp]: "fs_mem w md sh (put_cell a v s) \<longleftrightarrow> fs_mem w md sh s"
  by (simp add: fs_mem_def)

lemma fs_put_frame:
  assumes "fs_mem w md sh s"
  shows "fs_frame md sh md sh s (put_cell (md + GET_GS_METADATA_FIELD_OFFSET f) v s)"
    and "d < FS_REAL_SHADOW_STACK_SIZE \<Longrightarrow>
      fs_slots sh (put_cell (md + GET_GS_METADATA_FIELD_OFFSET f) v s) d = fs_slots sh s d"
proof -
  have "\<not> in_stack sh (md + GET_GS_METADATA_FIELD_OFFSET f)" using assms by (simp add: fs_mem_def)
  then show "d < FS_REAL_SHADOW_STACK_SIZE \<Longrightarrow>
      fs_slots sh (put_cell (md + GET_GS_METADATA_FIELD_OFFSET f) v s) d = fs_slots sh s d"
    by (simp add: fs_slots_def) (metis in_region_offset)
qed (auto simp: fs_frame_def)

lemma fs_meta_put:
  "fs_meta_at v' md sh ct rsp0 s \<Longrightarrow> f \<in> {gm_R, gm_is_randomizing, gm_cpu_cycles, gm_ratio_factor} \<Longrightarrow>
   fs_meta_at v' md sh ct rsp0 (put_cell (md + GET_GS_METADATA_FIELD_OFFSET f) v s)"
  by (auto simp: fs_meta_at_def)

text \<open>Writing several fields.\<close>

fun put_all :: "addr \<Rightarrow> (gs_field \<times> u64) list \<Rightarrow> fs_gs_state \<Rightarrow> fs_gs_state" where
  "put_all md [] s = s"
| "put_all md ((f, v) # fvs) s = put_all md fvs (put_cell (md + GET_GS_METADATA_FIELD_OFFSET f) v s)"

lemma put_all_kept [simp]:
  "prot_of (vmem (put_all md fvs s)) = prot_of (vmem s)" "gs_base (put_all md fvs s) = gs_base s"
  "tick (put_all md fvs s) = tick s"
  by (induction md fvs s rule: put_all.induct; simp)+

lemma put_all_inited [simp]: "unsw_flash_stack_inited (put_all md fvs s) = unsw_flash_stack_inited s"
  by (induction md fvs s rule: put_all.induct) simp_all

lemma put_all_outside [simp]: "\<not> in_page md x \<Longrightarrow> cells (vmem (put_all md fvs s)) x = cells (vmem s) x"
proof (induction fvs arbitrary: s)
  case (Cons fv fvs)
  then have "x \<noteq> md + GET_GS_METADATA_FIELD_OFFSET (fst fv)" by auto
  with Cons show ?case by (cases fv) simp
qed simp

lemma fs_set_all_rw:
  "(\<And>x. in_page md x \<Longrightarrow> prot_of (vmem s) x = Some PROT_RW) \<Longrightarrow>
   fs_set_all md fvs s = Inr (put_all md fvs s)"
  by (induction md fvs s rule: put_all.induct) (simp_all add: fs_set_rw)

lemma fs_get_all_ok:
  "(\<And>x. in_page md x \<Longrightarrow> prot_of (vmem s) x \<noteq> None) \<Longrightarrow>
   fs_get_all md fs s = Inr (map (\<lambda>f. (f, fs_fld md f s)) fs)"
proof (induction fs)
  case (Cons f fs)
  then have "prot_of (vmem s) (md + GET_GS_METADATA_FIELD_OFFSET f) \<noteq> None" by simp
  then have "fs_get md f s = Inr (fs_fld md f s)" by (auto simp: fs_get_def fs_fld_def)
  with Cons show ?case by simp
qed simp

lemma fs_fld_put_all:
  "fs_fld md g (put_all md fvs s) = (case map_of (rev fvs) g of Some v \<Rightarrow> v | None \<Rightarrow> fs_fld md g s)"
  by (induction md fvs s rule: put_all.induct) (auto simp: map_add_def split: option.splits)

lemma map_of_rev_fields: "map_of (rev (map (\<lambda>f. (f, h f)) gs_fields)) g = Some (h g)"
  by (cases g) (simp_all add: gs_fields_def)

lemma fs_fld_copied: "fs_fld md g (put_all md (map (\<lambda>f. (f, h f)) gs_fields) s) = h g"
  by (simp add: fs_fld_put_all map_of_rev_fields)

subsection \<open>Allocation ends\<close>

definition pages_aligned :: "kernel \<Rightarrow> bool" where
  "pages_aligned k \<longleftrightarrow> (\<forall>n m hint len p. k_mmap k n m hint len = Some p \<longrightarrow> unat p mod 4096 = 0)"

definition same_mapped :: "vm \<Rightarrow> vm \<Rightarrow> bool" where
  "same_mapped m m' \<longleftrightarrow> (\<forall>x. prot_of m' x = None \<longleftrightarrow> prot_of m x = None)"

text \<open>A request without a hint succeeds in a memory with these mappings.\<close>

definition finds_room :: "kernel \<Rightarrow> vm \<Rightarrow> u64 \<Rightarrow> bool" where
  "finds_room k m len \<longleftrightarrow> (\<forall>t m'. same_mapped m m' \<longrightarrow> k_mmap k t m' 0 len \<noteq> None)"

text \<open>There is room for a metadata page and then for a shadow stack.\<close>

definition has_room :: "kernel \<Rightarrow> vm \<Rightarrow> bool" where
  "has_room k m \<longleftrightarrow> finds_room k m REAL_META_DATA_SIZE \<and>
     (\<forall>p m'. fresh_block p REAL_META_DATA_SIZE m m' \<longrightarrow> finds_room k m' FS_REAL_SHADOW_STACK_SIZE)"

lemma same_mapped_refl [simp]: "same_mapped m m"
  and same_mapped_trans: "same_mapped m m' \<Longrightarrow> same_mapped m' m'' \<Longrightarrow> same_mapped m m''"
  and same_mapped_prot: "prot_of m' = prot_of m \<Longrightarrow> same_mapped m m'"
  by (simp_all add: same_mapped_def)

lemma finds_room_mapped: "finds_room k m len \<Longrightarrow> same_mapped m m' \<Longrightarrow> finds_room k m' len"
  unfolding finds_room_def using same_mapped_trans by blast

lemma has_room_mapped:
  assumes "has_room k m" and "same_mapped m m'"
  shows "has_room k m'"
proof -
  have "finds_room k m2 FS_REAL_SHADOW_STACK_SIZE" if f: "fresh_block p REAL_META_DATA_SIZE m' m2" for p m2
  proof -
    let ?m2 = "m\<lparr>prot_of := \<lambda>x. if in_page p x then Some PROT_RW else prot_of m x\<rparr>"
    have "fresh_block p REAL_META_DATA_SIZE m ?m2" "same_mapped ?m2 m2"
      using f assms(2) by (simp_all add: fresh_block_def same_mapped_def)
    then show ?thesis using assms(1) finds_room_mapped unfolding has_room_def by blast
  qed
  then show ?thesis using assms finds_room_mapped unfolding has_room_def by blast
qed

lemma fs_mmap_attempts_ok:
  assumes k: "kernel_ok k" "pages_aligned k" and "finds_room k (vmem s) sz"
  shows "\<exists>p s'. fs_mmap_attempts k sz i s = Some (p, s') \<and> unat p mod 4096 = 0 \<and>
    fresh_block p sz (vmem s) (vmem s') \<and> (\<forall>x. in_region p sz x \<longrightarrow> cells (vmem s') x = 0) \<and> s' = s\<lparr>tick := tick s', vmem := vmem s'\<rparr>"
  using assms(3)
proof (induction "Suc FS_MAX_MMAP_ATTEMPTS - i" arbitrary: i s rule: less_induct)
  case less
  let ?s1 = "s\<lparr>tick := Suc (tick s)\<rparr>"
  let ?x = "if i > FS_MAX_MMAP_ATTEMPTS then 0 else k_rdrand k (tick s) AND 0x7FFFFFFFF000"
  have start: "fs_mmap_attempts k sz i s =
      (case sys_mmap k ?x sz ?s1 of
         (None, s2) \<Rightarrow> fs_mmap_attempts k sz (i + 1) s2
       | (Some allocated, s2) \<Rightarrow> Some (allocated, s2))"
    by (subst fs_mmap_attempts.simps) (simp add: sys_rdrand_def)
  show ?case
  proof (cases "k_mmap k (tick ?s1) (vmem ?s1) ?x sz")
    case (Some p)
    let ?s2 = "?s1\<lparr>tick := Suc (tick ?s1), vmem := vm_map p sz (vmem ?s1)\<rparr>"
    have "fs_mmap_attempts k sz i s = Some (p, ?s2)"
      unfolding start sys_mmap_def Some by simp
    moreover have "unat p mod 4096 = 0" using k(2) Some unfolding pages_aligned_def by blast
    moreover have "fresh_block p sz (vmem s) (vmem ?s2)"
      using kernel_okD [OF k(1) Some] by (auto simp: fresh_block_def fun_eq_iff)
    ultimately show ?thesis by (intro exI [of _ p] exI [of _ ?s2]) simp
  next
    case None
    let ?s2 = "s\<lparr>tick := Suc (Suc (tick s))\<rparr>"
    have "k_mmap k t (vmem s) 0 sz \<noteq> None" for t
      using less.prems same_mapped_refl unfolding finds_room_def by blast
    then have "\<not> i > FS_MAX_MMAP_ATTEMPTS"
      using None by (auto split: if_splits) (metis not_None_eq)
    then have small: "Suc FS_MAX_MMAP_ATTEMPTS - (i + 1) < Suc FS_MAX_MMAP_ATTEMPTS - i" by simp
    have "fs_mmap_attempts k sz i s = fs_mmap_attempts k sz (i + 1) ?s2"
      unfolding start sys_mmap_def None by simp
    with less.hyps [OF small, of ?s2] less.prems show ?thesis by simp
  qed
qed

lemmas fs_alloc = fs_mmap_attempts_ok [where i = 0, folded fs_get_memory_at_random_def]

text \<open>Both blocks: they are new, and apart from each other.\<close>

definition two_blocks :: "addr \<Rightarrow> addr \<Rightarrow> 'a os_state_scheme \<Rightarrow> 'a os_state_scheme \<Rightarrow> bool" where
  "two_blocks md sh s s' \<longleftrightarrow>
     fs_mem PROT_RW md sh s' \<and> s' = s\<lparr>tick := tick s', vmem := vmem s'\<rparr> \<and>
     (\<forall>x. in_page md x \<or> in_stack sh x \<longrightarrow> prot_of (vmem s) x = None) \<and>
     (\<forall>x. in_stack sh x \<longrightarrow> cells (vmem s') x = 0) \<and>
     (\<forall>x. prot_of (vmem s) x \<noteq> None \<longrightarrow>
        prot_of (vmem s') x = prot_of (vmem s) x \<and> cells (vmem s') x = cells (vmem s) x)"

lemma fs_two_allocs:
  assumes k: "kernel_ok k" "pages_aligned k" and room: "has_room k (vmem s)"
  shows "\<exists>md s1 sh s2. fs_get_memory_at_random k REAL_META_DATA_SIZE s = Some (md, s1) \<and>
    fs_get_memory_at_random k FS_REAL_SHADOW_STACK_SIZE s1 = Some (sh, s2) \<and> two_blocks md sh s s2"
proof -
  have "finds_room k (vmem s) REAL_META_DATA_SIZE" using room by (simp add: has_room_def)
  from fs_alloc [OF k this]
  obtain md s1 where a: "fs_get_memory_at_random k REAL_META_DATA_SIZE s = Some (md, s1)"
    "unat md mod 4096 = 0" "fresh_block md REAL_META_DATA_SIZE (vmem s) (vmem s1)"
    "s1 = s\<lparr>tick := tick s1, vmem := vmem s1\<rparr>"
    by (elim exE conjE) (rule that; assumption)
  have "finds_room k (vmem s1) FS_REAL_SHADOW_STACK_SIZE"
    using room a(3) unfolding has_room_def by blast
  from fs_alloc [OF k this] obtain sh s2 where b: "fs_get_memory_at_random k FS_REAL_SHADOW_STACK_SIZE s1 = Some (sh, s2)"
    "unat sh mod 4096 = 0" "fresh_block sh FS_REAL_SHADOW_STACK_SIZE (vmem s1) (vmem s2)"
    "\<forall>x. in_stack sh x \<longrightarrow> cells (vmem s2) x = 0" "s2 = s1\<lparr>tick := tick s2, vmem := vmem s2\<rparr>"
    by (elim exE conjE) (rule that; assumption)
  have "s2 = s\<lparr>tick := tick s2, vmem := vmem s2\<rparr>"
    by (subst b(5), subst a(4)) simp
  moreover have "unat sh + 9437184 \<le> 2 ^ 47" using b(3) by (simp add: fresh_block_def fs_sizes)
  moreover have "prot_of (vmem s1) x = None" "prot_of (vmem s) x = None" "\<not> in_page md x"
    if "in_stack sh x" for x
    using that a(3) b(3) by (auto simp: fresh_block_def split: if_splits)
  ultimately have "two_blocks md sh s s2"
    using a(2,3) b(2-4) unfolding two_blocks_def fs_mem_def
    by (auto simp: fresh_block_def)
  with a(1) b(1) show ?thesis by blast
qed

end
