(* ===== verification/Fs_Stages.thy ===== *)
theory Fs_Stages
  imports Fs_Lemmas
begin

section \<open>Fs_Stages: the stages of rerandomization and initialisation of the FS/GS runtime\<close>

text \<open>
  One lemma for each stage of \<open>fsgs_runtime_rerandomize\<close> and of \<open>do_init_shadow_stack\<close>; each says
  that the stage returns, that the invariant \<open>fs_ok\<close> of the thread holds afterwards and what
  happened to the slots and to the rest of the memory.
\<close>

subsection \<open>Changing the random value\<close>

text \<open>The stack pointer is not above the one at initialisation and at most 8 MB below the stack's top.\<close>

definition fs_window :: "addr \<Rightarrow> u64 \<Rightarrow> u64 \<Rightarrow> bool" where
  "fs_window ct rsp0 rsp \<longleftrightarrow> rsp0 - rsp \<le> ct - rsp \<and> ct - rsp \<le> DEF_BUDDY_CALL_STACK_SIZE"

definition fs_lo :: "addr \<Rightarrow> u64 \<Rightarrow> u64" where
  "fs_lo ct rsp = (DEF_BUDDY_CALL_STACK_SIZE - (ct - rsp)) AND (- 32)"

text \<open>The slots, by distance from the start of the shadow stack, that get the change.\<close>

definition reblinded :: "build_config \<Rightarrow> addr \<Rightarrow> u64 \<Rightarrow> u64 \<Rightarrow> bool" where
  "reblinded c ct rsp d \<longleftrightarrow>
     SPA_ENABLE_GS_MSR c \<and> fs_lo ct rsp \<le> d \<and> d < DEF_BUDDY_CALL_STACK_SIZE \<and> unat d mod 8 = 0"

lemma fs_lo_props:
  assumes "fs_window ct rsp0 rsp"
  shows "unat (fs_lo ct rsp) \<le> 8388608" "unat (fs_lo ct rsp) mod 32 = 0"
    "unat (fs_lo ct rsp) = unat (DEF_BUDDY_CALL_STACK_SIZE - (ct - rsp)) div 32 * 32"
    "unat (DEF_BUDDY_CALL_STACK_SIZE - (ct - rsp)) = 8388608 - unat (ct - rsp)"
proof -
  show o: "unat (DEF_BUDDY_CALL_STACK_SIZE - (ct - rsp)) = 8388608 - unat (ct - rsp)"
    using assms by (simp add: fs_window_def DEF_sizes unat_sub)
  show l: "unat (fs_lo ct rsp) = unat (DEF_BUDDY_CALL_STACK_SIZE - (ct - rsp)) div 32 * 32"
    by (simp add: fs_lo_def align_32)
  show "unat (fs_lo ct rsp) mod 32 = 0" by (simp add: l)
  show "unat (fs_lo ct rsp) \<le> 8388608" unfolding l o by simp
qed

text \<open>Adding small distances to a page-aligned address.\<close>

lemma stack_offset:
  "fs_mem w md sh s \<Longrightarrow> unat d \<le> 9437184 \<Longrightarrow> unat (sh + d) = unat sh + unat d"
  by (auto simp: fs_mem_def unat_word_ariths)

lemma align_stack:
  assumes "fs_mem w md sh s" and "unat d \<le> 9437184"
  shows "(sh + d) AND (- 32) = sh + (d AND (- 32))"
proof -
  have "unat (d AND (- 32)) \<le> 9437184" using assms(2) by (simp add: align_32)
  then have "unat (sh + (d AND (- 32))) = unat sh + unat d div 32 * 32"
    using stack_offset [OF assms(1)] by (simp add: align_32)
  moreover have "unat ((sh + d) AND (- 32)) = (unat sh + unat d) div 32 * 32"
    using stack_offset [OF assms] by (simp add: align_32)
  moreover have "unat sh mod 4096 = 0" using assms(1) by (simp add: fs_mem_def)
  then have "32 dvd unat sh" using dvd_trans [of 32 4096 "unat sh"] by (simp add: dvd_eq_mod_eq_0)
  then obtain q where "unat sh = 32 * q" by (elim dvdE)
  then have "(unat sh + unat d) div 32 * 32 = unat sh + unat d div 32 * 32" by simp
  ultimately show ?thesis by (simp add: word_unat_eq_iff)
qed

lemma in_added_range:
  assumes "unat lo \<le> 8388608" and "unat lo mod 32 = 0" and "d < FS_REAL_SHADOW_STACK_SIZE"
  shows "in_region (sh + lo) (sh + DEF_BUDDY_CALL_STACK_SIZE - (sh + lo)) (sh + d) \<and>
      unat (sh + d - (sh + lo)) mod 8 = 0 \<longleftrightarrow>
    lo \<le> d \<and> d < DEF_BUDDY_CALL_STACK_SIZE \<and> unat d mod 8 = 0"
proof -
  have e: "sh + DEF_BUDDY_CALL_STACK_SIZE - (sh + lo) = 8388608 - lo" "sh + d - (sh + lo) = d - lo"
    by (simp_all add: DEF_sizes)
  have u: "unat (8388608 - lo) = 8388608 - unat lo"
    using assms(1) by (simp add: unat_sub word_le_nat_alt)
  show ?thesis
  proof (cases "lo \<le> d")
    case True
    then have d: "unat (d - lo) = unat d - unat lo" "unat lo \<le> unat d"
      by (simp_all add: unat_sub word_le_nat_alt)
    have "(unat d - unat lo) mod 8 = 0 \<longleftrightarrow> unat d mod 8 = 0" using d(2) assms(2) by presburger
    then show ?thesis
      using True d u assms(1) unfolding e in_region_def word_less_nat_alt by (auto simp: DEF_sizes)
  next
    case False
    then have "unat (d - lo) = unat d + 2 ^ 64 - unat lo" by (simp add: unat_sub_if' word_le_nat_alt)
    then have "\<not> d - lo < 8388608 - lo"
      using assms(1) u False by (simp add: word_less_nat_alt word_le_nat_alt)
    then show ?thesis using False unfolding e in_region_def by blast
  qed
qed

lemma add_cells_in_stack:
  assumes "fs_mem w md sh s" and "fs_window ct rsp0 rsp"
    and "in_region (sh + fs_lo ct rsp) (sh + DEF_BUDDY_CALL_STACK_SIZE - (sh + fs_lo ct rsp)) x"
  shows "in_stack sh x"
proof -
  have "sh + DEF_BUDDY_CALL_STACK_SIZE - (sh + fs_lo ct rsp) = 8388608 - fs_lo ct rsp"
    by (simp add: DEF_sizes)
  moreover have "unat (8388608 - fs_lo ct rsp) = 8388608 - unat (fs_lo ct rsp)"
    using fs_lo_props(1) [OF assms(2)] by (simp add: unat_sub word_le_nat_alt)
  ultimately have "unat (x - (sh + fs_lo ct rsp)) < 8388608 - unat (fs_lo ct rsp)"
    using assms(3) by (simp add: in_region_def word_less_nat_alt)
  moreover have "unat (y + fs_lo ct rsp) < 8388608" if "unat y < 8388608 - unat (fs_lo ct rsp)" for y
    using that fs_lo_props(1) [OF assms(2)] by (simp add: unat_word_ariths)
  ultimately have "unat (x - (sh + fs_lo ct rsp) + fs_lo ct rsp) < 8388608" by blast
  then have "unat (x - sh) < 8388608" by simp
  then show ?thesis by (simp add: in_region_def fs_sizes word_less_nat_alt)
qed

text \<open>What a stage does to slots and \<open>R\<close>: nothing, or the change of \<open>R\<close> to the slots of a set.\<close>

definition fs_effect ::
  "(u64 \<Rightarrow> bool) \<Rightarrow> addr \<Rightarrow> addr \<Rightarrow> addr \<Rightarrow> addr \<Rightarrow> 'a os_state_scheme \<Rightarrow> 'a os_state_scheme \<Rightarrow> bool" where
  "fs_effect A md sh md' sh' s s' \<longleftrightarrow> fs_frame md sh md' sh' s s' \<and>
     (\<forall>d. d < FS_REAL_SHADOW_STACK_SIZE \<longrightarrow> fs_slots sh' s' d =
        fs_slots sh s d + (if A d then fs_fld md' gm_R s' - fs_fld md gm_R s else 0))"

definition fs_same ::
  "addr \<Rightarrow> addr \<Rightarrow> addr \<Rightarrow> addr \<Rightarrow> 'a os_state_scheme \<Rightarrow> 'a os_state_scheme \<Rightarrow> bool" where
  "fs_same md sh md' sh' s s' \<longleftrightarrow> fs_frame md sh md' sh' s s' \<and> fs_fld md' gm_R s' = fs_fld md gm_R s \<and>
     (\<forall>d. d < FS_REAL_SHADOW_STACK_SIZE \<longrightarrow> fs_slots sh' s' d = fs_slots sh s d)"

lemma fs_same_refl: "fs_same md sh md sh s s"
  and fs_same_trans: "fs_same m1 h1 m2 h2 s1 s2 \<Longrightarrow> fs_same m2 h2 m3 h3 s2 s3 \<Longrightarrow> fs_same m1 h1 m3 h3 s1 s3"
  and fs_same_effect: "fs_same m1 h1 m2 h2 s1 s2 \<Longrightarrow> fs_effect A m2 h2 m3 h3 s2 s3 \<Longrightarrow> fs_effect A m1 h1 m3 h3 s1 s3"
  and fs_effect_same: "fs_effect A m1 h1 m2 h2 s1 s2 \<Longrightarrow> fs_same m2 h2 m3 h3 s2 s3 \<Longrightarrow> fs_effect A m1 h1 m3 h3 s1 s3"
  and fs_same_any: "fs_same m1 h1 m2 h2 s1 s2 \<Longrightarrow> fs_effect A m1 h1 m2 h2 s1 s2"
  unfolding fs_same_def fs_effect_def by (simp_all add: fs_frame_trans) (blast intro: fs_frame_trans)+

text \<open>The slots are lost: the new shadow stack is as the kernel gave it.\<close>

definition fs_lost ::
  "addr \<Rightarrow> addr \<Rightarrow> addr \<Rightarrow> addr \<Rightarrow> 'a os_state_scheme \<Rightarrow> 'a os_state_scheme \<Rightarrow> bool" where
  "fs_lost md sh md' sh' s s' \<longleftrightarrow> fs_frame md sh md' sh' s s' \<and> fs_fld md' gm_R s' = fs_fld md gm_R s \<and>
     (\<forall>d. d < FS_REAL_SHADOW_STACK_SIZE \<longrightarrow> fs_slots sh' s' d = 0)"

lemma fs_same_lost: "fs_same m1 h1 m2 h2 s1 s2 \<Longrightarrow> fs_lost m2 h2 m3 h3 s2 s3 \<Longrightarrow> fs_lost m1 h1 m3 h3 s1 s3"
  and fs_lost_same: "fs_lost m1 h1 m2 h2 s1 s2 \<Longrightarrow> fs_same m2 h2 m3 h3 s2 s3 \<Longrightarrow> fs_lost m1 h1 m3 h3 s1 s3"
  unfolding fs_same_def fs_lost_def by simp_all (blast intro: fs_frame_trans)+

lemma fs_same_put:
  "fs_mem w md sh s \<Longrightarrow> f \<noteq> gm_R \<Longrightarrow>
   fs_same md sh md sh s (put_cell (md + GET_GS_METADATA_FIELD_OFFSET f) v s)"
  unfolding fs_same_def by (simp add: fs_put_frame)

lemma fs_reblind_ok:
  assumes m: "fs_mem PROT_RW md sh s" and t: "fs_meta md sh ct rsp0 s" and win: "fs_window ct rsp0 rsp"
  shows "\<exists>s'. fs_reblind c k rsp md s = Some (Inr s') \<and> fs_mem PROT_RW md sh s' \<and> fs_meta md sh ct rsp0 s' \<and>
    fs_effect (reblinded c ct rsp) md sh md sh s s' \<and> prot_of (vmem s') = prot_of (vmem s) \<and>
    fs_fld md gm_is_randomizing s' = fs_fld md gm_is_randomizing s \<and>
    fs_fld md gm_ratio_factor s' = fs_fld md gm_ratio_factor s \<and>
    fs_fld md gm_R s' = fs_fld md gm_R s + (if SPA_ENABLE_GS_MSR c then k_rdrand k (tick s) else 0)"
proof (cases "SPA_ENABLE_GS_MSR c")
  case False
  then show ?thesis
    using m t fs_same_any [OF fs_same_refl] by (auto simp: fs_reblind_def)
next
  case msr: True
  let ?R = "md + GET_GS_METADATA_FIELD_OFFSET gm_R"
  let ?delta = "k_rdrand k (tick s)"
  let ?s1 = "s\<lparr>tick := Suc (tick s)\<rparr>"
  let ?s2 = "put_cell ?R (fs_fld md gm_R s + ?delta) ?s1"
  let ?lo = "fs_lo ct rsp" and ?top = "sh + DEF_BUDDY_CALL_STACK_SIZE"
  let ?s3 = "?s2\<lparr>vmem := add_cells (sh + ?lo) ?top ?delta (vmem ?s2)\<rparr>"
  have f1: "fs_fld md f ?s1 = fs_fld md f s" for f by (simp add: fs_fld_def)
  have m1: "fs_mem PROT_RW md sh ?s1" using m by (simp add: fs_mem_def)
  then have m2: "fs_mem PROT_RW md sh ?s2" by simp
  have f2: "fs_fld md f ?s2 = (if f = gm_R then fs_fld md gm_R s + ?delta else fs_fld md f s)" for f
    by (simp add: f1)
  have in_st: "in_region (sh + ?lo) (?top - (sh + ?lo)) x \<Longrightarrow> in_stack sh x" for x
    by (rule add_cells_in_stack [OF m win])
  have md_out: "in_page md x \<Longrightarrow> \<not> in_stack sh x" for x using m by (simp add: fs_mem_def)
  have f3: "fs_fld md f ?s3 = fs_fld md f ?s2" for f
    using in_st md_out [OF fs_field_in_page] by (auto simp: fs_fld_def)
  have p: "(?top - (ct - rsp)) AND (- 32) = sh + ?lo"
    using align_stack [OF m, of "DEF_BUDDY_CALL_STACK_SIZE - (ct - rsp)"] fs_lo_props(4) [OF win]
    by (simp add: fs_lo_def add_diff_eq)
  have "avx2_64_x_4_add (?top - (ct - rsp)) ?top ?delta ?s2 = Some (Inr ?s3)"
    unfolding p [symmetric]
  proof (rule avx2_add_ok)
    have "unat ?top = unat sh + 8388608" using stack_offset [OF m, of DEF_BUDDY_CALL_STACK_SIZE] by (simp add: DEF_sizes)
    moreover have "32 dvd unat sh"
      using m dvd_trans [of 32 4096 "unat sh"] by (simp add: fs_mem_def dvd_eq_mod_eq_0)
    ultimately show "unat ?top mod 32 = 0" by (simp flip: dvd_eq_mod_eq_0)
    have "unat (sh + ?lo) = unat sh + unat ?lo" using stack_offset [OF m] fs_lo_props(1) [OF win] by simp
    with \<open>unat ?top = unat sh + 8388608\<close> show "(?top - (ct - rsp)) AND (- 32) \<le> ?top"
      unfolding p using fs_lo_props(1) [OF win] by (simp add: word_le_nat_alt)
    fix a assume "in_region ((?top - (ct - rsp)) AND (- 32)) (?top - ((?top - (ct - rsp)) AND (- 32))) a"
    then have "in_stack sh a" unfolding p by (rule in_st)
    then show "prot_of (vmem ?s2) a = Some PROT_RW" using m by (simp add: fs_mem_def)
  qed
  then have "fs_reblind c k rsp md s = Some (Inr ?s3)"
    using msr t f1 f2 by (simp add: fs_reblind_def sys_rdrand_def Let_def fs_get_ok [OF m1] fs_set_ok [OF m1]
        fs_get_ok [OF m2] fs_meta_at_def del: fs_fld_put)
  moreover have "fs_mem PROT_RW md sh ?s3" using m by (simp add: fs_mem_def)
  moreover have "fs_meta md sh ct rsp0 ?s3"
    using t by (simp add: fs_meta_at_def f3 f1)
  moreover have "fs_frame md sh md sh s ?s3"
    using in_st fs_field_in_page [of md gm_R] by (auto simp: fs_frame_def)
  moreover have "fs_slots sh ?s3 d = fs_slots sh s d + (if reblinded c ct rsp d then ?delta else 0)"
    if d: "d < FS_REAL_SHADOW_STACK_SIZE" for d
  proof -
    have "fs_slots sh ?s2 d = fs_slots sh ?s1 d" by (rule fs_put_frame(2) [OF m1 d])
    moreover have "fs_slots sh ?s3 d = fs_slots sh ?s2 d + (if reblinded c ct rsp d then ?delta else 0)"
      unfolding fs_slots_def reblinded_def
      using in_added_range [OF fs_lo_props(1,2) [OF win] d] msr by (simp add: fs_slots_def)
    ultimately show ?thesis by (simp add: fs_slots_def)
  qed
  ultimately show ?thesis
    by (intro exI [of _ ?s3]) (simp add: fs_effect_def f3 f2 msr del: add_cells_simps(2) fs_fld_put)
qed

subsection \<open>Moving page and stack\<close>

text \<open>
  The state after the copy of the fields, the move of the stack and the unmapping of the page, in
  terms of the state before; \<open>b\<close> is whether \<open>mremap\<close> succeeded.
\<close>

definition switched ::
  "bool \<Rightarrow> addr \<Rightarrow> addr \<Rightarrow> addr \<Rightarrow> addr \<Rightarrow> fs_gs_state \<Rightarrow> fs_gs_state \<Rightarrow> bool" where
  "switched b md sh md' sh' s s' \<longleftrightarrow>
     (\<forall>f. fs_fld md' f s' =
        (if f = gm_shadow_stack_top then (if b then sh' else - 1) + DEF_BUDDY_CALL_STACK_SIZE
         else if f = gm_shadow_stack then (if b then sh' else - 1)
         else if f = gm_self_addr then md' else if f = gm_diff then fs_fld md gm_diff s + (sh' - sh)
         else fs_fld md f s)) \<and>
     (\<forall>x. prot_of (vmem s') x =
        (if in_page md x then None else if b \<and> in_stack sh' x then prot_of (vmem s) (x - sh' + sh)
         else if b \<and> in_stack sh x then None else prot_of (vmem s) x)) \<and>
     (\<forall>x. \<not> in_page md' x \<longrightarrow> cells (vmem s') x =
        (if b \<and> in_stack sh' x then cells (vmem s) (x - sh' + sh) else cells (vmem s) x)) \<and>
     gs_base s' = md' \<and> unsw_flash_stack_inited s' = unsw_flash_stack_inited s"

lemma fs_switch_runs:
  assumes page: "\<And>x. in_page md x \<Longrightarrow> prot_of (vmem s) x \<noteq> None"
    and page': "\<And>x. in_page md' x \<Longrightarrow> prot_of (vmem s) x = Some PROT_RW"
    and apart: "\<And>x. in_page md' x \<Longrightarrow> \<not> in_page md x \<and> \<not> in_stack sh x \<and> \<not> in_stack sh' x"
    and sh: "fs_fld md gm_shadow_stack s = sh" and k: "\<forall>n. k_set_gs k n"
  shows "\<exists>s'. fs_switch k md md' sh' s = Inr (md', s') \<and> switched (k_mremap k (tick s)) md sh md' sh' s s'"
proof -
  let ?b = "k_mremap k (tick s)"
  let ?v = "if ?b then sh' else - 1"
  let ?F = "\<lambda>f. md' + GET_GS_METADATA_FIELD_OFFSET f"
  let ?len = FS_REAL_SHADOW_STACK_SIZE
  let ?s1 = "put_all md' (map (\<lambda>f. (f, fs_fld md f s)) gs_fields) s"
  let ?s2 = "put_cell (?F gm_diff) (fs_fld md gm_diff s + (sh' - sh)) ?s1"
  let ?s3 = "put_cell (?F gm_self_addr) md' ?s2"
  let ?s4 = "?s3\<lparr>tick := Suc (tick ?s3), vmem := (if ?b then vm_move sh ?len sh' (vmem ?s3) else vmem ?s3)\<rparr>"
  let ?s5 = "put_cell (?F gm_shadow_stack) ?v ?s4"
  let ?s6 = "put_cell (?F gm_shadow_stack_top) (?v + DEF_BUDDY_CALL_STACK_SIZE) ?s5"
  let ?s7 = "?s6\<lparr>tick := Suc (tick ?s6), gs_base := md'\<rparr>"
  let ?s' = "sys_munmap md REAL_META_DATA_SIZE ?s7"
  have Fp: "in_page md' (?F f)" for f by simp
  have keep1: "fs_get md f ?s1 = Inr (fs_fld md f s)" for f
  proof -
    have "\<not> in_page md' (md + GET_GS_METADATA_FIELD_OFFSET f)" using apart fs_field_in_page by blast
    then show ?thesis
      using page [of "md + GET_GS_METADATA_FIELD_OFFSET f"] by (auto simp: fs_get_def fs_fld_def)
  qed
  have prot4: "in_page md' x \<Longrightarrow> prot_of (vmem ?s4) x = Some PROT_RW" for x
    using page' apart by auto
  have "fs_get_all md gs_fields s = Inr (map (\<lambda>f. (f, fs_fld md f s)) gs_fields)"
    by (rule fs_get_all_ok) (rule page)
  moreover have "fs_set_all md' (map (\<lambda>f. (f, fs_fld md f s)) gs_fields) s = Inr ?s1"
    by (rule fs_set_all_rw) (rule page')
  moreover have "fs_set md' gm_diff v ?s1 = Inr (put_cell (?F gm_diff) v ?s1)" for v
    by (rule fs_set_rw) (use page' in simp)
  moreover have "fs_set md' gm_self_addr v ?s2 = Inr (put_cell (?F gm_self_addr) v ?s2)" for v
    by (rule fs_set_rw) (use page' in simp)
  moreover have "sys_mremap k sh ?len sh' ?s3 = (if ?b then Some sh' else None, ?s4)"
    by (simp add: sys_mremap_def)
  moreover have "(case if ?b then Some sh' else None of Some p \<Rightarrow> p | None \<Rightarrow> - 1) = ?v" by simp
  moreover have "fs_set md' gm_shadow_stack v ?s4 = Inr (put_cell (?F gm_shadow_stack) v ?s4)" for v
    by (rule fs_set_rw) (rule prot4 [OF Fp])
  moreover have "fs_set md' gm_shadow_stack_top v ?s5 = Inr (put_cell (?F gm_shadow_stack_top) v ?s5)" for v
    by (rule fs_set_rw) (use prot4 [OF Fp] in \<open>simp only: put_cell_simps\<close>)
  moreover have "sys_set_gs k md' ?s6 = (True, ?s7)" using k by (simp add: sys_set_gs_def)
  ultimately have run: "fs_switch k md md' sh' s = Inr (md', ?s')"
    unfolding fs_switch_def by (simp only: ebind_simps keep1 sh Let_def prod.case option.case)
  have f4: "fs_fld md' f ?s4 = fs_fld md' f ?s3" for f
    using apart [OF Fp] by (simp add: fs_fld_def)
  have "fs_fld md' f ?s' = fs_fld md' f ?s6" for f
    by (simp add: fs_fld_def sys_munmap_def)
  then have f': "fs_fld md' f ?s' =
      (if f = gm_shadow_stack_top then ?v + DEF_BUDDY_CALL_STACK_SIZE else if f = gm_shadow_stack then ?v
       else if f = gm_self_addr then md' else if f = gm_diff then fs_fld md gm_diff s + (sh' - sh)
       else fs_fld md f s)" for f
    by (simp only: fs_fld_put f4 fs_fld_copied)
  have c3: "cells (vmem ?s3) x = cells (vmem s) x" if "\<not> in_page md' x" for x
  proof -
    have "x \<noteq> ?F f" for f using that Fp by blast
    then show ?thesis using that by simp
  qed
  have c': "cells (vmem ?s') x =
      (if ?b \<and> in_stack sh' x then cells (vmem s) (x - sh' + sh) else cells (vmem s) x)"
    if "\<not> in_page md' x" for x
  proof -
    have "x \<noteq> ?F f" for f using that Fp by blast
    then have "cells (vmem ?s') x =
        (if ?b \<and> in_stack sh' x then cells (vmem ?s3) (x - sh' + sh) else cells (vmem ?s3) x)"
      by (simp add: sys_munmap_def)
    moreover have "\<not> in_page md' (x - sh' + sh)" if "in_stack sh' x"
      using that apart [of "x - sh' + sh"] by (auto simp: in_region_def)
    ultimately show ?thesis using c3 that by presburger
  qed
  have "switched ?b md sh md' sh' s ?s'"
    unfolding switched_def
    by (intro conjI allI impI f' c') (simp_all add: sys_munmap_def)
  with run show ?thesis by blast
qed

lemma fs_switch_ok:
  assumes m: "fs_mem PROT_RW md sh s0" and t: "fs_meta md sh ct rsp0 s0"
    and tb: "two_blocks md' sh' s0 s" and k: "\<forall>n. k_set_gs k n" and b: "b = k_mremap k (tick s)"
  shows "\<exists>s'. fs_switch k md md' sh' s = Inr (md', s') \<and> fs_mem PROT_RW md' sh' s' \<and>
    fs_meta_at (if b then sh' else - 1) md' sh' ct rsp0 s' \<and>
    (if b then fs_same md sh md' sh' s0 s' else fs_lost md sh md' sh' s0 s') \<and>
    fs_fld md' gm_is_randomizing s' = fs_fld md gm_is_randomizing s0 \<and>
    fs_fld md' gm_ratio_factor s' = fs_fld md gm_ratio_factor s0"
proof -
  have m': "fs_mem PROT_RW md' sh' s"
    and new: "\<And>x. in_page md' x \<or> in_stack sh' x \<Longrightarrow> prot_of (vmem s0) x = None"
    and zero: "\<And>x. in_stack sh' x \<Longrightarrow> cells (vmem s) x = 0"
    and kept: "\<And>x. prot_of (vmem s0) x \<noteq> None \<Longrightarrow>
      prot_of (vmem s) x = prot_of (vmem s0) x \<and> cells (vmem s) x = cells (vmem s0) x"
    and s: "s = s0\<lparr>tick := tick s, vmem := vmem s\<rparr>"
    using tb unfolding two_blocks_def by blast+
  have old: "in_page md x \<Longrightarrow> prot_of (vmem s0) x = Some PROT_RW"
    "in_stack sh x \<Longrightarrow> prot_of (vmem s0) x = Some PROT_RW" for x
    using m unfolding fs_mem_def by blast+
  have apart: "in_page md x \<or> in_stack sh x \<Longrightarrow> \<not> in_page md' x \<and> \<not> in_stack sh' x" for x
    using new old by fastforce
  have page': "in_page md' x \<Longrightarrow> prot_of (vmem s) x = Some PROT_RW" "in_page md' x \<Longrightarrow> \<not> in_stack sh' x" for x
    using m' unfolding fs_mem_def by blast+
  have fl: "fs_fld md f s = fs_fld md f s0" for f
    using kept [of "md + GET_GS_METADATA_FIELD_OFFSET f"] old(1) [of "md + GET_GS_METADATA_FIELD_OFFSET f"]
    by (simp add: fs_fld_def)
  have sh: "fs_fld md gm_shadow_stack s = sh" using t fl by (simp add: fs_meta_at_def)
  obtain s' where run: "fs_switch k md md' sh' s = Inr (md', s')" and sw: "switched b md sh md' sh' s s'"
  proof -
    have "in_page md x \<Longrightarrow> prot_of (vmem s) x \<noteq> None" for x using kept old(1) by simp
    moreover have "in_page md' x \<Longrightarrow> \<not> in_page md x \<and> \<not> in_stack sh x \<and> \<not> in_stack sh' x" for x
      using apart page'(2) by blast
    ultimately show ?thesis using fs_switch_runs [OF _ page'(1) _ sh k] that unfolding b by blast
  qed
  note sw = sw [unfolded switched_def]
  have stack: "prot_of (vmem s) (sh + d) = Some PROT_RW" "cells (vmem s) (sh + d) = cells (vmem s0) (sh + d)"
    if "d < FS_REAL_SHADOW_STACK_SIZE" for d
    using that old(2) [of "sh + d"] kept [of "sh + d"] by (simp_all add: in_region_offset)
  have "prot_of (vmem s') x = Some PROT_RW" if x: "in_stack sh' x" for x
  proof -
    have "prot_of (vmem s) (sh + (x - sh')) = Some PROT_RW"
      using stack(1) x by (simp add: in_region_def)
    moreover have "prot_of (vmem s) x = Some PROT_RW" using m' x unfolding fs_mem_def by blast
    ultimately show ?thesis using x apart [of x] sw by (auto simp: add.commute)
  qed
  moreover have "in_page md' x \<Longrightarrow> prot_of (vmem s') x = Some PROT_RW" for x
    using page' [of x] apart [of x] sw by auto
  ultimately have m'': "fs_mem PROT_RW md' sh' s'"
    using m' unfolding fs_mem_def by blast
  have "unsw_flash_stack_inited s = unsw_flash_stack_inited s0" by (subst s) simp
  then have t': "fs_meta_at (if b then sh' else - 1) md' sh' ct rsp0 s'"
    using t fl sw unfolding fs_meta_at_def by simp
  have slots: "fs_slots sh' s' d = (if b then fs_slots sh s0 d else 0)" if d: "d < FS_REAL_SHADOW_STACK_SIZE" for d
  proof -
    have "in_stack sh' (sh' + d)" using d by (simp add: in_region_offset)
    moreover from this have "\<not> in_page md' (sh' + d)" using page'(2) by blast
    moreover have "sh' + d - sh' + sh = sh + d" by simp
    ultimately have "cells (vmem s') (sh' + d) = (if b then cells (vmem s) (sh + d) else 0)"
      using sw zero by (metis (no_types))
    then show ?thesis using stack(2) [OF d] by (simp add: fs_slots_def)
  qed
  have "fs_frame md sh md' sh' s0 s'"
    unfolding fs_frame_def
  proof (intro allI impI)
    fix x assume x: "prot_of (vmem s0) x \<noteq> None \<and> \<not> in_page md x \<and> \<not> in_stack sh x"
    then have "\<not> in_page md' x" "\<not> in_stack sh' x" using new [of x] by auto
    then show "\<not> in_page md' x \<and> \<not> in_stack sh' x \<and> prot_of (vmem s') x = prot_of (vmem s0) x \<and>
        cells (vmem s') x = cells (vmem s0) x"
      using x kept [of x] sw by simp
  qed
  with slots have "if b then fs_same md sh md' sh' s0 s' else fs_lost md sh md' sh' s0 s'"
    using fl sw by (simp add: fs_same_def fs_lost_def)
  moreover have "fs_fld md' gm_is_randomizing s' = fs_fld md gm_is_randomizing s0"
    "fs_fld md' gm_ratio_factor s' = fs_fld md gm_ratio_factor s0"
    using fl sw by simp_all
  ultimately show ?thesis using run m'' t' by blast
qed

lemma fs_maybe_move_ok:
  assumes k: "kernel_ok k" "pages_aligned k" "\<forall>n. k_set_gs k n"
    and m: "fs_mem PROT_RW md sh s" and t: "fs_meta md sh ct rsp0 s"
    and r: "fs_fld md gm_ratio_factor s = DEFAULT_CHANGING_MOVING_RATIO" and room: "has_room k (vmem s)"
  shows "\<exists>n md' sh' s'. fs_maybe_move k md s = Some (Inr (md', s')) \<and> fs_mem PROT_RW md' sh' s' \<and>
    fs_meta_at (if k_mremap k n then sh' else - 1) md' sh' ct rsp0 s' \<and>
    (if k_mremap k n then fs_same md sh md' sh' s s' else fs_lost md sh md' sh' s s') \<and>
    fs_fld md' gm_is_randomizing s' = fs_fld md gm_is_randomizing s \<and>
    fs_fld md' gm_ratio_factor s' = DEFAULT_CHANGING_MOVING_RATIO"
proof -
  let ?P = "md + GET_GS_METADATA_FIELD_OFFSET gm_ratio_factor"
  let ?s1 = "put_cell ?P 0 s"
  let ?s2 = "put_cell ?P DEFAULT_CHANGING_MOVING_RATIO ?s1"
  have m2: "fs_mem PROT_RW md sh ?s1" "fs_mem PROT_RW md sh ?s2" using m by simp_all
  have t2: "fs_meta md sh ct rsp0 ?s2" using t by (simp add: fs_meta_put)
  have same: "fs_same md sh md sh s ?s2"
    using fs_same_put [OF m, of gm_ratio_factor 0]
      fs_same_put [OF m2(1), of gm_ratio_factor DEFAULT_CHANGING_MOVING_RATIO] by (blast intro: fs_same_trans)
  have "has_room k (vmem ?s2)" by (rule has_room_mapped [OF room]) (simp add: same_mapped_def)
  from fs_two_allocs [OF k(1,2) this] obtain md' s3 sh' s4 where
    a: "fs_get_memory_at_random k REAL_META_DATA_SIZE ?s2 = Some (md', s3)"
      "fs_get_memory_at_random k FS_REAL_SHADOW_STACK_SIZE s3 = Some (sh', s4)"
    and tb: "two_blocks md' sh' ?s2 s4" by blast
  let ?b = "k_mremap k (tick s4)"
  from fs_switch_ok [OF m2(2) t2 tb k(3) refl] obtain s' where
    sw: "fs_switch k md md' sh' s4 = Inr (md', s')" "fs_mem PROT_RW md' sh' s'"
      "fs_meta_at (if ?b then sh' else - 1) md' sh' ct rsp0 s'"
      "if ?b then fs_same md sh md' sh' ?s2 s' else fs_lost md sh md' sh' ?s2 s'"
      "fs_fld md' gm_is_randomizing s' = fs_fld md gm_is_randomizing ?s2"
      "fs_fld md' gm_ratio_factor s' = fs_fld md gm_ratio_factor ?s2" by blast
  have "fs_move k md ?s2 = Some (Inr (md', s'))" by (simp add: fs_move_def a sw(1))
  then have "fs_maybe_move k md s = Some (Inr (md', s'))"
    using r by (simp add: fs_maybe_move_def fs_get_ok [OF m] fs_set_ok [OF m] fs_set_ok [OF m2(1)]
        DEFAULT_CHANGING_MOVING_RATIO_def)
  moreover have "if ?b then fs_same md sh md' sh' s s' else fs_lost md sh md' sh' s s'"
    using sw(4) fs_same_trans [OF same] fs_same_lost [OF same] by presburger
  moreover have "fs_fld md' gm_is_randomizing s' = fs_fld md gm_is_randomizing s"
    "fs_fld md' gm_ratio_factor s' = DEFAULT_CHANGING_MOVING_RATIO"
    using sw(5,6) by simp_all
  ultimately show ?thesis using sw(2,3) by blast
qed

subsection \<open>The invariant and rerandomization\<close>

lemma fs_fld_tick [simp]: "fs_fld md f (s\<lparr>tick := n\<rparr>) = fs_fld md f s"
  by (simp add: fs_fld_def)

definition fs_ok_at :: "addr \<Rightarrow> prot \<Rightarrow> addr \<Rightarrow> addr \<Rightarrow> addr \<Rightarrow> u64 \<Rightarrow> fs_gs_state \<Rightarrow> bool" where
  "fs_ok_at v w md sh ct rsp0 s \<longleftrightarrow> fs_mem w md sh s \<and> fs_meta_at v md sh ct rsp0 s \<and>
     fs_fld md gm_is_randomizing s = 0 \<and> fs_fld md gm_ratio_factor s = DEFAULT_CHANGING_MOVING_RATIO"

abbreviation fs_ok :: "prot \<Rightarrow> addr \<Rightarrow> addr \<Rightarrow> addr \<Rightarrow> u64 \<Rightarrow> fs_gs_state \<Rightarrow> bool" where
  "fs_ok w md sh \<equiv> fs_ok_at sh w md sh"

text \<open>
  A thread whose move has failed: page and stack are the new ones, but the page says that the shadow
  stack is at \<open>MAP_FAILED\<close>.
\<close>

abbreviation fs_torn :: "prot \<Rightarrow> addr \<Rightarrow> addr \<Rightarrow> addr \<Rightarrow> u64 \<Rightarrow> fs_gs_state \<Rightarrow> bool" where
  "fs_torn w md sh \<equiv> fs_ok_at (- 1) w md sh"

lemma fs_mprotect_ok:
  assumes "fs_mem w md sh s" and "fs_meta_at v md sh ct rsp0 s"
  shows "fs_mem pr md sh (sys_mprotect md REAL_META_DATA_SIZE pr s)"
    and "fs_meta_at v md sh ct rsp0 (sys_mprotect md REAL_META_DATA_SIZE pr s)"
    and "fs_same md sh md sh s (sys_mprotect md REAL_META_DATA_SIZE pr s)"
    and "fs_fld md f (sys_mprotect md REAL_META_DATA_SIZE pr s) = fs_fld md f s"
    and "same_mapped (vmem s) (vmem (sys_mprotect md REAL_META_DATA_SIZE pr s))"
proof -
  have al: "unat md mod 4096 = 0" using assms(1) by (simp add: fs_mem_def)
  then have v: "sys_mprotect md REAL_META_DATA_SIZE pr s = s\<lparr>vmem := vm_protect md REAL_META_DATA_SIZE pr (vmem s)\<rparr>"
    by (simp add: sys_mprotect_def)
  show f: "fs_fld md f (sys_mprotect md REAL_META_DATA_SIZE pr s) = fs_fld md f s" for f
    unfolding v by (simp add: fs_fld_def)
  show "fs_mem pr md sh (sys_mprotect md REAL_META_DATA_SIZE pr s)"
    using assms(1) unfolding v fs_mem_def by auto
  show "fs_meta_at v md sh ct rsp0 (sys_mprotect md REAL_META_DATA_SIZE pr s)"
    using assms(2) unfolding fs_meta_at_def f by (simp add: v)
  show "fs_same md sh md sh s (sys_mprotect md REAL_META_DATA_SIZE pr s)"
    unfolding fs_same_def f by (simp add: v fs_frame_def fs_slots_def)
  show "same_mapped (vmem s) (vmem (sys_mprotect md REAL_META_DATA_SIZE pr s))"
    by (simp add: v same_mapped_def)
qed

lemma fs_rand_exit_ok:
  assumes m: "fs_mem PROT_RW md sh s" and t: "fs_meta_at v md sh ct rsp0 s"
    and r: "fs_fld md gm_ratio_factor s = DEFAULT_CHANGING_MOVING_RATIO"
  shows "\<exists>s'. fs_rand_exit md s = Inr s' \<and> fs_ok_at v PROT_READ md sh ct rsp0 s' \<and> fs_same md sh md sh s s'"
proof -
  let ?s1 = "put_cell (md + GET_GS_METADATA_FIELD_OFFSET gm_is_randomizing) 0 s"
  have m1: "fs_mem PROT_RW md sh ?s1" and t1: "fs_meta_at v md sh ct rsp0 ?s1"
    using m fs_meta_put [OF t] by simp_all
  note mp = fs_mprotect_ok [OF m1 t1, where pr = PROT_READ]
  have "fs_rand_exit md s = Inr (sys_mprotect md REAL_META_DATA_SIZE PROT_READ ?s1)"
    by (simp add: fs_rand_exit_def fs_set_ok [OF m])
  moreover have "fs_ok_at v PROT_READ md sh ct rsp0 (sys_mprotect md REAL_META_DATA_SIZE PROT_READ ?s1)"
    using mp(1,2) r unfolding fs_ok_at_def mp(4) by simp
  moreover have "fs_same md sh md sh s (sys_mprotect md REAL_META_DATA_SIZE PROT_READ ?s1)"
    using fs_same_put [OF m, of gm_is_randomizing 0] mp(3) by (simp add: fs_same_trans)
  ultimately show ?thesis by blast
qed

text \<open>
  From the setting of \<open>is_randomizing\<close> on, with the page writable: too early a call leaves it so.
\<close>

definition fs_early :: "kernel \<Rightarrow> addr \<Rightarrow> 'a os_state_scheme \<Rightarrow> bool" where
  "fs_early k md s \<longleftrightarrow> k_rdtsc k (tick s) - fs_fld md gm_cpu_cycles s < CPU_CYCLES_PER_RANDOMIZATION"

text \<open>
  How a call ends.  A call that came too early leaves slots and \<open>R\<close> alone and the page writable.  A
  call that is due changes \<open>R\<close> and, if the shadow stack could be moved, the slots of \<open>A\<close> with it;
  when \<open>mremap\<close> fails, the page and the stack are new ones, the slots are lost and the page does not
  say where the stack is.  In each case other memory is as it was.
\<close>

definition fs_outcome ::
  "kernel \<Rightarrow> bool \<Rightarrow> (u64 \<Rightarrow> bool) \<Rightarrow> addr \<Rightarrow> u64 \<Rightarrow> addr \<Rightarrow> addr \<Rightarrow> addr \<Rightarrow> addr \<Rightarrow>
   fs_gs_state \<Rightarrow> fs_gs_state \<Rightarrow> bool" where
  "fs_outcome k early A ct rsp0 md sh md' sh' s s' \<longleftrightarrow>
     (if early then fs_ok PROT_RW md' sh' ct rsp0 s' \<and> fs_same md sh md' sh' s s'
      else (\<exists>n. if k_mremap k n
             then fs_ok PROT_READ md' sh' ct rsp0 s' \<and> fs_effect A md sh md' sh' s s'
             else fs_torn PROT_READ md' sh' ct rsp0 s' \<and> fs_frame md sh md' sh' s s' \<and>
               (\<forall>d. d < FS_REAL_SHADOW_STACK_SIZE \<longrightarrow> fs_slots sh' s' d = 0)))"

lemma fs_outcomeI:
  assumes "if k_mremap k n then fs_ok PROT_READ md' sh' ct rsp0 s' \<and> fs_effect A md sh md' sh' s s'
      else fs_torn PROT_READ md' sh' ct rsp0 s' \<and> fs_frame md sh md' sh' s s' \<and>
        (\<forall>d. d < FS_REAL_SHADOW_STACK_SIZE \<longrightarrow> fs_slots sh' s' d = 0)"
  shows "fs_outcome k False A ct rsp0 md sh md' sh' s s'"
  unfolding fs_outcome_def if_False using assms by (rule exI)

lemma fs_outcome_same:
  assumes "fs_same md sh m1 h1 s s1" and "fs_outcome k e A ct rsp0 m1 h1 md' sh' s1 s'"
  shows "fs_outcome k e A ct rsp0 md sh md' sh' s s'"
proof (cases e)
  case True
  with assms fs_same_trans [OF assms(1)] show ?thesis by (simp add: fs_outcome_def)
next
  case False
  with assms(2) obtain n where n: "if k_mremap k n
      then fs_ok PROT_READ md' sh' ct rsp0 s' \<and> fs_effect A m1 h1 md' sh' s1 s'
      else fs_torn PROT_READ md' sh' ct rsp0 s' \<and> fs_frame m1 h1 md' sh' s1 s' \<and>
        (\<forall>d. d < FS_REAL_SHADOW_STACK_SIZE \<longrightarrow> fs_slots sh' s' d = 0)"
    by (auto simp: fs_outcome_def)
  have "fs_frame md sh m1 h1 s s1" using assms(1) by (simp add: fs_same_def)
  then have "if k_mremap k n
      then fs_ok PROT_READ md' sh' ct rsp0 s' \<and> fs_effect A md sh md' sh' s s'
      else fs_torn PROT_READ md' sh' ct rsp0 s' \<and> fs_frame md sh md' sh' s s' \<and>
        (\<forall>d. d < FS_REAL_SHADOW_STACK_SIZE \<longrightarrow> fs_slots sh' s' d = 0)"
    using n fs_same_effect [OF assms(1)] fs_frame_trans by (simp split: if_splits) blast
  from fs_outcomeI [OF this] False show ?thesis by simp
qed

lemma fs_shuffle_ok:
  assumes k: "kernel_ok k" "pages_aligned k" "\<forall>n. k_set_gs k n"
    and ok: "fs_ok PROT_RW md sh ct rsp0 s" and room: "has_room k (vmem s)" and win: "fs_window ct rsp0 rsp"
  shows "\<exists>md' sh' s'. fs_shuffle c k rsp md s = Some (Inr s') \<and>
    fs_outcome k (fs_early k md s) (reblinded c ct rsp) ct rsp0 md sh md' sh' s s' \<and>
    fs_fld md' gm_R s' = fs_fld md gm_R s +
      (if SPA_ENABLE_GS_MSR c \<and> \<not> fs_early k md s then k_rdrand k (tick s + 1) else 0)"
proof -
  let ?B = "md + GET_GS_METADATA_FIELD_OFFSET gm_is_randomizing"
  let ?C = "md + GET_GS_METADATA_FIELD_OFFSET gm_cpu_cycles"
  let ?s1 = "put_cell ?B 1 s"
  let ?s2 = "?s1\<lparr>tick := Suc (tick ?s1)\<rparr>"
  let ?now = "k_rdtsc k (tick ?s1)"
  have m: "fs_mem PROT_RW md sh s" and t: "fs_meta md sh ct rsp0 s"
    and r: "fs_fld md gm_ratio_factor s = DEFAULT_CHANGING_MOVING_RATIO"
    using ok by (simp_all add: fs_ok_at_def)
  have f2: "fs_fld md f ?s2 = fs_fld md f ?s1" for f by (simp add: fs_fld_def)
  have m2: "fs_mem PROT_RW md sh ?s1" "fs_mem PROT_RW md sh ?s2" using m by (simp_all add: fs_mem_def)
  have t2: "fs_meta md sh ct rsp0 ?s2"
    using fs_meta_put [OF t, of gm_is_randomizing 1] unfolding fs_meta_at_def f2 by simp
  have "fs_same md sh md sh ?s1 ?s2" unfolding fs_same_def f2 by (simp add: fs_frame_def fs_slots_def)
  then have same2: "fs_same md sh md sh s ?s2"
    using fs_same_put [OF m, of gm_is_randomizing 1] by (simp add: fs_same_trans)
  have start: "fs_shuffle c k rsp md s =
     (if fs_early k md s
      then Some (fs_set md gm_is_randomizing 0 ?s2)
      else tbind (Some (fs_set md gm_cpu_cycles ?now ?s2)) (\<lambda>s3.
           tbind (fs_reblind c k rsp md s3) (\<lambda>s4.
           tbind (fs_maybe_move k md s4) (\<lambda>(md', s5). Some (fs_rand_exit md' s5)))))"
    by (simp add: fs_shuffle_def fs_set_ok [OF m] fs_get_ok [OF m2(1)] sys_rdtsc_def Let_def fs_early_def)
  show ?thesis
  proof (cases "fs_early k md s")
    case True
    let ?s' = "put_cell ?B 0 ?s2"
    have "fs_shuffle c k rsp md s = Some (Inr ?s')"
      unfolding start by (simp only: True if_True fs_set_ok [OF m2(2)])
    moreover have "fs_ok PROT_RW md sh ct rsp0 ?s'"
      using m2 fs_meta_put [OF t2, of gm_is_randomizing 0] r by (simp add: fs_ok_at_def f2)
    moreover have "fs_same md sh md sh s ?s'"
      using fs_same_trans [OF same2] fs_same_put [OF m2(2), of gm_is_randomizing 0] by simp
    moreover from this have "fs_fld md gm_R ?s' = fs_fld md gm_R s" by (simp add: fs_same_def)
    ultimately show ?thesis using True unfolding fs_outcome_def
      by (intro exI [of _ md] exI [of _ sh] exI [of _ ?s']) simp
  next
    case False
    let ?s3 = "put_cell ?C ?now ?s2"
    have m3: "fs_mem PROT_RW md sh ?s3" using m2 by simp
    have t3: "fs_meta md sh ct rsp0 ?s3" by (rule fs_meta_put [OF t2]) simp
    have same3: "fs_same md sh md sh s ?s3"
      using fs_same_trans [OF same2] fs_same_put [OF m2(2), of gm_cpu_cycles ?now] by simp
    obtain s4 where s4: "fs_reblind c k rsp md ?s3 = Some (Inr s4)" "fs_mem PROT_RW md sh s4"
      "fs_meta md sh ct rsp0 s4" "fs_effect (reblinded c ct rsp) md sh md sh ?s3 s4"
      "prot_of (vmem s4) = prot_of (vmem ?s3)" "fs_fld md gm_ratio_factor s4 = fs_fld md gm_ratio_factor ?s3"
      "fs_fld md gm_R s4 = fs_fld md gm_R ?s3 + (if SPA_ENABLE_GS_MSR c then k_rdrand k (tick ?s3) else 0)"
      using fs_reblind_ok [OF m3 t3 win] by blast
    have "has_room k (vmem s4)"
      by (rule has_room_mapped [OF room]) (simp add: same_mapped_def s4(5))
    moreover have "fs_fld md gm_ratio_factor s4 = DEFAULT_CHANGING_MOVING_RATIO"
      using s4(6) r by (simp add: f2)
    ultimately obtain n md' sh' s5 where s5: "fs_maybe_move k md s4 = Some (Inr (md', s5))"
      "fs_mem PROT_RW md' sh' s5" "fs_meta_at (if k_mremap k n then sh' else - 1) md' sh' ct rsp0 s5"
      "if k_mremap k n then fs_same md sh md' sh' s4 s5 else fs_lost md sh md' sh' s4 s5"
      "fs_fld md' gm_ratio_factor s5 = DEFAULT_CHANGING_MOVING_RATIO"
      using fs_maybe_move_ok [OF k s4(2,3)] by blast
    obtain s' where s': "fs_rand_exit md' s5 = Inr s'"
      "fs_ok_at (if k_mremap k n then sh' else - 1) PROT_READ md' sh' ct rsp0 s'" "fs_same md' sh' md' sh' s5 s'"
      using fs_rand_exit_ok [OF s5(2,3,5)] by blast
    have "fs_shuffle c k rsp md s = Some (Inr s')"
      unfolding start
      by (simp only: False if_False fs_set_ok [OF m2(2)] tbind_simps s4(1) s5(1) prod.case s'(1))
    moreover have after: "if k_mremap k n then fs_same md sh md' sh' s4 s' else fs_lost md sh md' sh' s4 s'"
      using s5(4) fs_same_trans [OF _ s'(3)] fs_lost_same [OF _ s'(3)] by presburger
    have "fs_outcome k False (reblinded c ct rsp) ct rsp0 md sh md' sh' s s'"
    proof (cases "k_mremap k n")
      case True
      with after have "fs_effect (reblinded c ct rsp) md sh md' sh' s s'"
        using fs_same_effect [OF same3 s4(4)] fs_effect_same by simp blast
      with True s'(2) show ?thesis by (intro fs_outcomeI [where n = n]) simp
    next
      case lost: False
      have "fs_frame md sh md sh s s4"
        using fs_same_effect [OF same3 s4(4)] by (simp add: fs_effect_def)
      with after lost have "fs_frame md sh md' sh' s s'"
        "\<forall>d. d < FS_REAL_SHADOW_STACK_SIZE \<longrightarrow> fs_slots sh' s' d = 0"
        using fs_frame_trans by (auto simp: fs_lost_def)
      with lost s'(2) show ?thesis by (intro fs_outcomeI [where n = n]) simp
    qed
    moreover have "fs_fld md' gm_R s' = fs_fld md gm_R s4"
      using after by (simp add: fs_same_def fs_lost_def split: if_splits)
    with s4(7) have "fs_fld md' gm_R s' =
        fs_fld md gm_R s + (if SPA_ENABLE_GS_MSR c \<and> \<not> fs_early k md s then k_rdrand k (tick s + 1) else 0)"
      using False by simp
    ultimately show ?thesis using False by auto
  qed
qed

lemma fs_rerandomize_ok:
  assumes k: "kernel_ok k" "pages_aligned k" "\<forall>n. k_set_gs k n"
    and ok: "fs_ok w md sh ct rsp0 s" and room: "has_room k (vmem s)" and win: "fs_window ct rsp0 rsp"
  shows "\<exists>md' sh' s'. fsgs_runtime_rerandomize c k rsp s = Some (Inr s') \<and>
    fs_outcome k (fs_early k md s) (reblinded c ct rsp) ct rsp0 md sh md' sh' s s' \<and>
    fs_fld md' gm_R s' = fs_fld md gm_R s +
      (if SPA_ENABLE_GS_MSR c \<and> \<not> fs_early k md s then k_rdrand k (tick s + 1) else 0)"
proof -
  let ?s1 = "sys_mprotect md REAL_META_DATA_SIZE PROT_RW s"
  have m: "fs_mem w md sh s" and t: "fs_meta md sh ct rsp0 s" using ok by (simp_all add: fs_ok_at_def)
  note mp = fs_mprotect_ok [OF m t, where pr = PROT_RW]
  have ok1: "fs_ok PROT_RW md sh ct rsp0 ?s1" using ok mp unfolding fs_ok_at_def by simp
  have "GET_GS_VALUE_AT_OFFSET 0 s = fs_get md gm_self_addr s"
    using t by (simp add: GET_GS_VALUE_AT_OFFSET_def fs_get_def fs_meta_at_def GET_GS_METADATA_FIELD_OFFSET.simps)
  then have "fsgs_runtime_rerandomize c k rsp s = fs_shuffle c k rsp md ?s1"
    using ok t by (simp add: fsgs_runtime_rerandomize_def fs_get_ok [OF m] fs_ok_at_def fs_meta_at_def)
  moreover have "has_room k (vmem ?s1)" by (rule has_room_mapped [OF room mp(5)])
  from fs_shuffle_ok [OF k ok1 this win, of c] obtain md' sh' s' where s':
    "fs_shuffle c k rsp md ?s1 = Some (Inr s')"
    "fs_outcome k (fs_early k md ?s1) (reblinded c ct rsp) ct rsp0 md sh md' sh' ?s1 s'"
    "fs_fld md' gm_R s' = fs_fld md gm_R ?s1 +
       (if SPA_ENABLE_GS_MSR c \<and> \<not> fs_early k md ?s1 then k_rdrand k (tick ?s1 + 1) else 0)"
    by (elim exE conjE) (rule that; assumption)
  moreover have "tick ?s1 = tick s" by (simp add: sys_mprotect_def)
  then have "fs_early k md ?s1 = fs_early k md s" "k_rdrand k (tick ?s1 + 1) = k_rdrand k (tick s + 1)"
    by (simp_all add: fs_early_def mp(4))
  moreover note fs_outcome_same [OF mp(3) s'(2)]
  ultimately show ?thesis
    unfolding mp(4) by (intro exI [of _ md'] exI [of _ sh'] exI [of _ s']) simp
qed

subsection \<open>Initialisation\<close>

definition fs_call_top :: "addr \<Rightarrow> u64 \<Rightarrow> addr" where
  "fs_call_top low sz =
     (if low + sz < low + DEF_BUDDY_CALL_STACK_SIZE then low + DEF_BUDDY_CALL_STACK_SIZE else low + sz)"

text \<open>What was mapped before is as it was, and outside the new blocks.\<close>

definition fs_new :: "addr \<Rightarrow> addr \<Rightarrow> 'a os_state_scheme \<Rightarrow> 'a os_state_scheme \<Rightarrow> bool" where
  "fs_new md sh s s' \<longleftrightarrow>
     (\<forall>x. prot_of (vmem s) x \<noteq> None \<longrightarrow> \<not> in_page md x \<and> \<not> in_stack sh x \<and>
        prot_of (vmem s') x = prot_of (vmem s) x \<and> cells (vmem s') x = cells (vmem s) x)"

lemma fs_set_call_stack_info_ok:
  assumes m: "fs_mem PROT_RW md sh s" and ta: "getattr_ok ta" "getstack ta = Some (low, sz)"
    and sh: "fs_fld md gm_shadow_stack s = sh"
  shows "fs_set_call_stack_info ta md s = Inr (put_all md
    [(gm_call_stack_top, fs_call_top low sz), (gm_shadow_stack_top, sh + DEF_BUDDY_CALL_STACK_SIZE),
     (gm_state, FLASH_STACK_INITED)] s)"
  using m sh by (simp add: fs_set_call_stack_info_def ta fs_set_ok [where sh = sh] fs_get_ok [where sh = sh and w = PROT_RW]
      Let_def flip: fs_call_top_def)

lemma two_blocksD:
  assumes "two_blocks md sh s s'" and "prot_of (vmem s) x \<noteq> None"
  shows "\<not> in_page md x" "\<not> in_stack sh x"
    "prot_of (vmem s') x = prot_of (vmem s) x" "cells (vmem s') x = cells (vmem s) x"
  using assms unfolding two_blocks_def by auto

lemma fs_setup_ok:
  assumes tb: "two_blocks md sh s0 s" and k: "k_set_gs k (tick s + 1)"
    and ta: "getattr_ok ta" "getstack ta = Some (low, sz)" and i: "unsw_flash_stack_inited s"
  shows "\<exists>s'. fs_setup k ta rsp md sh s = Inr s' \<and> fs_ok PROT_RW md sh (fs_call_top low sz) rsp s' \<and>
    fs_new md sh s0 s'"
proof -
  let ?init = "map (\<lambda>f. (f, 0)) gs_fields @
     [(gm_self_addr, md), (gm_diff, sh + DEF_BUDDY_CALL_STACK_SIZE - rsp), (gm_shadow_stack, sh),
      (gm_cpu_cycles, 0), (gm_is_randomizing, 0), (gm_ratio_factor, DEFAULT_CHANGING_MOVING_RATIO)]"
  let ?last = "[(gm_call_stack_top, fs_call_top low sz), (gm_shadow_stack_top, sh + DEF_BUDDY_CALL_STACK_SIZE),
     (gm_state, FLASH_STACK_INITED)]"
  let ?s1 = "put_all md ?init s"
  let ?s2 = "?s1\<lparr>tick := Suc (tick ?s1)\<rparr>"
  let ?s3 = "put_cell (md + GET_GS_METADATA_FIELD_OFFSET gm_R) (k_rdrand k (tick ?s1)) ?s2"
  let ?s4 = "?s3\<lparr>tick := Suc (tick ?s3), gs_base := md\<rparr>"
  let ?s' = "put_all md ?last ?s4"
  have m: "fs_mem PROT_RW md sh s" using tb by (simp add: two_blocks_def)
  have m2: "fs_mem PROT_RW md sh ?s2" "fs_mem PROT_RW md sh ?s4" "fs_mem PROT_RW md sh ?s'"
    using m by (simp_all add: fs_mem_def)
  have f1: "fs_fld md f ?s1 =
      (if f = gm_self_addr then md else if f = gm_diff then sh + DEF_BUDDY_CALL_STACK_SIZE - rsp
       else if f = gm_shadow_stack then sh else if f = gm_ratio_factor then DEFAULT_CHANGING_MOVING_RATIO else 0)" for f
    unfolding fs_fld_put_all by (cases f) (simp_all add: gs_fields_def)
  have "fs_fld md f ?s4 = fs_fld md f ?s3" for f by (simp add: fs_fld_def)
  then have f4: "fs_fld md f ?s4 = (if f = gm_R then k_rdrand k (tick ?s1) else fs_fld md f ?s1)" for f
    by simp
  have f': "fs_fld md f ?s' =
      (if f = gm_state then FLASH_STACK_INITED else if f = gm_shadow_stack_top then sh + DEF_BUDDY_CALL_STACK_SIZE
       else if f = gm_call_stack_top then fs_call_top low sz else fs_fld md f ?s4)" for f
    unfolding fs_fld_put_all by (cases f) simp_all
  have "fs_set_all md ?init s = Inr ?s1"
    by (rule fs_set_all_rw) (use m in \<open>simp add: fs_mem_def\<close>)
  moreover have "sys_rdrand k ?s1 = (k_rdrand k (tick ?s1), ?s2)" by (simp add: sys_rdrand_def)
  moreover have "fs_set md gm_R v ?s2 = Inr (put_cell (md + GET_GS_METADATA_FIELD_OFFSET gm_R) v ?s2)" for v
    by (rule fs_set_ok [OF m2(1)])
  moreover have "sys_set_gs k md ?s3 = (True, ?s4)" using k by (simp add: sys_set_gs_def)
  moreover have "fs_set_call_stack_info ta md ?s4 = Inr ?s'"
    by (rule fs_set_call_stack_info_ok [OF m2(2) ta]) (simp only: f4 f1, simp)
  ultimately have "fs_setup k ta rsp md sh s = Inr ?s'"
    unfolding fs_setup_def by (simp only: ebind_simps Let_def prod.case)
  moreover have "gs_base ?s' = md" "unsw_flash_stack_inited ?s'" using i by simp_all
  then have "fs_ok PROT_RW md sh (fs_call_top low sz) rsp ?s'"
    using m2(3) unfolding fs_ok_at_def fs_meta_at_def f' f4 f1 by simp
  moreover have "fs_new md sh s0 ?s'"
    unfolding fs_new_def
  proof (intro allI impI)
    fix x assume x: "prot_of (vmem s0) x \<noteq> None"
    note out = two_blocksD [OF tb x]
    have "x \<noteq> md + GET_GS_METADATA_FIELD_OFFSET f" for f using out(1) fs_field_in_page by blast
    then have "cells (vmem ?s') x = cells (vmem s) x" "prot_of (vmem ?s') x = prot_of (vmem s) x"
      using out(1) by simp_all
    then show "\<not> in_page md x \<and> \<not> in_stack sh x \<and> prot_of (vmem ?s') x = prot_of (vmem s0) x \<and>
        cells (vmem ?s') x = cells (vmem s0) x"
      using out by simp
  qed
  ultimately show ?thesis by blast
qed

lemma fs_init_ok:
  assumes k: "kernel_ok k" "pages_aligned k" "\<forall>n. k_set_gs k n" and room: "has_room k (vmem s)"
    and ta: "getattr_ok ta" "getstack ta = Some (low, sz)" and i: "\<not> unsw_flash_stack_inited s"
  shows "\<exists>md sh s'. fs_init_shadow_stack k ta rsp s = Some (Inr s') \<and>
    fs_ok PROT_RW md sh (fs_call_top low sz) rsp s' \<and> fs_new md sh s s'"
proof -
  let ?s0 = "s\<lparr>unsw_flash_stack_inited := True\<rparr>"
  have "has_room k (vmem ?s0)" using room by simp
  from fs_two_allocs [OF k(1,2) this] obtain md s1 sh s2 where
    a: "fs_get_memory_at_random k REAL_META_DATA_SIZE ?s0 = Some (md, s1)"
      "fs_get_memory_at_random k FS_REAL_SHADOW_STACK_SIZE s1 = Some (sh, s2)"
    and tb: "two_blocks md sh ?s0 s2" by blast
  have "s2 = ?s0\<lparr>tick := tick s2, vmem := vmem s2\<rparr>" using tb unfolding two_blocks_def by blast
  then have "unsw_flash_stack_inited s2" by (metis fs_gs_state.select_convs(1) fs_gs_state.surjective fs_gs_state.update_convs(1) os_state.update_convs(1,3))
  from fs_setup_ok [OF tb _ ta this] k(3) obtain s' where
    "fs_setup k ta rsp md sh s2 = Inr s'" "fs_ok PROT_RW md sh (fs_call_top low sz) rsp s'" "fs_new md sh ?s0 s'"
    by blast
  moreover from this(3) have "fs_new md sh s s'" by (simp add: fs_new_def)
  moreover have "fs_init_shadow_stack k ta rsp s = Some (fs_setup k ta rsp md sh s2)"
    using i a by (simp add: fs_init_shadow_stack_def fs_do_init_shadow_stack_def)
  ultimately show ?thesis by auto
qed

end
