(* ===== verification/Fs_Gs_Props.thy ===== *)
theory Fs_Gs_Props
  imports Fs_Stages Thread_Table Rt_Hooks
begin

section \<open>Fs_Gs_Props: what the runtime of the FS/GS scheme guarantees\<close>

text \<open>
  The properties of \<open>fsgs.c\<close>.  Slot and key of a return address at \<open>a\<close> are computed as the
  instrumented code does it, from the metadata that \<open>%gs\<close> points to.
\<close>

definition fs_slot :: "'a os_state_scheme \<Rightarrow> addr \<Rightarrow> addr" where
  "fs_slot s a = a + fs_fld (gs_base s) gm_diff s"

definition fs_key :: "build_config \<Rightarrow> 'a os_state_scheme \<Rightarrow> u64" where
  "fs_key c s = (if SPA_ENABLE_GS_MSR c then fs_fld (gs_base s) gm_R s else 0)"

definition fs_content :: "build_config \<Rightarrow> 'a os_state_scheme \<Rightarrow> addr \<Rightarrow> u64" where
  "fs_content c s a = cells (vmem s) (fs_slot s a) - fs_key c s"

text \<open>The return addresses between the stack pointer and the stack pointer at initialisation.\<close>

definition fs_live :: "u64 \<Rightarrow> u64 \<Rightarrow> addr \<Rightarrow> bool" where
  "fs_live rsp0 rsp a \<longleftrightarrow> 0 < rsp0 - a \<and> rsp0 - a \<le> rsp0 - rsp \<and> unat (rsp0 - a) mod 8 = 0"

subsection \<open>Slots and keys under an effect\<close>

lemma fs_slot_in_stack: "fs_ok_at v w md sh ct rsp0 s \<Longrightarrow> fs_slot s a = sh + (DEF_BUDDY_CALL_STACK_SIZE - (rsp0 - a))"
  by (simp add: fs_slot_def fs_ok_at_def fs_meta_at_def)

lemma fs_key_R: "fs_ok_at v w md sh ct rsp0 s \<Longrightarrow> fs_key c s = (if SPA_ENABLE_GS_MSR c then fs_fld md gm_R s else 0)"
  by (simp add: fs_key_def fs_ok_at_def fs_meta_at_def)

lemma fs_live_reblinded:
  assumes "fs_window ct rsp0 rsp" and "fs_live rsp0 rsp a"
  shows "DEF_BUDDY_CALL_STACK_SIZE - (rsp0 - a) < FS_REAL_SHADOW_STACK_SIZE"
    and "reblinded c ct rsp (DEF_BUDDY_CALL_STACK_SIZE - (rsp0 - a)) = SPA_ENABLE_GS_MSR c"
proof -
  let ?n = "unat (rsp0 - a)"
  have n: "0 < ?n" "?n \<le> unat (ct - rsp)" "unat (ct - rsp) \<le> 8388608" "?n mod 8 = 0"
    using assms by (simp_all add: fs_window_def fs_live_def DEF_sizes word_le_nat_alt word_less_nat_alt)
  then have d: "unat (DEF_BUDDY_CALL_STACK_SIZE - (rsp0 - a)) = 8388608 - ?n"
    by (simp add: DEF_sizes unat_sub word_le_nat_alt)
  then show "DEF_BUDDY_CALL_STACK_SIZE - (rsp0 - a) < FS_REAL_SHADOW_STACK_SIZE"
    by (simp add: word_less_nat_alt fs_sizes)
  have "unat (fs_lo ct rsp) \<le> 8388608 - unat (ct - rsp)"
    using fs_lo_props(3,4) [OF assms(1)] by simp
  moreover have "(8388608 - ?n) mod 8 = 0" using n by (simp add: mod_eq_0_iff_dvd dvd_diff_nat)
  ultimately show "reblinded c ct rsp (DEF_BUDDY_CALL_STACK_SIZE - (rsp0 - a)) = SPA_ENABLE_GS_MSR c"
    using n d by (auto simp: reblinded_def word_le_nat_alt word_less_nat_alt DEF_sizes)
qed

lemma fs_live_slot:
  assumes "fs_ok w md sh ct rsp0 s" and "fs_window ct rsp0 rsp" and "fs_live rsp0 rsp a"
  shows "cells (vmem s) (fs_slot s a) = fs_slots sh s (DEF_BUDDY_CALL_STACK_SIZE - (rsp0 - a))"
  by (simp add: fs_slot_in_stack [OF assms(1)] fs_slots_def)

lemma fs_effect_content:
  assumes ok: "fs_ok w md sh ct rsp0 s" and ok': "fs_ok w' md' sh' ct rsp0 s'"
    and eff: "fs_effect (reblinded c ct rsp) md sh md' sh' s s'" and win: "fs_window ct rsp0 rsp"
    and live: "fs_live rsp0 rsp a"
  shows "cells (vmem s') (fs_slot s' a) = cells (vmem s) (fs_slot s a) + (fs_key c s' - fs_key c s)"
    and "fs_content c s' a = fs_content c s a"
proof -
  let ?d = "DEF_BUDDY_CALL_STACK_SIZE - (rsp0 - a)"
  have "fs_slots sh' s' ?d = fs_slots sh s ?d +
      (if SPA_ENABLE_GS_MSR c then fs_fld md' gm_R s' - fs_fld md gm_R s else 0)"
    using eff fs_live_reblinded [OF win live] unfolding fs_effect_def by simp
  then show "cells (vmem s') (fs_slot s' a) = cells (vmem s) (fs_slot s a) + (fs_key c s' - fs_key c s)"
    by (simp add: fs_live_slot [OF ok win live] fs_live_slot [OF ok' win live] fs_key_R [OF ok] fs_key_R [OF ok'])
  then show "fs_content c s' a = fs_content c s a" by (simp add: fs_content_def)
qed

text \<open>
  What the calls document: \<open>mmap\<close> returns free, page-aligned memory of user space, and
  \<open>arch_prctl\<close> accepts an address of user space.  Any call of \<open>mmap\<close> or \<open>mremap\<close> may fail.
\<close>

definition fs_kernel :: "kernel \<Rightarrow> bool" where
  "fs_kernel k \<longleftrightarrow> kernel_ok k \<and> pages_aligned k \<and> (\<forall>n. k_set_gs k n)"

text \<open>The change of \<open>R\<close> by a call.\<close>

definition fs_change :: "build_config \<Rightarrow> kernel \<Rightarrow> addr \<Rightarrow> 'a os_state_scheme \<Rightarrow> u64" where
  "fs_change c k md s = (if SPA_ENABLE_GS_MSR c \<and> \<not> fs_early k md s then k_rdrand k (tick s + 1) else 0)"

lemma fs_rerandomize_outcome:
  assumes "fs_kernel k" and "fs_ok w md sh ct rsp0 s" and "has_room k (vmem s)" and "fs_window ct rsp0 rsp"
  shows "\<exists>md' sh' s'. fsgs_runtime_rerandomize c k rsp s = Some (Inr s') \<and>
    fs_outcome k (fs_early k md s) (reblinded c ct rsp) ct rsp0 md sh md' sh' s s' \<and>
    fs_fld md' gm_R s' = fs_fld md gm_R s + fs_change c k md s"
  using fs_rerandomize_ok [OF _ _ _ assms(2-4), of c] assms(1) unfolding fs_kernel_def fs_change_def by blast

text \<open>The two ends of a call: the thread's invariant, or a page that does not say where the stack is.\<close>

lemma fs_outcome_cases:
  assumes out: "fs_outcome k e (reblinded c ct rsp) ct rsp0 md sh md' sh' s s'" and ok: "fs_ok w md sh ct rsp0 s"
    and win: "fs_window ct rsp0 rsp"
  obtains (kept) n where "e \<or> k_mremap k n" "fs_ok (if e then PROT_RW else PROT_READ) md' sh' ct rsp0 s'"
      "fs_frame md sh md' sh' s s'" "fs_effect (reblinded c ct rsp) md sh md' sh' s s'"
      "\<And>a. fs_live rsp0 rsp a \<Longrightarrow> fs_content c s' a = fs_content c s a"
    | (torn) n where "\<not> e" "\<not> k_mremap k n" "fs_torn PROT_READ md' sh' ct rsp0 s'" "fs_frame md sh md' sh' s s'"
      "\<And>d. d < FS_REAL_SHADOW_STACK_SIZE \<Longrightarrow> fs_slots sh' s' d = 0"
proof (cases e)
  case True
  with out have o: "fs_ok PROT_RW md' sh' ct rsp0 s'" "fs_same md sh md' sh' s s'"
    by (simp_all add: fs_outcome_def)
  from fs_same_any [OF o(2)] have eff: "fs_effect (reblinded c ct rsp) md sh md' sh' s s'" .
  show ?thesis
    by (rule kept) (use True o eff fs_effect_content(2) [OF ok o(1) eff win] in \<open>simp_all add: fs_effect_def\<close>)
next
  case False
  then obtain n where n: "if k_mremap k n
      then fs_ok PROT_READ md' sh' ct rsp0 s' \<and> fs_effect (reblinded c ct rsp) md sh md' sh' s s'
      else fs_torn PROT_READ md' sh' ct rsp0 s' \<and> fs_frame md sh md' sh' s s' \<and>
        (\<forall>d. d < FS_REAL_SHADOW_STACK_SIZE \<longrightarrow> fs_slots sh' s' d = 0)"
    using out by (auto simp: fs_outcome_def)
  show ?thesis
  proof (cases "k_mremap k n")
    case True
    with n have o: "fs_ok PROT_READ md' sh' ct rsp0 s'" "fs_effect (reblinded c ct rsp) md sh md' sh' s s'"
      by simp_all
    show ?thesis
      by (rule kept [of n]) (use True False o fs_effect_content(2) [OF ok o win] in \<open>simp_all add: fs_effect_def\<close>)
  next
    case lost: False
    show ?thesis by (rule torn [of n]) (use lost False n in simp_all)
  qed
qed

text \<open>The metadata says where the shadow stack is: no move of the thread has failed.\<close>

definition fs_standing :: "fs_gs_state \<Rightarrow> bool" where
  "fs_standing s \<longleftrightarrow> fs_fld (gs_base s) gm_shadow_stack s \<noteq> - 1"

lemma fs_standing_iff:
  assumes "fs_ok_at v w md sh ct rsp0 s"
  shows "fs_standing s \<longleftrightarrow> v \<noteq> - 1"
  using assms by (simp add: fs_standing_def fs_ok_at_def fs_meta_at_def)

lemma stack_not_failed:
  assumes "fs_ok_at v w md sh ct rsp0 s"
  shows "sh \<noteq> - 1"
proof
  assume "sh = - 1"
  moreover have "unat (- 1 :: addr) = 2 ^ 64 - 1" by (simp add: unsigned_minus_1_eq_mask mask_eq_exp_minus_1)
  ultimately show False using assms by (simp add: fs_ok_at_def fs_mem_def)
qed

text \<open>A call, with the kernel's answers and the stack pointer, and whether its move succeeds.\<close>

definition fs_run :: "build_config \<Rightarrow> kernel \<times> u64 \<Rightarrow> fs_gs_state \<Rightarrow> (fault + fs_gs_state) option" where
  "fs_run c p = fsgs_runtime_rerandomize c (fst p) (snd p)"

definition fs_moved :: "build_config \<Rightarrow> kernel \<times> u64 \<Rightarrow> fs_gs_state \<Rightarrow> bool" where
  "fs_moved c p s \<longleftrightarrow> (\<forall>s'. fs_run c p s = Some (Inr s') \<longrightarrow> fs_standing s')"

definition fs_ready :: "addr \<Rightarrow> u64 \<Rightarrow> kernel \<times> u64 \<Rightarrow> fs_gs_state \<Rightarrow> bool" where
  "fs_ready ct rsp0 p s \<longleftrightarrow> fs_kernel (fst p) \<and> has_room (fst p) (vmem s) \<and> fs_window ct rsp0 (snd p)"

text \<open>A ready call returns, whatever \<open>mremap\<close> answers.\<close>

lemma fs_run_ok:
  assumes ok: "fs_ok w md sh ct rsp0 s" and p: "fs_ready ct rsp0 p s"
  shows "\<exists>v w' md' sh' s'. fs_run c p s = Some (Inr s') \<and> (v = sh' \<or> v = - 1) \<and> fs_ok_at v w' md' sh' ct rsp0 s' \<and>
    fs_frame md sh md' sh' s s' \<and>
    (fs_moved c p s \<longrightarrow> v = sh' \<and> (\<forall>a. fs_live rsp0 (snd p) a \<longrightarrow> fs_content c s' a = fs_content c s a))"
proof -
  have p': "fs_kernel (fst p)" "has_room (fst p) (vmem s)" "fs_window ct rsp0 (snd p)"
    using p by (simp_all add: fs_ready_def)
  from fs_rerandomize_outcome [OF p'(1) ok p'(2,3), of c] obtain md' sh' s' where
    run: "fs_run c p s = Some (Inr s')"
    and out: "fs_outcome (fst p) (fs_early (fst p) md s) (reblinded c ct (snd p)) ct rsp0 md sh md' sh' s s'"
    unfolding fs_run_def by blast
  from out ok p'(3) show ?thesis
  proof (cases rule: fs_outcome_cases)
    case (kept n)
    then show ?thesis using run by blast
  next
    case (torn n)
    from torn(3) have "\<not> fs_moved c p s" by (simp add: fs_moved_def run fs_standing_iff)
    with torn run show ?thesis by blast
  qed
qed

text \<open>The move succeeds when \<open>mremap\<close> does.\<close>

lemma fs_moved_granted:
  assumes ok: "fs_ok w md sh ct rsp0 s" and p: "fs_ready ct rsp0 p s" and granted: "\<forall>n. k_mremap (fst p) n"
  shows "fs_moved c p s"
proof -
  have p': "fs_kernel (fst p)" "has_room (fst p) (vmem s)" "fs_window ct rsp0 (snd p)"
    using p by (simp_all add: fs_ready_def)
  from fs_rerandomize_outcome [OF p'(1) ok p'(2,3), of c] obtain md' sh' s' where
    run: "fs_run c p s = Some (Inr s')"
    and out: "fs_outcome (fst p) (fs_early (fst p) md s) (reblinded c ct (snd p)) ct rsp0 md sh md' sh' s s'"
    unfolding fs_run_def by blast
  from out ok p'(3) obtain w' where "fs_ok w' md' sh' ct rsp0 s'"
    by (cases rule: fs_outcome_cases) (use granted in auto)
  with stack_not_failed [OF this] show ?thesis by (simp add: fs_moved_def run fs_standing_iff)
qed

text \<open>The contract of \<open>Rerandomizer\<close>, for calls in which the move succeeds.\<close>

definition fs_good :: "addr \<Rightarrow> u64 \<Rightarrow> fs_gs_state \<Rightarrow> bool" where
  "fs_good ct rsp0 s \<longleftrightarrow> (\<exists>w md sh. fs_ok w md sh ct rsp0 s)"

definition fs_ready_moved :: "build_config \<Rightarrow> addr \<Rightarrow> u64 \<Rightarrow> kernel \<times> u64 \<Rightarrow> fs_gs_state \<Rightarrow> bool" where
  "fs_ready_moved c ct rsp0 p s \<longleftrightarrow> fs_ready ct rsp0 p s \<and> fs_moved c p s"

interpretation fs_rerand: rerandomizer
  "fs_run c" "fs_good ct rsp0" "fs_ready_moved c ct rsp0" "\<lambda>p. fs_live rsp0 (snd p)" "fs_content c"
  for c ct rsp0
proof unfold_locales
  fix s p
  assume "fs_good ct rsp0 s" and p: "fs_ready_moved c ct rsp0 p s"
  then obtain w md sh where "fs_ok w md sh ct rsp0 s" by (auto simp: fs_good_def)
  from fs_run_ok [OF this, of p c] p
  show "\<exists>s'. fs_run c p s = Some (Inr s') \<and> fs_good ct rsp0 s' \<and>
      (\<forall>a. fs_live rsp0 (snd p) a \<longrightarrow> fs_content c s' a = fs_content c s a)"
    unfolding fs_ready_moved_def fs_good_def by blast
qed

subsection \<open>Properties\<close>

text \<open>
  C4: rerandomization of the FS/GS scheme is safe where the shadow stack can be moved.  For a thread
  that satisfies the invariant, whatever random numbers, clock values and free addresses the call
  meets, \<open>fsgs_runtime_rerandomize\<close> returns.  A call that is due, in a build with
  \<open>SPA_ENABLE_GS_MSR\<close>, adds the random number it drew to \<open>R\<close>.  If its \<open>mremap\<close> succeeds, or the call
  came too early, the invariant holds again (the metadata page and the shadow stack may be elsewhere)
  and, for every return address between the stack pointer and the frame that initialised the thread,
  the slot has changed by exactly what \<open>R\<close> has, so that slot minus key is what it was.  If \<open>mremap\<close>
  fails, the page says that the shadow stack is at \<open>MAP_FAILED\<close>, and the slots of these return
  addresses are zero.  In each case no other mapped memory has changed.
\<close>

theorem fsgs_rerandomization_keeps_return_addresses:
  assumes "fs_kernel k" and "fs_ok w md sh ct rsp0 s" and "has_room k (vmem s)" and "fs_window ct rsp0 rsp"
  shows "\<exists>n w' md' sh' s'. fsgs_runtime_rerandomize c k rsp s = Some (Inr s') \<and>
    fs_fld md' gm_R s' = fs_fld md gm_R s + fs_change c k md s \<and>
    (if fs_early k md s \<or> k_mremap k n
     then fs_ok w' md' sh' ct rsp0 s' \<and>
       (\<forall>a. fs_live rsp0 rsp a \<longrightarrow>
          cells (vmem s') (fs_slot s' a) = cells (vmem s) (fs_slot s a) + fs_change c k md s \<and>
          fs_content c s' a = fs_content c s a)
     else fs_torn w' md' sh' ct rsp0 s' \<and>
       (\<forall>a. fs_live rsp0 rsp a \<longrightarrow> cells (vmem s') (fs_slot s' a) = 0)) \<and>
    (\<forall>x. prot_of (vmem s) x \<noteq> None \<and> \<not> in_page md x \<and> \<not> in_stack sh x \<longrightarrow>
       prot_of (vmem s') x = prot_of (vmem s) x \<and> cells (vmem s') x = cells (vmem s) x)"
proof -
  from fs_rerandomize_outcome [OF assms, of c] obtain md' sh' s' where
    run: "fsgs_runtime_rerandomize c k rsp s = Some (Inr s')"
    and out: "fs_outcome k (fs_early k md s) (reblinded c ct rsp) ct rsp0 md sh md' sh' s s'"
    and R: "fs_fld md' gm_R s' = fs_fld md gm_R s + fs_change c k md s" by blast
  from out assms(2,4) show ?thesis
  proof (cases rule: fs_outcome_cases)
    case (kept n)
    have "fs_key c s' - fs_key c s = fs_change c k md s"
      by (simp add: fs_key_R [OF assms(2)] fs_key_R [OF kept(2)] R) (simp add: fs_change_def)
    then have "cells (vmem s') (fs_slot s' a) = cells (vmem s) (fs_slot s a) + fs_change c k md s"
      if "fs_live rsp0 rsp a" for a
      using fs_effect_content(1) [OF assms(2) kept(2,4) assms(4) that] by simp
    with run R kept show ?thesis
      by (intro exI [of _ n] exI [of _ "if fs_early k md s then PROT_RW else PROT_READ"] exI [of _ md'] exI [of _ sh']
          exI [of _ s']) (simp add: fs_frame_def)
  next
    case (torn n)
    have "cells (vmem s') (fs_slot s' a) = 0" if "fs_live rsp0 rsp a" for a
      using torn(5) [OF fs_live_reblinded(1) [OF assms(4) that]]
      by (simp add: fs_slot_in_stack [OF torn(3)] fs_slots_def)
    with run R torn show ?thesis
      by (intro exI [of _ n] exI [of _ PROT_READ] exI [of _ md'] exI [of _ sh'] exI [of _ s']) (simp add: fs_frame_def)
  qed
qed

text \<open>A kernel that grants a free hint, or else one of three addresses, and a thread.\<close>

definition free_at :: "vm \<Rightarrow> u64 \<Rightarrow> addr \<Rightarrow> bool" where
  "free_at m len p \<longleftrightarrow> unat p mod 4096 = 0 \<and> unat p + unat len \<le> 2 ^ 47 \<and>
     (\<forall>x. in_region p len x \<longrightarrow> prot_of m x = None)"

definition grant_or_find :: "nat \<Rightarrow> vm \<Rightarrow> addr \<Rightarrow> u64 \<Rightarrow> addr option" where
  "grant_or_find n m hint len =
     List.find (free_at m len) ((if hint = 0 then [] else [hint]) @ [0x100000000000, 0x200000000000])"

definition demo_fs_kernel :: kernel where
  "demo_fs_kernel =
     \<lparr>k_rdrand = (\<lambda>_. 0x300000000123), k_rdtsc = (\<lambda>n. (of_nat n + 1) * 0x10000000), k_mmap = grant_or_find,
      k_mremap = (\<lambda>_. True), k_set_gs = (\<lambda>_. True), k_get_gs = (\<lambda>_. True)\<rparr>"

definition demo_page :: addr where "demo_page = 0x500000000000"
definition demo_stack :: addr where "demo_stack = 0x600000000000"
definition demo_fs_rsp :: u64 where "demo_fs_rsp = 0x7ffff7000000"
definition demo_fs_top :: addr where "demo_fs_top = 0x7ffff7000100"

definition demo_fs_cell :: "addr \<Rightarrow> u64" where
  "demo_fs_cell x =
     (if x = demo_page then demo_page
      else if x = demo_page + 8 then demo_stack + DEF_BUDDY_CALL_STACK_SIZE - demo_fs_rsp
      else if x = demo_page + 32 then demo_stack
      else if x = demo_page + 48 then FLASH_STACK_INITED
      else if x = demo_page + 56 then demo_stack + DEF_BUDDY_CALL_STACK_SIZE
      else if x = demo_page + 64 then demo_fs_top
      else if x = demo_page + 72 then DEFAULT_CHANGING_MOVING_RATIO
      else 0)"

definition demo_fs_thread :: fs_gs_state where
  "demo_fs_thread =
     \<lparr>vmem = \<lparr>cells = demo_fs_cell,
        prot_of = (\<lambda>x. if in_page demo_page x then Some PROT_READ else if in_stack demo_stack x then Some PROT_RW
                       else None)\<rparr>,
      gs_base = demo_page, tick = 0, unsw_flash_stack_inited = True, relaxing_sandbox = 0,
      fs_cleanup_key_value = 0, fs_thread_info = [], total_crash_cnt = 0,
      fs_pthread_create_known = False, fs_pthread_exit_known = False\<rparr>"

lemma find_SomeD: "List.find P xs = Some x \<Longrightarrow> P x"
  by (induction xs) (auto split: if_splits)

lemma demo_fs_kernel_ok: "fs_kernel demo_fs_kernel"
proof -
  have "free_at m len p" if "k_mmap demo_fs_kernel n m hint len = Some p" for n m hint len p
    using that by (auto simp: demo_fs_kernel_def grant_or_find_def dest: find_SomeD split: if_splits)
  then have "kernel_ok demo_fs_kernel" "pages_aligned demo_fs_kernel"
    unfolding kernel_ok_def pages_aligned_def free_at_def by blast+
  then show ?thesis by (simp add: fs_kernel_def demo_fs_kernel_def)
qed

text \<open>A page cannot overlap two blocks that are far apart.\<close>

lemma page_hits_one:
  assumes "in_page p x" and "in_stack b x" and "in_page p y" and "in_stack (b + 0x100000000000) y"
  shows False
proof -
  have s: "unat (y - p) < 4096" "unat (x - b) < 9437184" "unat (x - p) < 4096"
    "unat (y - (b + 0x100000000000)) < 9437184"
    using assms by (simp_all add: in_region_def word_less_nat_alt fs_sizes)
  have far: "u1 + u2 \<noteq> u3 + u4 + 0x100000000000"
    if "unat u1 < 4096" "unat u2 < 9437184" "unat u3 < 4096" "unat u4 < 9437184" for u1 u2 u3 u4 :: addr
  proof
    assume eq: "u1 + u2 = u3 + u4 + 0x100000000000"
    have "unat (u1 + u2) < 9441280" using that by (simp add: unat_word_ariths)
    moreover have "unat (u3 + u4 + 0x100000000000) = unat u3 + unat u4 + 0x100000000000"
      using that by (simp add: unat_word_ariths)
    ultimately show False using eq by simp
  qed
  have "(y - p) + (x - b) = (x - p) + (y - (b + 0x100000000000)) + 0x100000000000" by simp
  with far [OF s] show False by blast
qed

lemma demo_has_room:
  assumes "\<And>x. in_stack 0x100000000000 x \<or> in_stack 0x200000000000 x \<Longrightarrow> prot_of m x = None"
  shows "has_room demo_fs_kernel m"
proof -
  have page: "in_page b x \<Longrightarrow> in_stack b x" for b x
    by (simp add: in_region_def fs_sizes word_less_nat_alt)
  have "k_mmap demo_fs_kernel t m' 0 REAL_META_DATA_SIZE \<noteq> None" if "same_mapped m m'" for t m'
    using assms page [of "0x100000000000"] that
    by (simp add: demo_fs_kernel_def grant_or_find_def free_at_def fs_sizes same_mapped_def)
  moreover have "k_mmap demo_fs_kernel t m2 0 FS_REAL_SHADOW_STACK_SIZE \<noteq> None"
    if f: "fresh_block p REAL_META_DATA_SIZE m m1" and sm: "same_mapped m1 m2" for t p m1 m2
  proof -
    have free: "prot_of m2 x = None \<longleftrightarrow> \<not> in_page p x \<and> prot_of m x = None" for x
      using f sm by (auto simp: fresh_block_def same_mapped_def)
    have "free_at m2 FS_REAL_SHADOW_STACK_SIZE 0x100000000000 \<or> free_at m2 FS_REAL_SHADOW_STACK_SIZE 0x200000000000"
      using page_hits_one [of p _ "0x100000000000"] assms
      by (auto simp: free_at_def fs_sizes free)
    then show ?thesis by (auto simp: demo_fs_kernel_def grant_or_find_def)
  qed
  ultimately show ?thesis unfolding has_room_def finds_room_def by blast
qed

lemma blocks_apart:
  "in_stack 0x100000000000 x \<Longrightarrow> \<not> in_stack 0x500000000000 x \<and> \<not> in_stack 0x600000000000 x"
  "in_stack 0x200000000000 x \<Longrightarrow> \<not> in_stack 0x500000000000 x \<and> \<not> in_stack 0x600000000000 x"
  "in_stack 0x500000000000 x \<Longrightarrow> \<not> in_stack 0x600000000000 x"
  unfolding in_region_def fs_sizes word_less_nat_alt by (auto simp: unat_sub_if')

lemma page_in_stack: "in_page b x \<Longrightarrow> in_stack b x"
  by (simp add: in_region_def fs_sizes word_less_nat_alt)

lemma demo_fs_ok: "fs_ok PROT_READ demo_page demo_stack demo_fs_top demo_fs_rsp demo_fs_thread"
proof -
  have "fs_mem PROT_READ demo_page demo_stack demo_fs_thread"
    using blocks_apart(3) page_in_stack
    by (auto simp: fs_mem_def demo_fs_thread_def demo_page_def demo_stack_def)
  then show ?thesis
    by (simp add: fs_ok_at_def fs_meta_at_def fs_fld_def demo_fs_thread_def demo_fs_cell_def demo_page_def
        GET_GS_METADATA_FIELD_OFFSET.simps)
qed

lemma demo_fs_room: "has_room demo_fs_kernel (vmem demo_fs_thread)"
  by (rule demo_has_room)
    (use blocks_apart page_in_stack [of "0x500000000000"] in \<open>auto simp: demo_fs_thread_def demo_page_def demo_stack_def\<close>)

lemma demo_fs_window: "fs_window demo_fs_top demo_fs_rsp (demo_fs_rsp - 64)"
  by (simp add: fs_window_def demo_fs_top_def demo_fs_rsp_def DEF_sizes)

definition demo_msr_config :: build_config where
  "demo_msr_config = default_config\<lparr>SPA_ENABLE_GS_MSR := True\<rparr>"

lemma demo_fs_due: "\<not> fs_early demo_fs_kernel demo_page demo_fs_thread"
  by (simp add: fs_early_def fs_fld_def demo_fs_thread_def demo_fs_cell_def demo_page_def demo_fs_kernel_def
      GET_GS_METADATA_FIELD_OFFSET.simps CPU_CYCLES_PER_RANDOMIZATION_val)

lemma demo_fs_change: "fs_change demo_msr_config demo_fs_kernel demo_page demo_fs_thread = 0x300000000123"
  using demo_fs_due by (simp add: fs_change_def demo_msr_config_def) (simp add: demo_fs_kernel_def)

lemma demo_fs_live: "fs_live demo_fs_rsp (demo_fs_rsp - 64) (demo_fs_rsp - 8)"
  by (simp add: fs_live_def)

theorem fsgs_rerandomization_keeps_return_addresses_witness:
  "\<exists>s'. fsgs_runtime_rerandomize demo_msr_config demo_fs_kernel (demo_fs_rsp - 64) demo_fs_thread = Some (Inr s') \<and>
    cells (vmem s') (fs_slot s' (demo_fs_rsp - 8)) =
      cells (vmem demo_fs_thread) (fs_slot demo_fs_thread (demo_fs_rsp - 8)) + 0x300000000123 \<and>
    fs_content demo_msr_config s' (demo_fs_rsp - 8) = fs_content demo_msr_config demo_fs_thread (demo_fs_rsp - 8)"
proof -
  have "k_mremap demo_fs_kernel n" for n by (simp add: demo_fs_kernel_def)
  then show ?thesis
    using fsgs_rerandomization_keeps_return_addresses
      [OF demo_fs_kernel_ok demo_fs_ok demo_fs_room demo_fs_window, of demo_msr_config] demo_fs_live demo_fs_change
    by auto
qed



text \<open>
  C31: where the call is too early, it leaves the metadata page writable.  The page is made writable
  before the clock is looked at, and only a call that goes on to rerandomize makes it read-only
  again; after an early call the differences and the random value can be overwritten.
\<close>

theorem early_call_leaves_metadata_writable:
  assumes "fs_kernel k" and "fs_ok w md sh ct rsp0 s" and "has_room k (vmem s)" and "fs_window ct rsp0 rsp"
  shows "\<exists>s'. fsgs_runtime_rerandomize c k rsp s = Some (Inr s') \<and>
    (\<forall>x. in_page (gs_base s') x \<longrightarrow>
       prot_of (vmem s') x = Some (if fs_early k md s then PROT_RW else PROT_READ))"
proof -
  from fs_rerandomize_outcome [OF assms, of c] obtain md' sh' s' where
    run: "fsgs_runtime_rerandomize c k rsp s = Some (Inr s')"
    and out: "fs_outcome k (fs_early k md s) (reblinded c ct rsp) ct rsp0 md sh md' sh' s s'" by blast
  from out assms(2,4) obtain v where "fs_ok_at v (if fs_early k md s then PROT_RW else PROT_READ) md' sh' ct rsp0 s'"
    by (cases rule: fs_outcome_cases) auto
  then have "gs_base s' = md'" "\<forall>x. in_page md' x \<longrightarrow>
      prot_of (vmem s') x = Some (if fs_early k md s then PROT_RW else PROT_READ)"
    unfolding fs_ok_at_def fs_meta_at_def fs_mem_def by blast+
  with run show ?thesis by blast
qed

theorem early_call_leaves_metadata_writable_witness:
  "\<exists>s'. fsgs_runtime_rerandomize default_config (demo_fs_kernel\<lparr>k_rdtsc := \<lambda>_. 1000\<rparr>)
      (demo_fs_rsp - 64) demo_fs_thread = Some (Inr s') \<and>
    prot_of (vmem demo_fs_thread) (gs_base demo_fs_thread + 8) = Some PROT_READ \<and>
    prot_of (vmem s') (gs_base s' + 8) = Some PROT_RW"
proof -
  let ?k = "demo_fs_kernel\<lparr>k_rdtsc := \<lambda>_. 1000\<rparr>"
  have k: "fs_kernel ?k" using demo_fs_kernel_ok by (simp add: fs_kernel_def kernel_ok_def pages_aligned_def)
  have room: "has_room ?k (vmem demo_fs_thread)"
    using demo_fs_room by (simp add: has_room_def finds_room_def)
  have "fs_early ?k demo_page demo_fs_thread"
    by (simp add: fs_early_def fs_fld_def demo_fs_thread_def demo_fs_cell_def demo_page_def
        GET_GS_METADATA_FIELD_OFFSET.simps CPU_CYCLES_PER_RANDOMIZATION_val)
  moreover have "in_page b (b + 8)" for b by (simp add: in_region_def fs_sizes)
  moreover from this have "prot_of (vmem demo_fs_thread) (gs_base demo_fs_thread + 8) = Some PROT_READ"
    by (simp add: demo_fs_thread_def)
  ultimately show ?thesis
    using early_call_leaves_metadata_writable [OF k demo_fs_ok room demo_fs_window, where c = default_config]
    by fastforce
qed

text \<open>
  C30: the frames above the one that initialised the thread lose their blinding.  Their slots lie in
  the megabyte above the top of the shadow stack; the key changes for every frame, the slots are
  changed only below the top.  A rerandomization whose move succeeds therefore takes the change of the key away from
  what their exit sequences return to.
\<close>

theorem outer_frames_are_not_reblinded:
  assumes "fs_kernel k" and "fs_ok w md sh ct rsp0 s" and "has_room k (vmem s)" and "fs_window ct rsp0 rsp"
    and "SPA_ENABLE_GS_MSR c" and "\<not> fs_early k md s" and "a - rsp0 < push_bit 20 1" and "\<forall>n. k_mremap k n"
  shows "\<exists>s'. fsgs_runtime_rerandomize c k rsp s = Some (Inr s') \<and>
    fs_content c s' a = fs_content c s a - k_rdrand k (tick s + 1)"
proof -
  let ?d = "DEF_BUDDY_CALL_STACK_SIZE + (a - rsp0)"
  from fs_rerandomize_outcome [OF assms(1-4), of c] obtain md' sh' s' where
    run: "fsgs_runtime_rerandomize c k rsp s = Some (Inr s')"
    and out: "fs_outcome k (fs_early k md s) (reblinded c ct rsp) ct rsp0 md sh md' sh' s s'"
    and R: "fs_fld md' gm_R s' = fs_fld md gm_R s + fs_change c k md s" by blast
  from out assms(2,4) have s': "fs_ok PROT_READ md' sh' ct rsp0 s'" "fs_effect (reblinded c ct rsp) md sh md' sh' s s'"
    by (cases rule: fs_outcome_cases; use assms(6,8) in simp)+
  have "unat (a - rsp0) < 1048576" using assms(7) by (simp add: push_bit_eq_mult word_less_nat_alt)
  then have d: "unat ?d = 8388608 + unat (a - rsp0)"
    by (simp add: DEF_sizes unat_word_ariths)
  then have "?d < FS_REAL_SHADOW_STACK_SIZE" "\<not> reblinded c ct rsp ?d"
    using \<open>unat (a - rsp0) < 1048576\<close> by (simp_all add: reblinded_def fs_sizes word_less_nat_alt DEF_sizes(1))
  then have "fs_slots sh' s' ?d = fs_slots sh s ?d" using s'(2) by (simp add: fs_effect_def)
  moreover have "sh + (DEF_BUDDY_CALL_STACK_SIZE - (rsp0 - a)) = sh + ?d" for sh by simp
  ultimately have "cells (vmem s') (fs_slot s' a) = cells (vmem s) (fs_slot s a)"
    unfolding fs_slot_in_stack [OF assms(2)] fs_slot_in_stack [OF s'(1)] fs_slots_def by metis
  then show ?thesis
    using run R assms(5,6)
    by (auto simp: fs_content_def fs_key_R [OF assms(2)] fs_key_R [OF s'(1)] fs_change_def)
qed

theorem outer_frames_are_not_reblinded_witness:
  "\<exists>s'. fsgs_runtime_rerandomize demo_msr_config demo_fs_kernel (demo_fs_rsp - 64) demo_fs_thread = Some (Inr s') \<and>
    fs_content demo_msr_config s' (demo_fs_rsp + 64) =
      fs_content demo_msr_config demo_fs_thread (demo_fs_rsp + 64) - 0x300000000123"
proof -
  have msr: "SPA_ENABLE_GS_MSR demo_msr_config" by (simp add: demo_msr_config_def)
  have k: "k_rdrand demo_fs_kernel n = 0x300000000123" "\<forall>n. k_mremap demo_fs_kernel n" for n
    by (simp_all add: demo_fs_kernel_def)
  have "demo_fs_rsp + 64 - demo_fs_rsp < push_bit 20 1" by (simp add: push_bit_eq_mult)
  from outer_frames_are_not_reblinded [OF demo_fs_kernel_ok demo_fs_ok demo_fs_room demo_fs_window msr demo_fs_due
      this k(2)] show ?thesis unfolding k(1) .
qed

text \<open>
  C11: initialisation of a thread ends and establishes the invariant.  Where the kernel finds room
  for a request without a hint, both allocation loops end after at most seven attempts; the thread
  then has its metadata page and its shadow stack, and what was mapped before is unchanged and
  outside both.
\<close>

theorem fsgs_initialisation_establishes_the_invariant:
  assumes "fs_kernel k" and "has_room k (vmem s)" and "getattr_ok ta" and "getstack ta = Some (low, sz)"
    and "\<not> unsw_flash_stack_inited s"
  shows "\<exists>md sh s'. fs_init_main_shadow_stack k ta rsp s = Some (Inr s') \<and>
    fs_ok PROT_RW md sh (fs_call_top low sz) rsp s' \<and>
    (\<forall>x. prot_of (vmem s) x \<noteq> None \<longrightarrow> \<not> in_page md x \<and> \<not> in_stack sh x \<and>
       prot_of (vmem s') x = prot_of (vmem s) x \<and> cells (vmem s') x = cells (vmem s) x)"
  using fs_init_ok [OF _ _ _ assms(2-5), of rsp] assms(1)
  unfolding fs_kernel_def fs_new_def fs_init_main_shadow_stack_def by blast

theorem fsgs_initialisation_establishes_the_invariant_witness:
  "\<exists>md sh s'. fs_init_main_shadow_stack demo_fs_kernel
      \<lparr>getattr_ok = True, getstack = Some (0x7ffff6000000, 0x1000100)\<rparr> demo_fs_rsp
      (demo_fs_thread\<lparr>unsw_flash_stack_inited := False\<rparr>) = Some (Inr s') \<and>
    fs_ok PROT_RW md sh demo_fs_top demo_fs_rsp s'"
proof -
  have "fs_call_top 0x7ffff6000000 0x1000100 = demo_fs_top"
    by (simp add: fs_call_top_def demo_fs_top_def DEF_sizes)
  moreover have "has_room demo_fs_kernel (vmem (demo_fs_thread\<lparr>unsw_flash_stack_inited := False\<rparr>))"
    using demo_fs_room by simp
  ultimately show ?thesis
    using fsgs_initialisation_establishes_the_invariant
      [OF demo_fs_kernel_ok, of "demo_fs_thread\<lparr>unsw_flash_stack_inited := False\<rparr>"
        "\<lparr>getattr_ok = True, getstack = Some (0x7ffff6000000, 0x1000100)\<rparr>" "0x7ffff6000000" "0x1000100" demo_fs_rsp]
    by fastforce
qed

subsection \<open>Exited threads\<close>

interpretation fs_table: region_table fs_add_memory_region fr_valid "fr_valid_update (\<lambda>_. True)"
  by unfold_locales simp_all

text \<open>
  The last round of a thread's destructors hands over both the page and the stack that the thread
  has at that time, if the table has a free entry.
\<close>

lemma fs_release_hands_over:
  assumes ok: "fs_ok w md sh ct rsp0 s" and free: "\<not> list_all fr_valid (fs_thread_info s)"
  shows "\<exists>s'. fs_thread_cleanup_handler k tid PTHREAD_DESTRUCTOR_ITERATIONS s = Inr s' \<and> vmem s' = vmem s \<and>
    fs_table.held (fs_thread_info s') = add_mset
      \<lparr>fr_valid = True, fr_metadata = md, fr_metadata_size = REAL_META_DATA_SIZE, fr_shadow_stack = sh,
       fr_shadow_stack_size = FS_REAL_SHADOW_STACK_SIZE, fr_expired_time = k_rdtsc k (tick s), fr_tid = tid\<rparr>
      (fs_table.held (fs_thread_info s))"
proof -
  have "GET_GS_VALUE_AT_OFFSET 0 s = Inr md" "fs_get md gm_shadow_stack s = Inr sh"
    using ok fs_get_ok [of w md sh s gm_self_addr] fs_get_ok [of w md sh s gm_shadow_stack]
    by (simp_all add: fs_ok_at_def fs_meta_at_def GET_GS_VALUE_AT_OFFSET_def fs_get_def GET_GS_METADATA_FIELD_OFFSET.simps)
  then show ?thesis
    by (simp add: fs_thread_cleanup_handler_def fs_release_shadow_stack_def sys_rdtsc_def Let_def
        fs_table.held_add [OF free])
qed

text \<open>The entries of which a pass of the cleaner unmaps stack and page.\<close>

definition fs_expired :: "u64 \<Rightarrow> fs_region \<Rightarrow> bool" where
  "fs_expired now t = (fr_valid t \<and> FS_CPU_CYCLES_AFTER_THREAD_EXITING < now - fr_expired_time t)"

lemma fs_release_pass:
  assumes "\<forall>n. k_rdtsc k n = now"
  shows "fst (fs_release_memory_regions k ts s) =
       map (\<lambda>t. if fs_expired now t then t\<lparr>fr_valid := False\<rparr> else t) ts \<and>
     prot_of (vmem (snd (fs_release_memory_regions k ts s))) x =
       (if \<exists>t \<in> set ts. fs_expired now t \<and>
             (in_region (fr_shadow_stack t) (fr_shadow_stack_size t) x \<or>
              in_region (fr_metadata t) (fr_metadata_size t) x) then None
        else prot_of (vmem s) x)"
proof (induction ts arbitrary: s)
  case (Cons t ts)
  let ?s1 = "s\<lparr>tick := Suc (tick s)\<rparr>"
  have rd: "sys_rdtsc k s = (now, ?s1)" using assms by (simp add: sys_rdtsc_def)
  consider (free) "\<not> fr_valid t" | (old) "fs_expired now t" | (young) "fr_valid t" "\<not> fs_expired now t"
    by blast
  then show ?case
  proof cases
    case free
    with Cons.IH [of s] show ?thesis by (auto simp: fs_expired_def case_prod_beta Let_def)
  next
    case old
    then show ?thesis
      using Cons.IH [of "sys_munmap (fr_metadata t) (fr_metadata_size t)
          (sys_munmap (fr_shadow_stack t) (fr_shadow_stack_size t) ?s1)"]
      by (auto simp: fs_expired_def case_prod_beta Let_def rd sys_munmap_def)
  next
    case young
    with Cons.IH [of ?s1] show ?thesis by (auto simp: fs_expired_def case_prod_beta Let_def rd)
  qed
qed simp

end
