(* ===== verification/Fs_Threads.thy ===== *)
theory Fs_Threads
  imports Fs_Gs_Props Threads
begin

section \<open>Fs_Threads: many threads on the runtime of the FS/GS scheme\<close>

text \<open>
  The runtime of \<open>fsgs.c\<close> as a value of \<open>runtime\<close>, and that it keeps the promises of
  \<open>threaded_runtime\<close>.  A thread's blocks are its metadata page and its shadow stack; it is described
  by the top of its call stack, its stack pointer at initialisation and the value of its cleanup key.
\<close>

subsection \<open>The variables of a thread\<close>

record fs_local =
  fl_gs_base :: u64
  fl_inited :: bool
  fl_relaxing :: u32
  fl_key :: nat

definition fs_view :: "fs_local \<Rightarrow> fs_gs_state \<Rightarrow> fs_gs_state" where
  "fs_view l s = s\<lparr>gs_base := fl_gs_base l, unsw_flash_stack_inited := fl_inited l,
     relaxing_sandbox := fl_relaxing l, fs_cleanup_key_value := fl_key l\<rparr>"

definition fs_local_of :: "fs_gs_state \<Rightarrow> fs_local" where
  "fs_local_of s = \<lparr>fl_gs_base = gs_base s, fl_inited = unsw_flash_stack_inited s,
     fl_relaxing = relaxing_sandbox s, fl_key = fs_cleanup_key_value s\<rparr>"

definition fs_fresh :: fs_local where
  "fs_fresh = \<lparr>fl_gs_base = 0, fl_inited = False, fl_relaxing = 0, fl_key = 0\<rparr>"

lemma fs_view_simps [simp]:
  "vmem (fs_view l s) = vmem s" "fs_thread_info (fs_view l s) = fs_thread_info s"
  "fs_local_of (fs_view l s) = l" "fs_view l (fs_view l' s) = fs_view l s" "fs_view (fs_local_of s) s = s"
  by (simp_all add: fs_view_def fs_local_of_def)

lemma fs_local_eqD:
  assumes "fs_local_of s' = fs_local_of s"
  shows "gs_base s' = gs_base s" "unsw_flash_stack_inited s' = unsw_flash_stack_inited s"
    "fs_cleanup_key_value s' = fs_cleanup_key_value s"
  using assms by (simp_all add: fs_local_of_def)

subsection \<open>What the calls leave alone\<close>

text \<open>A call changes memory, GS base and the count of system calls, and none of the variables of \<open>fsgs.c\<close>.\<close>

definition only_os :: "'a os_state_scheme \<Rightarrow> 'a os_state_scheme \<Rightarrow> bool" where
  "only_os s s' \<longleftrightarrow> os_state.more s' = os_state.more s"

lemma only_os_refl [simp]: "only_os s s"
  and only_os_trans: "only_os s t \<Longrightarrow> only_os t u \<Longrightarrow> only_os s u"
  and only_os_upd [simp]: "only_os s (s\<lparr>tick := n\<rparr>)" "only_os s (s\<lparr>vmem := m\<rparr>)" "only_os s (s\<lparr>gs_base := g\<rparr>)"
  by (simp_all add: only_os_def)

lemma only_os_fs:
  assumes "only_os s (s' :: fs_gs_state)"
  shows "fs_thread_info s' = fs_thread_info s" "fs_cleanup_key_value s' = fs_cleanup_key_value s"
  using assms by (cases s; cases s'; simp add: only_os_def)+

lemma only_os_store: "sys_store a v s = Inr s' \<Longrightarrow> only_os s s'"
  by (auto simp: sys_store_def ebind_Inr_iff)

lemma only_os_fs_set: "fs_set md f v s = Inr s' \<Longrightarrow> only_os s s'"
  by (simp add: fs_set_def only_os_store)

lemma only_os_sys [simp]:
  "only_os s (sys_mprotect p n pr s)" "only_os s (sys_munmap p n s)"
  "only_os s (snd (sys_rdtsc k s))" "only_os s (snd (sys_rdrand k s))" "only_os s (snd (sys_mmap k x n s))"
  "only_os s (snd (sys_mremap k x n y s))" "only_os s (snd (sys_set_gs k g s))"
  by (simp_all add: sys_mprotect_def sys_munmap_def sys_rdtsc_def sys_rdrand_def sys_mmap_def sys_mremap_def
      sys_set_gs_def only_os_def split: option.splits)

lemma only_os_set_all: "fs_set_all md fvs s = Inr s' \<Longrightarrow> only_os s s'"
proof (induction fvs arbitrary: s)
  case (Cons fv fvs)
  obtain f v where fv: "fv = (f, v)" by (cases fv)
  with Cons.prems obtain t where "fs_set md f v s = Inr t" "fs_set_all md fvs t = Inr s'"
    by (auto simp: ebind_Inr_iff)
  then show ?case using Cons.IH only_os_fs_set only_os_trans by blast
qed simp

lemma only_os_attempts:
  assumes "fs_mmap_attempts k sz i s = Some (p, s')"
  shows "only_os s s'"
proof -
  have "only_os s (snd (p, s'))"
  proof (rule fs_mmap_attempts.raw_induct [OF _ assms])
    fix att k sz i and s :: "'a os_state_scheme" and ps
    assume IH: "\<And>k sz i s ps. att k sz i s = Some ps \<Longrightarrow> only_os s (snd ps)"
      and body: "(let (r, s1) = sys_rdrand k s;
            x = if FS_MAX_MMAP_ATTEMPTS < i then 0 else r AND 0x7FFFFFFFF000
          in case sys_mmap k x sz s1 of
               (None, s2) \<Rightarrow> att k sz (i + 1) s2
             | (Some allocated, s2) \<Rightarrow> Some (allocated, s2)) = Some ps"
    obtain r s1 where r: "sys_rdrand k s = (r, s1)" by fastforce
    let ?x = "if FS_MAX_MMAP_ATTEMPTS < i then 0 else r AND 0x7FFFFFFFF000"
    obtain q s2 where q: "sys_mmap k ?x sz s1 = (q, s2)" by fastforce
    have s2: "only_os s s2"
      using only_os_trans [of s s1 s2] only_os_sys(4) [of s k] only_os_sys(5) [of s1 k ?x sz] r q by simp
    show "only_os s (snd ps)"
    proof (cases q)
      case None
      with body r q have "att k sz (i + 1) s2 = Some ps" by simp
      from IH [OF this] s2 show ?thesis by (blast intro: only_os_trans)
    next
      case (Some p)
      with body r q s2 show ?thesis by auto
    qed
  qed
  then show ?thesis by simp
qed

lemma only_os_random: "fs_get_memory_at_random k sz s = Some (p, s') \<Longrightarrow> only_os s s'"
  by (simp add: fs_get_memory_at_random_def only_os_attempts)

lemma only_os_avx2_step:
  assumes "avx2_step p x s = Inr s'"
  shows "only_os s s'"
proof -
  obtain s1 s2 s3 v1 v2 v3 v4 where "sys_store p v1 s = Inr s1" "sys_store (p + 8) v2 s1 = Inr s2"
    "sys_store (p + 16) v3 s2 = Inr s3" "sys_store (p + 24) v4 s3 = Inr s'"
    using assms by (auto simp: avx2_step_def ebind_Inr_iff)
  then show ?thesis using only_os_store only_os_trans by metis
qed

lemmas avx2_loop_induct =
  avx2_loop.raw_induct [where xa = "(((p, e), x), s)" and y = r, unfolded prod.case] for p e x s r

lemma only_os_avx2:
  fixes s :: "'a os_state_scheme"
  assumes "avx2_64_x_4_add p e x s = Some (Inr s')"
  shows "only_os s s'"
proof -
  let ?P = "\<lambda>(p :: addr) (e :: addr) (x :: u64) s r. \<forall>t. (r :: fault + 'a os_state_scheme) = Inr t \<longrightarrow> only_os s t"
  have "\<forall>t. (Inr s' :: fault + 'a os_state_scheme) = Inr t \<longrightarrow> only_os s t"
  proof (rule avx2_loop_induct [where P = ?P, OF _ assms [unfolded avx2_64_x_4_add_def]], intro allI impI)
    fix loop p e x and s :: "'a os_state_scheme" and r t
    assume IH: "\<And>p e x s r. loop p e x s = Some r \<Longrightarrow> ?P p e x s r"
      and body: "(if p < e then case avx2_step p x s of Inl f \<Rightarrow> Some (Inl f) | Inr s' \<Rightarrow> loop (p + 32) e x s'
          else Some (Inr s)) = Some r" and t: "r = Inr t"
    show "only_os s t"
    proof (cases "p < e")
      case True
      then obtain s1 where s1: "avx2_step p x s = Inr s1" "loop (p + 32) e x s1 = Some r"
        using body t by (auto split: sum.splits)
      from IH [OF s1(2)] t only_os_avx2_step [OF s1(1)] show ?thesis by (blast intro: only_os_trans)
    next
      case False
      with body t show ?thesis by simp
    qed
  qed
  then show ?thesis by simp
qed

lemma tbind_Inr_iff: "tbind m f = Some (Inr y) \<longleftrightarrow> (\<exists>x. m = Some (Inr x) \<and> f x = Some (Inr y))"
  by (auto simp: tbind_def split: option.splits sum.splits)

lemma only_os_reblind:
  assumes "fs_reblind c k rsp md s = Some (Inr s')"
  shows "only_os s s'"
proof (cases "SPA_ENABLE_GS_MSR c")
  case True
  obtain delta s1 where d: "sys_rdrand k s = (delta, s1)" by fastforce
  with True assms obtain v s2 p e where "fs_set md gm_R v s1 = Inr s2" "avx2_64_x_4_add p e delta s2 = Some (Inr s')"
    by (auto simp: fs_reblind_def tbind_Inr_iff)
  moreover have "only_os s s1" using only_os_sys(4) [of s k] d by simp
  ultimately show ?thesis using only_os_fs_set only_os_avx2 only_os_trans by metis
qed (use assms in \<open>simp add: fs_reblind_def\<close>)

lemma only_os_switch:
  assumes "fs_switch k old new sh s = Inr (md, s')"
  shows "only_os s s'"
proof -
  obtain fvs s1 v1 s2 s3 osh where a: "fs_set_all new fvs s = Inr s1" "fs_set new gm_diff v1 s1 = Inr s2"
    "fs_set new gm_self_addr new s2 = Inr s3" "fs_get old gm_shadow_stack s1 = Inr osh"
    and rest: "(let (r, s4) = sys_mremap k osh FS_REAL_SHADOW_STACK_SIZE sh s3;
         shadow_stack = (case r of Some p \<Rightarrow> p | None \<Rightarrow> - 1)
     in ebind (fs_set new gm_shadow_stack shadow_stack s4) (\<lambda>s5.
        ebind (fs_set new gm_shadow_stack_top (shadow_stack + DEF_BUDDY_CALL_STACK_SIZE) s5) (\<lambda>s6.
        let (ok, s7) = sys_set_gs k new s6
        in Inr (new, sys_munmap old REAL_META_DATA_SIZE s7)))) = Inr (md, s')"
    using assms by (auto simp: fs_switch_def ebind_Inr_iff)
  obtain r s4 where r: "sys_mremap k osh FS_REAL_SHADOW_STACK_SIZE sh s3 = (r, s4)" by fastforce
  obtain v5 s5 v6 s6 where b: "fs_set new gm_shadow_stack v5 s4 = Inr s5" "fs_set new gm_shadow_stack_top v6 s5 = Inr s6"
    "s' = sys_munmap old REAL_META_DATA_SIZE (snd (sys_set_gs k new s6))"
    using rest r by (auto simp: ebind_Inr_iff Let_def case_prod_beta)
  have "only_os s s1" "only_os s1 s2" "only_os s2 s3" "only_os s4 s5" "only_os s5 s6"
    using a b only_os_set_all only_os_fs_set by blast+
  moreover have "only_os s3 s4" using only_os_sys(6) [of s3 k osh FS_REAL_SHADOW_STACK_SIZE sh] r by simp
  moreover have "only_os s6 s'"
    unfolding b(3) using only_os_sys(7) [of s6 k new] only_os_sys(2) only_os_trans by blast
  ultimately show ?thesis by (meson only_os_trans)
qed

lemma only_os_move:
  assumes "fs_move k old s = Some (Inr (md, s'))"
  shows "only_os s s'"
proof -
  obtain new s1 sh s2 where "fs_get_memory_at_random k REAL_META_DATA_SIZE s = Some (new, s1)"
    "fs_get_memory_at_random k FS_REAL_SHADOW_STACK_SIZE s1 = Some (sh, s2)"
    "fs_switch k old new sh s2 = Inr (md, s')"
    using assms by (auto simp: fs_move_def split: option.splits)
  then show ?thesis using only_os_random only_os_switch only_os_trans by metis
qed

lemma only_os_maybe_move:
  assumes "fs_maybe_move k md s = Some (Inr (md', s'))"
  shows "only_os s s'"
proof -
  obtain ratio s1 where s1: "fs_set md gm_ratio_factor (ratio - 1) s = Inr s1"
    and rest: "(if ratio - 1 \<le>s 0
     then tbind (Some (fs_set md gm_ratio_factor DEFAULT_CHANGING_MOVING_RATIO s1)) (fs_move k md)
     else Some (Inr (md, s1))) = Some (Inr (md', s'))"
    using assms by (auto simp: fs_maybe_move_def tbind_Inr_iff)
  have "only_os s1 s'"
    using rest by (auto simp: tbind_Inr_iff split: if_splits dest!: only_os_fs_set only_os_move intro: only_os_trans)
  then show ?thesis using only_os_fs_set [OF s1] only_os_trans by blast
qed

lemma only_os_rand_exit: "fs_rand_exit md s = Inr s' \<Longrightarrow> only_os s s'"
  by (auto simp: fs_rand_exit_def ebind_Inr_iff dest!: only_os_fs_set intro: only_os_trans)

lemma only_os_shuffle:
  assumes "fs_shuffle c k rsp md s = Some (Inr s')"
  shows "only_os s s'"
proof -
  obtain s1 last where s1: "fs_set md gm_is_randomizing 1 s = Inr s1" "fs_get md gm_cpu_cycles s1 = Inr last"
    using assms by (auto simp: fs_shuffle_def tbind_Inr_iff)
  obtain now s2 where now: "sys_rdtsc k s1 = (now, s2)" by fastforce
  have s2: "only_os s s2"
    using only_os_fs_set [OF s1(1)] only_os_sys(3) [of s1 k] now only_os_trans by auto
  have "only_os s2 s'"
  proof (cases "now - last < CPU_CYCLES_PER_RANDOMIZATION")
    case True
    with assms s1 now have "fs_set md gm_is_randomizing 0 s2 = Inr s'" by (simp add: fs_shuffle_def)
    then show ?thesis by (rule only_os_fs_set)
  next
    case False
    with assms s1 now obtain s3 s4 md' s5 where
      "fs_set md gm_cpu_cycles now s2 = Inr s3" "fs_reblind c k rsp md s3 = Some (Inr s4)"
      "fs_maybe_move k md s4 = Some (Inr (md', s5))" "fs_rand_exit md' s5 = Inr s'"
      by (auto simp: fs_shuffle_def tbind_Inr_iff)
    then have "only_os s2 s3" "only_os s3 s4" "only_os s4 s5" "only_os s5 s'"
      using only_os_fs_set only_os_reblind only_os_maybe_move only_os_rand_exit by blast+
    then show ?thesis by (meson only_os_trans)
  qed
  with s2 show ?thesis by (rule only_os_trans)
qed

lemma only_os_rerandomize:
  assumes "fsgs_runtime_rerandomize c k rsp s = Some (Inr s')"
  shows "only_os s s'"
proof -
  have "only_os s s'" if "fs_shuffle c k rsp md (sys_mprotect md REAL_META_DATA_SIZE PROT_RW s) = Some (Inr s')" for md
    using only_os_shuffle [OF that] only_os_sys(1) only_os_trans by blast
  then show ?thesis
    using assms by (auto simp: fsgs_runtime_rerandomize_def tbind_Inr_iff split: if_splits)
qed

lemma only_os_call_stack_info: "fs_set_call_stack_info ta md s = Inr s' \<Longrightarrow> only_os s s'"
proof -
  assume a: "fs_set_call_stack_info ta md s = Inr s'"
  then obtain high s1 v s2 where "fs_set md gm_call_stack_top high s = Inr s1"
    "fs_set md gm_shadow_stack_top v s1 = Inr s2" "fs_set md gm_state FLASH_STACK_INITED s2 = Inr s'"
    by (auto simp: fs_set_call_stack_info_def Let_def ebind_Inr_iff split: if_splits option.splits)
  then show ?thesis using only_os_fs_set only_os_trans by metis
qed

lemma only_os_setup:
  assumes "fs_setup k ta rsp md sh s = Inr s'"
  shows "only_os s s'"
proof -
  obtain fvs s1 where s1: "fs_set_all md fvs s = Inr s1" and rest:
    "(let (r, s2) = sys_rdrand k s1
      in ebind (fs_set md gm_R r s2) (\<lambda>s3.
         let (ok, s4) = sys_set_gs k md s3 in fs_set_call_stack_info ta md s4)) = Inr s'"
    using assms by (auto simp: fs_setup_def Let_def ebind_Inr_iff)
  obtain r s2 where r: "sys_rdrand k s1 = (r, s2)" by fastforce
  obtain s3 where s3: "fs_set md gm_R r s2 = Inr s3"
    and s': "fs_set_call_stack_info ta md (snd (sys_set_gs k md s3)) = Inr s'"
    using rest r by (auto simp: ebind_Inr_iff case_prod_beta)
  have "only_os s s1" "only_os s2 s3" using only_os_set_all [OF s1] only_os_fs_set [OF s3] by blast+
  moreover have "only_os s1 s2" using only_os_sys(4) [of s1 k] r by simp
  moreover have "only_os s3 (snd (sys_set_gs k md s3))" by simp
  ultimately show ?thesis using only_os_call_stack_info [OF s'] by (meson only_os_trans)
qed

lemma only_os_init:
  assumes "fs_do_init_shadow_stack k ta rsp s = Some (Inr s')"
  shows "only_os s s'"
proof -
  obtain md s1 sh s2 where "fs_get_memory_at_random k REAL_META_DATA_SIZE s = Some (md, s1)"
    "fs_get_memory_at_random k FS_REAL_SHADOW_STACK_SIZE s1 = Some (sh, s2)" "fs_setup k ta rsp md sh s2 = Inr s'"
    using assms by (auto simp: fs_do_init_shadow_stack_def split: option.splits)
  then show ?thesis using only_os_random only_os_setup only_os_trans by metis
qed

lemma fs_init_table:
  assumes "fs_init_shadow_stack k ta rsp s = Some (Inr s')"
  shows "fs_thread_info s' = fs_thread_info s" "fs_cleanup_key_value s' = fs_cleanup_key_value s"
  using assms only_os_fs [OF only_os_init [of k ta rsp "s\<lparr>unsw_flash_stack_inited := True\<rparr>" s']]
  by (auto simp: fs_init_shadow_stack_def split: if_splits)

subsection \<open>The table of exited threads\<close>

definition fs_region_block :: "fs_region \<Rightarrow> addr set" where
  "fs_region_block t = {x. in_region (fr_metadata t) (fr_metadata_size t) x \<or>
     in_region (fr_shadow_stack t) (fr_shadow_stack_size t) x}"

definition fs_waiting :: "fs_gs_state \<Rightarrow> nat \<Rightarrow> addr set" where
  "fs_waiting s = fs_table.waiting_in fs_region_block (fs_thread_info s)"

lemma fs_release_empties:
  "emptied (fs_table.waiting_in fs_region_block ts)
     (fs_table.waiting_in fs_region_block (fst (fs_release_memory_regions k ts s)))
     (vmem s) (vmem (snd (fs_release_memory_regions k ts s)))"
proof (induction ts arbitrary: s)
  case Nil
  show ?case by (simp add: emptied_def fs_table.waiting_in_def)
next
  case (Cons t ts)
  let ?s1 = "s\<lparr>tick := Suc (tick s)\<rparr>"
  have rd: "sys_rdtsc k s = (k_rdtsc k (tick s), ?s1)" by (simp add: sys_rdtsc_def)
  consider (free) "\<not> fr_valid t"
    | (old) "fr_valid t" "FS_CPU_CYCLES_AFTER_THREAD_EXITING < k_rdtsc k (tick s) - fr_expired_time t"
    | (young) "fr_valid t" "\<not> FS_CPU_CYCLES_AFTER_THREAD_EXITING < k_rdtsc k (tick s) - fr_expired_time t"
    by blast
  then show ?case
  proof cases
    case free
    then show ?thesis using fs_table.emptied_keep [OF Cons.IH [of s]] by (simp add: case_prod_beta Let_def)
  next
    case old
    let ?u = "sys_munmap (fr_metadata t) (fr_metadata_size t) (sys_munmap (fr_shadow_stack t) (fr_shadow_stack_size t) ?s1)"
    have "emptied (fs_table.waiting_in fs_region_block (t # ts))
        (fs_table.waiting_in fs_region_block (t\<lparr>fr_valid := False\<rparr> # fst (fs_release_memory_regions k ts ?u)))
        (vmem s) (vmem (snd (fs_release_memory_regions k ts ?u)))"
      by (rule fs_table.emptied_release [OF Cons.IH old(1)]) (auto simp: sys_munmap_def fs_region_block_def)
    then show ?thesis using old by (simp add: case_prod_beta Let_def rd)
  next
    case young
    then show ?thesis using fs_table.emptied_keep [OF Cons.IH [of ?s1]] by (simp add: case_prod_beta Let_def rd)
  qed
qed

lemma fs_pass_empties:
  "emptied (fs_waiting s) (fs_waiting (fs_release_memory_region_pass k s)) (vmem s)
     (vmem (fs_release_memory_region_pass k s))"
  using fs_release_empties [of "fs_thread_info s" k s]
  by (simp add: fs_release_memory_region_pass_def case_prod_beta Let_def fs_waiting_def)

subsection \<open>The end of a thread\<close>

text \<open>One of glibc's rounds of destructors.\<close>

definition fs_destructor_round :: "kernel \<Rightarrow> u64 \<Rightarrow> fs_gs_state \<Rightarrow> fault + fs_gs_state" where
  "fs_destructor_round k tid s =
     (if fs_cleanup_key_value s = 0 then Inr s
      else fs_thread_cleanup_handler k tid (fs_cleanup_key_value s) (s\<lparr>fs_cleanup_key_value := 0\<rparr>))"

lemma fs_ok_local:
  assumes ok: "fs_ok_at v w md sh ct rsp0 s" and l: "gs_base s' = gs_base s"
      "unsw_flash_stack_inited s' = unsw_flash_stack_inited s"
    and pr: "\<And>x. in_page md x \<or> in_stack sh x \<Longrightarrow> prot_of (vmem s') x = prot_of (vmem s) x"
    and ce: "\<And>x. in_page md x \<Longrightarrow> cells (vmem s') x = cells (vmem s) x"
  shows "fs_ok_at v w md sh ct rsp0 s'" and "fs_fld md f s' = fs_fld md f s"
proof -
  show f: "fs_fld md f s' = fs_fld md f s" for f
    using ce [OF fs_field_in_page] by (simp add: fs_fld_def)
  show "fs_ok_at v w md sh ct rsp0 s'"
    using ok pr unfolding fs_ok_at_def fs_mem_def fs_meta_at_def l f by simp
qed

lemma fs_round_counts:
  assumes "0 < fs_cleanup_key_value s" and "fs_cleanup_key_value s < PTHREAD_DESTRUCTOR_ITERATIONS"
  shows "fs_destructor_round k tid s = Inr (s\<lparr>fs_cleanup_key_value := Suc (fs_cleanup_key_value s)\<rparr>)"
  using assms by (simp add: fs_destructor_round_def fs_thread_cleanup_handler_def)

lemma fs_release_round:
  assumes ok: "fs_ok w md sh ct rsp0 s" and "fs_cleanup_key_value s = PTHREAD_DESTRUCTOR_ITERATIONS"
  shows "fs_destructor_round k tid s =
    Inr (s\<lparr>fs_cleanup_key_value := 0, tick := Suc (tick s), fs_thread_info := fs_add_memory_region
         \<lparr>fr_valid = False, fr_metadata = md, fr_metadata_size = REAL_META_DATA_SIZE, fr_shadow_stack = sh,
          fr_shadow_stack_size = FS_REAL_SHADOW_STACK_SIZE, fr_expired_time = k_rdtsc k (tick s), fr_tid = tid\<rparr>
         (fs_thread_info s)\<rparr>)"
proof -
  let ?s = "s\<lparr>fs_cleanup_key_value := 0\<rparr>"
  have "fs_ok w md sh ct rsp0 ?s" by (rule fs_ok_local(1) [OF ok]) simp_all
  then have "GET_GS_VALUE_AT_OFFSET 0 ?s = Inr md" "fs_get md gm_shadow_stack ?s = Inr sh"
    using fs_get_ok [of w md sh ?s gm_self_addr] fs_get_ok [of w md sh ?s gm_shadow_stack]
    by (simp_all add: fs_ok_at_def fs_meta_at_def GET_GS_VALUE_AT_OFFSET_def fs_get_def GET_GS_METADATA_FIELD_OFFSET.simps)
  then show ?thesis
    using assms(2)
    by (simp add: fs_destructor_round_def fs_thread_cleanup_handler_def PTHREAD_DESTRUCTOR_ITERATIONS_def
        fs_release_shadow_stack_def sys_rdtsc_def Let_def)
qed

subsection \<open>The runtime\<close>

type_synonym fs_desc = "addr \<times> u64 \<times> nat"
type_synonym fs_blocks = "addr \<times> prot \<times> addr \<times> addr"
type_synonym fs_start_args = "kernel \<times> thread_attr \<times> u64 \<times> ((addr \<Rightarrow> arg_info option) \<times> addr) option"

definition fs_start :: "fs_start_args \<Rightarrow> fs_gs_state \<Rightarrow> (fault + fs_gs_state) option" where
  "fs_start = (\<lambda>(k, ta, rsp, obj) s.
     (case obj of
        None \<Rightarrow> fs_init_main_shadow_stack k ta rsp s
      | Some (heap, arg) \<Rightarrow>
          map_option (\<lambda>r. ebind r (\<lambda>(call, heap', s'). Inr s')) (fs_do_start_routine k ta rsp heap arg s)))"

definition fs_starts :: "fs_desc \<Rightarrow> fs_start_args \<Rightarrow> fs_gs_state \<Rightarrow> bool" where
  "fs_starts d = (\<lambda>(k, ta, rsp, obj) s. fs_kernel k \<and> has_room k (vmem s) \<and> getattr_ok ta \<and>
     (\<exists>low sz. getstack ta = Some (low, sz) \<and> fst d = fs_call_top low sz) \<and> fst (snd d) = rsp \<and>
     \<not> unsw_flash_stack_inited s \<and>
     (case obj of
        None \<Rightarrow> snd (snd d) = fs_cleanup_key_value s
      | Some (heap, arg) \<Rightarrow> snd (snd d) = 1 \<and> heap arg \<noteq> None))"

definition fs_exit :: "kernel \<times> u64 \<Rightarrow> fs_gs_state \<Rightarrow> fault + fs_gs_state" where
  "fs_exit = (\<lambda>(k, tid). fs_destructor_round k tid)"

definition fs_rounds :: "fs_desc \<Rightarrow> fs_desc option" where
  "fs_rounds = (\<lambda>(ct, rsp0, key).
     if 0 < key \<and> key < PTHREAD_DESTRUCTOR_ITERATIONS then Some (ct, rsp0, Suc key) else None)"

definition fs_framed :: "u64 \<Rightarrow> addr \<Rightarrow> bool" where
  "fs_framed rsp0 a \<longleftrightarrow> 0 < rsp0 - a \<and> rsp0 - a \<le> DEF_BUDDY_CALL_STACK_SIZE"

text \<open>
  A call of the runtime with the kernel's answers, the stack pointer and whether its move must
  succeed.  A move may fail: the thread then has its new blocks, and what its own functions return to
  is lost.  A thread whose move has failed does not rerandomize again and is not released.
\<close>

type_synonym fs_call = "kernel \<times> u64 \<times> bool"

definition fs_call_ready :: "build_config \<Rightarrow> fs_desc \<Rightarrow> fs_call \<Rightarrow> fs_gs_state \<Rightarrow> bool" where
  "fs_call_ready c = (\<lambda>(ct, rsp0, key) (k, rsp, m) s.
     fs_ready ct rsp0 (k, rsp) s \<and> fs_standing s \<and> (m \<longrightarrow> fs_moved c (k, rsp) s))"

definition fs_call_live :: "fs_desc \<Rightarrow> fs_call \<Rightarrow> addr \<Rightarrow> bool" where
  "fs_call_live = (\<lambda>(ct, rsp0, key) (k, rsp, m) a. m \<and> fs_live rsp0 rsp a)"

definition fs_runtime ::
  "build_config \<Rightarrow> (fs_gs_state, fs_local, fs_desc, fs_blocks, fs_call, fs_start_args, kernel \<times> u64) runtime" where
  "fs_runtime c =
     \<lparr>rt_view = fs_view, rt_local = fs_local_of, rt_fresh = fs_fresh, rt_vm = vmem,
      rt_ok = (\<lambda>(ct, rsp0, key) (v, w, md, sh) s.
        (v = sh \<or> v = - 1) \<and> fs_ok_at v w md sh ct rsp0 s \<and> fs_cleanup_key_value s = key),
      rt_own = (\<lambda>(v, w, md, sh). {x. in_page md x \<or> in_stack sh x}), rt_meta = (\<lambda>(v, w, md, sh). {x. in_page md x}),
      rt_frame = (\<lambda>(ct, rsp0, key). fs_framed rsp0), rt_content = fs_content c, rt_waiting = fs_waiting,
      rt_ready = fs_call_ready c, rt_live = fs_call_live,
      rt_rerand = (\<lambda>(k, rsp, m). fs_run c (k, rsp)), rt_starts = fs_starts, rt_start = fs_start,
      rt_rounds = fs_rounds,
      rt_exits = (\<lambda>d e s. snd (snd d) = PTHREAD_DESTRUCTOR_ITERATIONS \<and> fs_standing s), rt_exit = fs_exit,
      rt_clean = fs_release_memory_region_pass\<rparr>"

lemma fs_runtime_simps [simp]:
  "rt_view (fs_runtime c) = fs_view" "rt_local (fs_runtime c) = fs_local_of" "rt_fresh (fs_runtime c) = fs_fresh"
  "rt_vm (fs_runtime c) = vmem"
  "rt_ok (fs_runtime c) (ct, rsp0, key) (v, w, md, sh) s \<longleftrightarrow>
     (v = sh \<or> v = - 1) \<and> fs_ok_at v w md sh ct rsp0 s \<and> fs_cleanup_key_value s = key"
  "rt_own (fs_runtime c) (v, w, md, sh) = {x. in_page md x \<or> in_stack sh x}"
  "rt_meta (fs_runtime c) (v, w, md, sh) = {x. in_page md x}"
  "rt_frame (fs_runtime c) (ct, rsp0, key) = fs_framed rsp0" "rt_content (fs_runtime c) = fs_content c"
  "rt_waiting (fs_runtime c) = fs_waiting"
  "rt_ready (fs_runtime c) (ct, rsp0, key) (k, rsp, m) s \<longleftrightarrow>
     fs_ready ct rsp0 (k, rsp) s \<and> fs_standing s \<and> (m \<longrightarrow> fs_moved c (k, rsp) s)"
  "rt_live (fs_runtime c) (ct, rsp0, key) (k, rsp, m) a \<longleftrightarrow> m \<and> fs_live rsp0 rsp a"
  "rt_rerand (fs_runtime c) (k, rsp, m) = fs_run c (k, rsp)"
  "rt_starts (fs_runtime c) = fs_starts" "rt_start (fs_runtime c) = fs_start" "rt_rounds (fs_runtime c) = fs_rounds"
  "rt_exits (fs_runtime c) d e s \<longleftrightarrow> snd (snd d) = PTHREAD_DESTRUCTOR_ITERATIONS \<and> fs_standing s"
  "rt_exit (fs_runtime c) = fs_exit" "rt_clean (fs_runtime c) = fs_release_memory_region_pass"
  by (simp_all add: fs_runtime_def fs_call_ready_def fs_call_live_def)

lemma fs_framed_slot:
  assumes "fs_ok_at v w md sh ct rsp0 s" and "fs_framed rsp0 a"
  shows "in_stack sh (fs_slot s a)"
proof -
  have "unat (8388608 - (rsp0 - a)) \<le> 8388608"
    using assms(2) by (simp add: fs_framed_def DEF_sizes unat_sub)
  then show ?thesis
    by (simp add: fs_slot_in_stack [OF assms(1)] in_region_def fs_sizes DEF_sizes word_less_nat_alt)
qed

interpretation fs_threads: threaded_runtime "fs_runtime c"
  for c
proof unfold_locales
  fix d :: fs_desc and b :: fs_blocks and s s' :: fs_gs_state
  assume ok: "rt_ok (fs_runtime c) d b s" and l: "rt_local (fs_runtime c) s' = rt_local (fs_runtime c) s"
  obtain ct rsp0 key v w md sh where d: "d = (ct, rsp0, key)" and b: "b = (v, w, md, sh)"
    by (cases d; cases b) blast
  note l' = fs_local_eqD [OF l [simplified]]
  have ok': "fs_ok_at v w md sh ct rsp0 s" "fs_cleanup_key_value s = key" using ok by (simp_all add: d b)
  show "rt_ok (fs_runtime c) d b s'"
    if "\<And>x. x \<in> rt_own (fs_runtime c) b \<Longrightarrow> prot_of (rt_vm (fs_runtime c) s') x = prot_of (rt_vm (fs_runtime c) s) x"
      "\<And>x. x \<in> rt_meta (fs_runtime c) b \<Longrightarrow> cells (rt_vm (fs_runtime c) s') x = cells (rt_vm (fs_runtime c) s) x"
    using fs_ok_local(1) [OF ok'(1) l'(1,2)] that ok ok'(2) l'(3) by (simp add: d b)
  show "rt_content (fs_runtime c) s' a = rt_content (fs_runtime c) s a"
    if "\<And>x. x \<in> rt_own (fs_runtime c) b \<Longrightarrow> cells (rt_vm (fs_runtime c) s') x = cells (rt_vm (fs_runtime c) s) x"
      "rt_frame (fs_runtime c) d a" for a
  proof -
    have c: "cells (vmem s') x = cells (vmem s) x" if "in_page md x \<or> in_stack sh x" for x
      using \<open>\<And>x. x \<in> rt_own (fs_runtime c) b \<Longrightarrow> cells (rt_vm (fs_runtime c) s') x = cells (rt_vm (fs_runtime c) s) x\<close>
        that by (simp add: b)
    have f: "fs_fld md f s' = fs_fld md f s" for f using c fs_field_in_page by (simp add: fs_fld_def)
    have g: "gs_base s = md" using ok'(1) by (simp add: fs_ok_at_def fs_meta_at_def)
    have sl: "fs_slot s' a = fs_slot s a" "fs_key c s' = fs_key c s"
      by (simp_all add: fs_slot_def fs_key_def l'(1) g f)
    have "in_stack sh (fs_slot s a)" using fs_framed_slot [OF ok'(1)] that(2) by (simp add: d)
    then show ?thesis using c by (simp add: fs_content_def sl)
  qed
next
  fix d :: fs_desc and b :: fs_blocks and p :: fs_call and s :: fs_gs_state
  assume ok: "rt_ok (fs_runtime c) d b s" and p: "rt_ready (fs_runtime c) d p s"
  obtain ct rsp0 key v w md sh k rsp m where d: "d = (ct, rsp0, key)" and b: "b = (v, w, md, sh)" and ps: "p = (k, rsp, m)"
    by (cases d; cases b; cases p) blast
  have "v = sh" "fs_ok_at v w md sh ct rsp0 s" and key: "fs_cleanup_key_value s = key"
    using ok p fs_standing_iff by (auto simp: d b ps)
  then have ok': "fs_ok w md sh ct rsp0 s" by simp
  have ready: "fs_ready ct rsp0 (k, rsp) s" "m \<longrightarrow> fs_moved c (k, rsp) s" using p by (simp_all add: d ps)
  from fs_run_ok [OF ok' ready(1), of c] obtain v' w' md' sh' s' where
    s': "fs_run c (k, rsp) s = Some (Inr s')" "v' = sh' \<or> v' = - 1" "fs_ok_at v' w' md' sh' ct rsp0 s'"
      "fs_frame md sh md' sh' s s'"
      "fs_moved c (k, rsp) s \<longrightarrow> (\<forall>a. fs_live rsp0 rsp a \<longrightarrow> fs_content c s' a = fs_content c s a)"
    unfolding fst_conv snd_conv by blast
  note kept = only_os_fs [OF only_os_rerandomize [OF s'(1) [unfolded fs_run_def]]]
  show "\<exists>b' s'. rt_rerand (fs_runtime c) p s = Some (Inr s') \<and> rt_ok (fs_runtime c) d b' s' \<and>
      rt_waiting (fs_runtime c) s' = rt_waiting (fs_runtime c) s \<and>
      framed (fs_runtime c) (rt_own (fs_runtime c) b) (rt_own (fs_runtime c) b') s s' \<and>
      (\<forall>a. rt_frame (fs_runtime c) d a \<longrightarrow> rt_live (fs_runtime c) d p a \<longrightarrow> rt_content (fs_runtime c) s' a = rt_content (fs_runtime c) s a)"
  proof (intro exI conjI)
    show "rt_rerand (fs_runtime c) p s = Some (Inr s')" using s'(1) by (simp add: ps)
    show "rt_ok (fs_runtime c) d (v', w', md', sh') s'" using s'(2,3) kept(2) key by (simp add: d)
    show "rt_waiting (fs_runtime c) s' = rt_waiting (fs_runtime c) s" using kept(1) by (simp add: fs_waiting_def)
    show "framed (fs_runtime c) (rt_own (fs_runtime c) b) (rt_own (fs_runtime c) (v', w', md', sh')) s s'"
      using s'(4) by (simp add: framed_def fs_frame_def b)
    show "\<forall>a. rt_frame (fs_runtime c) d a \<longrightarrow> rt_live (fs_runtime c) d p a \<longrightarrow> rt_content (fs_runtime c) s' a = rt_content (fs_runtime c) s a"
      using s'(5) ready(2) by (simp add: d ps)
  qed
next
  fix d :: fs_desc and q :: fs_start_args and s :: fs_gs_state
  assume q: "rt_starts (fs_runtime c) d q s"
  obtain k ta rsp obj where qs: "q = (k, ta, rsp, obj)" by (cases q) blast
  obtain ct key where d: "d = (ct, rsp, key)" using q by (cases d) (auto simp: qs fs_starts_def)
  obtain low sz where ta: "getstack ta = Some (low, sz)" "ct = fs_call_top low sz"
    using q by (auto simp: qs d fs_starts_def)
  have h: "kernel_ok k" "pages_aligned k" "\<forall>n. k_set_gs k n" "has_room k (vmem s)" "getattr_ok ta"
    "\<not> unsw_flash_stack_inited s"
    using q by (simp_all add: qs fs_starts_def fs_kernel_def)
  from fs_init_ok [OF h(1-5) ta(1) h(6), of rsp] obtain md sh s1 where
    init: "fs_init_shadow_stack k ta rsp s = Some (Inr s1)" "fs_ok PROT_RW md sh ct rsp s1" "fs_new md sh s s1"
    unfolding ta(2) by blast
  note table = fs_init_table [OF init(1)]
  let ?s' = "s1\<lparr>fs_cleanup_key_value := key\<rparr>"
  have "rt_start (fs_runtime c) q s = Some (Inr ?s')"
    using init(1) q table(2)
    by (auto simp: qs d fs_start_def fs_starts_def fs_do_start_routine_def fs_init_main_shadow_stack_def split: option.splits)
  moreover have "rt_ok (fs_runtime c) d (sh, PROT_RW, md, sh) ?s'"
    using fs_ok_local(1) [OF init(2), of ?s'] by (simp add: d)
  moreover have "rt_waiting (fs_runtime c) ?s' = rt_waiting (fs_runtime c) s"
    by (simp add: fs_waiting_def table)
  moreover have "framed (fs_runtime c) {} (rt_own (fs_runtime c) (sh, PROT_RW, md, sh)) s ?s'"
    using init(3) by (auto simp: framed_def fs_new_def)
  ultimately show "\<exists>b s'. rt_start (fs_runtime c) q s = Some (Inr s') \<and> rt_ok (fs_runtime c) d b s' \<and>
      rt_waiting (fs_runtime c) s' = rt_waiting (fs_runtime c) s \<and> framed (fs_runtime c) {} (rt_own (fs_runtime c) b) s s'"
    by blast
next
  fix d d' :: fs_desc and b :: fs_blocks and e :: "kernel \<times> u64" and s :: fs_gs_state
  assume ok: "rt_ok (fs_runtime c) d b s" and d': "rt_rounds (fs_runtime c) d = Some d'"
  obtain ct rsp0 key v w md sh where d: "d = (ct, rsp0, key)" and b: "b = (v, w, md, sh)"
    by (cases d; cases b) blast
  have ok': "v = sh \<or> v = - 1" "fs_ok_at v w md sh ct rsp0 s" "fs_cleanup_key_value s = key" using ok by (simp_all add: d b)
  have key: "0 < key" "key < PTHREAD_DESTRUCTOR_ITERATIONS" "d' = (ct, rsp0, Suc key)"
    using d' by (simp_all add: d fs_rounds_def split: if_splits)
  let ?s' = "s\<lparr>fs_cleanup_key_value := Suc key\<rparr>"
  have "fs_ok_at v w md sh ct rsp0 ?s'" by (rule fs_ok_local(1) [OF ok'(2)]) simp_all
  with ok'(1) have "rt_ok (fs_runtime c) d' b ?s'" by (simp add: key(3) b)
  moreover have "rt_exit (fs_runtime c) e s = Inr ?s'"
    using fs_round_counts [of s] key(1,2) ok'(3) by (simp add: fs_exit_def case_prod_beta)
  moreover have "fs_content c ?s' a = fs_content c s a" for a
    by (simp add: fs_content_def fs_slot_def fs_key_def fs_fld_def)
  ultimately show "\<exists>s'. rt_exit (fs_runtime c) e s = Inr s' \<and> rt_ok (fs_runtime c) d' b s' \<and>
      rt_vm (fs_runtime c) s' = rt_vm (fs_runtime c) s \<and> rt_waiting (fs_runtime c) s' = rt_waiting (fs_runtime c) s \<and>
      rt_frame (fs_runtime c) d' = rt_frame (fs_runtime c) d \<and>
      (\<forall>a. rt_content (fs_runtime c) s' a = rt_content (fs_runtime c) s a)"
    by (intro exI [of _ ?s']) (simp add: fs_waiting_def d key(3))
next
  fix d :: fs_desc and b :: fs_blocks and e :: "kernel \<times> u64" and s :: fs_gs_state
  assume ok: "rt_ok (fs_runtime c) d b s" and e: "rt_exits (fs_runtime c) d e s"
  obtain k tid where es: "e = (k, tid)" by (cases e) blast
  obtain ct rsp0 key v w md sh where d: "d = (ct, rsp0, key)" and b: "b = (v, w, md, sh)"
    by (cases d; cases b) blast
  have "v = sh" "fs_ok_at v w md sh ct rsp0 s" and key: "fs_cleanup_key_value s = PTHREAD_DESTRUCTOR_ITERATIONS"
    using ok e fs_standing_iff by (auto simp: d b)
  then have h: "fs_ok w md sh ct rsp0 s" "fs_cleanup_key_value s = PTHREAD_DESTRUCTOR_ITERATIONS" by simp_all
  let ?r = "\<lparr>fr_valid = False, fr_metadata = md, fr_metadata_size = REAL_META_DATA_SIZE, fr_shadow_stack = sh,
    fr_shadow_stack_size = FS_REAL_SHADOW_STACK_SIZE, fr_expired_time = k_rdtsc k (tick s), fr_tid = tid\<rparr>"
  let ?s' = "s\<lparr>fs_cleanup_key_value := 0, tick := Suc (tick s), fs_thread_info := fs_add_memory_region ?r (fs_thread_info s)\<rparr>"
  have "rt_exit (fs_runtime c) e s = Inr ?s'"
    using fs_release_round [OF h, of k tid] by (simp add: es fs_exit_def)
  moreover have "rt_waiting (fs_runtime c) ?s' = rt_waiting (fs_runtime c) s \<or>
      (\<exists>n. rt_waiting (fs_runtime c) s n = {} \<and>
        rt_waiting (fs_runtime c) ?s' = (rt_waiting (fs_runtime c) s)(n := rt_own (fs_runtime c) b))"
    using fs_table.waiting_in_add [of fs_region_block ?r "rt_own (fs_runtime c) b" "fs_thread_info s"]
    by (simp add: fs_waiting_def fs_region_block_def b)
  moreover have "rt_vm (fs_runtime c) ?s' = rt_vm (fs_runtime c) s" by simp
  ultimately show "\<exists>s'. rt_exit (fs_runtime c) e s = Inr s' \<and> rt_vm (fs_runtime c) s' = rt_vm (fs_runtime c) s \<and>
      (rt_waiting (fs_runtime c) s' = rt_waiting (fs_runtime c) s \<or>
       (\<exists>n. rt_waiting (fs_runtime c) s n = {} \<and>
         rt_waiting (fs_runtime c) s' = (rt_waiting (fs_runtime c) s)(n := rt_own (fs_runtime c) b)))"
    by blast
next
  fix k n x and s :: fs_gs_state
  note em = emptiedD [OF fs_pass_empties [of s k]]
  show "rt_waiting (fs_runtime c) (rt_clean (fs_runtime c) k s) n = rt_waiting (fs_runtime c) s n \<or>
      rt_waiting (fs_runtime c) (rt_clean (fs_runtime c) k s) n = {}"
    unfolding fs_runtime_simps by (rule em(1))
  show "prot_of (rt_vm (fs_runtime c) (rt_clean (fs_runtime c) k s)) x =
      (if \<exists>n. x \<in> rt_waiting (fs_runtime c) s n \<and> rt_waiting (fs_runtime c) (rt_clean (fs_runtime c) k s) n = {} then None
       else prot_of (rt_vm (fs_runtime c) s) x)"
    unfolding fs_runtime_simps by (rule em(2))
  show "cells (rt_vm (fs_runtime c) (rt_clean (fs_runtime c) k s)) = cells (rt_vm (fs_runtime c) s)"
    unfolding fs_runtime_simps by (rule em(3))
next
  fix d :: fs_desc and b :: fs_blocks and x :: addr and s :: fs_gs_state
  obtain ct rsp0 key v w md sh where d: "d = (ct, rsp0, key)" and b: "b = (v, w, md, sh)"
    by (cases d; cases b) blast
  show "rt_ok (fs_runtime c) d b s \<Longrightarrow> x \<in> rt_own (fs_runtime c) b \<Longrightarrow> prot_of (rt_vm (fs_runtime c) s) x \<noteq> None"
    by (auto simp: d b fs_ok_at_def fs_mem_def)
  show "rt_meta (fs_runtime c) b \<subseteq> rt_own (fs_runtime c) b" by (auto simp: b)
qed (simp_all add: fs_waiting_def)

end
