(* ===== verification/Buddy.thy ===== *)
theory Buddy
  imports Avx2
begin

section \<open>Buddy: the runtime of the buddy stack schemes\<close>

text \<open>
  \<open>buddy_tls.c\<close>, \<open>simd_rand.c\<close>, \<open>init.c\<close>, \<open>fork.c\<close> and \<open>util.c\<close>.  A thread's stack is four times as
  large as its call stack: below the call stack stands the shadow stack, at the same offsets, and
  below that two copies (buddies) of the thread's \<open>struct Buddy_TLS_Info\<close>.  Code finds a copy by
  masking its stack pointer; as the stack's top need not be aligned, frames of one thread find
  different copies.  The size comes from the variable \<open>.BUDDY.CALL_STACK_SIZE_MASK\<close>, whose address
  the linker chooses (\<open>stk_mask_at\<close>).

  \<open>random()\<close> is a parameter \<open>rnd\<close>, the number for each call.  \<open>srandom(time(0))\<close> is left out: it
  only chooses which numbers come.
\<close>

subsection \<open>State\<close>

record buddy_state = os_state +
  stk_mask_at :: addr
  env_vars :: "string \<Rightarrow> string option"
  spa_init_done :: bool
  buddy_pthread_create_known :: bool

definition SPA_MAIN_FUNC_CALLED_FLAG :: u64 where "SPA_MAIN_FUNC_CALLED_FLAG = 2021"
definition SPA_OFFSET_OF_MAIN_FUNC_CALLED_FLAG :: u64 where "SPA_OFFSET_OF_MAIN_FUNC_CALLED_FLAG = 32"

definition GET_BUDDY_CALL_STACK_SIZE_MASK :: "buddy_state \<Rightarrow> fault + u64" where
  "GET_BUDDY_CALL_STACK_SIZE_MASK s = sys_load (stk_mask_at s) s"

definition SET_BUDDY_CALL_STACK_SIZE_MASK :: "u64 \<Rightarrow> buddy_state \<Rightarrow> fault + buddy_state" where
  "SET_BUDDY_CALL_STACK_SIZE_MASK v s = sys_store (stk_mask_at s) v s"

definition GET_FLAG_OF_MAIN_FUNC_CALLED :: "buddy_state \<Rightarrow> fault + u64" where
  "GET_FLAG_OF_MAIN_FUNC_CALLED s = sys_load (stk_mask_at s + SPA_OFFSET_OF_MAIN_FUNC_CALLED_FLAG) s"

definition is_instrumented_main_func_called :: "buddy_state \<Rightarrow> fault + bool" where
  "is_instrumented_main_func_called s =
     ebind (GET_FLAG_OF_MAIN_FUNC_CALLED s) (\<lambda>flag. Inr (SPA_MAIN_FUNC_CALLED_FLAG = flag))"

definition sys_random :: "(nat \<Rightarrow> u64) \<Rightarrow> 'a os_state_scheme \<Rightarrow> u64 \<times> 'a os_state_scheme" where
  "sys_random rnd s = (rnd (tick s), s\<lparr>tick := Suc (tick s)\<rparr>)"

definition buddy_get :: "addr \<Rightarrow> buddy_field \<Rightarrow> buddy_state \<Rightarrow> fault + u64" where
  "buddy_get tls f s = sys_load (tls + buddy_field_offset f) s"

definition buddy_set :: "addr \<Rightarrow> buddy_field \<Rightarrow> u64 \<Rightarrow> buddy_state \<Rightarrow> fault + buddy_state" where
  "buddy_set tls f v s = sys_store (tls + buddy_field_offset f) v s"

fun buddy_set_all :: "addr \<Rightarrow> (buddy_field \<times> u64) list \<Rightarrow> buddy_state \<Rightarrow> fault + buddy_state" where
  "buddy_set_all tls [] s = Inr s"
| "buddy_set_all tls ((f, v) # fvs) s = ebind (buddy_set tls f v s) (buddy_set_all tls fvs)"

subsection \<open>buddy_tls.c\<close>

text \<open>The copy of the metadata that stands \<open>i\<close> call stack sizes below the aligned address.\<close>

definition buddy_tls_at :: "u64 \<Rightarrow> addr \<Rightarrow> u64 \<Rightarrow> addr" where
  "buddy_tls_at m x i = BUDDY_ALIGN_CALL_STACK_POINTER m x - i * BUDDY_CALL_STACK_SIZE m"

definition buddy_get_tls_info :: "u64 \<Rightarrow> buddy_state \<Rightarrow> fault + addr" where
  "buddy_get_tls_info rsp s =
     ebind (GET_BUDDY_CALL_STACK_SIZE_MASK s) (\<lambda>m. Inr (buddy_tls_at m rsp 2))"

definition buddy_fields_at_init :: "u64 \<Rightarrow> addr \<Rightarrow> addr \<Rightarrow> (buddy_field \<times> u64) list" where
  "buddy_fields_at_init random_val stack_high buddy =
     [(bf_random_val, random_val), (bf_stack_top, stack_high), (bf_buddy_info, buddy),
      (bf_cpu_cycles, 0), (bf_is_randomizing, 0)]"

definition buddy_init_tls_metadata ::
  "(nat \<Rightarrow> u64) \<Rightarrow> addr \<Rightarrow> buddy_state \<Rightarrow> fault + buddy_state" where
  "buddy_init_tls_metadata rnd stack_high s =
     (let (random_val, s1) = sys_random rnd s
      in ebind (GET_BUDDY_CALL_STACK_SIZE_MASK s1) (\<lambda>m.
         let ptr2 = buddy_tls_at m stack_high 2;
             ptr3 = buddy_tls_at m stack_high 3
         in ebind (buddy_set_all ptr2 (buddy_fields_at_init random_val stack_high ptr3)
                     (sys_mprotect ptr2 PAGE_SIZE PROT_RW s1)) (\<lambda>s2.
            buddy_set_all ptr3 (buddy_fields_at_init random_val stack_high ptr2)
              (sys_mprotect ptr3 PAGE_SIZE PROT_RW s2))))"

definition buddy_init_main_thread_tls ::
  "(nat \<Rightarrow> u64) \<Rightarrow> thread_attr \<Rightarrow> buddy_state \<Rightarrow> fault + buddy_state" where
  "buddy_init_main_thread_tls rnd ta s =
     (if \<not> getattr_ok ta then Inl (Aborted ''pthread_getattr_np().'')
      else case getstack ta of
        None \<Rightarrow> Inl (Aborted ''pthread_attr_getstack().'')
      | Some (stack_low, sz) \<Rightarrow>
          ebind (GET_BUDDY_CALL_STACK_SIZE_MASK s) (\<lambda>m.
          let high = stack_low + sz;
              stack_size = BUDDY_STACK_SIZE m;
              stack_high = (if high < stack_low + stack_size then stack_low + stack_size else high)
          in buddy_init_tls_metadata rnd stack_high
               (sys_mprotect (stack_high - BUDDY_CALL_STACK_SIZE m) PAGE_SIZE PROT_READ s)))"

definition buddy_init_other_thread_tls ::
  "(nat \<Rightarrow> u64) \<Rightarrow> thread_attr \<Rightarrow> buddy_state \<Rightarrow> fault + buddy_state" where
  "buddy_init_other_thread_tls = buddy_init_main_thread_tls"

subsection \<open>simd_rand.c\<close>

definition IS_BUDDY_STACK_INITED :: "addr \<Rightarrow> buddy_state \<Rightarrow> fault + bool" where
  "IS_BUDDY_STACK_INITED tls s =
     (if tls = 0 then Inr False
      else ebind (buddy_get tls bf_buddy_info s) (\<lambda>b.
        if b = 0 then Inr False
        else ebind (buddy_get b bf_buddy_info s) (\<lambda>bb. Inr (bb = tls))))"

text \<open>\<open>!IS_BUDDY_STACK_INITED(tls_info) || tls_info->is_randomizing || buddy_info->is_randomizing\<close>\<close>

definition buddy_not_ready :: "addr \<Rightarrow> addr \<Rightarrow> buddy_state \<Rightarrow> fault + bool" where
  "buddy_not_ready tls buddy s =
     ebind (IS_BUDDY_STACK_INITED tls s) (\<lambda>i.
     if \<not> i then Inr True
     else ebind (buddy_get tls bf_is_randomizing s) (\<lambda>r.
       if r \<noteq> 0 then Inr True
       else ebind (buddy_get buddy bf_is_randomizing s) (\<lambda>rb. Inr (rb \<noteq> 0))))"

text \<open>The new random value in one copy.\<close>

definition buddy_update :: "addr \<Rightarrow> u64 \<Rightarrow> u64 \<Rightarrow> buddy_state \<Rightarrow> fault + buddy_state" where
  "buddy_update tls d cycles s =
     ebind (buddy_set tls bf_is_randomizing 1 (sys_mprotect tls PAGE_SIZE PROT_RW s)) (\<lambda>s1.
     ebind (buddy_get tls bf_random_val s1) (\<lambda>r.
     ebind (buddy_set tls bf_random_val (r + d) s1) (buddy_set tls bf_cpu_cycles cycles)))"

definition buddy_finish :: "addr \<Rightarrow> buddy_state \<Rightarrow> fault + buddy_state" where
  "buddy_finish tls s =
     ebind (buddy_set tls bf_is_randomizing 0 s) (\<lambda>s1. Inr (sys_mprotect tls PAGE_SIZE PROT_READ s1))"

definition au_edu_unsw_randomize ::
  "(nat \<Rightarrow> u64) \<Rightarrow> u64 \<Rightarrow> addr \<Rightarrow> u64 \<Rightarrow> buddy_state \<Rightarrow> (fault + buddy_state) option" where
  "au_edu_unsw_randomize rnd rsp tls cycles s =
     tbind (Some (buddy_get tls bf_buddy_info s)) (\<lambda>buddy.
     tbind (Some (buddy_not_ready tls buddy s)) (\<lambda>no.
     if no then Some (Inr s)
     else
       tbind (Some (GET_BUDDY_CALL_STACK_SIZE_MASK s)) (\<lambda>m.
       tbind (Some (buddy_get tls bf_stack_top s)) (\<lambda>stack_top.
       let call_stack_size = BUDDY_CALL_STACK_SIZE m;
           (d, s1) = sys_random rnd s
       in tbind (Some (buddy_update tls d cycles s1)) (\<lambda>s2.
          tbind (Some (ebind (buddy_update buddy d cycles s2) (buddy_finish buddy))) (\<lambda>s3.
          tbind (avx2_64_x_4_add (rsp - call_stack_size) (stack_top - call_stack_size) d s3) (\<lambda>s4.
          Some (buddy_finish tls s4))))))))"

subsection \<open>init.c, fork.c and util.c\<close>

text \<open>\<open>atol\<close>: white space, a sign, digits; out of range gives the nearest \<open>long\<close>.\<close>

definition c_atol :: "string \<Rightarrow> u64" where
  "c_atol s =
     (let s1 = dropWhile c_isspace s;
          neg = (char_at s1 0 = CHR ''-'');
          s2 = (if neg \<or> char_at s1 0 = CHR ''+'' then tl s1 else s1);
          v = int (digits_value (takeWhile c_isdigit s2))
      in word_of_int (max (- (2 ^ 63)) (min (2 ^ 63 - 1) (if neg then - v else v))))"

definition set_stk_size_global_var :: "buddy_state \<Rightarrow> fault + buddy_state" where
  "set_stk_size_global_var s =
     (case env_vars s SPA_CALL_STACK_SIZE_ENV of
        None \<Rightarrow> Inr s
      | Some p_stk_size \<Rightarrow>
          (let stacksize = c_atol p_stk_size * 1024
           in ebind (SET_BUDDY_CALL_STACK_SIZE_MASK (- stacksize)
                       (sys_mprotect (stk_mask_at s) PAGE_SIZE PROT_RW s)) (\<lambda>s1.
              Inr (sys_mprotect (stk_mask_at s1) PAGE_SIZE PROT_READ s1))))"

text \<open>The constructor; the hooks are initialised before (\<open>rt_lib.c\<close>).\<close>

definition au_edu_unsw_SPA_init ::
  "(nat \<Rightarrow> u64) \<Rightarrow> thread_attr \<Rightarrow> buddy_state \<Rightarrow> fault + buddy_state" where
  "au_edu_unsw_SPA_init rnd ta s =
     (if spa_init_done s then Inr s
      else
        ebind (set_stk_size_global_var (s\<lparr>spa_init_done := True\<rparr>)) (\<lambda>s1.
        ebind (buddy_init_main_thread_tls rnd ta s1) (\<lambda>s2.
        Inr (s2\<lparr>env_vars := (env_vars s2)(SPA_ENABLE_RANDOMIZATION_ENV \<mapsto> ''1'')\<rparr>))))"

text \<open>The entry of a new thread, up to the call of the routine with its argument.\<close>

definition buddy_do_start_routine ::
  "(nat \<Rightarrow> u64) \<Rightarrow> thread_attr \<Rightarrow> (addr \<Rightarrow> arg_info option) \<Rightarrow> addr \<Rightarrow> buddy_state \<Rightarrow>
   fault + (addr \<times> addr) \<times> (addr \<Rightarrow> arg_info option) \<times> buddy_state" where
  "buddy_do_start_routine rnd ta heap arg s =
     (case heap arg of
        None \<Rightarrow> Inl (Segv arg)
      | Some argInfo \<Rightarrow>
          ebind (buddy_init_other_thread_tls rnd ta s) (\<lambda>s1.
          Inr ((start_routine argInfo, start_arg argInfo), heap(arg := None), s1)))"

text \<open>
  The two \<open>pthread_create\<close>: stack size and start of the thread that the real function is asked for,
  and the stack size in the caller's attribute object, if there is one.
\<close>

definition buddy_pthread_create ::
  "((addr \<Rightarrow> arg_info option) \<Rightarrow> addr option) \<Rightarrow> u64 option \<Rightarrow> addr \<Rightarrow> addr \<Rightarrow>
   (addr \<Rightarrow> arg_info option) \<Rightarrow> buddy_state \<Rightarrow>
   fault + (u64 \<times> thread_start) \<times> u64 option \<times> (addr \<Rightarrow> arg_info option) \<times> buddy_state" where
  "buddy_pthread_create malloc attr start arg heap s =
     ebind (GET_BUDDY_CALL_STACK_SIZE_MASK s) (\<lambda>m.
     let stacksize = BUDDY_STACK_SIZE m
     in case malloc heap of
          None \<Rightarrow> Inl (Segv 0)
        | Some p \<Rightarrow>
            Inr ((stacksize, Wrapped p), map_option (\<lambda>_. stacksize) attr, heap(p \<mapsto> ArgInfo start arg),
                 s\<lparr>buddy_pthread_create_known := True\<rparr>))"

definition build_pthread_create ::
  "u64 option \<Rightarrow> addr \<Rightarrow> addr \<Rightarrow> buddy_state \<Rightarrow> fault + (u64 \<times> addr \<times> addr) \<times> u64 option \<times> buddy_state" where
  "build_pthread_create attr start arg s =
     ebind (GET_BUDDY_CALL_STACK_SIZE_MASK s) (\<lambda>m.
     let stacksize = BUDDY_STACK_SIZE m
     in Inr ((stacksize, start, arg), map_option (\<lambda>_. stacksize) attr,
             s\<lparr>buddy_pthread_create_known := True\<rparr>))"

text \<open>The time of day is an argument.\<close>

definition spa_get_cur_time_us :: "u64 \<Rightarrow> u64 \<Rightarrow> u64" where
  "spa_get_cur_time_us tv_sec tv_usec = tv_sec * 1000000 + tv_usec"

subsection \<open>DO_RANDOMIZATION of rt_lib.c\<close>

text \<open>\<open>rsp\<close> is read in the hook, \<open>rsp'\<close> in \<open>au_edu_unsw_randomize\<close>.\<close>

definition buddy_DO_RANDOMIZATION ::
  "kernel \<Rightarrow> (nat \<Rightarrow> u64) \<Rightarrow> u64 \<Rightarrow> u64 \<Rightarrow> buddy_state \<Rightarrow> (fault + buddy_state) option" where
  "buddy_DO_RANDOMIZATION k rnd rsp rsp' s =
     tbind (Some (buddy_get_tls_info rsp s)) (\<lambda>tls.
     tbind (Some (buddy_get tls bf_cpu_cycles s)) (\<lambda>last_clocks.
     let (cur_clocks, s1) = sys_rdtsc k s
     in if CPU_CYCLES_PER_RANDOMIZATION < cur_clocks - last_clocks
        then au_edu_unsw_randomize rnd rsp' tls cur_clocks s1
        else Some (Inr s1)))"

end
