(* ===== verification/Buddy_Props.thy ===== *)
theory Buddy_Props
  imports Buddy Rt_Hooks
begin

section \<open>Buddy_Props: what the runtime of the buddy stack schemes guarantees\<close>

text \<open>
  The invariant \<open>buddy_ok\<close> of a thread's stack, and the properties of initialisation and
  rerandomization.  The two copies of the metadata are \<open>buddy2\<close> and \<open>buddy3\<close>, two and three call
  stack sizes below the top rounded down.
\<close>

subsection \<open>The layout of a buddy stack\<close>

definition buddy_layout :: "nat \<Rightarrow> addr \<Rightarrow> bool" where
  "buddy_layout n hi \<longleftrightarrow>
     12 \<le> n \<and> n \<le> 40 \<and> unat hi mod 4096 = 0 \<and> 4 * 2 ^ n \<le> unat hi \<and> unat hi \<le> 2 ^ 47"

abbreviation buddy2 :: "nat \<Rightarrow> addr \<Rightarrow> addr" where
  "buddy2 n hi \<equiv> buddy_tls_at (- (2 ^ n)) hi 2"

abbreviation buddy3 :: "nat \<Rightarrow> addr \<Rightarrow> addr" where
  "buddy3 n hi \<equiv> buddy_tls_at (- (2 ^ n)) hi 3"

abbreviation in_tls_page :: "addr \<Rightarrow> addr \<Rightarrow> bool" where
  "in_tls_page t \<equiv> in_region t PAGE_SIZE"

text \<open>The three lower quarters of the stack: everything but the call stack.\<close>

definition below_call_stack :: "nat \<Rightarrow> addr \<Rightarrow> addr \<Rightarrow> bool" where
  "below_call_stack n hi x \<longleftrightarrow> unat hi - 4 * 2 ^ n \<le> unat x \<and> unat x < unat hi - 2 ^ n"

text \<open>Addresses in the call stack and above its guard page.\<close>

definition on_call_stack :: "nat \<Rightarrow> addr \<Rightarrow> addr \<Rightarrow> bool" where
  "on_call_stack n hi a \<longleftrightarrow> unat hi - 2 ^ n + 4096 \<le> unat a \<and> unat a < unat hi"

lemma unat_size:
  assumes "n \<le> 40"
  shows "unat (2 ^ n :: u64) = 2 ^ n" "unat (2 * 2 ^ n :: u64) = 2 * 2 ^ n" "unat (3 * 2 ^ n :: u64) = 3 * 2 ^ n"
    "(2 :: nat) ^ n \<le> 2 ^ 40"
proof -
  show le: "(2 :: nat) ^ n \<le> 2 ^ 40" using assms by (intro power_increasing) simp_all
  have "unat (of_nat (2 ^ n) :: u64) = 2 ^ n"
    using le by (simp only: unat_of_nat) simp
  then show "unat (2 ^ n :: u64) = 2 ^ n" by simp
  then show "unat (2 * 2 ^ n :: u64) = 2 * 2 ^ n" "unat (3 * 2 ^ n :: u64) = 3 * 2 ^ n"
    using le by (simp_all add: unat_word_ariths)
qed

lemma layout_sizes:
  assumes "buddy_layout n hi"
  shows "4096 \<le> (2 :: nat) ^ n" "(2 :: nat) ^ n mod 4096 = 0" "(2 :: nat) ^ n \<le> 2 ^ 40"
proof -
  have n: "12 \<le> n" "n \<le> 40" using assms by (simp_all add: buddy_layout_def)
  then have "(2 :: nat) ^ 12 dvd 2 ^ n" by (intro le_imp_power_dvd)
  then show "(2 :: nat) ^ n mod 4096 = 0" by simp
  show "4096 \<le> (2 :: nat) ^ n" using power_increasing [OF n(1), of "2 :: nat"] by simp
  show "(2 :: nat) ^ n \<le> 2 ^ 40" using unat_size(4) n(2) by blast
qed

text \<open>Rounding down and the two copies, as numbers.\<close>

lemma tls_at_nat:
  assumes "n \<le> 40" and "4 * 2 ^ n \<le> unat x + 2 ^ n"
  shows "unat (buddy_tls_at (- (2 ^ n)) x 2) = unat x div 2 ^ n * 2 ^ n - 2 * 2 ^ n"
    and "unat (buddy_tls_at (- (2 ^ n)) x 3) = unat x div 2 ^ n * 2 ^ n - 3 * 2 ^ n"
proof -
  have "3 \<le> unat x div 2 ^ n"
    using assms(2) by (simp add: less_eq_div_iff_mult_less_eq)
  then have le: "3 * 2 ^ n \<le> unat x div 2 ^ n * 2 ^ n" by simp
  have a: "unat (BUDDY_ALIGN_CALL_STACK_POINTER (- (2 ^ n)) x) = unat x div 2 ^ n * 2 ^ n"
    by (simp add: BUDDY_ALIGN_pow2 unat_and_not_mask)
  show "unat (buddy_tls_at (- (2 ^ n)) x 2) = unat x div 2 ^ n * 2 ^ n - 2 * 2 ^ n"
    "unat (buddy_tls_at (- (2 ^ n)) x 3) = unat x div 2 ^ n * 2 ^ n - 3 * 2 ^ n"
    using le by (simp_all add: buddy_tls_at_def BUDDY_CALL_STACK_SIZE_def unat_sub word_le_nat_alt
        unat_size [OF assms(1)] a)
qed

lemma top_div:
  assumes "buddy_layout n hi"
  shows "unat (buddy2 n hi) = unat hi div 2 ^ n * 2 ^ n - 2 * 2 ^ n"
    and "unat (buddy3 n hi) = unat hi div 2 ^ n * 2 ^ n - 3 * 2 ^ n"
    and "unat hi div 2 ^ n * 2 ^ n \<le> unat hi" and "unat hi < unat hi div 2 ^ n * 2 ^ n + 2 ^ n"
    and "4 * 2 ^ n \<le> unat hi div 2 ^ n * 2 ^ n"
proof -
  have l: "n \<le> 40" "4 * 2 ^ n \<le> unat hi" using assms by (simp_all add: buddy_layout_def)
  then show "unat (buddy2 n hi) = unat hi div 2 ^ n * 2 ^ n - 2 * 2 ^ n"
    "unat (buddy3 n hi) = unat hi div 2 ^ n * 2 ^ n - 3 * 2 ^ n"
    by (simp_all add: tls_at_nat)
  show "unat hi div 2 ^ n * 2 ^ n \<le> unat hi" by simp
  show "unat hi < unat hi div 2 ^ n * 2 ^ n + 2 ^ n"
    using dividend_less_div_times [of "2 ^ n" "unat hi"] by simp
  have "4 \<le> unat hi div 2 ^ n" using l(2) by (simp add: less_eq_div_iff_mult_less_eq)
  then show "4 * 2 ^ n \<le> unat hi div 2 ^ n * 2 ^ n" by simp
qed

text \<open>Every frame of the thread finds one of the two copies.\<close>

lemma frame_finds_copy:
  assumes lay: "buddy_layout n hi" and a: "on_call_stack n hi a"
  shows "buddy_tls_at (- (2 ^ n)) a 2 \<in> {buddy2 n hi, buddy3 n hi}"
proof -
  let ?N = "2 ^ n :: nat" and ?Q = "unat hi div 2 ^ n"
  note t = top_div [OF lay]
  have n: "n \<le> 40" using lay by (simp add: buddy_layout_def)
  have a': "unat hi - ?N \<le> unat a" "unat a < unat hi" using a by (simp_all add: on_call_stack_def)
  have big: "4 * ?N \<le> unat a + ?N" using a'(1) lay unfolding buddy_layout_def by linarith
  show ?thesis
  proof (cases "?Q * ?N \<le> unat a")
    case True
    then have "unat a div ?N = ?Q" using a' t by (intro div_nat_eqI) (simp_all add: mult.commute)
    then have "unat (buddy_tls_at (- (2 ^ n)) a 2) = unat (buddy2 n hi)"
      using tls_at_nat(1) [OF n big] t(1) by simp
    then show ?thesis by (simp add: word_unat_eq_iff)
  next
    case False
    have "0 < ?N" by simp
    have "?Q * ?N = (?Q - 1) * ?N + ?N" using t(5) by (cases ?Q) simp_all
    then have "(?Q - 1) * ?N \<le> unat a" "unat a < (?Q - 1) * ?N + ?N"
      using False a' t(3) by linarith+
    then have "unat a div ?N = ?Q - 1" by (intro div_nat_eqI) (simp_all add: mult.commute)
    then have "unat (buddy_tls_at (- (2 ^ n)) a 2) = unat (buddy3 n hi)"
      using tls_at_nat(1) [OF n big] t(2) \<open>?Q * ?N = (?Q - 1) * ?N + ?N\<close> by simp
    then show ?thesis by (simp add: word_unat_eq_iff)
  qed
qed

lemma in_tls_page_nat:
  assumes "unat t + 4096 \<le> 2 ^ 64"
  shows "in_tls_page t x \<longleftrightarrow> unat t \<le> unat x \<and> unat x < unat t + 4096"
  using assms unsigned_less [where ?'a = nat and w = x]
  by (auto simp: in_region_def PAGE_SIZE_def word_less_nat_alt unat_sub_if')

text \<open>The two pages lie below the call stack, apart from each other and from the live slots.\<close>

lemma tls_pages:
  assumes lay: "buddy_layout n hi" and t: "t \<in> {buddy2 n hi, buddy3 n hi}"
  shows "unat t mod 4096 = 0" and "t \<noteq> 0" and "in_tls_page t x \<Longrightarrow> below_call_stack n hi x"
    and "in_tls_page t x \<longleftrightarrow> unat t \<le> unat x \<and> unat x < unat t + 4096"
    and "unat t + 4096 \<le> unat hi - 2 * 2 ^ n + 4096"
proof -
  obtain K where d: "unat (buddy2 n hi) = K - 2 * 2 ^ n" "unat (buddy3 n hi) = K - 3 * 2 ^ n"
    "K \<le> unat hi" "unat hi < K + 2 ^ n" "4 * 2 ^ n \<le> K" "K mod 2 ^ n = 0"
    by (rule that [OF top_div [OF lay]]) simp
  note s = layout_sizes [OF lay]
  show "unat t mod 4096 = 0" 
    using t d(1,2,6) s(2) by (auto simp flip: dvd_eq_mod_eq_0 intro!: dvd_diff_nat dvd_trans [of 4096 "2 ^ n"])
  show "t \<noteq> 0" using t d s(1) by (auto simp: word_unat_eq_iff)
  have "unat t \<le> unat hi" using t d(1-3) by auto
  then have "unat t \<le> 2 ^ 47" using lay by (simp add: buddy_layout_def)
  then show p: "in_tls_page t x \<longleftrightarrow> unat t \<le> unat x \<and> unat x < unat t + 4096" for x
    by (intro in_tls_page_nat) simp
  show "in_tls_page t x \<Longrightarrow> below_call_stack n hi x"
    unfolding p below_call_stack_def using t d s by auto
  show "unat t + 4096 \<le> unat hi - 2 * 2 ^ n + 4096" using t d by auto
qed

lemma tls_pages_apart:
  assumes "buddy_layout n hi" and "in_tls_page (buddy2 n hi) x"
  shows "\<not> in_tls_page (buddy3 n hi) x"
  using assms(2) top_div(1,2,5) [OF assms(1)] layout_sizes(1) [OF assms(1)]
  unfolding tls_pages(4) [OF assms(1), of "buddy2 n hi", simplified]
    tls_pages(4) [OF assms(1), of "buddy3 n hi", simplified] by auto

lemma tls_field_in_page [simp]: "in_tls_page t (t + buddy_field_offset f)"
  by (cases f) (simp_all add: in_region_offset PAGE_SIZE_def)

subsection \<open>The invariant of a thread\<close>

definition buddy_fld :: "addr \<Rightarrow> buddy_field \<Rightarrow> 'a os_state_scheme \<Rightarrow> u64" where
  "buddy_fld t f s = cells (vmem s) (t + buddy_field_offset f)"

definition buddy_copy :: "addr \<Rightarrow> addr \<Rightarrow> addr \<Rightarrow> 'a os_state_scheme \<Rightarrow> bool" where
  "buddy_copy t b hi s \<longleftrightarrow>
     buddy_fld t bf_stack_top s = hi \<and> buddy_fld t bf_buddy_info s = b \<and> buddy_fld t bf_is_randomizing s = 0"

definition buddy_mapped :: "nat \<Rightarrow> addr \<Rightarrow> buddy_state \<Rightarrow> bool" where
  "buddy_mapped n hi s \<longleftrightarrow>
     buddy_layout n hi \<and> cells (vmem s) (stk_mask_at s) = - (2 ^ n) \<and>
     prot_of (vmem s) (stk_mask_at s) \<noteq> None \<and> \<not> below_call_stack n hi (stk_mask_at s) \<and>
     (\<forall>x. below_call_stack n hi x \<longrightarrow> prot_of (vmem s) x \<noteq> None \<and>
       (prot_of (vmem s) x = Some PROT_RW \<or> in_tls_page (buddy2 n hi) x \<or> in_tls_page (buddy3 n hi) x))"

definition buddy_ok :: "nat \<Rightarrow> addr \<Rightarrow> buddy_state \<Rightarrow> bool" where
  "buddy_ok n hi s \<longleftrightarrow> buddy_mapped n hi s \<and>
     buddy_copy (buddy2 n hi) (buddy3 n hi) hi s \<and> buddy_copy (buddy3 n hi) (buddy2 n hi) hi s \<and>
     buddy_fld (buddy2 n hi) bf_random_val s = buddy_fld (buddy3 n hi) bf_random_val s"

text \<open>
  What a frame at \<open>a\<close> returns to: its slot, less the random value in the copy that it finds.  The
  instrumented code computes both from the variable.
\<close>

definition buddy_content :: "buddy_state \<Rightarrow> addr \<Rightarrow> u64" where
  "buddy_content s a =
     (let m = cells (vmem s) (stk_mask_at s) in cells (vmem s) (a + m) - cells (vmem s) (buddy_tls_at m a 2))"

subsection \<open>The two halves of an update\<close>

definition updated :: "addr \<Rightarrow> u64 \<Rightarrow> u64 \<Rightarrow> vm \<Rightarrow> vm" where
  "updated t d c m =
     (vm_protect t PAGE_SIZE PROT_RW m)\<lparr>cells := (cells m)
        (t + buddy_field_offset bf_is_randomizing := 1,
         t + buddy_field_offset bf_random_val := cells m (t + buddy_field_offset bf_random_val) + d,
         t + buddy_field_offset bf_cpu_cycles := c)\<rparr>"

definition finished :: "addr \<Rightarrow> vm \<Rightarrow> vm" where
  "finished t m =
     vm_protect t PAGE_SIZE PROT_READ (m\<lparr>cells := (cells m)(t + buddy_field_offset bf_is_randomizing := 0)\<rparr>)"

lemma updated_prot:
  "prot_of (updated t d c m) x = (if in_tls_page t x then map_option (\<lambda>_. PROT_RW) (prot_of m x) else prot_of m x)"
  and finished_prot:
  "prot_of (finished t m) x = (if in_tls_page t x then map_option (\<lambda>_. PROT_READ) (prot_of m x) else prot_of m x)"
  by (simp_all add: updated_def finished_def)

lemma updated_outside: "\<not> in_tls_page t x \<Longrightarrow> cells (updated t d c m) x = cells m x"
  and finished_outside: "\<not> in_tls_page t x \<Longrightarrow> cells (finished t m) x = cells m x"
  using tls_field_in_page [of t] by (auto simp: updated_def finished_def simp del: buddy_field_offset.simps)

lemma updated_field:
  "cells (updated t d c m) (t + buddy_field_offset f) =
     (case f of bf_random_val \<Rightarrow> cells m (t + buddy_field_offset f) + d | bf_is_randomizing \<Rightarrow> 1
      | bf_cpu_cycles \<Rightarrow> c | _ \<Rightarrow> cells m (t + buddy_field_offset f))"
  by (cases f) (simp_all add: updated_def)

lemma finished_field:
  "cells (finished t m) (t + buddy_field_offset f) =
     (if f = bf_is_randomizing then 0 else cells m (t + buddy_field_offset f))"
  by (cases f) (simp_all add: finished_def)

lemma page_fields_mapped:
  "(\<And>x. in_tls_page t x \<Longrightarrow> prot_of m x \<noteq> None) \<Longrightarrow> \<exists>p. prot_of m (t + buddy_field_offset f) = Some p"
  using tls_field_in_page [of t f] by blast

lemma buddy_get_ok:
  assumes "\<And>x. in_tls_page t x \<Longrightarrow> prot_of (vmem s) x \<noteq> None"
  shows "buddy_get t f s = Inr (buddy_fld t f s)"
proof -
  obtain p where "prot_of (vmem s) (t + buddy_field_offset f) = Some p"
    using page_fields_mapped [of t "vmem s" f] assms by blast
  then show ?thesis by (simp add: buddy_get_def buddy_fld_def)
qed

lemma buddy_update_ok:
  assumes "unat t mod 4096 = 0" and m: "\<And>x. in_tls_page t x \<Longrightarrow> prot_of (vmem s) x \<noteq> None"
  shows "buddy_update t d c s = Inr (s\<lparr>vmem := updated t d c (vmem s)\<rparr>)"
proof -
  let ?s = "sys_mprotect t PAGE_SIZE PROT_RW s"
  have rw: "prot_of (vmem ?s) (t + buddy_field_offset f) = Some PROT_RW" for f
  proof -
    obtain p where "prot_of (vmem s) (t + buddy_field_offset f) = Some p"
      using page_fields_mapped [of t "vmem s" f] m by blast
    then show ?thesis using assms(1) by (simp add: sys_mprotect_def)
  qed
  have set_rw: "buddy_set t f v s' = Inr (put_cell (t + buddy_field_offset f) v s')"
    if "prot_of (vmem s') = prot_of (vmem ?s)" for f v s'
    using that rw [of f] by (simp add: buddy_set_def put_cell_def)
  have get_rw: "buddy_get t f s' = Inr (cells (vmem s') (t + buddy_field_offset f))"
    if "prot_of (vmem s') = prot_of (vmem ?s)" for f s'
    using that rw [of f] by (simp add: buddy_get_def)
  show ?thesis
    unfolding buddy_update_def
    by (simp add: set_rw get_rw del: buddy_field_offset.simps)
       (simp add: put_cell_def sys_mprotect_def assms(1) updated_def vm_protect_def)
qed

lemma buddy_finish_ok:
  assumes "unat t mod 4096 = 0" and "\<And>x. in_tls_page t x \<Longrightarrow> prot_of (vmem s) x = Some PROT_RW"
  shows "buddy_finish t s = Inr (s\<lparr>vmem := finished t (vmem s)\<rparr>)"
  using assms(1) assms(2) [OF tls_field_in_page, of bf_is_randomizing]
  by (simp add: buddy_finish_def buddy_set_def sys_mprotect_def finished_def)

subsection \<open>The range that is re-blinded\<close>

definition range_start :: "nat \<Rightarrow> u64 \<Rightarrow> addr" where
  "range_start n rsp = (rsp - 2 ^ n) AND (- 32)"

lemma reblind_range:
  assumes lay: "buddy_layout n hi" and rsp: "on_call_stack n hi rsp"
  shows "unat (hi - 2 ^ n) = unat hi - 2 ^ n" and "unat (hi - 2 ^ n) mod 32 = 0"
    and "range_start n rsp \<le> hi - 2 ^ n"
    and "unat hi - 2 * 2 ^ n + 4096 \<le> unat (range_start n rsp)"
    and "unat (range_start n rsp) mod 8 = 0"
    and "unat (range_start n rsp) \<le> unat rsp - 2 ^ n"
proof -
  let ?N = "2 ^ n :: nat"
  have l: "n \<le> 40" "unat hi mod 4096 = 0" "4 * ?N \<le> unat hi" using lay by (simp_all add: buddy_layout_def)
  note z = layout_sizes [OF lay]
  have r: "unat hi - ?N + 4096 \<le> unat rsp" "unat rsp < unat hi" using rsp by (simp_all add: on_call_stack_def)
  show hi: "unat (hi - 2 ^ n) = unat hi - 2 ^ n"
    using l by (simp add: unat_sub word_le_nat_alt unat_size)
  have "4096 dvd unat hi" "4096 dvd ?N" using l(2) z(2) by (simp_all add: dvd_eq_mod_eq_0)
  then obtain h k where hk: "unat hi = 4096 * h" "?N = 4096 * k" by (elim dvdE)
  then have sub: "unat hi - ?N = 4096 * (h - k)" "unat hi - 2 * ?N + 4096 = 4096 * (h - 2 * k) + 4096"
    by (simp_all add: diff_mult_distrib2)
  show "unat (hi - 2 ^ n) mod 32 = 0"
    unfolding hi sub(1) using mod_mult_left_eq [of 4096 32 "h - k"] by simp
  have "unat (rsp - 2 ^ n) = unat rsp - ?N"
    using l(1) r l(3) by (subst unat_sub) (auto simp: word_le_nat_alt unat_size)
  then have q: "unat (range_start n rsp) = (unat rsp - ?N) div 32 * 32"
    by (simp add: range_start_def align_32)
  then show "range_start n rsp \<le> hi - 2 ^ n"
    using r(2) by (simp add: word_le_nat_alt hi)
  have "unat hi - 2 * ?N + 4096 \<le> unat rsp - ?N" using r l(3) by linarith
  then have "(unat hi - 2 * ?N + 4096) div 32 \<le> (unat rsp - ?N) div 32" by (rule div_le_mono)
  moreover have "unat hi - 2 * ?N + 4096 = 32 * (128 * (h - 2 * k) + 128)" unfolding sub(2) by simp
  ultimately show "unat hi - 2 * 2 ^ n + 4096 \<le> unat (range_start n rsp)" unfolding q by simp
  show "unat (range_start n rsp) mod 8 = 0" unfolding q by presburger
  show "unat (range_start n rsp) \<le> unat rsp - 2 ^ n" unfolding q by simp
qed

lemma reblind_range_below:
  assumes lay: "buddy_layout n hi" and rsp: "on_call_stack n hi rsp"
    and x: "in_region (range_start n rsp) (hi - 2 ^ n - range_start n rsp) x"
  shows "below_call_stack n hi x" and "t \<in> {buddy2 n hi, buddy3 n hi} \<Longrightarrow> \<not> in_tls_page t x"
proof -
  note r = reblind_range [OF lay rsp]
  have x': "unat (range_start n rsp) \<le> unat x" "unat x < unat hi - 2 ^ n"
    using x in_region_between [OF r(3), of x] r(1) by (simp_all add: word_le_nat_alt word_less_nat_alt)
  then show "below_call_stack n hi x"
    using r(4) by (simp add: below_call_stack_def)
  assume t: "t \<in> {buddy2 n hi, buddy3 n hi}"
  have "4 * 2 ^ n \<le> unat hi" using lay by (simp add: buddy_layout_def)
  then show "\<not> in_tls_page t x"
    using tls_pages(4,5) [OF lay t] x'(1) r(4) by fastforce
qed

subsection \<open>Rerandomization\<close>

text \<open>The memory after a rerandomization by way of the copy \<open>t\<close> with the buddy \<open>b\<close>.\<close>

definition shuffled :: "addr \<Rightarrow> addr \<Rightarrow> u64 \<Rightarrow> u64 \<Rightarrow> addr \<Rightarrow> addr \<Rightarrow> vm \<Rightarrow> vm" where
  "shuffled t b d c p e m = finished t (add_cells p e d (finished b (updated b d c (updated t d c m))))"

lemma shuffled_prot:
  "prot_of (shuffled t b d c p e m) x =
     (if in_tls_page t x \<or> in_tls_page b x then map_option (\<lambda>_. PROT_READ) (prot_of m x) else prot_of m x)"
  by (simp add: shuffled_def finished_prot updated_prot option.map_comp o_def)

text \<open>The copies in either order.\<close>

definition copies :: "nat \<Rightarrow> addr \<Rightarrow> addr \<Rightarrow> addr \<Rightarrow> bool" where
  "copies n hi t b \<longleftrightarrow> t = buddy2 n hi \<and> b = buddy3 n hi \<or> t = buddy3 n hi \<and> b = buddy2 n hi"

lemma copies_apart: "buddy_layout n hi \<Longrightarrow> copies n hi t b \<Longrightarrow> in_tls_page t x \<Longrightarrow> \<not> in_tls_page b x"
  using tls_pages_apart unfolding copies_def by blast

lemma buddy_okD:
  assumes "buddy_ok n hi s" and "copies n hi t b"
  shows "buddy_layout n hi" "t \<in> {buddy2 n hi, buddy3 n hi}" "b \<in> {buddy2 n hi, buddy3 n hi}"
    and "buddy_copy t b hi s" "buddy_copy b t hi s"
    and "in_tls_page t x \<Longrightarrow> prot_of (vmem s) x \<noteq> None" "in_tls_page b x \<Longrightarrow> prot_of (vmem s) x \<noteq> None"
    and "below_call_stack n hi x \<Longrightarrow> \<not> in_tls_page t x \<Longrightarrow> \<not> in_tls_page b x \<Longrightarrow> prot_of (vmem s) x = Some PROT_RW"
proof -
  show lay: "buddy_layout n hi" using assms(1) by (simp add: buddy_ok_def buddy_mapped_def)
  show t: "t \<in> {buddy2 n hi, buddy3 n hi}" and b: "b \<in> {buddy2 n hi, buddy3 n hi}"
    using assms(2) by (auto simp: copies_def)
  show "buddy_copy t b hi s" "buddy_copy b t hi s" using assms by (auto simp: buddy_ok_def copies_def)
  show "in_tls_page t x \<Longrightarrow> prot_of (vmem s) x \<noteq> None" "in_tls_page b x \<Longrightarrow> prot_of (vmem s) x \<noteq> None"
    using tls_pages(3) [OF lay t, of x] tls_pages(3) [OF lay b, of x] assms(1)
    unfolding buddy_ok_def buddy_mapped_def by blast+
  show "below_call_stack n hi x \<Longrightarrow> \<not> in_tls_page t x \<Longrightarrow> \<not> in_tls_page b x \<Longrightarrow> prot_of (vmem s) x = Some PROT_RW"
    using assms unfolding buddy_ok_def buddy_mapped_def copies_def by blast
qed

lemma buddy_ready:
  assumes "buddy_ok n hi s" and "copies n hi t b"
  shows "buddy_get t bf_buddy_info s = Inr b" and "buddy_not_ready t b s = Inr False"
    and "buddy_get t bf_stack_top s = Inr hi" and "GET_BUDDY_CALL_STACK_SIZE_MASK s = Inr (- (2 ^ n))"
proof -
  note D = buddy_okD [OF assms]
  have get: "buddy_get t f s = Inr (buddy_fld t f s)" "buddy_get b f s = Inr (buddy_fld b f s)" for f
    using D(6,7) by (auto intro: buddy_get_ok)
  have "t \<noteq> 0" "b \<noteq> 0" using tls_pages(2) [OF D(1)] D(2,3) by blast+
  with D(4,5) show "buddy_get t bf_buddy_info s = Inr b" "buddy_not_ready t b s = Inr False"
    "buddy_get t bf_stack_top s = Inr hi"
    by (simp_all add: get buddy_copy_def buddy_not_ready_def IS_BUDDY_STACK_INITED_def)
  show "GET_BUDDY_CALL_STACK_SIZE_MASK s = Inr (- (2 ^ n))"
    using assms(1) by (auto simp: buddy_ok_def buddy_mapped_def GET_BUDDY_CALL_STACK_SIZE_MASK_def)
qed

lemma buddy_update_mem:
  "unat t mod 4096 = 0 \<Longrightarrow> (\<And>x. in_tls_page t x \<Longrightarrow> prot_of m x \<noteq> None) \<Longrightarrow>
   buddy_update t d c (s\<lparr>vmem := m\<rparr>) = Inr (s\<lparr>vmem := updated t d c m\<rparr>)"
  using buddy_update_ok [where s = "s\<lparr>vmem := m\<rparr>"] by simp

lemma buddy_finish_mem:
  "unat t mod 4096 = 0 \<Longrightarrow> (\<And>x. in_tls_page t x \<Longrightarrow> prot_of m x = Some PROT_RW) \<Longrightarrow>
   buddy_finish t (s\<lparr>vmem := m\<rparr>) = Inr (s\<lparr>vmem := finished t m\<rparr>)"
  using buddy_finish_ok [where s = "s\<lparr>vmem := m\<rparr>"] by simp

lemma reblind_mem:
  assumes "buddy_layout n hi" and "on_call_stack n hi rsp"
    and rw: "\<And>x. in_region (range_start n rsp) (hi - 2 ^ n - range_start n rsp) x \<Longrightarrow> prot_of m x = Some PROT_RW"
  shows "avx2_64_x_4_add (rsp - 2 ^ n) (hi - 2 ^ n) d (s\<lparr>vmem := m\<rparr>) =
    Some (Inr (s\<lparr>vmem := add_cells (range_start n rsp) (hi - 2 ^ n) d m\<rparr>))"
proof -
  note r = reblind_range [OF assms(1,2)]
  have "avx2_64_x_4_add (rsp - 2 ^ n) (hi - 2 ^ n) d (s\<lparr>vmem := m\<rparr>) =
    Some (Inr ((s\<lparr>vmem := m\<rparr>)\<lparr>vmem := add_cells ((rsp - 2 ^ n) AND - 32) (hi - 2 ^ n) d (vmem (s\<lparr>vmem := m\<rparr>))\<rparr>))"
    by (rule avx2_add_ok [OF r(2)]) (use r(3) rw in \<open>auto simp: range_start_def\<close>)
  then show ?thesis unfolding range_start_def by simp
qed

lemma au_randomize_eq:
  assumes ok: "buddy_ok n hi s" and c: "copies n hi t b" and rsp: "on_call_stack n hi rsp"
  shows "au_edu_unsw_randomize rnd rsp t cycles s = Some (Inr (s\<lparr>tick := Suc (tick s),
     vmem := shuffled t b (rnd (tick s)) cycles (range_start n rsp) (hi - 2 ^ n) (vmem s)\<rparr>))"
proof -
  note D = buddy_okD [OF ok c]
  let ?d = "rnd (tick s)" and ?s1 = "s\<lparr>tick := Suc (tick s)\<rparr>"
  let ?m1 = "updated t ?d cycles (vmem s)"
  let ?m2 = "updated b ?d cycles ?m1"
  let ?m3 = "finished b ?m2"
  let ?m4 = "add_cells (range_start n rsp) (hi - 2 ^ n) ?d ?m3"
  have page: "unat t mod 4096 = 0" "unat b mod 4096 = 0"
    using tls_pages(1) [OF D(1) D(2)] tls_pages(1) [OF D(1) D(3)] by simp_all
  have "buddy_update t ?d cycles (?s1\<lparr>vmem := vmem s\<rparr>) = Inr (?s1\<lparr>vmem := ?m1\<rparr>)"
    by (rule buddy_update_mem [OF page(1) D(6)])
  then have 1: "buddy_update t ?d cycles ?s1 = Inr (?s1\<lparr>vmem := ?m1\<rparr>)" by simp
  have b_rw: "in_tls_page b x \<Longrightarrow> prot_of ?m1 x \<noteq> None" for x
    using D(7) by (simp add: updated_prot)
  then have 2: "buddy_update b ?d cycles (?s1\<lparr>vmem := ?m1\<rparr>) = Inr (?s1\<lparr>vmem := ?m2\<rparr>)"
    by (rule buddy_update_mem [OF page(2)])
  have "in_tls_page b x \<Longrightarrow> prot_of ?m2 x = Some PROT_RW" for x
    using b_rw [of x] by (auto simp: updated_prot)
  then have 3: "buddy_finish b (?s1\<lparr>vmem := ?m2\<rparr>) = Inr (?s1\<lparr>vmem := ?m3\<rparr>)"
    by (rule buddy_finish_mem [OF page(2)])
  have "prot_of ?m3 x = Some PROT_RW"
    if "in_region (range_start n rsp) (hi - 2 ^ n - range_start n rsp) x" for x
    using reblind_range_below [OF D(1) rsp that] D(2,3,8) by (simp add: finished_prot updated_prot)
  then have 4: "avx2_64_x_4_add (rsp - 2 ^ n) (hi - 2 ^ n) ?d (?s1\<lparr>vmem := ?m3\<rparr>) = Some (Inr (?s1\<lparr>vmem := ?m4\<rparr>))"
    by (rule reblind_mem [OF D(1) rsp])
  have "in_tls_page t x \<Longrightarrow> prot_of ?m4 x = Some PROT_RW" for x
    using D(6) [of x] copies_apart [OF D(1) c, of x] by (auto simp: finished_prot updated_prot)
  then have 5: "buddy_finish t (?s1\<lparr>vmem := ?m4\<rparr>) = Inr (?s1\<lparr>vmem := finished t ?m4\<rparr>)"
    by (rule buddy_finish_mem [OF page(1)])
  show ?thesis
    unfolding au_edu_unsw_randomize_def buddy_ready [OF ok c] tbind_simps if_False Let_def sys_random_def prod.case
      BUDDY_CALL_STACK_SIZE_def minus_minus 1 2 3 4 5 ebind_simps shuffled_def
    by simp
qed

lemma shuffled_outside:
  "\<not> in_tls_page t x \<Longrightarrow> \<not> in_tls_page b x \<Longrightarrow>
   cells (shuffled t b d c p e m) x =
     (if in_region p (e - p) x \<and> unat (x - p) mod 8 = 0 then cells m x + d else cells m x)"
  by (simp add: shuffled_def finished_outside updated_outside)

lemma shuffled_fields:
  assumes lay: "buddy_layout n hi" and c: "copies n hi t b" and rsp: "on_call_stack n hi rsp"
    and u: "u = t \<or> u = b"
  shows "cells (shuffled t b d cyc (range_start n rsp) (hi - 2 ^ n) m) (u + buddy_field_offset f) =
     (case f of bf_random_val \<Rightarrow> cells m (u + buddy_field_offset f) + d | bf_is_randomizing \<Rightarrow> 0
      | bf_cpu_cycles \<Rightarrow> cyc | _ \<Rightarrow> cells m (u + buddy_field_offset f))"
proof -
  have tb: "t \<in> {buddy2 n hi, buddy3 n hi}" "b \<in> {buddy2 n hi, buddy3 n hi}"
    using c by (auto simp: copies_def)
  have out: "\<not> in_region (range_start n rsp) (hi - 2 ^ n - range_start n rsp) (w + buddy_field_offset f)"
    if "w = t \<or> w = b" for w
    using reblind_range_below(2) [OF lay rsp] tb that tls_field_in_page by blast
  have tf: "\<not> in_tls_page b (t + buddy_field_offset f)" and bf: "\<not> in_tls_page t (b + buddy_field_offset f)"
    using copies_apart [OF lay c] tls_field_in_page by blast+
  note [simp] = finished_field updated_field finished_outside updated_outside
  show ?thesis
    using u
  proof
    assume "u = t"
    then show ?thesis
      using out [of t] tf by (cases f) (simp_all add: shuffled_def del: buddy_field_offset.simps)
  next
    assume "u = b"
    then show ?thesis
      using out [of b] bf by (cases f) (simp_all add: shuffled_def del: buddy_field_offset.simps)
  qed
qed

text \<open>The frames whose slots a rerandomization from the stack pointer \<open>rsp\<close> changes.\<close>

definition buddy_live :: "nat \<Rightarrow> addr \<Rightarrow> u64 \<Rightarrow> addr \<Rightarrow> bool" where
  "buddy_live n hi rsp a \<longleftrightarrow> on_call_stack n hi a \<and> rsp \<le> a \<and> unat a mod 8 = 0"

lemma slot_nat:
  assumes "buddy_layout n hi" and "on_call_stack n hi a"
  shows "unat (a - 2 ^ n) = unat a - 2 ^ n" and "2 ^ n \<le> unat a" and "unat (a - 2 ^ n) < unat hi - 2 ^ n"
proof -
  have l: "n \<le> 40" "4 * 2 ^ n \<le> unat hi" using assms(1) by (simp_all add: buddy_layout_def)
  have a: "unat hi - 2 ^ n + 4096 \<le> unat a" "unat a < unat hi" using assms(2) by (simp_all add: on_call_stack_def)
  show "2 ^ n \<le> unat a" using l(2) a(1) by linarith
  then show u: "unat (a - 2 ^ n) = unat a - 2 ^ n"
    by (subst unat_sub) (simp_all add: word_le_nat_alt unat_size [OF l(1)])
  show "unat (a - 2 ^ n) < unat hi - 2 ^ n" unfolding u using a(2) \<open>2 ^ n \<le> unat a\<close> by linarith
qed

text \<open>A slot is below the call stack and in none of the two pages.\<close>

lemma slot_place:
  assumes lay: "buddy_layout n hi" and a: "on_call_stack n hi a"
  shows "below_call_stack n hi (a - 2 ^ n)" and "t \<in> {buddy2 n hi, buddy3 n hi} \<Longrightarrow> \<not> in_tls_page t (a - 2 ^ n)"
proof -
  note s = slot_nat [OF lay a]
  have a': "unat hi - 2 ^ n + 4096 \<le> unat a" "4 * 2 ^ n \<le> unat hi"
    using a lay by (simp_all add: on_call_stack_def buddy_layout_def)
  then have lo: "unat hi - 2 * 2 ^ n + 4096 \<le> unat (a - 2 ^ n)" unfolding s(1) by linarith
  then show "below_call_stack n hi (a - 2 ^ n)" using s(3) by (simp add: below_call_stack_def)
  assume t: "t \<in> {buddy2 n hi, buddy3 n hi}"
  show "\<not> in_tls_page t (a - 2 ^ n)"
    unfolding tls_pages(4) [OF lay t] using tls_pages(5) [OF lay t] lo by linarith
qed

lemma live_slot_in_range:
  assumes lay: "buddy_layout n hi" and rsp: "on_call_stack n hi rsp" and a: "buddy_live n hi rsp a"
  shows "in_region (range_start n rsp) (hi - 2 ^ n - range_start n rsp) (a - 2 ^ n) \<and>
    unat (a - 2 ^ n - range_start n rsp) mod 8 = 0"
proof -
  have a': "on_call_stack n hi a" "unat rsp \<le> unat a" "unat a mod 8 = 0"
    using a by (simp_all add: buddy_live_def word_le_nat_alt)
  note r = reblind_range [OF lay rsp] and s = slot_nat [OF lay a'(1)]
  have le: "unat (range_start n rsp) \<le> unat (a - 2 ^ n)" using r(6) a'(2) s(1) by linarith
  have "8 dvd (2 :: nat) ^ n" using layout_sizes(2) [OF lay] dvd_trans [of "8 :: nat" 4096 "2 ^ n"]
    by (simp flip: dvd_eq_mod_eq_0)
  then have sl: "8 dvd unat a - 2 ^ n" using a'(3) by (simp flip: dvd_eq_mod_eq_0)
  have "8 dvd unat (range_start n rsp)" using r(5) by (simp flip: dvd_eq_mod_eq_0)
  with sl have "8 dvd unat (a - 2 ^ n) - unat (range_start n rsp)"
    unfolding s(1) by (rule dvd_diff_nat)
  then have "unat (a - 2 ^ n - range_start n rsp) mod 8 = 0"
    using le by (simp add: unat_sub word_le_nat_alt)
  moreover have "a - 2 ^ n < hi - 2 ^ n" using s(3) by (simp add: word_less_nat_alt r(1))
  ultimately show ?thesis using le in_region_between [OF r(3)] by (simp add: word_le_nat_alt)
qed

lemma shuffled_ok:
  assumes ok: "buddy_ok n hi s" and c: "copies n hi t b" and rsp: "on_call_stack n hi rsp"
    and s': "s' = s\<lparr>tick := k, vmem := shuffled t b d cyc (range_start n rsp) (hi - 2 ^ n) (vmem s)\<rparr>"
  shows "buddy_ok n hi s'" and "buddy_live n hi rsp a \<Longrightarrow> buddy_content s' a = buddy_content s a"
proof -
  note D = buddy_okD [OF ok c]
  have M: "buddy_mapped n hi s" using ok by (simp add: buddy_ok_def)
  have st: "stk_mask_at s' = stk_mask_at s" by (simp add: s')
  have above: "\<not> below_call_stack n hi (stk_mask_at s)" using M by (simp add: buddy_mapped_def)
  have no_page: "\<not> in_tls_page t (stk_mask_at s)" "\<not> in_tls_page b (stk_mask_at s)"
    using above tls_pages(3) [OF D(1) D(2)] tls_pages(3) [OF D(1) D(3)] by blast+
  have mask: "cells (vmem s') (stk_mask_at s) = - (2 ^ n)"
    using no_page above reblind_range_below(1) [OF D(1) rsp] M
    by (auto simp: s' shuffled_outside buddy_mapped_def)
  have prot: "prot_of (vmem s') x =
      (if in_tls_page t x \<or> in_tls_page b x then map_option (\<lambda>_. PROT_READ) (prot_of (vmem s) x)
       else prot_of (vmem s) x)" for x
    by (simp add: s' shuffled_prot)
  have mapped: "buddy_mapped n hi s'"
    unfolding buddy_mapped_def st
    using M mask no_page c by (auto simp: buddy_mapped_def prot copies_def)
  have fld: "buddy_fld u f s' =
     (case f of bf_random_val \<Rightarrow> buddy_fld u f s + d | bf_is_randomizing \<Rightarrow> 0
      | bf_cpu_cycles \<Rightarrow> cyc | _ \<Rightarrow> buddy_fld u f s)" if "u = t \<or> u = b" for u f
    using shuffled_fields [OF D(1) c rsp that] by (simp add: s' buddy_fld_def split: buddy_field.split)
  have tb: "buddy2 n hi = t \<or> buddy2 n hi = b" "buddy3 n hi = t \<or> buddy3 n hi = b"
    using c by (auto simp: copies_def)
  show "buddy_ok n hi s'"
    using ok mapped fld [OF tb(1)] fld [OF tb(2)] by (simp add: buddy_ok_def buddy_copy_def)
  assume live: "buddy_live n hi rsp a"
  then have a: "on_call_stack n hi a" by (simp add: buddy_live_def)
  obtain u where u: "buddy_tls_at (- (2 ^ n)) a 2 = u" "u = t \<or> u = b"
    using frame_finds_copy [OF D(1) a] tb by blast
  have "cells (vmem s') (a - 2 ^ n) = cells (vmem s) (a - 2 ^ n) + d"
    using slot_place(2) [OF D(1) a] D(2,3) live_slot_in_range [OF D(1) rsp live]
    by (simp add: s' shuffled_outside)
  moreover have "cells (vmem s') u = cells (vmem s) u + d"
    using fld [OF u(2), of bf_random_val] by (simp add: buddy_fld_def)
  ultimately show "buddy_content s' a = buddy_content s a"
    using mask M by (simp add: buddy_content_def st buddy_mapped_def u(1))
qed

text \<open>What a call changes: nothing outside the three lower quarters; when due, both random values.\<close>

lemma shuffled_rest:
  assumes "buddy_layout n hi" and "copies n hi t b" and "on_call_stack n hi rsp" and "\<not> below_call_stack n hi x"
  shows "prot_of (shuffled t b d cyc (range_start n rsp) (hi - 2 ^ n) m) x = prot_of m x"
    and "cells (shuffled t b d cyc (range_start n rsp) (hi - 2 ^ n) m) x = cells m x"
proof -
  have "t \<in> {buddy2 n hi, buddy3 n hi}" "b \<in> {buddy2 n hi, buddy3 n hi}"
    using assms(2) by (auto simp: copies_def)
  then have "\<not> in_tls_page t x" "\<not> in_tls_page b x"
    using tls_pages(3) [OF assms(1)] assms(4) by blast+
  then show "prot_of (shuffled t b d cyc (range_start n rsp) (hi - 2 ^ n) m) x = prot_of m x"
    "cells (shuffled t b d cyc (range_start n rsp) (hi - 2 ^ n) m) x = cells m x"
    using reblind_range_below(1) [OF assms(1,3)] assms(4) by (auto simp: shuffled_prot shuffled_outside)
qed

definition buddy_due :: "kernel \<Rightarrow> u64 \<Rightarrow> buddy_state \<Rightarrow> bool" where
  "buddy_due k rsp s \<longleftrightarrow>
     CPU_CYCLES_PER_RANDOMIZATION <
       k_rdtsc k (tick s) - buddy_fld (buddy_tls_at (cells (vmem s) (stk_mask_at s)) rsp 2) bf_cpu_cycles s"

definition buddy_same_rest :: "nat \<Rightarrow> addr \<Rightarrow> buddy_state \<Rightarrow> buddy_state \<Rightarrow> bool" where
  "buddy_same_rest n hi s s' \<longleftrightarrow> stk_mask_at s' = stk_mask_at s \<and> gs_base s' = gs_base s \<and>
     (\<forall>x. \<not> below_call_stack n hi x \<longrightarrow>
        prot_of (vmem s') x = prot_of (vmem s) x \<and> cells (vmem s') x = cells (vmem s) x)"

lemma buddy_run_eq:
  assumes ok: "buddy_ok n hi s" and rsp: "on_call_stack n hi rsp"
    and t: "buddy_tls_at (- (2 ^ n)) rsp 2 = t" "copies n hi t b"
  shows "buddy_DO_RANDOMIZATION k rnd rsp rsp' s =
    (if buddy_due k rsp s then au_edu_unsw_randomize rnd rsp' t (k_rdtsc k (tick s)) (s\<lparr>tick := Suc (tick s)\<rparr>)
     else Some (Inr (s\<lparr>tick := Suc (tick s)\<rparr>)))"
proof -
  have mask: "cells (vmem s) (stk_mask_at s) = - (2 ^ n)"
    using ok by (simp add: buddy_ok_def buddy_mapped_def)
  have cyc: "buddy_get t bf_cpu_cycles s = Inr (buddy_fld t bf_cpu_cycles s)"
    using buddy_okD(6) [OF ok t(2)] by (rule buddy_get_ok)
  show ?thesis
    by (simp add: buddy_DO_RANDOMIZATION_def buddy_get_tls_info_def buddy_ready(4) [OF ok t(2)] t(1) cyc
        sys_rdtsc_def buddy_due_def mask)
qed

lemma buddy_run_ok:
  assumes ok: "buddy_ok n hi s" and rsp: "on_call_stack n hi rsp" "on_call_stack n hi rsp'"
  shows "\<exists>s'. buddy_DO_RANDOMIZATION k rnd rsp rsp' s = Some (Inr s') \<and> buddy_ok n hi s' \<and>
    (\<forall>a. buddy_live n hi rsp' a \<longrightarrow> buddy_content s' a = buddy_content s a) \<and> buddy_same_rest n hi s s' \<and>
    (\<forall>t \<in> {buddy2 n hi, buddy3 n hi}. buddy_fld t bf_random_val s' =
       buddy_fld t bf_random_val s + (if buddy_due k rsp s then rnd (Suc (tick s)) else 0))"
proof -
  have lay: "buddy_layout n hi" and mask: "cells (vmem s) (stk_mask_at s) = - (2 ^ n)"
    using ok by (simp_all add: buddy_ok_def buddy_mapped_def)
  obtain t b where t: "buddy_tls_at (- (2 ^ n)) rsp 2 = t" "copies n hi t b"
    using frame_finds_copy [OF lay rsp(1)] unfolding copies_def by blast
  let ?s1 = "s\<lparr>tick := Suc (tick s)\<rparr>"
  have ok1: "buddy_ok n hi ?s1"
    using ok by (simp add: buddy_ok_def buddy_mapped_def buddy_copy_def buddy_fld_def)
  have cont1: "buddy_content ?s1 a = buddy_content s a" "buddy_fld u f ?s1 = buddy_fld u f s" for a u f
    by (simp_all add: buddy_content_def buddy_fld_def)
  note start = buddy_run_eq [OF ok rsp(1) t, of k rnd rsp']
  show ?thesis
  proof (cases "buddy_due k rsp s")
    case True
    note run = au_randomize_eq [OF ok1 t(2) rsp(2), of rnd "k_rdtsc k (tick s)"]
    note eff = shuffled_ok [OF ok1 t(2) rsp(2) refl]
    have "buddy_fld u bf_random_val (s\<lparr>tick := i, vmem := shuffled t b d c (range_start n rsp') (hi - 2 ^ n) (vmem s)\<rparr>) =
        buddy_fld u bf_random_val s + d" if "u \<in> {buddy2 n hi, buddy3 n hi}" for u d c i
      using shuffled_fields [OF lay t(2) rsp(2), of u _ _ _ bf_random_val] that t(2)
      by (auto simp: buddy_fld_def copies_def)
    then show ?thesis
      unfolding start if_P [OF True] run
      using eff cont1 shuffled_rest [OF lay t(2) rsp(2)] by (simp add: buddy_same_rest_def)
  next
    case False
    then show ?thesis unfolding start using ok1 cont1 by (simp add: buddy_same_rest_def)
  qed
qed

text \<open>Which cells a call changes, and how: two fields of both copies and the slots of the re-blinded range.\<close>

definition copies_of :: "nat \<Rightarrow> addr \<Rightarrow> buddy_field \<Rightarrow> addr set" where
  "copies_of n hi f = {buddy2 n hi + buddy_field_offset f, buddy3 n hi + buddy_field_offset f}"

definition buddy_reblinded :: "nat \<Rightarrow> addr \<Rightarrow> u64 \<Rightarrow> addr \<Rightarrow> bool" where
  "buddy_reblinded n hi rsp x \<longleftrightarrow> in_region (range_start n rsp) (hi - 2 ^ n - range_start n rsp) x \<and>
     unat (x - range_start n rsp) mod 8 = 0"

lemma copies_of_iff: "copies n hi t b \<Longrightarrow> x \<in> copies_of n hi f \<longleftrightarrow> (\<exists>u. (u = t \<or> u = b) \<and> x = u + buddy_field_offset f)"
  by (auto simp: copies_of_def copies_def)

lemma tls_fields_differ:
  assumes lay: "buddy_layout n hi" and c: "copies n hi t b" and "u = t \<or> u = b" and "u' = t \<or> u' = b"
  shows "u + buddy_field_offset f = u' + buddy_field_offset f' \<longleftrightarrow> u = u' \<and> f = f'"
proof (cases "u = u'")
  case True
  then show ?thesis by (cases f; cases f'; simp)
next
  case False
  then have "u = t \<and> u' = b \<or> u = b \<and> u' = t" using assms(3,4) by blast
  then show ?thesis
    using False copies_apart [OF lay c] tls_field_in_page by metis
qed

lemma shuffled_cells:
  assumes lay: "buddy_layout n hi" and c: "copies n hi t b" and rsp: "on_call_stack n hi rsp"
    and idle: "\<And>u. u = t \<or> u = b \<Longrightarrow> cells m (u + buddy_field_offset bf_is_randomizing) = 0"
  shows "cells (shuffled t b d cyc (range_start n rsp) (hi - 2 ^ n) m) x =
     (if x \<in> copies_of n hi bf_random_val then cells m x + d
      else if x \<in> copies_of n hi bf_cpu_cycles then cyc
      else cells m x + (if buddy_reblinded n hi rsp x then d else 0))"
proof (cases "\<exists>u f. (u = t \<or> u = b) \<and> x = u + buddy_field_offset f")
  case True
  then obtain u f where u: "u = t \<or> u = b" "x = u + buddy_field_offset f" by blast
  have at: "x \<in> copies_of n hi g \<longleftrightarrow> f = g" for g
    unfolding copies_of_iff [OF c] u(2) using tls_fields_differ [OF lay c u(1)] u(1) by blast
  have "u \<in> {buddy2 n hi, buddy3 n hi}" using u(1) c by (auto simp: copies_def)
  then have out: "buddy_reblinded n hi rsp x = False"
    using reblind_range_below(2) [OF lay rsp, of x u] unfolding buddy_reblinded_def u(2) by auto
  have zero: "f = bf_is_randomizing \<Longrightarrow> cells m x = 0" using idle [OF u(1)] u(2) by blast
  show ?thesis
    using shuffled_fields [OF lay c rsp u(1), of d cyc m f, folded u(2)] zero
    unfolding at out by (cases f) simp_all
next
  case False
  then have ne: "x \<noteq> t + buddy_field_offset f" "x \<noteq> b + buddy_field_offset f" for f by blast+
  have off: "(x \<in> copies_of n hi g) = False" for g unfolding copies_of_iff [OF c] using ne by blast
  show ?thesis
    unfolding off buddy_reblinded_def
    by (simp add: shuffled_def finished_def updated_def ne del: buddy_field_offset.simps)
qed

lemma buddy_run_cells:
  assumes ok: "buddy_ok n hi s" and rsp: "on_call_stack n hi rsp" "on_call_stack n hi rsp'"
    and run: "buddy_DO_RANDOMIZATION k rnd rsp rsp' s = Some (Inr s')"
  shows "cells (vmem s') x =
      (if \<not> buddy_due k rsp s then cells (vmem s) x
       else if x \<in> copies_of n hi bf_random_val then cells (vmem s) x + rnd (Suc (tick s))
       else if x \<in> copies_of n hi bf_cpu_cycles then k_rdtsc k (tick s)
       else cells (vmem s) x + (if buddy_reblinded n hi rsp' x then rnd (Suc (tick s)) else 0))"
    and "prot_of (vmem s') x =
      (if buddy_due k rsp s \<and> (in_tls_page (buddy2 n hi) x \<or> in_tls_page (buddy3 n hi) x)
       then map_option (\<lambda>_. PROT_READ) (prot_of (vmem s) x) else prot_of (vmem s) x)"
proof -
  have lay: "buddy_layout n hi" and mask: "cells (vmem s) (stk_mask_at s) = - (2 ^ n)"
    using ok by (simp_all add: buddy_ok_def buddy_mapped_def)
  obtain t b where t: "buddy_tls_at (- (2 ^ n)) rsp 2 = t" "copies n hi t b"
    using frame_finds_copy [OF lay rsp(1)] unfolding copies_def by blast
  note start = buddy_run_eq [OF ok rsp(1) t, of k rnd rsp']
  let ?m = "shuffled t b (rnd (Suc (tick s))) (k_rdtsc k (tick s)) (range_start n rsp') (hi - 2 ^ n) (vmem s)"
  have ok1: "buddy_ok n hi (s\<lparr>tick := Suc (tick s)\<rparr>)"
    using ok by (simp add: buddy_ok_def buddy_mapped_def buddy_copy_def buddy_fld_def)
  have vm: "vmem s' = (if buddy_due k rsp s then ?m else vmem s)"
    using run au_randomize_eq [OF ok1 t(2) rsp(2), of rnd "k_rdtsc k (tick s)"] unfolding start by auto
  have "cells (vmem s) (u + buddy_field_offset bf_is_randomizing) = 0" if "u = t \<or> u = b" for u
    using buddy_okD(4,5) [OF ok t(2)] that by (auto simp: buddy_copy_def buddy_fld_def)
  note cells = shuffled_cells [OF lay t(2) rsp(2) this]
  show "cells (vmem s') x =
      (if \<not> buddy_due k rsp s then cells (vmem s) x
       else if x \<in> copies_of n hi bf_random_val then cells (vmem s) x + rnd (Suc (tick s))
       else if x \<in> copies_of n hi bf_cpu_cycles then k_rdtsc k (tick s)
       else cells (vmem s) x + (if buddy_reblinded n hi rsp' x then rnd (Suc (tick s)) else 0))"
    unfolding vm by (simp add: cells del: buddy_field_offset.simps)
  have "in_tls_page t x \<or> in_tls_page b x \<longleftrightarrow> in_tls_page (buddy2 n hi) x \<or> in_tls_page (buddy3 n hi) x"
    using t(2) by (auto simp: copies_def)
  then show "prot_of (vmem s') x =
      (if buddy_due k rsp s \<and> (in_tls_page (buddy2 n hi) x \<or> in_tls_page (buddy3 n hi) x)
       then map_option (\<lambda>_. PROT_READ) (prot_of (vmem s) x) else prot_of (vmem s) x)"
    unfolding vm by (simp add: shuffled_prot)
qed

subsection \<open>Initialisation\<close>

definition initialised :: "addr \<Rightarrow> u64 \<Rightarrow> addr \<Rightarrow> addr \<Rightarrow> vm \<Rightarrow> vm" where
  "initialised t r hi b m =
     (vm_protect t PAGE_SIZE PROT_RW m)\<lparr>cells := (cells m)
        (t + buddy_field_offset bf_random_val := r, t + buddy_field_offset bf_stack_top := hi,
         t + buddy_field_offset bf_buddy_info := b, t + buddy_field_offset bf_cpu_cycles := 0,
         t + buddy_field_offset bf_is_randomizing := 0)\<rparr>"

lemma initialised_prot:
  "prot_of (initialised t r hi b m) x =
     (if in_tls_page t x then map_option (\<lambda>_. PROT_RW) (prot_of m x) else prot_of m x)"
  by (simp add: initialised_def)

lemma initialised_outside: "\<not> in_tls_page t x \<Longrightarrow> cells (initialised t r hi b m) x = cells m x"
  using tls_field_in_page [of t] by (auto simp: initialised_def simp del: buddy_field_offset.simps)

lemma initialised_field:
  "cells (initialised t r hi b m) (t + buddy_field_offset f) =
     (case f of bf_random_val \<Rightarrow> r | bf_stack_top \<Rightarrow> hi | bf_buddy_info \<Rightarrow> b | _ \<Rightarrow> 0)"
  by (cases f) (simp_all add: initialised_def)

lemma init_copy_ok:
  assumes "unat t mod 4096 = 0" and m: "\<And>x. in_tls_page t x \<Longrightarrow> prot_of m x \<noteq> None"
  shows "buddy_set_all t (buddy_fields_at_init r hi b) (sys_mprotect t PAGE_SIZE PROT_RW (s\<lparr>vmem := m\<rparr>)) =
    Inr (s\<lparr>vmem := initialised t r hi b m\<rparr>)"
proof -
  let ?s = "sys_mprotect t PAGE_SIZE PROT_RW (s\<lparr>vmem := m\<rparr>)"
  have rw: "prot_of (vmem ?s) (t + buddy_field_offset f) = Some PROT_RW" for f
  proof -
    obtain p where "prot_of m (t + buddy_field_offset f) = Some p"
      using page_fields_mapped [of t m f] m by blast
    then show ?thesis using assms(1) by (simp add: sys_mprotect_def)
  qed
  have set_rw: "buddy_set t f v s' = Inr (put_cell (t + buddy_field_offset f) v s')"
    if "prot_of (vmem s') = prot_of (vmem ?s)" for f v s'
    using that rw [of f] by (simp add: buddy_set_def put_cell_def)
  show ?thesis
    unfolding buddy_fields_at_init_def
    by (simp add: set_rw del: buddy_field_offset.simps)
       (simp add: put_cell_def sys_mprotect_def assms(1) initialised_def vm_protect_def)
qed

text \<open>The top of the stack as the code computes it.\<close>

definition buddy_top :: "nat \<Rightarrow> addr \<Rightarrow> u64 \<Rightarrow> addr" where
  "buddy_top n low sz = (if low + sz < low + 4 * 2 ^ n then low + 4 * 2 ^ n else low + sz)"

text \<open>A stack that is mapped below the call stack, and a readable size variable elsewhere.\<close>

definition buddy_fresh :: "nat \<Rightarrow> addr \<Rightarrow> buddy_state \<Rightarrow> bool" where
  "buddy_fresh n hi s \<longleftrightarrow> buddy_layout n hi \<and> cells (vmem s) (stk_mask_at s) = - (2 ^ n) \<and>
     prot_of (vmem s) (stk_mask_at s) \<noteq> None \<and> \<not> below_call_stack n hi (stk_mask_at s) \<and>
     (\<forall>x. below_call_stack n hi x \<longrightarrow> prot_of (vmem s) x = Some PROT_RW)"

definition in_guard_page :: "nat \<Rightarrow> addr \<Rightarrow> addr \<Rightarrow> bool" where
  "in_guard_page n hi = in_region (hi - 2 ^ n) PAGE_SIZE"

lemma guard_page_above:
  assumes "buddy_layout n hi" and "in_guard_page n hi x"
  shows "\<not> below_call_stack n hi x"
proof -
  have l: "n \<le> 40" "4 * 2 ^ n \<le> unat hi" "unat hi \<le> 2 ^ 47" using assms(1) by (simp_all add: buddy_layout_def)
  have u: "unat (hi - 2 ^ n) = unat hi - 2 ^ n"
    using l(1,2) by (simp add: unat_sub word_le_nat_alt unat_size)
  then have "in_guard_page n hi x \<longleftrightarrow> unat hi - 2 ^ n \<le> unat x \<and> unat x < unat hi - 2 ^ n + 4096"
    unfolding in_guard_page_def using l(3) by (subst in_tls_page_nat) (simp_all add: u)
  then show ?thesis using assms(2) by (simp add: below_call_stack_def)
qed

lemma guard_aligned: "buddy_layout n hi \<Longrightarrow> unat (hi - 2 ^ n) mod 4096 = 0"
proof -
  assume lay: "buddy_layout n hi"
  then have l: "n \<le> 40" "4 * 2 ^ n \<le> unat hi" "unat hi mod 4096 = 0" by (simp_all add: buddy_layout_def)
  have "4096 dvd unat hi - 2 ^ n"
    using l(3) layout_sizes(2) [OF lay] by (intro dvd_diff_nat) (simp_all add: dvd_eq_mod_eq_0)
  then show ?thesis using l(1,2) by (simp add: unat_sub word_le_nat_alt unat_size dvd_eq_mod_eq_0)
qed

lemma buddy_init_ok:
  assumes ta: "getattr_ok ta" "getstack ta = Some (low, sz)" and hi: "hi = buddy_top n low sz"
    and fresh: "buddy_fresh n hi s"
  shows "\<exists>s'. buddy_init_main_thread_tls rnd ta s = Inr s' \<and> buddy_ok n hi s' \<and>
    spa_init_done s' = spa_init_done s \<and>
    (\<forall>x. in_guard_page n hi x \<longrightarrow> prot_of (vmem s') x \<noteq> Some PROT_RW)"
proof -
  let ?t = "buddy2 n hi" and ?b = "buddy3 n hi" and ?r = "rnd (tick s)"
  let ?g = "vm_protect (hi - 2 ^ n) PAGE_SIZE PROT_READ (vmem s)"
  let ?s1 = "s\<lparr>tick := Suc (tick s)\<rparr>"
  let ?m1 = "initialised ?t ?r hi ?b ?g"
  let ?m2 = "initialised ?b ?r hi ?t ?m1"
  let ?s' = "?s1\<lparr>vmem := ?m2\<rparr>"
  have lay: "buddy_layout n hi" using fresh by (simp add: buddy_fresh_def)
  have n: "n \<le> 40" using lay by (simp add: buddy_layout_def)
  have page: "in_tls_page u x \<Longrightarrow> below_call_stack n hi x" "in_tls_page u x \<Longrightarrow> \<not> in_guard_page n hi x"
    if "u \<in> {?t, ?b}" for u x
    using tls_pages(3) [OF lay that] guard_page_above [OF lay] by blast+
  have al: "unat ?t mod 4096 = 0" "unat ?b mod 4096 = 0"
    using tls_pages(1) [OF lay, of ?t] tls_pages(1) [OF lay, of ?b] by simp_all
  have below: "prot_of ?g x = Some PROT_RW" if "below_call_stack n hi x" for x
    using that fresh guard_page_above [OF lay, of x] by (auto simp: buddy_fresh_def in_guard_page_def)
  have 1: "buddy_set_all ?t (buddy_fields_at_init ?r hi ?b) (sys_mprotect ?t PAGE_SIZE PROT_RW (?s1\<lparr>vmem := ?g\<rparr>)) =
      Inr (?s1\<lparr>vmem := ?m1\<rparr>)"
    using al(1) page(1) [of ?t] below by (intro init_copy_ok) auto
  have 2: "buddy_set_all ?b (buddy_fields_at_init ?r hi ?t) (sys_mprotect ?b PAGE_SIZE PROT_RW (?s1\<lparr>vmem := ?m1\<rparr>)) = Inr ?s'"
    using al(2) page(1) [of ?b] below by (intro init_copy_ok) (auto simp: initialised_prot)
  have size: "BUDDY_STACK_SIZE (- (2 ^ n)) = 4 * 2 ^ n" "BUDDY_CALL_STACK_SIZE (- (2 ^ n)) = 2 ^ n"
    by (simp_all add: BUDDY_STACK_SIZE_def BUDDY_FUNCTION_LOCAL_STORAGE_SIZE_def BUDDY_CALL_STACK_SIZE_def)
  obtain p where p: "prot_of (vmem s) (stk_mask_at s) = Some p" using fresh by (auto simp: buddy_fresh_def)
  have mask: "GET_BUDDY_CALL_STACK_SIZE_MASK s = Inr (- (2 ^ n))" 
    "GET_BUDDY_CALL_STACK_SIZE_MASK (?s1\<lparr>vmem := ?g\<rparr>) = Inr (- (2 ^ n))"
    using fresh p by (simp_all add: GET_BUDDY_CALL_STACK_SIZE_MASK_def sys_load_def load_def buddy_fresh_def)
  have comm: "s\<lparr>vmem := ?g, tick := i\<rparr> = s\<lparr>tick := i, vmem := ?g\<rparr>" for i by simp
  have "buddy_init_main_thread_tls rnd ta s =
      buddy_init_tls_metadata rnd hi (sys_mprotect (hi - 2 ^ n) PAGE_SIZE PROT_READ s)"
    unfolding hi buddy_top_def buddy_init_main_thread_tls_def using ta by (simp add: mask size Let_def)
  also have "sys_mprotect (hi - 2 ^ n) PAGE_SIZE PROT_READ s = s\<lparr>vmem := ?g\<rparr>"
    using guard_aligned [OF lay] by (simp add: sys_mprotect_def)
  also have "buddy_init_tls_metadata rnd hi (s\<lparr>vmem := ?g\<rparr>) = Inr ?s'"
    using 1 2 by (simp add: buddy_init_tls_metadata_def sys_random_def mask Let_def comm)
  finally have run: "buddy_init_main_thread_tls rnd ta s = Inr ?s'" .
  have apart: "in_tls_page ?t x \<Longrightarrow> \<not> in_tls_page ?b x" for x by (rule tls_pages_apart [OF lay])
  have above: "\<not> in_tls_page ?t (stk_mask_at s)" "\<not> in_tls_page ?b (stk_mask_at s)"
    using fresh page(1) [of ?t] page(1) [of ?b] by (auto simp: buddy_fresh_def)
  have fld: "buddy_fld ?t f ?s' = (case f of bf_random_val \<Rightarrow> ?r | bf_stack_top \<Rightarrow> hi | bf_buddy_info \<Rightarrow> ?b | _ \<Rightarrow> 0)"
    "buddy_fld ?b f ?s' = (case f of bf_random_val \<Rightarrow> ?r | bf_stack_top \<Rightarrow> hi | bf_buddy_info \<Rightarrow> ?t | _ \<Rightarrow> 0)" for f
    using apart [OF tls_field_in_page, of f] by (simp_all add: buddy_fld_def initialised_field initialised_outside)
  have "buddy_mapped n hi ?s'"
    using fresh above below by (auto simp: buddy_mapped_def buddy_fresh_def initialised_prot initialised_outside)
  then have "buddy_ok n hi ?s'" by (simp add: buddy_ok_def buddy_copy_def fld)
  moreover have "prot_of (vmem ?s') x \<noteq> Some PROT_RW" if "in_guard_page n hi x" for x
    using that page(2) [of ?t x] page(2) [of ?b x]
    by (cases "prot_of (vmem s) x") (auto simp: initialised_prot in_guard_page_def)
  ultimately show ?thesis using run by auto
qed

subsection \<open>The contract of Rerandomizer\<close>

text \<open>
  A call has the answers of the kernel, the random numbers and the two stack pointers; the linker's
  address \<open>ma\<close> of the size variable is fixed.
\<close>

type_synonym buddy_call = "kernel \<times> (nat \<Rightarrow> u64) \<times> u64 \<times> u64"

definition buddy_good :: "nat \<Rightarrow> addr \<Rightarrow> addr \<Rightarrow> buddy_state \<Rightarrow> bool" where
  "buddy_good n hi ma s \<longleftrightarrow> buddy_ok n hi s \<and> stk_mask_at s = ma"

fun buddy_ready :: "nat \<Rightarrow> addr \<Rightarrow> buddy_call \<Rightarrow> buddy_state \<Rightarrow> bool" where
  "buddy_ready n hi (k, rnd, rsp, rsp') s \<longleftrightarrow> on_call_stack n hi rsp \<and> on_call_stack n hi rsp'"

fun buddy_call_live :: "nat \<Rightarrow> addr \<Rightarrow> buddy_call \<Rightarrow> addr \<Rightarrow> bool" where
  "buddy_call_live n hi (k, rnd, rsp, rsp') a \<longleftrightarrow> buddy_live n hi rsp' a"

fun buddy_run :: "buddy_call \<Rightarrow> buddy_state \<Rightarrow> (fault + buddy_state) option" where
  "buddy_run (k, rnd, rsp, rsp') s = buddy_DO_RANDOMIZATION k rnd rsp rsp' s"

interpretation buddy_rerand: rerandomizer
  buddy_run "buddy_good n hi ma" "buddy_ready n hi" "buddy_call_live n hi" buddy_content
  for n hi ma
proof unfold_locales
  fix s p
  assume s: "buddy_good n hi ma s" and p: "buddy_ready n hi p s"
  obtain k rnd rsp rsp' where c: "p = (k, rnd, rsp, rsp')" by (cases p)
  with buddy_run_ok [of n hi s rsp rsp' k rnd] s p
  show "\<exists>s'. buddy_run p s = Some (Inr s') \<and> buddy_good n hi ma s' \<and>
      (\<forall>a. buddy_call_live n hi p a \<longrightarrow> buddy_content s' a = buddy_content s a)"
    by (auto simp: buddy_good_def buddy_same_rest_def)
qed

subsection \<open>Properties\<close>

text \<open>
  C6: rerandomization of a buddy stack is safe.  For a thread whose stack satisfies the invariant,
  whichever of the two copies of the metadata the masked stack pointer finds,
  \<open>DO_RANDOMIZATION\<close> returns and keeps the invariant, and for every frame from the stack pointer on the
  slot minus the random value is what it was.  Before its time the call changes no cell and no right.
  When its time has come it adds one random number to the random value in both copies, writes the
  clock to both, adds the number to every slot from the stack pointer's, rounded down to 32
  bytes, to the end of the shadow stack (so that up to three dead slots change too), and changes no
  other cell; the two pages are read-only afterwards.
\<close>

theorem buddy_rerandomization_keeps_return_addresses:
  assumes "buddy_ok n hi s" and "on_call_stack n hi rsp" and "on_call_stack n hi rsp'"
  shows "\<exists>s'. buddy_DO_RANDOMIZATION k rnd rsp rsp' s = Some (Inr s') \<and> buddy_ok n hi s' \<and>
    (\<forall>a. buddy_live n hi rsp' a \<longrightarrow> buddy_content s' a = buddy_content s a) \<and> buddy_same_rest n hi s s' \<and>
    (\<forall>t \<in> {buddy2 n hi, buddy3 n hi}. buddy_fld t bf_random_val s' =
       buddy_fld t bf_random_val s + (if buddy_due k rsp s then rnd (Suc (tick s)) else 0)) \<and>
    (\<forall>x. cells (vmem s') x =
      (if \<not> buddy_due k rsp s then cells (vmem s) x
       else if x \<in> copies_of n hi bf_random_val then cells (vmem s) x + rnd (Suc (tick s))
       else if x \<in> copies_of n hi bf_cpu_cycles then k_rdtsc k (tick s)
       else cells (vmem s) x + (if buddy_reblinded n hi rsp' x then rnd (Suc (tick s)) else 0))) \<and>
    (\<forall>x. prot_of (vmem s') x =
      (if buddy_due k rsp s \<and> (in_tls_page (buddy2 n hi) x \<or> in_tls_page (buddy3 n hi) x)
       then map_option (\<lambda>_. PROT_READ) (prot_of (vmem s) x) else prot_of (vmem s) x))"
proof -
  from buddy_run_ok [OF assms, of k rnd] obtain s' where
    run: "buddy_DO_RANDOMIZATION k rnd rsp rsp' s = Some (Inr s')"
    and rest: "buddy_ok n hi s'" "\<forall>a. buddy_live n hi rsp' a \<longrightarrow> buddy_content s' a = buddy_content s a"
      "buddy_same_rest n hi s s'"
      "\<forall>t \<in> {buddy2 n hi, buddy3 n hi}. buddy_fld t bf_random_val s' =
         buddy_fld t bf_random_val s + (if buddy_due k rsp s then rnd (Suc (tick s)) else 0)"
    by blast
  note after = buddy_run_cells [OF assms run]
  show ?thesis
    by (intro exI [of _ s'] conjI) (fact run, fact rest(1), fact rest(2), fact rest(3), fact rest(4),
      rule allI, rule after(1), rule allI, rule after(2))
qed

text \<open>A thread whose top is one page above an 8 MB boundary; its frames find different copies.\<close>

definition demo_buddy_hi :: addr where "demo_buddy_hi = 0x7ffff7001000"
definition demo_mask_at :: addr where "demo_mask_at = 0x602000"

definition demo_buddy_cell :: "addr \<Rightarrow> u64" where
  "demo_buddy_cell x =
     (if x = demo_mask_at then - 8388608
      else if x = 0x7ffff6000000 \<or> x = 0x7ffff5800000 then 0x1234
      else if x = 0x7ffff6000008 \<or> x = 0x7ffff5800008 then demo_buddy_hi
      else if x = 0x7ffff6000010 then 0x7ffff5800000
      else if x = 0x7ffff5800010 then 0x7ffff6000000
      else 0)"

definition demo_buddy :: buddy_state where
  "demo_buddy =
     \<lparr>vmem = \<lparr>cells = demo_buddy_cell,
        prot_of = (\<lambda>x. if below_call_stack 23 demo_buddy_hi x \<or> on_call_stack 23 demo_buddy_hi x then Some PROT_RW
                       else if x = demo_mask_at then Some PROT_READ else None)\<rparr>,
      gs_base = 0, tick = 0, stk_mask_at = demo_mask_at, env_vars = (\<lambda>_. None), spa_init_done = True,
      buddy_pthread_create_known = False\<rparr>"

lemma demo_layout: "buddy_layout 23 demo_buddy_hi"
  by (simp add: buddy_layout_def demo_buddy_hi_def)

lemma demo_copies:
  "buddy2 23 demo_buddy_hi = 0x7ffff6000000" "buddy3 23 demo_buddy_hi = 0x7ffff5800000"
  "buddy_tls_at (- 8388608) demo_buddy_hi 2 = 0x7ffff6000000"
  "buddy_tls_at (- 8388608) demo_buddy_hi 3 = 0x7ffff5800000"
proof -
  have "unat (buddy2 23 demo_buddy_hi) = 0x7ffff6000000" "unat (buddy3 23 demo_buddy_hi) = 0x7ffff5800000"
    by (subst tls_at_nat; simp add: demo_buddy_hi_def)+
  then show "buddy2 23 demo_buddy_hi = 0x7ffff6000000" "buddy3 23 demo_buddy_hi = 0x7ffff5800000"
    "buddy_tls_at (- 8388608) demo_buddy_hi 2 = 0x7ffff6000000"
    "buddy_tls_at (- 8388608) demo_buddy_hi 3 = 0x7ffff5800000"
    by (simp_all add: word_unat_eq_iff)
qed

lemma demo_mask_outside: "\<not> below_call_stack 23 demo_buddy_hi demo_mask_at"
  by (simp add: below_call_stack_def demo_buddy_hi_def demo_mask_at_def)

lemma demo_buddy_ok: "buddy_ok 23 demo_buddy_hi demo_buddy"
proof -
  have "buddy_mapped 23 demo_buddy_hi demo_buddy"
    unfolding buddy_mapped_def using demo_layout demo_mask_outside
    by (simp add: demo_buddy_def) (simp add: demo_buddy_cell_def)
  moreover have "buddy_copy (buddy2 23 demo_buddy_hi) (buddy3 23 demo_buddy_hi) demo_buddy_hi demo_buddy"
    "buddy_copy (buddy3 23 demo_buddy_hi) (buddy2 23 demo_buddy_hi) demo_buddy_hi demo_buddy"
    "buddy_fld (buddy2 23 demo_buddy_hi) bf_random_val demo_buddy = buddy_fld (buddy3 23 demo_buddy_hi) bf_random_val demo_buddy"
    unfolding demo_copies
    by (simp_all add: buddy_copy_def buddy_fld_def demo_buddy_def demo_buddy_cell_def demo_mask_at_def)
  ultimately show ?thesis by (simp add: buddy_ok_def)
qed

definition demo_buddy_rsp :: u64 where "demo_buddy_rsp = 0x7ffff6ff0000"

lemma demo_rsp_on_stack: "on_call_stack 23 demo_buddy_hi demo_buddy_rsp"
  by (simp add: on_call_stack_def demo_buddy_hi_def demo_buddy_rsp_def)

definition demo_buddy_kernel :: kernel where
  "demo_buddy_kernel =
     \<lparr>k_rdrand = (\<lambda>_. 0), k_rdtsc = (\<lambda>n. (of_nat n + 1) * 0x10000000), k_mmap = (\<lambda>_ _ _ _. None),
      k_mremap = (\<lambda>_. True), k_set_gs = (\<lambda>_. True), k_get_gs = (\<lambda>_. True)\<rparr>"

lemma demo_rsp_copy: "buddy_tls_at (- 8388608) demo_buddy_rsp 2 = 0x7ffff5800000"
proof -
  have "unat (buddy_tls_at (- (2 ^ 23)) demo_buddy_rsp 2) = 0x7ffff5800000"
    by (subst tls_at_nat) (simp_all add: demo_buddy_rsp_def)
  then show ?thesis by (simp add: word_unat_eq_iff)
qed

lemma demo_due: "buddy_due demo_buddy_kernel demo_buddy_rsp demo_buddy"
proof -
  have "cells (vmem demo_buddy) (stk_mask_at demo_buddy) = - 8388608"
    by (simp add: demo_buddy_def demo_buddy_cell_def)
  then show ?thesis
    unfolding buddy_due_def
    by (simp add: demo_rsp_copy)
       (simp add: demo_buddy_def demo_buddy_kernel_def buddy_fld_def demo_buddy_cell_def demo_mask_at_def
          CPU_CYCLES_PER_RANDOMIZATION_val)
qed

theorem buddy_rerandomization_keeps_return_addresses_witness:
  "\<exists>s'. buddy_DO_RANDOMIZATION demo_buddy_kernel (\<lambda>_. 99) demo_buddy_rsp demo_buddy_rsp demo_buddy = Some (Inr s') \<and>
     buddy_content s' (demo_buddy_rsp + 64) = buddy_content demo_buddy (demo_buddy_rsp + 64) \<and>
     cells (vmem s') 0x7ffff6000000 = 0x1234 + 99"
proof -
  have live: "buddy_live 23 demo_buddy_hi demo_buddy_rsp (demo_buddy_rsp + 64)"
    by (simp add: buddy_live_def on_call_stack_def demo_buddy_hi_def demo_buddy_rsp_def)
  have "buddy_fld (buddy2 23 demo_buddy_hi) bf_random_val demo_buddy = 0x1234"
    unfolding demo_copies by (simp add: buddy_fld_def demo_buddy_def demo_buddy_cell_def demo_mask_at_def)
  then show ?thesis
    using buddy_rerandomization_keeps_return_addresses
      [OF demo_buddy_ok demo_rsp_on_stack demo_rsp_on_stack, of demo_buddy_kernel "\<lambda>_. 99"]
      live demo_due
    by (auto simp: buddy_fld_def demo_copies [simplified])
qed

definition chosen_size :: "buddy_state \<Rightarrow> u64" where
  "chosen_size s =
     (case env_vars s SPA_CALL_STACK_SIZE_ENV of
        None \<Rightarrow> - cells (vmem s) (stk_mask_at s)
      | Some v \<Rightarrow> c_atol v * 1024)"

lemma set_stk_size_ok:
  assumes "chosen_size s = 2 ^ n" and "unat (stk_mask_at s) mod 4096 = 0"
    and "prot_of (vmem s) (stk_mask_at s) \<noteq> None" and "buddy_layout n hi"
    and "\<And>x. in_tls_page (stk_mask_at s) x \<Longrightarrow> \<not> below_call_stack n hi x"
    and "\<And>x. below_call_stack n hi x \<Longrightarrow> prot_of (vmem s) x = Some PROT_RW"
  shows "\<exists>s'. set_stk_size_global_var s = Inr s' \<and> buddy_fresh n hi s' \<and> stk_mask_at s' = stk_mask_at s \<and>
    env_vars s' = env_vars s \<and> spa_init_done s' = spa_init_done s"
proof (cases "env_vars s SPA_CALL_STACK_SIZE_ENV")
  case None
  then have "cells (vmem s) (stk_mask_at s) = - (2 ^ n)"
    using assms(1) by (simp add: chosen_size_def minus_equation_iff eq_commute)
  with None assms show ?thesis
    by (simp add: set_stk_size_global_var_def buddy_fresh_def PAGE_SIZE_def)
next
  case (Some v)
  let ?m = "stk_mask_at s"
  let ?s1 = "sys_mprotect ?m PAGE_SIZE PROT_RW s"
  have p: "in_tls_page ?m ?m" by (simp add: PAGE_SIZE_def)
  obtain q where q: "prot_of (vmem s) ?m = Some q" using assms(3) by blast
  have size: "c_atol v * 1024 = 2 ^ n" using assms(1) Some by (simp add: chosen_size_def)
  have "SET_BUDDY_CALL_STACK_SIZE_MASK (- (2 ^ n)) ?s1 = Inr (put_cell ?m (- (2 ^ n)) ?s1)"
    using q p assms(2) by (simp add: SET_BUDDY_CALL_STACK_SIZE_MASK_def sys_mprotect_def put_cell_def)
  then have run: "set_stk_size_global_var s = Inr (sys_mprotect ?m PAGE_SIZE PROT_READ (put_cell ?m (- (2 ^ n)) ?s1))"
    using Some size by (simp add: set_stk_size_global_var_def put_cell_def sys_mprotect_def)
  have "buddy_fresh n hi (sys_mprotect ?m PAGE_SIZE PROT_READ (put_cell ?m (- (2 ^ n)) ?s1))"
    using assms(2,4,5,6) p q
    by (auto simp: buddy_fresh_def sys_mprotect_def put_cell_def)
  with run show ?thesis by (simp add: sys_mprotect_def put_cell_def)
qed

text \<open>
  C12: start-up establishes the invariant.  When the library is loaded, with a call stack size that
  is a power of two (in kilobytes from the environment, or the linked default) and a stack that is
  mapped, the constructor returns; the main thread then satisfies the invariant of the
  rerandomization for that size, the page at the end of the call stack can no longer be written,
  and a second run of the constructor does nothing.
\<close>

theorem buddy_startup_establishes_the_invariant:
  assumes "\<not> spa_init_done s" and "chosen_size s = 2 ^ n"
    and "unat (stk_mask_at s) mod 4096 = 0" and "prot_of (vmem s) (stk_mask_at s) \<noteq> None"
    and "getattr_ok ta" and "getstack ta = Some (low, sz)"
    and "hi = buddy_top n low sz" and "buddy_layout n hi"
    and "\<And>x. in_region (stk_mask_at s) PAGE_SIZE x \<Longrightarrow> \<not> below_call_stack n hi x"
    and "\<And>x. below_call_stack n hi x \<Longrightarrow> prot_of (vmem s) x = Some PROT_RW"
  shows "\<exists>s'. au_edu_unsw_SPA_init rnd ta s = Inr s' \<and> buddy_ok n hi s' \<and>
    (\<forall>x. in_guard_page n hi x \<longrightarrow> prot_of (vmem s') x \<noteq> Some PROT_RW) \<and>
    (\<forall>ta'. au_edu_unsw_SPA_init rnd ta' s' = Inr s')"
proof -
  let ?s = "s\<lparr>spa_init_done := True\<rparr>"
  have "chosen_size ?s = 2 ^ n" using assms(2) by (simp add: chosen_size_def split: option.splits)
  with set_stk_size_ok [of ?s n hi] assms(3,4,8-10) obtain s1 where s1:
    "set_stk_size_global_var ?s = Inr s1" "buddy_fresh n hi s1" "spa_init_done s1"
    by auto
  from buddy_init_ok [OF assms(5,6,7) s1(2), of rnd] obtain s2 where s2:
    "buddy_init_main_thread_tls rnd ta s1 = Inr s2" "buddy_ok n hi s2"
    "spa_init_done s2" "\<forall>x. in_guard_page n hi x \<longrightarrow> prot_of (vmem s2) x \<noteq> Some PROT_RW"
    using s1(3) by auto
  let ?s' = "s2\<lparr>env_vars := (env_vars s2)(SPA_ENABLE_RANDOMIZATION_ENV \<mapsto> ''1'')\<rparr>"
  have "au_edu_unsw_SPA_init rnd ta s = Inr ?s'"
    using assms(1) s1(1) s2(1) by (simp add: au_edu_unsw_SPA_init_def)
  moreover have "buddy_ok n hi ?s'"
    using s2(2) by (simp add: buddy_ok_def buddy_mapped_def buddy_copy_def buddy_fld_def)
  moreover have "au_edu_unsw_SPA_init rnd ta' ?s' = Inr ?s'" for ta'
    using s2(3) by (simp add: au_edu_unsw_SPA_init_def)
  ultimately show ?thesis using s2(4) by simp
qed

text \<open>A process that asks for 8192 kB where the linked size is 4 MB.\<close>

definition demo_attr :: thread_attr where
  "demo_attr = \<lparr>getattr_ok = True, getstack = Some (0x7ffff5001000, 0x1fff000)\<rparr>"

definition demo_buddy_start :: buddy_state where
  "demo_buddy_start = demo_buddy\<lparr>spa_init_done := False, env_vars := [SPA_CALL_STACK_SIZE_ENV \<mapsto> ''8192''],
     vmem := (vmem demo_buddy)\<lparr>cells := (\<lambda>x. if x = demo_mask_at then - 0x400000 else 0)\<rparr>\<rparr>"

lemma c_atol_8192: "c_atol ''8192'' = 8192"
  by (simp add: c_atol_def c_isspace_def c_isdigit_def digits_value_def char_at_def less_eq_char_def)

theorem buddy_startup_establishes_the_invariant_witness:
  "\<exists>s'. au_edu_unsw_SPA_init (\<lambda>_. 99) demo_attr demo_buddy_start = Inr s' \<and>
     buddy_ok 23 0x7ffff7001000 s' \<and> prot_of (vmem s') 0x7ffff6801ff8 \<noteq> Some PROT_RW"
proof -
  have hi: "demo_buddy_hi = buddy_top 23 0x7ffff5001000 0x1fff000"
    by (simp add: buddy_top_def demo_buddy_hi_def)
  have size: "chosen_size demo_buddy_start = 2 ^ 23"
    by (simp add: chosen_size_def demo_buddy_start_def c_atol_8192)
  have mask: "stk_mask_at demo_buddy_start = demo_mask_at"
    "prot_of (vmem demo_buddy_start) = prot_of (vmem demo_buddy)" "\<not> spa_init_done demo_buddy_start"
    by (simp_all add: demo_buddy_start_def demo_buddy_def)
  have al: "unat (stk_mask_at demo_buddy_start) mod 4096 = 0" by (simp add: mask demo_mask_at_def)
  have pm: "prot_of (vmem demo_buddy_start) (stk_mask_at demo_buddy_start) \<noteq> None"
    by (simp add: mask) (simp add: demo_buddy_def)
  have ta: "getattr_ok demo_attr" "getstack demo_attr = Some (0x7ffff5001000, 0x1fff000)"
    by (simp_all add: demo_attr_def)
  have "in_guard_page 23 demo_buddy_hi 0x7ffff6801ff8"
    by (simp add: in_guard_page_def in_region_def PAGE_SIZE_def demo_buddy_hi_def)
  moreover have "\<exists>s'. au_edu_unsw_SPA_init (\<lambda>_. 99) demo_attr demo_buddy_start = Inr s' \<and>
      buddy_ok 23 demo_buddy_hi s' \<and>
      (\<forall>x. in_guard_page 23 demo_buddy_hi x \<longrightarrow> prot_of (vmem s') x \<noteq> Some PROT_RW) \<and>
      (\<forall>ta'. au_edu_unsw_SPA_init (\<lambda>_. 99) ta' s' = Inr s')"
  proof (rule buddy_startup_establishes_the_invariant [OF mask(3) size al pm ta hi demo_layout])
    fix x assume "in_region (stk_mask_at demo_buddy_start) PAGE_SIZE x"
    then have "unat x < 0x603000"
      using in_tls_page_nat [of demo_mask_at x] by (simp add: mask demo_mask_at_def)
    then show "\<not> below_call_stack 23 demo_buddy_hi x"
      by (simp add: below_call_stack_def demo_buddy_hi_def)
  next
    fix x assume "below_call_stack 23 demo_buddy_hi x"
    then show "prot_of (vmem demo_buddy_start) x = Some PROT_RW" by (simp add: mask) (simp add: demo_buddy_def)
  qed
  ultimately show ?thesis by (auto simp: demo_buddy_hi_def)
qed

end
