(* ===== verification/Alloc_Inl.thy ===== *)
theory Alloc_Inl
  imports Prelude
begin

section \<open>Alloc_Inl: the checking allocator\<close>

text \<open>
  \<open>alloc-inl.h\<close>.  A chunk is the block that \<open>malloc\<close> returns: a canary and the size in the first
  eight bytes, then the user's bytes, then a canary of one byte.  Every operation on a pointer checks
  the canaries and aborts when one is not intact.

  The heap is flat: the bytes of all addresses, and the blocks that are in use, with their lengths.
  The allocator of libc is a parameter; \<open>allocator_ok\<close> states what it documents.  It may change
  every byte that is not in a block in use.  \<open>dbg\<close> is the switch \<open>DEBUG_BUILD\<close>.
\<close>

subsection \<open>The heap and the allocator of libc\<close>

record heap =
  bytes :: "addr \<Rightarrow> u8"
  blocks :: "addr \<Rightarrow> nat option"

record allocator =
  al_malloc :: "heap \<Rightarrow> nat \<Rightarrow> (addr \<times> (addr \<Rightarrow> u8)) option"
  al_realloc :: "heap \<Rightarrow> addr \<Rightarrow> nat \<Rightarrow> (addr \<times> (addr \<Rightarrow> u8)) option"
  al_free :: "heap \<Rightarrow> addr \<Rightarrow> addr \<Rightarrow> u8"

definition in_block :: "addr \<Rightarrow> nat \<Rightarrow> addr \<Rightarrow> bool" where
  "in_block p n x \<longleftrightarrow> unat (x - p) < n"

definition c_malloc :: "allocator \<Rightarrow> nat \<Rightarrow> heap \<Rightarrow> (addr \<times> heap) option" where
  "c_malloc al n h =
     map_option (\<lambda>(p, b). (p, \<lparr>bytes = b, blocks = (blocks h)(p \<mapsto> n)\<rparr>)) (al_malloc al h n)"

definition c_free :: "allocator \<Rightarrow> addr \<Rightarrow> heap \<Rightarrow> fault + heap" where
  "c_free al p h =
     (if blocks h p = None then Inl (Aborted ''free(): invalid pointer'')
      else Inr \<lparr>bytes = al_free al h p, blocks = (blocks h)(p := None)\<rparr>)"

definition c_realloc :: "allocator \<Rightarrow> addr \<Rightarrow> nat \<Rightarrow> heap \<Rightarrow> fault + (addr \<times> heap) option" where
  "c_realloc al p n h =
     (if p = 0 then Inr (c_malloc al n h)
      else if blocks h p = None then Inl (Aborted ''realloc(): invalid pointer'')
      else Inr (map_option (\<lambda>(q, b). (q, \<lparr>bytes = b, blocks = (blocks h)(p := None, q \<mapsto> n)\<rparr>))
                  (al_realloc al h p n)))"

definition c_memset :: "addr \<Rightarrow> u8 \<Rightarrow> nat \<Rightarrow> (addr \<Rightarrow> u8) \<Rightarrow> addr \<Rightarrow> u8" where
  "c_memset p v n b = (\<lambda>x. if in_block p n x then v else b x)"

definition c_memcpy :: "addr \<Rightarrow> addr \<Rightarrow> nat \<Rightarrow> (addr \<Rightarrow> u8) \<Rightarrow> addr \<Rightarrow> u8" where
  "c_memcpy dst src n b = (\<lambda>x. if in_block dst n x then b (x - dst + src) else b x)"

text \<open>A \<open>u32\<close> in memory, lowest byte first.\<close>

definition read32 :: "(addr \<Rightarrow> u8) \<Rightarrow> addr \<Rightarrow> u32" where
  "read32 b a = ucast (b a) OR push_bit 8 (ucast (b (a + 1))) OR push_bit 16 (ucast (b (a + 2))) OR
     push_bit 24 (ucast (b (a + 3)))"

definition write32 :: "addr \<Rightarrow> u32 \<Rightarrow> (addr \<Rightarrow> u8) \<Rightarrow> addr \<Rightarrow> u8" where
  "write32 a v b = b(a := ucast v, a + 1 := ucast (drop_bit 8 v), a + 2 := ucast (drop_bit 16 v),
     a + 3 := ucast (drop_bit 24 v))"

text \<open>\<open>strlen\<close> runs on where there is no NUL.\<close>

partial_function (option) c_strlen_from :: "(addr \<Rightarrow> u8) \<Rightarrow> addr \<Rightarrow> nat \<Rightarrow> nat option" where
  "c_strlen_from b p n = (if b (p + of_nat n) = 0 then Some n else c_strlen_from b p (n + 1))"

subsection \<open>Canaries\<close>

definition MAX_ALLOC :: u32 where "MAX_ALLOC = 0x40000000"
definition ALLOC_MAGIC_C1 :: u32 where "ALLOC_MAGIC_C1 = 0xFF00FF00"
definition ALLOC_MAGIC_F :: u32 where "ALLOC_MAGIC_F = 0xFE00FE00"
definition ALLOC_MAGIC_C2 :: u8 where "ALLOC_MAGIC_C2 = 0xF0"
definition ALLOC_OFF_HEAD :: addr where "ALLOC_OFF_HEAD = 8"
definition ALLOC_OFF_TOTAL :: u32 where "ALLOC_OFF_TOTAL = 9"
definition ALLOC_BLK_INC :: u32 where "ALLOC_BLK_INC = 256"

definition ALLOC_C1 :: "addr \<Rightarrow> (addr \<Rightarrow> u8) \<Rightarrow> u32" where "ALLOC_C1 p b = read32 b (p - 8)"
definition ALLOC_S :: "addr \<Rightarrow> (addr \<Rightarrow> u8) \<Rightarrow> u32" where "ALLOC_S p b = read32 b (p - 4)"
definition ALLOC_C2 :: "addr \<Rightarrow> (addr \<Rightarrow> u8) \<Rightarrow> u8" where "ALLOC_C2 p b = b (p + ucast (ALLOC_S p b))"

definition ALLOC_CHECK_SIZE :: "u32 \<Rightarrow> fault + unit" where
  "ALLOC_CHECK_SIZE s = (if s > MAX_ALLOC then Inl (Aborted ''Bad alloc request'') else Inr ())"

definition CHECK_PTR :: "addr \<Rightarrow> heap \<Rightarrow> fault + unit" where
  "CHECK_PTR p h =
     (if p = 0 then Inr ()
      else if ALLOC_C1 p (bytes h) \<noteq> ALLOC_MAGIC_C1
      then (if ALLOC_C1 p (bytes h) = ALLOC_MAGIC_F then Inl (Aborted ''Use after free.'')
            else Inl (Aborted ''Corrupted head alloc canary.''))
      else if ALLOC_C2 p (bytes h) \<noteq> ALLOC_MAGIC_C2 then Inl (Aborted ''Corrupted tail alloc canary.'')
      else Inr ())"

text \<open>The three assignments that make a chunk of a fresh block.\<close>

definition set_canaries :: "addr \<Rightarrow> u32 \<Rightarrow> (addr \<Rightarrow> u8) \<Rightarrow> addr \<Rightarrow> u8" where
  "set_canaries ret sz b =
     (let b1 = write32 (ret - 4) sz (write32 (ret - 8) ALLOC_MAGIC_C1 b)
      in b1(ret + ucast (ALLOC_S ret b1) := ALLOC_MAGIC_C2))"

text \<open>\<open>malloc\<close>, the check of its result, and the canaries; \<open>extra\<close> bytes more are asked for.\<close>

definition ck_new :: "allocator \<Rightarrow> u32 \<Rightarrow> u32 \<Rightarrow> heap \<Rightarrow> fault + addr \<times> heap" where
  "ck_new al sz extra h =
     ebind (ALLOC_CHECK_SIZE sz) (\<lambda>_.
     case c_malloc al (unat (sz + ALLOC_OFF_TOTAL + extra)) h of
       None \<Rightarrow> Inl (Aborted ''Out of memory'')
     | Some (r, h1) \<Rightarrow>
         let ret = r + ALLOC_OFF_HEAD
         in Inr (ret, h1\<lparr>bytes := set_canaries ret sz (bytes h1)\<rparr>))"

subsection \<open>The operations\<close>

definition DFL_ck_alloc_nozero :: "allocator \<Rightarrow> u32 \<Rightarrow> heap \<Rightarrow> fault + addr \<times> heap" where
  "DFL_ck_alloc_nozero al sz h = (if sz = 0 then Inr (0, h) else ck_new al sz 0 h)"

definition DFL_ck_alloc :: "allocator \<Rightarrow> u32 \<Rightarrow> heap \<Rightarrow> fault + addr \<times> heap" where
  "DFL_ck_alloc al sz h =
     (if sz = 0 then Inr (0, h)
      else ebind (DFL_ck_alloc_nozero al sz h) (\<lambda>(m, h1).
        Inr (m, h1\<lparr>bytes := c_memset m 0 (unat sz) (bytes h1)\<rparr>)))"

definition DFL_ck_free :: "bool \<Rightarrow> allocator \<Rightarrow> addr \<Rightarrow> heap \<Rightarrow> fault + heap" where
  "DFL_ck_free dbg al m h =
     (if m = 0 then Inr h
      else ebind (CHECK_PTR m h) (\<lambda>_.
        let b = (if dbg then c_memset m 0xFF (unat (ALLOC_S m (bytes h))) (bytes h) else bytes h)
        in c_free al (m - ALLOC_OFF_HEAD) (h\<lparr>bytes := write32 (m - 8) ALLOC_MAGIC_F b\<rparr>)))"

text \<open>
  The new block of \<open>DFL_ck_realloc\<close>: by \<open>realloc\<close>, or in a debug build by \<open>malloc\<close>, copying, and
  wiping the old one.
\<close>

definition realloc_block :: "bool \<Rightarrow> allocator \<Rightarrow> addr \<Rightarrow> u32 \<Rightarrow> u32 \<Rightarrow> heap \<Rightarrow> fault + addr \<times> heap" where
  "realloc_block dbg al orig old_size sz h =
     (if \<not> dbg
      then ebind (c_realloc al orig (unat (sz + ALLOC_OFF_TOTAL)) h) (\<lambda>r.
             case r of None \<Rightarrow> Inl (Aborted ''Out of memory'') | Some rh \<Rightarrow> Inr rh)
      else
        (case c_malloc al (unat (sz + ALLOC_OFF_TOTAL)) h of
           None \<Rightarrow> Inl (Aborted ''Out of memory'')
         | Some (r, h1) \<Rightarrow>
             if orig = 0 then Inr (r, h1)
             else
               (let b1 = c_memcpy (r + ALLOC_OFF_HEAD) (orig + ALLOC_OFF_HEAD) (unat (min sz old_size)) (bytes h1);
                    b2 = c_memset (orig + ALLOC_OFF_HEAD) 0xFF (unat old_size) b1
                in ebind (c_free al orig (h1\<lparr>bytes := write32 orig ALLOC_MAGIC_F b2\<rparr>)) (\<lambda>h2. Inr (r, h2)))))"

text \<open>From the second size check to the end: the new block, its canaries, and zeros behind the old bytes.\<close>

definition realloc_chunk :: "bool \<Rightarrow> allocator \<Rightarrow> addr \<Rightarrow> u32 \<Rightarrow> u32 \<Rightarrow> heap \<Rightarrow> fault + addr \<times> heap" where
  "realloc_chunk dbg al orig old_size sz h =
     ebind (ALLOC_CHECK_SIZE sz) (\<lambda>_.
     ebind (realloc_block dbg al orig old_size sz h) (\<lambda>(r, h1).
     let ret = r + ALLOC_OFF_HEAD;
         b = set_canaries ret sz (bytes h1)
     in Inr (ret, h1\<lparr>bytes := (if sz > old_size
                              then c_memset (ret + ucast old_size) 0 (unat (sz - old_size)) b else b)\<rparr>)))"

definition DFL_ck_realloc :: "bool \<Rightarrow> allocator \<Rightarrow> addr \<Rightarrow> u32 \<Rightarrow> heap \<Rightarrow> fault + addr \<times> heap" where
  "DFL_ck_realloc dbg al orig sz h =
     (if sz = 0 then ebind (DFL_ck_free dbg al orig h) (\<lambda>h1. Inr (0, h1))
      else if orig = 0 then realloc_chunk dbg al 0 0 sz h
      else
        ebind (CHECK_PTR orig h) (\<lambda>_.
        let h1 = (if dbg then h else h\<lparr>bytes := write32 (orig - 8) ALLOC_MAGIC_F (bytes h)\<rparr>);
            old_size = ALLOC_S orig (bytes h1)
        in ebind (ALLOC_CHECK_SIZE old_size) (\<lambda>_.
           realloc_chunk dbg al (orig - ALLOC_OFF_HEAD) old_size sz h1)))"

definition DFL_ck_realloc_block :: "bool \<Rightarrow> allocator \<Rightarrow> addr \<Rightarrow> u32 \<Rightarrow> heap \<Rightarrow> fault + addr \<times> heap" where
  "DFL_ck_realloc_block dbg al orig sz h =
     (if \<not> dbg \<and> orig \<noteq> 0
      then ebind (CHECK_PTR orig h) (\<lambda>_.
           if ALLOC_S orig (bytes h) \<ge> sz then Inr (orig, h)
           else DFL_ck_realloc dbg al orig (sz + ALLOC_BLK_INC) h)
      else DFL_ck_realloc dbg al orig sz h)"

definition DFL_ck_strdup :: "allocator \<Rightarrow> addr \<Rightarrow> heap \<Rightarrow> (fault + addr \<times> heap) option" where
  "DFL_ck_strdup al str h =
     (if str = 0 then Some (Inr (0, h))
      else case c_strlen_from (bytes h) str 0 of
             None \<Rightarrow> None
           | Some n \<Rightarrow>
               (let sz = of_nat n + 1
                in Some (ebind (ck_new al sz 0 h) (\<lambda>(ret, h1).
                     Inr (ret, h1\<lparr>bytes := c_memcpy ret str (unat sz) (bytes h1)\<rparr>)))))"

definition DFL_ck_memdup :: "allocator \<Rightarrow> addr \<Rightarrow> u32 \<Rightarrow> heap \<Rightarrow> fault + addr \<times> heap" where
  "DFL_ck_memdup al m sz h =
     (if m = 0 \<or> sz = 0 then Inr (0, h)
      else ebind (ck_new al sz 0 h) (\<lambda>(ret, h1).
        Inr (ret, h1\<lparr>bytes := c_memcpy ret m (unat sz) (bytes h1)\<rparr>)))"

definition DFL_ck_memdup_str :: "allocator \<Rightarrow> addr \<Rightarrow> u32 \<Rightarrow> heap \<Rightarrow> fault + addr \<times> heap" where
  "DFL_ck_memdup_str al m sz h =
     (if m = 0 \<or> sz = 0 then Inr (0, h)
      else ebind (ck_new al sz 1 h) (\<lambda>(ret, h1).
        Inr (ret, h1\<lparr>bytes := (c_memcpy ret m (unat sz) (bytes h1))(ret + ucast sz := 0)\<rparr>)))"

subsection \<open>Printing to a new buffer\<close>

text \<open>
  \<open>alloc_printf\<close>; \<open>s\<close> is the formatted text.  \<open>snprintf\<close> returns its length, or a negative number when
  that is not an \<open>int\<close>.
\<close>

definition snprintf_length :: "string \<Rightarrow> int" where
  "snprintf_length s = (if length s < 2 ^ 31 then int (length s) else - 1)"

definition put_string :: "addr \<Rightarrow> string \<Rightarrow> (addr \<Rightarrow> u8) \<Rightarrow> addr \<Rightarrow> u8" where
  "put_string p s b =
     (\<lambda>x. if in_block p (length s) x then of_char (s ! unat (x - p))
          else if unat (x - p) = length s then 0 else b x)"

definition alloc_printf :: "allocator \<Rightarrow> string \<Rightarrow> heap \<Rightarrow> fault + addr \<times> heap" where
  "alloc_printf al s h =
     (let len = snprintf_length s
      in if len < 0 then Inl (Exited ''Whoa, snprintf() fails?!'')
         else ebind (DFL_ck_alloc al (of_int (len + 1)) h) (\<lambda>(tmp, h1).
                Inr (tmp, h1\<lparr>bytes := put_string tmp s (bytes h1)\<rparr>)))"

subsection \<open>One operation of a program\<close>

datatype ck_op =
    Ck_alloc_nozero u32 | Ck_alloc u32 | Ck_free addr | Ck_realloc addr u32 | Ck_realloc_block addr u32
  | Ck_strdup addr | Ck_memdup addr u32 | Ck_memdup_str addr u32

fun ck_exec :: "bool \<Rightarrow> allocator \<Rightarrow> ck_op \<Rightarrow> heap \<Rightarrow> (fault + addr \<times> heap) option" where
  "ck_exec dbg al (Ck_alloc_nozero sz) h = Some (DFL_ck_alloc_nozero al sz h)"
| "ck_exec dbg al (Ck_alloc sz) h = Some (DFL_ck_alloc al sz h)"
| "ck_exec dbg al (Ck_free p) h = Some (ebind (DFL_ck_free dbg al p h) (\<lambda>h'. Inr (0, h')))"
| "ck_exec dbg al (Ck_realloc p sz) h = Some (DFL_ck_realloc dbg al p sz h)"
| "ck_exec dbg al (Ck_realloc_block p sz) h = Some (DFL_ck_realloc_block dbg al p sz h)"
| "ck_exec dbg al (Ck_strdup p) h = DFL_ck_strdup al p h"
| "ck_exec dbg al (Ck_memdup p sz) h = Some (DFL_ck_memdup al p sz h)"
| "ck_exec dbg al (Ck_memdup_str p sz) h = Some (DFL_ck_memdup_str al p sz h)"

end
