(* ===== verification/Alloc_Props.thy ===== *)
theory Alloc_Props
  imports Alloc_Inl
begin

section \<open>Alloc_Props: the heap of the checking allocator stays well formed\<close>

text \<open>
  The type invariant \<open>ck_heap\<close>: the blocks in use do not overlap and each is a chunk with intact
  canaries.  Every operation but \<open>ck_memdup_str\<close> keeps it and passes its own checks.
\<close>

subsection \<open>Reading and writing the header\<close>

lemma read32_write32 [simp]: "read32 (write32 a v b) a = v"
proof -
  have "read32 (write32 a v b) a = ucast (ucast v :: u8) OR push_bit 8 (ucast (ucast (drop_bit 8 v) :: u8)) OR
      push_bit 16 (ucast (ucast (drop_bit 16 v) :: u8)) OR push_bit 24 (ucast (ucast (drop_bit 24 v) :: u8))"
    by (simp add: read32_def write32_def)
  also have "\<dots> = v"
  proof (rule bit_word_eqI)
    fix n assume n: "n < LENGTH(32)"
    show "bit (ucast (ucast v :: u8) OR push_bit 8 (ucast (ucast (drop_bit 8 v) :: u8)) OR
        push_bit 16 (ucast (ucast (drop_bit 16 v) :: u8)) OR push_bit 24 (ucast (ucast (drop_bit 24 v) :: u8)) :: u32) n
      = bit v n"
    proof (cases "n < 24")
      case True
      then show ?thesis by (cases "n < 16") (auto simp: bit_simps not_less)
    next
      case False
      then obtain m where "n = 24 + m" using le_Suc_ex by (metis linorder_not_less)
      then show ?thesis using n by (simp add: bit_simps)
    qed
  qed
  finally show ?thesis .
qed

lemma write32_outside: "4 \<le> unat (x - a) \<Longrightarrow> write32 a v b x = b x"
  by (auto simp: write32_def)

lemma read32_cong: "(\<And>x. unat (x - a) < 4 \<Longrightarrow> b' x = b x) \<Longrightarrow> read32 b' a = read32 b a"
  by (simp add: read32_def)

lemma in_block_offset [simp]: "in_block p n (p + d) \<longleftrightarrow> unat d < n"
  by (simp add: in_block_def)

lemma in_block_self [simp]: "in_block p n p \<longleftrightarrow> 0 < n"
  by (simp add: in_block_def)

text \<open>Distances from a later start.\<close>

lemma unat_diff_later:
  "unat (d - e :: addr) = (if unat e \<le> unat d then unat d - unat e else unat d + 2 ^ 64 - unat e)"
  by (simp add: unat_sub_if' word_le_nat_alt)

lemma unat_diff_4:
  "unat (x - (p + 4) :: addr) =
     (if 4 \<le> unat (x - p) then unat (x - p) - 4 else unat (x - p) + 2 ^ 64 - 4)"
proof -
  have e: "x - (p + 4) = (x - p) - 4" by (rule diff_diff_eq [symmetric])
  have 4: "unat (4 :: addr) = 4" by simp
  show ?thesis unfolding e unat_diff_later [of "x - p" 4] 4 by (rule refl)
qed

subsection \<open>Chunks\<close>

text \<open>A chunk in the block of \<open>n\<close> bytes from \<open>p\<close>, and its size.\<close>

definition chunk_size :: "(addr \<Rightarrow> u8) \<Rightarrow> addr \<Rightarrow> nat" where
  "chunk_size b p = unat (read32 b (p + 4))"

definition chunk_ok :: "(addr \<Rightarrow> u8) \<Rightarrow> addr \<Rightarrow> nat \<Rightarrow> bool" where
  "chunk_ok b p n \<longleftrightarrow> read32 b p = ALLOC_MAGIC_C1 \<and> read32 b (p + 4) \<le> MAX_ALLOC \<and> chunk_size b p + 9 \<le> n \<and>
     b (p + (8 + ucast (read32 b (p + 4)))) = ALLOC_MAGIC_C2"

text \<open>The user's bytes of a chunk of size \<open>s\<close>.\<close>

definition in_user :: "addr \<Rightarrow> nat \<Rightarrow> addr \<Rightarrow> bool" where
  "in_user p s x \<longleftrightarrow> 8 \<le> unat (x - p) \<and> unat (x - p) < 8 + s"

lemma tail_offset: "unat (8 + ucast (s :: u32) :: addr) = 8 + unat s"
proof -
  have "unat s < 2 ^ 32" using unsigned_less [where ?'a = nat and w = s] by simp
  then have "unat (ucast s :: addr) = unat s" by (simp add: unsigned_ucast_eq take_bit_nat_eq_self)
  with \<open>unat s < 2 ^ 32\<close> show ?thesis by (simp add: unat_word_ariths)
qed

lemma unat_8_plus: "unat i < unat (s :: u32) \<Longrightarrow> unat (8 + i :: addr) = 8 + unat i"
  using unsigned_less [where ?'a = nat and w = s] by (simp add: unat_word_ariths)

lemma header_agrees:
  assumes "\<And>x. unat (x - p) < 8 \<Longrightarrow> b' x = b x"
  shows "read32 b' p = read32 b p" and "read32 b' (p + 4) = read32 b (p + 4)"
proof -
  show "read32 b' p = read32 b p" by (rule read32_cong) (use assms in simp)
  show "read32 b' (p + 4) = read32 b (p + 4)"
  proof (rule read32_cong)
    fix x assume "unat (x - (p + 4)) < 4"
    then have "unat (x - p) < 8" unfolding unat_diff_4 by (simp split: if_splits)
    then show "b' x = b x" by (rule assms)
  qed
qed

lemma chunk_agrees:
  assumes "chunk_ok b p n" and "\<And>x. unat (x - p) < 8 \<Longrightarrow> b' x = b x"
    and "b' (p + (8 + ucast (read32 b (p + 4)))) = b (p + (8 + ucast (read32 b (p + 4))))"
  shows "chunk_ok b' p n" and "chunk_size b' p = chunk_size b p"
  using assms header_agrees [OF assms(2)] by (simp_all add: chunk_ok_def chunk_size_def)

text \<open>Writing outside the block, or to the user's bytes, leaves a chunk a chunk.\<close>

lemma chunk_outside:
  assumes "chunk_ok b p n" and "\<And>x. in_block p n x \<Longrightarrow> b' x = b x"
  shows "chunk_ok b' p n" and "chunk_size b' p = chunk_size b p"
proof -
  have n: "chunk_size b p + 9 \<le> n" using assms(1) by (simp add: chunk_ok_def)
  have 1: "b' x = b x" if "unat (x - p) < 8" for x using that n by (intro assms(2)) (simp add: in_block_def)
  have 2: "b' (p + (8 + ucast (read32 b (p + 4)))) = b (p + (8 + ucast (read32 b (p + 4))))"
    using n by (intro assms(2)) (simp add: tail_offset chunk_size_def)
  show "chunk_ok b' p n" "chunk_size b' p = chunk_size b p"
    using chunk_agrees [OF assms(1) 1 2] by simp_all
qed

lemma chunk_user_write:
  assumes "chunk_ok b p n" and "\<And>x. \<not> in_user p (chunk_size b p) x \<Longrightarrow> b' x = b x"
  shows "chunk_ok b' p n" and "chunk_size b' p = chunk_size b p"
proof -
  have 1: "b' x = b x" if "unat (x - p) < 8" for x using that by (intro assms(2)) (simp add: in_user_def)
  have 2: "b' (p + (8 + ucast (read32 b (p + 4)))) = b (p + (8 + ucast (read32 b (p + 4))))"
    by (intro assms(2)) (simp add: in_user_def tail_offset chunk_size_def)
  show "chunk_ok b' p n" "chunk_size b' p = chunk_size b p"
    using chunk_agrees [OF assms(1) 1 2] by simp_all
qed

text \<open>The three assignments make a chunk and touch nothing outside the block and no user byte.\<close>

lemma set_canaries_chunk:
  assumes "sz \<le> MAX_ALLOC" and "unat sz + 9 \<le> n"
  shows "chunk_ok (set_canaries (p + 8) sz b) p n" and "chunk_size (set_canaries (p + 8) sz b) p = unat sz"
    and "\<not> in_block p n x \<or> in_user p (unat sz) x \<Longrightarrow> set_canaries (p + 8) sz b x = b x"
proof -
  let ?b1 = "write32 (p + 4) sz (write32 p ALLOC_MAGIC_C1 b)"
  have e: "set_canaries (p + 8) sz b = ?b1(p + (8 + ucast sz) := ALLOC_MAGIC_C2)"
    by (simp add: set_canaries_def ALLOC_S_def Let_def ac_simps)
  have hd: "read32 ?b1 p = ALLOC_MAGIC_C1"
  proof -
    have "read32 ?b1 p = read32 (write32 p ALLOC_MAGIC_C1 b) p"
    proof (rule read32_cong)
      fix x assume "unat (x - p) < 4"
      then have "4 \<le> unat (x - (p + 4))" unfolding unat_diff_4 by simp
      then show "?b1 x = write32 p ALLOC_MAGIC_C1 b x" by (rule write32_outside)
    qed
    then show ?thesis by simp
  qed
  have keep: "set_canaries (p + 8) sz b x = ?b1 x" if "unat (x - p) < 8" for x
  proof -
    have "x \<noteq> p + (8 + ucast sz)" using that tail_offset [of sz] by auto
    then show ?thesis by (simp add: e)
  qed
  have h: "read32 (set_canaries (p + 8) sz b) p = ALLOC_MAGIC_C1" "read32 (set_canaries (p + 8) sz b) (p + 4) = sz"
    using header_agrees [of p "set_canaries (p + 8) sz b" ?b1] keep hd by simp_all
  then show "chunk_ok (set_canaries (p + 8) sz b) p n" "chunk_size (set_canaries (p + 8) sz b) p = unat sz"
    using assms by (simp_all add: chunk_ok_def chunk_size_def) (simp add: e)
  assume x: "\<not> in_block p n x \<or> in_user p (unat sz) x"
  have far: "8 \<le> unat (x - p)" using x assms(2) by (auto simp: in_block_def in_user_def)
  have "x \<noteq> p + (8 + ucast sz)" using x assms(2) by (auto simp: tail_offset in_user_def)
  moreover have "4 \<le> unat (x - (p + 4))" using far unfolding unat_diff_4 by simp
  ultimately show "set_canaries (p + 8) sz b x = b x"
    using far by (simp add: e write32_outside)
qed

subsection \<open>The invariant\<close>

definition live :: "heap \<Rightarrow> addr \<Rightarrow> addr \<Rightarrow> bool" where
  "live h p x \<longleftrightarrow> (\<exists>n. blocks h p = Some n \<and> in_block p n x)"

text \<open>What libc documents: new blocks are fresh, live bytes stay, \<open>realloc\<close> copies.\<close>

definition allocator_ok :: "allocator \<Rightarrow> bool" where
  "allocator_ok al \<longleftrightarrow>
     (\<forall>h n p b. al_malloc al h n = Some (p, b) \<longrightarrow> p \<noteq> 0 \<and> unat p + n < 2 ^ 64 \<and>
        (\<forall>q x. live h q x \<longrightarrow> \<not> in_block p n x \<and> b x = bytes h x)) \<and>
     (\<forall>h p m n q b. blocks h p = Some m \<and> al_realloc al h p n = Some (q, b) \<longrightarrow> q \<noteq> 0 \<and> unat q + n < 2 ^ 64 \<and>
        (\<forall>r x. r \<noteq> p \<and> live h r x \<longrightarrow> \<not> in_block q n x \<and> b x = bytes h x) \<and>
        (\<forall>d. unat d < min m n \<longrightarrow> b (q + d) = bytes h (p + d))) \<and>
     (\<forall>h p q x. q \<noteq> p \<and> live h q x \<longrightarrow> al_free al h p x = bytes h x)"

text \<open>All blocks, or all but those of a set, are chunks and apart.\<close>

definition ck_heap_but :: "addr set \<Rightarrow> heap \<Rightarrow> bool" where
  "ck_heap_but A h \<longleftrightarrow>
     (\<forall>p n. blocks h p = Some n \<and> p \<notin> A \<longrightarrow> p \<noteq> 0 \<and> unat p + n < 2 ^ 64 \<and> chunk_ok (bytes h) p n) \<and>
     (\<forall>p q x. p \<notin> A \<and> q \<notin> A \<and> p \<noteq> q \<and> live h p x \<longrightarrow> \<not> live h q x)"

abbreviation ck_heap :: "heap \<Rightarrow> bool" where
  "ck_heap \<equiv> ck_heap_but {}"

text \<open>A pointer that an operation has returned and that is still in use.\<close>

definition ck_ptr :: "heap \<Rightarrow> addr \<Rightarrow> bool" where
  "ck_ptr h r \<longleftrightarrow> blocks h (r - 8) \<noteq> None"

lemma chunk_length: "chunk_ok b p n \<Longrightarrow> 9 \<le> n"
  by (simp add: chunk_ok_def)

lemma ck_heap_butD:
  "ck_heap_but A h \<Longrightarrow> blocks h p = Some n \<Longrightarrow> p \<notin> A \<Longrightarrow> p \<noteq> 0 \<and> unat p + n < 2 ^ 64 \<and> chunk_ok (bytes h) p n"
  "ck_heap_but A h \<Longrightarrow> p \<notin> A \<Longrightarrow> q \<notin> A \<Longrightarrow> p \<noteq> q \<Longrightarrow> live h p x \<Longrightarrow> \<not> live h q x"
  unfolding ck_heap_but_def by blast+

lemma ck_heap_but_mono: "ck_heap h \<Longrightarrow> ck_heap_but A h"
  unfolding ck_heap_but_def by blast

text \<open>Changing bytes only.\<close>

lemma live_bytes: "live (h\<lparr>bytes := b\<rparr>) = live h"
  by (simp add: live_def fun_eq_iff)

lemma live_intro: "blocks h q = Some n \<Longrightarrow> in_block q n x \<Longrightarrow> live h q x"
  unfolding live_def by blast

lemma chunk_live:
  assumes "ck_heap_but A h" and "blocks h q = Some n" "q \<notin> A" and "\<And>x. live h q x \<Longrightarrow> b x = bytes h x"
  shows "chunk_ok b q n"
  using ck_heap_butD(1) [OF assms(1-3)] assms(4) live_intro [OF assms(2)]
  by (intro chunk_outside(1) [of "bytes h" q n b]) blast+

lemma ck_heap_bytes:
  assumes "ck_heap_but A h" and "\<And>q n. blocks h q = Some n \<Longrightarrow> q \<notin> A \<Longrightarrow> chunk_ok b q n"
  shows "ck_heap_but A (h\<lparr>bytes := b\<rparr>)"
  using assms unfolding ck_heap_but_def live_bytes by simp blast

lemma ck_heap_but_bytes:
  assumes "ck_heap_but A h" and "\<And>q x. q \<notin> A \<Longrightarrow> live h q x \<Longrightarrow> b x = bytes h x"
  shows "ck_heap_but A (h\<lparr>bytes := b\<rparr>)"
proof (rule ck_heap_bytes [OF assms(1)])
  fix q n assume "blocks h q = Some n" "q \<notin> A"
  then show "chunk_ok b q n" using assms(2) by (intro chunk_live [OF assms(1)])
qed

text \<open>The blocks of a set are replaced by one new chunk, or by none.\<close>

definition without :: "addr set \<Rightarrow> (addr \<Rightarrow> nat option) \<Rightarrow> addr \<Rightarrow> nat option" where
  "without A bl = (\<lambda>q. if q \<in> A then None else bl q)"

lemma dom_without: "dom (without A bl) = dom bl - A"
  by (auto simp: without_def split: if_splits)

lemma ck_heap_removed:
  assumes "ck_heap_but A h" and "blocks h' = without A (blocks h)"
    and "\<And>q x. q \<notin> A \<Longrightarrow> live h q x \<Longrightarrow> bytes h' x = bytes h x"
  shows "ck_heap h'"
proof -
  have l: "live h' q x \<longleftrightarrow> q \<notin> A \<and> live h q x" for q x by (simp add: live_def assms(2) without_def)
  have "p \<noteq> 0 \<and> unat p + n < 2 ^ 64 \<and> chunk_ok (bytes h') p n" if "blocks h' p = Some n" for p n
  proof -
    have p: "blocks h p = Some n" "p \<notin> A" using that by (auto simp: assms(2) without_def split: if_splits)
    note old = ck_heap_butD(1) [OF assms(1) p]
    moreover have "chunk_ok (bytes h') p n" by (rule chunk_live [OF assms(1) p assms(3) [OF p(2)]])
    ultimately show ?thesis by blast
  qed
  moreover have "live h' p x \<Longrightarrow> p \<noteq> q \<Longrightarrow> \<not> live h' q x" for p q x
    using ck_heap_butD(2) [OF assms(1)] unfolding l by blast
  ultimately show ?thesis unfolding ck_heap_but_def by blast
qed

lemma ck_heap_inserted:
  assumes "ck_heap_but A h" and "blocks h' = (without A (blocks h))(p \<mapsto> n)"
    and "p \<noteq> 0" "unat p + n < 2 ^ 64" "chunk_ok (bytes h') p n"
    and "\<And>q x. q \<notin> A \<Longrightarrow> live h q x \<Longrightarrow> \<not> in_block p n x \<and> bytes h' x = bytes h x"
  shows "ck_heap h'"
proof -
  let ?h0 = "\<lparr>bytes = bytes h', blocks = without A (blocks h)\<rparr>"
  have base: "ck_heap ?h0" using assms(6) by (intro ck_heap_removed [OF assms(1)]) auto
  have new: "live h' p x \<longleftrightarrow> in_block p n x" for x by (simp add: live_def assms(2))
  have old: "q \<noteq> p \<Longrightarrow> live h' q x \<longleftrightarrow> live ?h0 q x" for q x by (simp add: live_def assms(2))
  have apart: "live ?h0 q x \<Longrightarrow> \<not> in_block p n x" for q x
    using assms(6) [of q x] by (auto simp: live_def without_def split: if_splits)
  have "q \<noteq> 0 \<and> unat q + m < 2 ^ 64 \<and> chunk_ok (bytes h') q m" if "blocks h' q = Some m" for q m
    using that assms(2-5) ck_heap_butD(1) [OF base, of q m] by (cases "q = p") simp_all
  moreover have "live h' r x \<Longrightarrow> r \<noteq> q \<Longrightarrow> \<not> live h' q x" for r q x
    using ck_heap_butD(2) [OF base, of r q x] apart new old by (cases "r = p"; cases "q = p") auto
  ultimately show ?thesis unfolding ck_heap_but_def by blast
qed

subsection \<open>Checks\<close>

lemma ptr_simps: "(r :: addr) - 8 + 4 = r - 4" "(r :: addr) - 8 + (8 + d) = r + d"
  by simp_all

lemma check_ptr_ok:
  assumes "ck_heap h" and "ck_ptr h r"
  shows "CHECK_PTR r h = Inr ()" and "r \<noteq> 0" and "ALLOC_S r (bytes h) \<le> MAX_ALLOC"
    and "unat (ALLOC_S r (bytes h)) = chunk_size (bytes h) (r - 8)"
proof -
  obtain n where n: "blocks h (r - 8) = Some n" using assms(2) by (auto simp: ck_ptr_def)
  then have c: "unat (r - 8) + n < 2 ^ 64" "chunk_ok (bytes h) (r - 8) n"
    using ck_heap_butD(1) [OF assms(1)] by auto
  show "unat (ALLOC_S r (bytes h)) = chunk_size (bytes h) (r - 8)"
    by (simp add: ALLOC_S_def chunk_size_def ptr_simps)
  show "ALLOC_S r (bytes h) \<le> MAX_ALLOC" using c(2) by (simp add: chunk_ok_def ALLOC_S_def ptr_simps)
  show "CHECK_PTR r h = Inr ()"
    using c(2) by (simp add: CHECK_PTR_def chunk_ok_def ALLOC_C1_def ALLOC_C2_def ALLOC_S_def ptr_simps)
  show "r \<noteq> 0" using c(1) chunk_length [OF c(2)] by auto
qed

subsection \<open>The calls of libc\<close>

lemma c_malloc_ok:
  assumes "allocator_ok al" and "c_malloc al n h = Some (p, h1)"
  shows "p \<noteq> 0" "unat p + n < 2 ^ 64" "blocks h1 = (blocks h)(p \<mapsto> n)"
    and "live h q x \<Longrightarrow> \<not> in_block p n x \<and> bytes h1 x = bytes h x"
proof -
  obtain b where b: "al_malloc al h n = Some (p, b)" "h1 = \<lparr>bytes = b, blocks = (blocks h)(p \<mapsto> n)\<rparr>"
    using assms(2) by (auto simp: c_malloc_def)
  have "p \<noteq> 0 \<and> unat p + n < 2 ^ 64 \<and> (\<forall>q x. live h q x \<longrightarrow> \<not> in_block p n x \<and> b x = bytes h x)"
    using assms(1) b(1) unfolding allocator_ok_def by blast
  then show "p \<noteq> 0" "unat p + n < 2 ^ 64" "blocks h1 = (blocks h)(p \<mapsto> n)"
    "live h q x \<Longrightarrow> \<not> in_block p n x \<and> bytes h1 x = bytes h x"
    unfolding b(2) by simp_all
qed

lemma c_free_ok:
  assumes "allocator_ok al" and "blocks h p \<noteq> None"
  obtains h' where "c_free al p h = Inr h'" "blocks h' = without {p} (blocks h)"
    "\<And>q x. q \<noteq> p \<Longrightarrow> live h q x \<Longrightarrow> bytes h' x = bytes h x"
proof
  let ?h = "\<lparr>bytes = al_free al h p, blocks = (blocks h)(p := None)\<rparr>"
  show "c_free al p h = Inr ?h" using assms(2) by (simp add: c_free_def)
  show "blocks ?h = without {p} (blocks h)" by (auto simp: without_def)
  show "bytes ?h x = bytes h x" if "q \<noteq> p" "live h q x" for q x
    using assms(1) that unfolding allocator_ok_def by simp
qed

lemma c_realloc_ok:
  assumes "allocator_ok al" and "p \<noteq> 0" and "blocks h p = Some m" and "c_realloc al p n h = Inr (Some (q, h1))"
  shows "q \<noteq> 0" "unat q + n < 2 ^ 64" "blocks h1 = (without {p} (blocks h))(q \<mapsto> n)"
    and "r \<noteq> p \<Longrightarrow> live h r x \<Longrightarrow> \<not> in_block q n x \<and> bytes h1 x = bytes h x"
    and "unat d < min m n \<Longrightarrow> bytes h1 (q + d) = bytes h (p + d)"
proof -
  obtain b where b: "al_realloc al h p n = Some (q, b)" "h1 = \<lparr>bytes = b, blocks = (blocks h)(p := None, q \<mapsto> n)\<rparr>"
    using assms(2-4) by (auto simp: c_realloc_def)
  have "q \<noteq> 0 \<and> unat q + n < 2 ^ 64 \<and>
      (\<forall>r x. r \<noteq> p \<and> live h r x \<longrightarrow> \<not> in_block q n x \<and> b x = bytes h x) \<and>
      (\<forall>d. unat d < min m n \<longrightarrow> b (q + d) = bytes h (p + d))"
    using assms(1,3) b(1) unfolding allocator_ok_def by blast
  then show "q \<noteq> 0" "unat q + n < 2 ^ 64"
    "r \<noteq> p \<Longrightarrow> live h r x \<Longrightarrow> \<not> in_block q n x \<and> bytes h1 x = bytes h x"
    "unat d < min m n \<Longrightarrow> bytes h1 (q + d) = bytes h (p + d)"
    unfolding b(2) by simp_all
  show "blocks h1 = (without {p} (blocks h))(q \<mapsto> n)" unfolding b(2) by (auto simp: without_def)
qed

subsection \<open>Making a chunk\<close>

text \<open>What an operation does to the chunks it is not given.\<close>

definition kept :: "addr set \<Rightarrow> heap \<Rightarrow> heap \<Rightarrow> bool" where
  "kept A h h' \<longleftrightarrow>
     (\<forall>q x. q \<notin> A \<and> live h q x \<longrightarrow> live h' q x \<and> bytes h' x = bytes h x) \<and>
     (\<forall>q. q \<notin> A \<and> blocks h q \<noteq> None \<longrightarrow> blocks h' q = blocks h q)"

lemma unat_request:
  assumes "sz \<le> MAX_ALLOC" and "extra \<le> 1"
  shows "unat (sz + ALLOC_OFF_TOTAL + extra) = unat sz + 9 + unat extra"
proof -
  have "unat sz \<le> 0x40000000" "unat extra \<le> 1"
    using assms by (simp_all add: MAX_ALLOC_def word_le_nat_alt)
  then show ?thesis by (simp add: ALLOC_OFF_TOTAL_def unat_word_ariths)
qed

text \<open>Canaries in a block that replaces the blocks of \<open>A\<close>.\<close>

lemma made_chunk:
  assumes "ck_heap_but A h" and sz: "sz \<le> MAX_ALLOC" "unat sz + 9 \<le> n"
    and "r \<noteq> 0" "unat r + n < 2 ^ 64" "blocks h1 = (without A (blocks h))(r \<mapsto> n)"
    and fresh: "\<And>q x. q \<notin> A \<Longrightarrow> live h q x \<Longrightarrow> \<not> in_block r n x \<and> bytes h1 x = bytes h x"
    and h': "h' = h1\<lparr>bytes := set_canaries (r + 8) sz (bytes h1)\<rparr>"
  shows "ck_heap h'" "ck_ptr h' (r + 8)" "chunk_size (bytes h') r = unat sz" "kept A h h'"
    and "blocks h r = None \<or> r \<in> A"
proof -
  note c = set_canaries_chunk [OF sz]
  have out: "\<not> in_block r n x \<and> bytes h' x = bytes h x" if "q \<notin> A" "live h q x" for q x
    using fresh [OF that] c(3) [of r x] by (simp add: h')
  show "ck_heap h'"
    by (rule ck_heap_inserted [OF assms(1) _ assms(4,5) _ out]) (simp_all add: h' assms(6) c(1))
  show "ck_ptr h' (r + 8)" by (simp add: ck_ptr_def h' assms(6))
  show "chunk_size (bytes h') r = unat sz" by (simp add: h' c(2))
  show "blocks h r = None \<or> r \<in> A"
  proof (rule ccontr)
    assume "\<not> (blocks h r = None \<or> r \<in> A)"
    then obtain m where m: "blocks h r = Some m" "r \<notin> A" by (cases "blocks h r") simp_all
    have "0 < m" "0 < n" using ck_heap_butD(1) [OF assms(1) m] chunk_length [of "bytes h" r m] sz(2) by auto
    then have "live h r r" using m(1) by (simp add: live_def)
    from fresh [OF m(2) this] \<open>0 < n\<close> show False by simp
  qed
  then have "blocks h' q = blocks h q" if "q \<notin> A" "blocks h q \<noteq> None" for q
    using that by (auto simp: h' assms(6) without_def)
  moreover from this have "live h' q x" if "q \<notin> A" "live h q x" for q x
    using that by (auto simp: live_def)
  ultimately show "kept A h h'" using out unfolding kept_def by blast
qed

lemma ck_new_ok:
  assumes al: "allocator_ok al" and h: "ck_heap h" and "extra \<le> 1" and run: "ck_new al sz extra h = Inr (p, h')"
  shows "ck_heap h'" "ck_ptr h' p" "chunk_size (bytes h') (p - 8) = unat sz" "kept {} h h'" "blocks h (p - 8) = None"
    and "dom (blocks h') = insert (p - 8) (dom (blocks h))"
proof -
  have sz: "sz \<le> MAX_ALLOC" using run by (simp add: ck_new_def ALLOC_CHECK_SIZE_def not_less split: if_splits)
  then have chk: "ALLOC_CHECK_SIZE sz = Inr ()" by (simp add: ALLOC_CHECK_SIZE_def not_less)
  obtain r h1 where r: "c_malloc al (unat (sz + ALLOC_OFF_TOTAL + extra)) h = Some (r, h1)"
    "p = r + 8" "h' = h1\<lparr>bytes := set_canaries (r + 8) sz (bytes h1)\<rparr>"
    using run by (auto simp: ck_new_def chk Let_def ALLOC_OFF_HEAD_def split: option.splits)
  note m = c_malloc_ok [OF al r(1)]
  have n: "unat sz + 9 \<le> unat (sz + ALLOC_OFF_TOTAL + extra)" using unat_request [OF sz assms(3)] by simp
  have bl: "blocks h1 = (without {} (blocks h))(r \<mapsto> unat (sz + ALLOC_OFF_TOTAL + extra))"
    using m(3) by (simp add: without_def)
  note c = made_chunk [OF h sz n m(1,2) bl m(4) r(3)]
  show "ck_heap h'" "ck_ptr h' p" "chunk_size (bytes h') (p - 8) = unat sz" "kept {} h h'" "blocks h (p - 8) = None"
    using c by (simp_all add: r(2))
  show "dom (blocks h') = insert (p - 8) (dom (blocks h))" by (simp add: r(2,3) m(3))
qed

definition refused :: "fault \<Rightarrow> bool" where
  "refused f \<longleftrightarrow> f = Aborted ''Bad alloc request'' \<or> f = Aborted ''Out of memory''"

lemma ck_new_refused: "ck_new al sz extra h = Inl f \<Longrightarrow> refused f"
  by (auto simp: ck_new_def ALLOC_CHECK_SIZE_def refused_def Let_def split: if_splits option.splits)

subsection \<open>Writing to a chunk\<close>

lemma in_user_block:
  assumes "s + 8 \<le> 2 ^ 64"
  shows "in_user (r - 8) s x \<longleftrightarrow> in_block r s x"
proof -
  have e: "x - r = (x - (r - 8)) - 8" by simp
  have 8: "unat (8 :: addr) = 8" by simp
  show ?thesis
    unfolding in_user_def in_block_def e unat_diff_later [of "x - (r - 8)" 8] 8
    using assms unsigned_less [where ?'a = nat and w = "x - (r - 8)"] by (cases "8 \<le> unat (x - (r - 8))") auto
qed

text \<open>The program, or the copying of an operation, writes to the user's bytes of \<open>r\<close>.\<close>

lemma user_write:
  assumes h: "ck_heap h" and r: "ck_ptr h r"
    and b: "\<And>x. \<not> in_block r (chunk_size (bytes h) (r - 8)) x \<Longrightarrow> b x = bytes h x"
  shows "ck_heap (h\<lparr>bytes := b\<rparr>)" and "chunk_size b (r - 8) = chunk_size (bytes h) (r - 8)"
    and "kept {r - 8} h (h\<lparr>bytes := b\<rparr>)"
proof -
  obtain n where n: "blocks h (r - 8) = Some n" using r by (auto simp: ck_ptr_def)
  then have c: "unat (r - 8) + n < 2 ^ 64" "chunk_ok (bytes h) (r - 8) n"
    using ck_heap_butD(1) [OF h] by auto
  let ?s = "chunk_size (bytes h) (r - 8)"
  have s: "?s + 9 \<le> n" using c(2) by (simp add: chunk_ok_def)
  have iu: "in_user (r - 8) ?s x \<longleftrightarrow> in_block r ?s x" for x
    using s c(1) by (intro in_user_block) simp
  have "\<not> in_user (r - 8) ?s x \<Longrightarrow> b x = bytes h x" for x using b unfolding iu .
  note own = chunk_user_write [OF c(2) this]
  then show "chunk_size b (r - 8) = ?s" by simp
  have inside: "in_block r ?s x \<Longrightarrow> live h (r - 8) x" for x
    using n s unfolding iu [symmetric] by (auto simp: live_def in_user_def in_block_def)
  have other: "b x = bytes h x" if "q \<noteq> r - 8" "live h q x" for q x
    using b inside ck_heap_butD(2) [OF h _ _ that] by blast
  show "ck_heap (h\<lparr>bytes := b\<rparr>)"
  proof (rule ck_heap_bytes [OF h])
    fix q m assume q: "blocks h q = Some m" "q \<notin> {}"
    show "chunk_ok b q m"
    proof (cases "q = r - 8")
      case True
      then show ?thesis using own n q(1) by simp
    next
      case False
      then show ?thesis using other by (intro chunk_live [OF h q]) blast
    qed
  qed
  show "kept {r - 8} h (h\<lparr>bytes := b\<rparr>)"
    using other by (simp add: kept_def live_bytes) blast
qed

lemma kept_trans: "kept A h h1 \<Longrightarrow> kept A h1 h2 \<Longrightarrow> kept A h h2"
  unfolding kept_def by (metis)

lemma kept_mono: "kept A h h' \<Longrightarrow> A \<subseteq> B \<Longrightarrow> kept B h h'"
  unfolding kept_def by blast

lemma kept_compose:
  assumes k: "kept A h h1" "kept B h1 h2" and B: "\<And>z. z \<in> B \<Longrightarrow> blocks h z = None \<or> z \<in> A"
  shows "kept A h h2"
proof -
  have out: "q \<notin> B" if "q \<notin> A" "blocks h q \<noteq> None" for q using that B [of q] by auto
  have used: "blocks h q \<noteq> None" if "live h q x" for q x using that by (auto simp: live_def)
  show ?thesis
    unfolding kept_def
  proof (intro conjI allI impI)
    fix q x assume q: "q \<notin> A \<and> live h q x"
    then have "live h1 q x" "bytes h1 x = bytes h x" using k(1) unfolding kept_def by blast+
    moreover have "q \<notin> B" using q out used by blast
    ultimately show "live h2 q x" "bytes h2 x = bytes h x" using k(2) unfolding kept_def by auto
  next
    fix q assume q: "q \<notin> A \<and> blocks h q \<noteq> None"
    then have "blocks h1 q = blocks h q" using k(1) unfolding kept_def by blast
    moreover have "q \<notin> B" using q out by blast
    ultimately show "blocks h2 q = blocks h q" using k(2) q unfolding kept_def by simp
  qed
qed

lemma kept_replaced: "kept A h h1 \<Longrightarrow> kept {p} h1 h2 \<Longrightarrow> blocks h p = None \<or> p \<in> A \<Longrightarrow> kept A h h2"
  using kept_compose [of A h h1 "{p}" h2] by blast

lemma kept_unused:
  assumes "kept A h h'" and "blocks h z = None"
  shows "kept (A - {z}) h h'"
proof -
  have "q \<noteq> z" if "blocks h q \<noteq> None" for q using that assms(2) by auto
  moreover have "blocks h q \<noteq> None" if "live h q x" for q x using that by (auto simp: live_def)
  ultimately show ?thesis using assms(1) unfolding kept_def by (metis DiffI singletonD)
qed

lemma user_live:
  assumes "ck_heap h" and "ck_ptr h r" and "in_block r (chunk_size (bytes h) (r - 8)) x"
  shows "live h (r - 8) x"
proof -
  obtain n where n: "blocks h (r - 8) = Some n" using assms(2) by (auto simp: ck_ptr_def)
  then have c: "unat (r - 8) + n < 2 ^ 64" "chunk_ok (bytes h) (r - 8) n"
    using ck_heap_butD(1) [OF assms(1)] by auto
  have s: "chunk_size (bytes h) (r - 8) + 9 \<le> n" using c(2) by (simp add: chunk_ok_def)
  have "in_user (r - 8) (chunk_size (bytes h) (r - 8)) x"
    using assms(3) s c(1) by (subst in_user_block) simp_all
  then show ?thesis using n s by (auto simp: live_def in_user_def in_block_def)
qed

lemma kept_chunk:
  assumes "ck_heap h" and "ck_ptr h r" and "kept A h h'" and "r - 8 \<notin> A"
  shows "ck_ptr h' r" "chunk_size (bytes h') (r - 8) = chunk_size (bytes h) (r - 8)"
    and "in_block r (chunk_size (bytes h) (r - 8)) x \<Longrightarrow> bytes h' x = bytes h x"
proof -
  obtain n where n: "blocks h (r - 8) = Some n" using assms(2) by (auto simp: ck_ptr_def)
  have same: "live h (r - 8) x \<Longrightarrow> bytes h' x = bytes h x" for x
    using assms(3,4) unfolding kept_def by blast
  show "ck_ptr h' r" using assms(2-4) unfolding ck_ptr_def kept_def by simp
  have "chunk_ok (bytes h) (r - 8) n" using ck_heap_butD(1) [OF assms(1) n] by simp
  then show "chunk_size (bytes h') (r - 8) = chunk_size (bytes h) (r - 8)"
    using same live_intro [OF n] by (intro chunk_outside(2) [of "bytes h" "r - 8" n]) blast+
  show "in_block r (chunk_size (bytes h) (r - 8)) x \<Longrightarrow> bytes h' x = bytes h x"
    using user_live [OF assms(1,2)] same by blast
qed

text \<open>A new chunk, filled.\<close>

lemma ck_new_filled:
  assumes al: "allocator_ok al" and h: "ck_heap h" and run: "ck_new al sz 0 h = Inr (p, h1)"
    and b: "\<And>x. \<not> in_block p (unat sz) x \<Longrightarrow> b x = bytes h1 x"
  shows "ck_heap (h1\<lparr>bytes := b\<rparr>)" "ck_ptr (h1\<lparr>bytes := b\<rparr>) p" "chunk_size b (p - 8) = unat sz"
    and "kept {} h (h1\<lparr>bytes := b\<rparr>)"
proof -
  note n = ck_new_ok [OF al h _ run]
  have "\<not> in_block p (chunk_size (bytes h1) (p - 8)) x \<Longrightarrow> b x = bytes h1 x" for x
    using b n(3) by simp
  note w = user_write [OF n(1,2) this]
  from w n(3) show "ck_heap (h1\<lparr>bytes := b\<rparr>)" "chunk_size b (p - 8) = unat sz" by simp_all
  show "ck_ptr (h1\<lparr>bytes := b\<rparr>) p" using n(2) by (simp add: ck_ptr_def)
  show "kept {} h (h1\<lparr>bytes := b\<rparr>)" using n(4,5) w(3) by (auto intro: kept_replaced)
qed

subsection \<open>Freeing\<close>

text \<open>A block may be overwritten before it is given back.\<close>

lemma give_back:
  assumes al: "allocator_ok al" and h: "ck_heap_but {p} h" and p: "blocks h p = Some n"
    and apart: "\<And>q x. q \<noteq> p \<Longrightarrow> live h p x \<Longrightarrow> \<not> live h q x"
    and b: "\<And>x. \<not> in_block p n x \<Longrightarrow> b x = bytes h x"
  obtains h' where "c_free al p (h\<lparr>bytes := b\<rparr>) = Inr h'" "blocks h' = without {p} (blocks h)"
    "ck_heap h'" "kept {p} h h'"
proof -
  have other: "b x = bytes h x" if "q \<noteq> p" "live h q x" for q x
    using b [of x] apart [OF that(1), of x] that(2) p by (auto simp: live_def)
  have "blocks (h\<lparr>bytes := b\<rparr>) p \<noteq> None" using p by simp
  from c_free_ok [OF al this] obtain h' where h': "c_free al p (h\<lparr>bytes := b\<rparr>) = Inr h'"
    "blocks h' = without {p} (blocks h)" "\<And>q x. q \<noteq> p \<Longrightarrow> live h q x \<Longrightarrow> bytes h' x = b x"
    by (auto simp: live_bytes)
  have keep: "q \<noteq> p \<Longrightarrow> live h q x \<Longrightarrow> bytes h' x = bytes h x" for q x using h'(3) other by metis
  have "ck_heap h'" using keep by (intro ck_heap_removed [OF h h'(2)]) simp
  moreover have "kept {p} h h'" using keep by (auto simp: kept_def h'(2) without_def live_def)
  ultimately show ?thesis using that h'(1,2) by blast
qed

lemma free_ok:
  assumes al: "allocator_ok al" and h: "ck_heap h" and r: "ck_ptr h r"
  obtains h' where "DFL_ck_free dbg al r h = Inr h'" "blocks h' = without {r - 8} (blocks h)"
    "ck_heap h'" "kept {r - 8} h h'"
proof -
  note chk = check_ptr_ok [OF h r]
  obtain n where n: "blocks h (r - 8) = Some n" using r by (auto simp: ck_ptr_def)
  then have c: "unat (r - 8) + n < 2 ^ 64" "chunk_ok (bytes h) (r - 8) n"
    using ck_heap_butD(1) [OF h] by auto
  let ?s = "chunk_size (bytes h) (r - 8)"
  have s: "?s + 9 \<le> n" using c(2) by (simp add: chunk_ok_def)
  have iu: "in_user (r - 8) ?s x \<longleftrightarrow> in_block r ?s x" for x using s c(1) by (intro in_user_block) simp
  let ?b = "if dbg then c_memset r 0xFF ?s (bytes h) else bytes h"
  have b: "write32 (r - 8) ALLOC_MAGIC_F ?b x = bytes h x" if "\<not> in_block (r - 8) n x" for x
  proof -
    have far: "n \<le> unat (x - (r - 8))" using that by (simp add: in_block_def)
    then have "\<not> in_block r ?s x" unfolding iu [symmetric] using s by (simp add: in_user_def)
    moreover have "4 \<le> unat (x - (r - 8))" using far s by simp
    ultimately show ?thesis by (simp add: write32_outside c_memset_def)
  qed
  have apart: "q \<noteq> r - 8 \<Longrightarrow> live h (r - 8) x \<Longrightarrow> \<not> live h q x" for q x
    using ck_heap_butD(2) [OF h] by blast
  obtain h' where h': "c_free al (r - 8) (h\<lparr>bytes := write32 (r - 8) ALLOC_MAGIC_F ?b\<rparr>) = Inr h'"
    "blocks h' = without {r - 8} (blocks h)" "ck_heap h'" "kept {r - 8} h h'"
    using give_back [OF al ck_heap_but_mono [OF h] n apart b] by blast
  have "DFL_ck_free dbg al r h = Inr h'"
    using h'(1) chk by (cases dbg) (simp_all add: DFL_ck_free_def Let_def ALLOC_OFF_HEAD_def)
  with that h'(2-4) show ?thesis by blast
qed

subsection \<open>Reallocating\<close>

lemma ck_heap_not_0: "ck_heap_but A h \<Longrightarrow> blocks h 0 = Some n \<Longrightarrow> 0 \<in> A"
  using ck_heap_butD(1) [of A h 0 n] by blast

lemma wiped_outside:
  assumes "s + 9 \<le> m" and "m < 2 ^ 64" and "\<not> in_block p m x"
  shows "write32 p v (c_memset (p + 8) w s b) x = b x" "\<not> in_block (p + 8) s x"
proof -
  have far: "m \<le> unat (x - p)" using assms(3) by (simp add: in_block_def)
  have "in_user p s x \<longleftrightarrow> in_block (p + 8) s x" using in_user_block [of s "p + 8" x] assms(1,2) by simp
  then show out: "\<not> in_block (p + 8) s x" using far assms(1) by (auto simp: in_user_def)
  show "write32 p v (c_memset (p + 8) w s b) x = b x"
    using out far assms(1) by (simp add: write32_outside c_memset_def)
qed

lemma realloc_debug_ok:
  assumes al: "allocator_ok al" and sz: "sz \<le> MAX_ALLOC"
    and m: "blocks h raw = Some m" "unat old + 9 \<le> m" "m < 2 ^ 64" and "raw \<noteq> 0"
    and apart: "\<And>q x. q \<noteq> raw \<Longrightarrow> live h raw x \<Longrightarrow> \<not> live h q x"
    and run: "realloc_block True al raw old sz h = Inr (r, h')"
  shows "r \<noteq> 0 \<and> unat r + (unat sz + 9) < 2 ^ 64 \<and> blocks h' = (without {raw} (blocks h))(r \<mapsto> unat sz + 9) \<and>
    (\<forall>q x. q \<noteq> raw \<longrightarrow> live h q x \<longrightarrow> \<not> in_block r (unat sz + 9) x \<and> bytes h' x = bytes h x) \<and>
    (\<forall>d. 8 \<le> unat d \<longrightarrow> unat d < 8 + min (unat sz) (unat old) \<longrightarrow> bytes h' (r + d) = bytes h (raw + d))"
proof -
  let ?n = "unat sz + 9"
  have n: "unat (sz + ALLOC_OFF_TOTAL) = ?n" using unat_request [OF sz, of 0] by simp
  obtain h1 where h1: "c_malloc al ?n h = Some (r, h1)"
    using run \<open>raw \<noteq> 0\<close> by (auto simp: realloc_block_def n ebind_Inr_iff Let_def split: option.splits)
  note c = c_malloc_ok [OF al h1]
  let ?b1 = "c_memcpy (r + 8) (raw + 8) (unat (min sz old)) (bytes h1)"
  let ?b3 = "write32 raw ALLOC_MAGIC_F (c_memset (raw + 8) 0xFF (unat old) ?b1)"
  let ?H = "h1\<lparr>bytes := ?b3\<rparr>"
  have fr: "c_free al raw ?H = Inr h'"
    using run \<open>raw \<noteq> 0\<close> h1 by (auto simp: realloc_block_def n ebind_Inr_iff Let_def ALLOC_OFF_HEAD_def)
  have not_live: "\<not> live h q r" for q using c(4) [of q r] by auto
  have "raw \<noteq> r" using not_live [of raw] m by (auto simp: live_def)
  have HR: "blocks ?H raw \<noteq> None" using m(1) \<open>raw \<noteq> r\<close> by (simp add: c(3))
  obtain h2 where h2: "c_free al raw ?H = Inr h2" "blocks h2 = without {raw} (blocks ?H)"
    "\<And>q x. q \<noteq> raw \<Longrightarrow> live ?H q x \<Longrightarrow> bytes h2 x = bytes ?H x"
    using c_free_ok [OF al HR] by blast
  have h2': "h2 = h'" using fr h2(1) by simp
  have bl: "blocks h' = (without {raw} (blocks h))(r \<mapsto> ?n)"
    using h2(2) \<open>raw \<noteq> r\<close> by (auto simp: h2' c(3) without_def)
  have b3: "?b3 x = ?b1 x" if "\<not> live h raw x" for x
    using that m by (intro wiped_outside(1)) (auto simp: live_def)
  have old: "\<not> in_block r ?n x \<and> bytes h' x = bytes h x" if "q \<noteq> raw" "live h q x" for q x
  proof -
    have x: "\<not> in_block r ?n x" "bytes h1 x = bytes h x" using c(4) [OF that(2)] by simp_all
    have "q \<noteq> r"
    proof
      assume "q = r"
      with that(2) obtain k where "blocks h r = Some k" "0 < k" by (auto simp: live_def in_block_def)
      then show False using not_live [of r] by (simp add: live_def)
    qed
    then have "live ?H q x" using that(2) by (simp add: live_def c(3))
    then have "bytes h' x = ?b3 x" using h2(3) [OF that(1)] by (simp add: h2')
    also have "\<dots> = ?b1 x" using apart that by (intro b3) blast
    also have "\<dots> = bytes h1 x"
    proof -
      have "unat (min sz old) \<le> unat sz" by (simp add: min_def word_le_nat_alt)
      then have "\<not> in_block (r + 8) (unat (min sz old)) x"
        using x(1) c(2) by (intro wiped_outside(2) [of _ ?n]) simp_all
      then show ?thesis by (simp add: c_memcpy_def)
    qed
    finally show ?thesis using x by simp
  qed
  have copied: "bytes h' (r + d) = bytes h (raw + d)" if d: "8 \<le> unat d" "unat d < 8 + min (unat sz) (unat old)" for d
  proof -
    have "unat d < ?n" "unat d < m" using d(2) m(2) by (auto simp: min_def split: if_splits)
    then have "live ?H r (r + d)" "live h raw (raw + d)" by (simp_all add: live_def c(3) m(1))
    have "\<not> live h raw (r + d)" using c(4) [of raw "r + d"] \<open>unat d < ?n\<close> by auto
    have "bytes h' (r + d) = ?b3 (r + d)"
      using h2(3) [OF _ \<open>live ?H r (r + d)\<close>] \<open>raw \<noteq> r\<close> by (simp add: h2')
    also have "\<dots> = ?b1 (r + d)" by (rule b3) fact
    also have "\<dots> = bytes h1 (raw + d)"
    proof -
      have mn: "unat (min sz old) = min (unat sz) (unat old)" by (simp add: min_def word_le_nat_alt)
      have 8: "unat (8 :: addr) = 8" by simp
      have "unat (d - 8) = unat d - 8" unfolding unat_diff_later [of d 8] 8 using d(1) by simp
      then have "in_block (r + 8) (unat (min sz old)) (r + d)" 
        using d by (auto simp: in_block_def mn min_def split: if_splits)
      moreover have "r + d - (r + 8) + (raw + 8) = raw + d" by simp
      ultimately show ?thesis by (simp add: c_memcpy_def add.commute)
    qed
    also have "\<dots> = bytes h (raw + d)" using c(4) [OF \<open>live h raw (raw + d)\<close>] by simp
    finally show ?thesis .
  qed
  show ?thesis using c(1,2) bl old copied by blast
qed

text \<open>The new block, with a copy of the old one's user bytes; \<open>raw\<close> is 0 or the old block.\<close>

lemma realloc_block_ok:
  assumes al: "allocator_ok al" and h: "ck_heap_but {raw} h" and sz: "sz \<le> MAX_ALLOC"
    and raw: "raw = 0 \<and> blocks h 0 = None \<and> old = 0 \<or> raw \<noteq> 0 \<and> blocks h raw = Some m \<and> unat old + 9 \<le> m"
    and fits: "unat raw + m < 2 ^ 64"
    and apart: "\<And>q x. q \<noteq> raw \<Longrightarrow> live h raw x \<Longrightarrow> \<not> live h q x"
    and run: "realloc_block dbg al raw old sz h = Inr (r, h')"
  shows "r \<noteq> 0" "unat r + (unat sz + 9) < 2 ^ 64"
    and "blocks h' = (without {raw} (blocks h))(r \<mapsto> unat sz + 9)"
    and "q \<noteq> raw \<Longrightarrow> live h q x \<Longrightarrow> \<not> in_block r (unat sz + 9) x \<and> bytes h' x = bytes h x"
    and "8 \<le> unat d \<Longrightarrow> unat d < 8 + min (unat sz) (unat old) \<Longrightarrow> bytes h' (r + d) = bytes h (raw + d)"
proof -
  have n: "unat (sz + ALLOC_OFF_TOTAL) = unat sz + 9" using unat_request [OF sz, of 0] by simp
  have none: "without {raw} (blocks h) = blocks h" if "raw = 0" using raw that by (auto simp: without_def)
  have live_0: "q \<noteq> raw" if "live h q x" "raw = 0" for q x using raw that by (auto simp: live_def)
  let ?goal = "r \<noteq> 0 \<and> unat r + (unat sz + 9) < 2 ^ 64 \<and> blocks h' = (without {raw} (blocks h))(r \<mapsto> unat sz + 9) \<and>
    (\<forall>q x. q \<noteq> raw \<longrightarrow> live h q x \<longrightarrow> \<not> in_block r (unat sz + 9) x \<and> bytes h' x = bytes h x) \<and>
    (\<forall>d. 8 \<le> unat d \<longrightarrow> unat d < 8 + min (unat sz) (unat old) \<longrightarrow> bytes h' (r + d) = bytes h (raw + d))"
  have ?goal
  proof (cases "raw = 0")
    case True
    then have "c_malloc al (unat sz + 9) h = Some (r, h')" "old = 0"
      using run raw by (auto simp: realloc_block_def c_realloc_def n split: if_splits option.splits)
    with c_malloc_ok [OF al this(1)] True none show ?thesis by simp
  next
    case False
    then have m: "blocks h raw = Some m" "unat old + 9 \<le> m" using raw by auto
    show ?thesis
    proof (cases dbg)
      case False
      then have run': "c_realloc al raw (unat sz + 9) h = Inr (Some (r, h'))"
        using run by (auto simp: realloc_block_def n ebind_Inr_iff split: option.splits)
      note c = c_realloc_ok [OF al \<open>raw \<noteq> 0\<close> m(1) run']
      have "unat d < min m (unat sz + 9)" if "unat d < 8 + min (unat sz) (unat old)" for d :: addr
        using that m(2) by (auto simp: min_def split: if_splits)
      with c show ?thesis by blast
    next
      case True
      have "m < 2 ^ 64" "realloc_block True al raw old sz h = Inr (r, h')" using fits run True by simp_all
      from realloc_debug_ok [OF al sz m this(1) \<open>raw \<noteq> 0\<close> apart this(2)] show ?thesis by blast
    qed
  qed
  then show "r \<noteq> 0" "unat r + (unat sz + 9) < 2 ^ 64"
    "blocks h' = (without {raw} (blocks h))(r \<mapsto> unat sz + 9)"
    "q \<noteq> raw \<Longrightarrow> live h q x \<Longrightarrow> \<not> in_block r (unat sz + 9) x \<and> bytes h' x = bytes h x"
    "8 \<le> unat d \<Longrightarrow> unat d < 8 + min (unat sz) (unat old) \<Longrightarrow> bytes h' (r + d) = bytes h (raw + d)"
    by blast+
qed

lemma in_tail:
  assumes "old \<le> sz"
  shows "in_block (r + ucast old) (unat (sz - old)) (r + i) \<longleftrightarrow> unat old \<le> unat i \<and> unat i < unat (sz :: u32)"
proof -
  have e: "r + i - (r + ucast old) = i - ucast old" by simp
  have u: "unat old < 2 ^ 32" "unat sz < 2 ^ 32" using unsigned_less [where ?'a = nat and 'b = 32] by force+
  then have o: "unat (ucast old :: addr) = unat old" by (simp add: unsigned_ucast_eq take_bit_nat_eq_self)
  have d: "unat (sz - old) = unat sz - unat old" using assms by (rule unat_sub)
  show ?thesis
    unfolding in_block_def e d unat_diff_later [of i "ucast old"] o
    using u by (cases "unat old \<le> unat i") auto
qed

definition block_of :: "addr \<Rightarrow> addr set" where
  "block_of orig = (if orig = 0 then {} else {orig - 8})"

definition old_length :: "heap \<Rightarrow> addr \<Rightarrow> nat" where
  "old_length h orig = (if orig = 0 then 0 else chunk_size (bytes h) (orig - 8))"

text \<open>What \<open>DFL_ck_realloc\<close> starts from: the old block, its size, and the heap with the head canary changed.\<close>

lemma realloc_start:
  assumes h: "ck_heap h" and orig: "orig = 0 \<or> ck_ptr h orig" and "sz \<noteq> 0"
  obtains raw old h1 m where
    "DFL_ck_realloc dbg al orig sz h = realloc_chunk dbg al raw old sz h1"
    "ck_heap_but {raw} h1" "blocks h1 = blocks h" "live h1 = live h"
    "raw = 0 \<and> blocks h1 0 = None \<and> old = 0 \<or> raw \<noteq> 0 \<and> blocks h1 raw = Some m \<and> unat old + 9 \<le> m"
    "unat raw + m < 2 ^ 64" "block_of orig = {raw} - {0}" "unat old = old_length h orig"
    "\<And>q x. q \<noteq> raw \<Longrightarrow> live h1 raw x \<Longrightarrow> \<not> live h1 q x"
    "\<And>q x. q \<noteq> raw \<Longrightarrow> live h q x \<Longrightarrow> bytes h1 x = bytes h x"
    "\<And>i. unat i < unat old \<Longrightarrow> bytes h1 (raw + (8 + i)) = bytes h (orig + i)"
proof (cases "orig = 0")
  case True
  have "blocks h 0 = None" using ck_heap_not_0 [OF h] by (cases "blocks h 0") auto
  then show ?thesis
    using True h assms(3) by (intro that [of 0 0 h 0])
      (auto simp: DFL_ck_realloc_def block_of_def old_length_def live_def intro: ck_heap_but_mono)
next
  case False
  then have r: "ck_ptr h orig" using orig by simp
  note chk = check_ptr_ok [OF h r]
  obtain m where m: "blocks h (orig - 8) = Some m" using r by (auto simp: ck_ptr_def)
  then have c: "unat (orig - 8) + m < 2 ^ 64" "chunk_ok (bytes h) (orig - 8) m" "orig - 8 \<noteq> 0"
    using ck_heap_butD(1) [OF h m] by simp_all
  let ?b = "if dbg then bytes h else write32 (orig - 8) ALLOC_MAGIC_F (bytes h)"
  let ?h1 = "h\<lparr>bytes := ?b\<rparr>" and ?old = "ALLOC_S orig (bytes h)"
  have b: "?b x = bytes h x" if "4 \<le> unat (x - (orig - 8))" for x using that by (simp add: write32_outside)
  have size: "unat ?old + 9 \<le> m" using chk(4) c(2) by (simp add: chunk_ok_def)
  have b_other: "?b x = bytes h x" if "q \<noteq> orig - 8" "live h q x" for q x
  proof -
    have "\<not> live h (orig - 8) x" using ck_heap_butD(2) [OF h _ _ that] by blast
    then have "m \<le> unat (x - (orig - 8))" using m by (simp add: live_def in_block_def)
    then show ?thesis using size by (intro b) simp
  qed
  have s_same: "ALLOC_S orig ?b = ?old"
    unfolding ALLOC_S_def
  proof (rule read32_cong)
    fix x assume "unat (x - (orig - 4)) < 4"
    then have "4 \<le> unat (x - (orig - 8))"
      using unat_diff_4 [of x "orig - 8"] by (simp add: ptr_simps split: if_splits)
    then show "?b x = bytes h x" by (rule b)
  qed
  have in_bounds: "ALLOC_CHECK_SIZE ?old = Inr ()" using chk(3) by (simp add: ALLOC_CHECK_SIZE_def not_less)
  have eq: "DFL_ck_realloc dbg al orig sz h = realloc_chunk dbg al (orig - 8) ?old sz ?h1"
    using chk(1) False s_same assms(3) in_bounds
    by (cases dbg) (simp_all add: DFL_ck_realloc_def Let_def ALLOC_OFF_HEAD_def)
  have "ck_heap_but {orig - 8} ?h1"
    using b_other by (intro ck_heap_but_bytes [OF ck_heap_but_mono [OF h]]) auto
  moreover have "?b (orig - 8 + (8 + i)) = bytes h (orig + i)" if "unat i < unat ?old" for i
  proof -
    have "4 \<le> unat (8 + i)" using unat_8_plus [OF that] by simp
    then have "?b (orig - 8 + (8 + i)) = bytes h (orig - 8 + (8 + i))"
      by (intro b) (simp only: add_diff_cancel_left')
    then show ?thesis by (simp add: ptr_simps)
  qed
  moreover have "q \<noteq> orig - 8 \<Longrightarrow> live h (orig - 8) x \<Longrightarrow> \<not> live h q x" for q x
    using ck_heap_butD(2) [OF h] by blast
  ultimately show ?thesis
    using False m c(1,3) size chk(4) b_other
    by (intro that [OF eq, of m]) (simp_all add: live_bytes block_of_def old_length_def)
qed

lemma realloc_ok:
  assumes al: "allocator_ok al" and h: "ck_heap h" and orig: "orig = 0 \<or> ck_ptr h orig" and "sz \<noteq> 0"
    and run: "DFL_ck_realloc dbg al orig sz h = Inr (p, h')"
  shows "ck_heap h'" "ck_ptr h' p" "chunk_size (bytes h') (p - 8) = unat sz" "kept (block_of orig) h h'"
    and "dom (blocks h') = insert (p - 8) (dom (blocks h) - block_of orig)"
    and "p - 8 \<notin> dom (blocks h) - block_of orig"
    and "unat i < unat sz \<Longrightarrow>
      bytes h' (p + i) = (if unat i < old_length h orig then bytes h (orig + i) else 0)"
proof -
  obtain raw old h1 m where S:
    "DFL_ck_realloc dbg al orig sz h = realloc_chunk dbg al raw old sz h1"
    "ck_heap_but {raw} h1" "blocks h1 = blocks h" "live h1 = live h"
    "raw = 0 \<and> blocks h1 0 = None \<and> old = 0 \<or> raw \<noteq> 0 \<and> blocks h1 raw = Some m \<and> unat old + 9 \<le> m"
    "unat raw + m < 2 ^ 64" "block_of orig = {raw} - {0}" "unat old = old_length h orig"
    "\<And>q x. q \<noteq> raw \<Longrightarrow> live h1 raw x \<Longrightarrow> \<not> live h1 q x"
    "\<And>q x. q \<noteq> raw \<Longrightarrow> live h q x \<Longrightarrow> bytes h1 x = bytes h x"
    "\<And>i. unat i < unat old \<Longrightarrow> bytes h1 (raw + (8 + i)) = bytes h (orig + i)"
    by (rule realloc_start [OF h orig assms(4), of dbg al]) (rule that; assumption)
  have sz: "sz \<le> MAX_ALLOC" using run unfolding S(1) by (simp add: realloc_chunk_def ALLOC_CHECK_SIZE_def not_less split: if_splits)
  then have chk: "ALLOC_CHECK_SIZE sz = Inr ()" by (simp add: ALLOC_CHECK_SIZE_def not_less)
  obtain r h2 where r: "realloc_block dbg al raw old sz h1 = Inr (r, h2)" "p = r + 8"
    and h': "h' = h2\<lparr>bytes := (if sz > old then c_memset (p + ucast old) 0 (unat (sz - old)) (set_canaries p sz (bytes h2))
              else set_canaries p sz (bytes h2))\<rparr>"
    using run by (auto simp: S(1) realloc_chunk_def chk ebind_Inr_iff Let_def ALLOC_OFF_HEAD_def)
  note B = realloc_block_ok [OF al S(2) sz S(5,6) S(9) r(1)]
  let ?hc = "h2\<lparr>bytes := set_canaries (r + 8) sz (bytes h2)\<rparr>"
  have fr: "\<not> in_block r (unat sz + 9) x \<and> bytes h2 x = bytes h1 x" if "q \<notin> {raw}" "live h1 q x" for q x
    using B(4) [of q x] that by simp
  note M = made_chunk [OF S(2) sz le_refl B(1-3) fr refl]
  have p8: "p - 8 = r" by (simp add: r(2))
  let ?b = "bytes h'"
  have h'': "h' = ?hc\<lparr>bytes := ?b\<rparr>" by (simp add: h' r(2))
  have inb: "?b x = bytes ?hc x" if "\<not> in_block p (chunk_size (bytes ?hc) (p - 8)) x" for x
  proof -
    have "\<not> in_block p (unat sz) x" using that M(3) by (simp add: p8)
    then have "old < sz \<Longrightarrow> \<not> in_block (p + ucast old) (unat (sz - old)) x"
      using in_tail [of old sz p "x - p"] by (auto simp: in_block_def)
    then show ?thesis by (simp add: h' r(2) c_memset_def)
  qed
  have ptr: "ck_ptr ?hc p" using M(2) by (simp add: r(2))
  note W = user_write [OF M(1) ptr inb]
  show "ck_heap h'" using W(1) h'' by simp
  show "ck_ptr h' p" using ptr by (simp add: ck_ptr_def h')
  show "chunk_size (bytes h') (p - 8) = unat sz" using W(2) M(3) by (simp add: p8)
  have "kept {raw} h h1" using S(3,4,10) by (simp add: kept_def) blast
  then have "kept {raw} h ?hc" using M(4) by (rule kept_trans)
  moreover have "kept {r} ?hc h'" using W(3) h'' by (simp add: p8)
  ultimately have k: "kept {raw} h h'" using M(5) unfolding S(3) by (rule kept_replaced)
  have "blocks h 0 = None" using ck_heap_not_0 [OF h] by (cases "blocks h 0") auto
  then show "kept (block_of orig) h h'" using kept_unused [OF k] S(7) by simp
  have "0 \<notin> dom (blocks h)" using \<open>blocks h 0 = None\<close> by (simp add: domIff)
  then have raw: "dom (blocks h) - {raw} = dom (blocks h) - block_of orig" unfolding S(7) by blast
  have "blocks h' = (without {raw} (blocks h))(r \<mapsto> unat sz + 9)" by (simp add: h' B(3) S(3))
  then have "dom (blocks h') = insert r (dom (blocks h) - {raw})" by (simp add: dom_without)
  then show "dom (blocks h') = insert (p - 8) (dom (blocks h) - block_of orig)" unfolding raw p8 .
  have "blocks h1 r = None \<or> r \<in> {raw}" by (rule M(5)) assumption+
  then have "r \<notin> dom (blocks h) - {raw}" unfolding S(3) by (auto simp: domIff)
  then show "p - 8 \<notin> dom (blocks h) - block_of orig" unfolding raw p8 .
  assume i: "unat i < unat sz"
  have c: "bytes ?hc (r + (8 + i)) = bytes h2 (r + (8 + i))"
  proof -
    have "in_user r (unat sz) (r + (8 + i))" using i unat_8_plus [OF i] by (simp add: in_user_def)
    then show ?thesis using set_canaries_chunk(3) [OF sz le_refl] by simp
  qed
  show "bytes h' (p + i) = (if unat i < old_length h orig then bytes h (orig + i) else 0)"
  proof (cases "unat i < old_length h orig")
    case True
    then have o: "unat i < unat old" by (simp add: S(8))
    then have "bytes h' (p + i) = bytes ?hc (r + (8 + i))"
      using in_tail [of old sz p i] by (simp add: h' r(2) c_memset_def add.assoc)
    also have "\<dots> = bytes h1 (raw + (8 + i))"
      unfolding c using i o unat_8_plus [OF i] by (intro B(5)) simp_all
    finally show ?thesis using True S(11) [OF o] by simp
  next
    case False
    then have "old < sz" "unat old \<le> unat i" using i by (simp_all add: S(8) word_less_nat_alt)
    then show ?thesis using in_tail [of old sz p i] i False by (simp add: h' c_memset_def)
  qed
qed

end
