(* ===== verification/Alloc_Safe.thy ===== *)
theory Alloc_Safe
  imports Alloc_Props
begin

section \<open>Alloc_Safe: programs on the checking allocator\<close>

text \<open>
  Every operation on a well-formed heap, in both builds: what it returns, what it frees, and why it
  stops.  A program that stays inside its buffers is never stopped by a canary; the one operation
  that breaks its own chunk is \<open>DFL_ck_memdup_str\<close>.
\<close>

subsection \<open>Refusals\<close>

lemma CHECK_PTR_0 [simp]: "CHECK_PTR 0 h = Inr ()"
  by (simp add: CHECK_PTR_def)

lemma c_free_Inl: "c_free al p h = Inl f \<Longrightarrow> blocks h p = None"
  by (simp add: c_free_def split: if_splits)

lemma realloc_block_refused:
  assumes "raw = 0 \<or> blocks h raw \<noteq> None" and "realloc_block dbg al raw old sz h = Inl f"
  shows "refused f"
proof (cases dbg)
  case False
  then show ?thesis
    using assms by (auto simp: realloc_block_def c_realloc_def refused_def ebind_Inl_iff split: option.splits if_splits)
next
  case True
  then show ?thesis
    using assms
    by (auto simp: realloc_block_def refused_def ebind_Inl_iff Let_def c_malloc_def dest!: c_free_Inl
        split: option.splits if_splits)
qed

lemma realloc_refused:
  assumes al: "allocator_ok al" and h: "ck_heap h" and orig: "orig = 0 \<or> ck_ptr h orig"
    and run: "DFL_ck_realloc dbg al orig sz h = Inl f"
  shows "refused f"
proof (cases "sz = 0")
  case True
  then show ?thesis
    using run orig free_ok [OF al h, of orig dbg] by (auto simp: DFL_ck_realloc_def DFL_ck_free_def ebind_Inl_iff)
next
  case False
  obtain raw old h1 where S: "DFL_ck_realloc dbg al orig sz h = realloc_chunk dbg al raw old sz h1"
    "raw = 0 \<or> blocks h1 raw \<noteq> None"
    by (rule realloc_start [OF h orig False, of dbg al]) (rule that, assumption, erule disjE, simp_all)
  show ?thesis
    using run realloc_block_refused [OF S(2)]
    by (auto simp: S(1) realloc_chunk_def ebind_Inl_iff ALLOC_CHECK_SIZE_def refused_def Let_def split: if_splits)
qed

subsection \<open>One operation\<close>

text \<open>
  The chunk that an operation is given; the operation whose result has no intact tail canary.
\<close>

fun ck_arg :: "ck_op \<Rightarrow> addr" where
  "ck_arg (Ck_free p) = p"
| "ck_arg (Ck_realloc p sz) = p"
| "ck_arg (Ck_realloc_block p sz) = p"
| "ck_arg _ = 0"

definition arg_ok :: "heap \<Rightarrow> ck_op \<Rightarrow> bool" where
  "arg_ok h op \<longleftrightarrow> ck_arg op = 0 \<or> ck_ptr h (ck_arg op)"

fun breaks_canary :: "ck_op \<Rightarrow> bool" where
  "breaks_canary (Ck_memdup_str p sz) = True"
| "breaks_canary _ = False"

definition op_result :: "ck_op \<Rightarrow> heap \<Rightarrow> addr \<Rightarrow> heap \<Rightarrow> bool" where
  "op_result op h p h' \<longleftrightarrow>
     ck_heap h' \<and> kept (block_of (ck_arg op)) h h' \<and>
     dom (blocks h') = block_of p \<union> (dom (blocks h) - block_of (ck_arg op)) \<and>
     block_of p \<inter> (dom (blocks h) - block_of (ck_arg op)) = {}"

lemma op_resultD:
  assumes "op_result op h p h'"
  shows "ck_heap h'" "p = 0 \<or> ck_ptr h' p" "kept (block_of (ck_arg op)) h h'"
proof -
  have "p \<noteq> 0 \<Longrightarrow> p - 8 \<in> dom (blocks h')" using assms by (simp add: op_result_def block_of_def)
  then show "p = 0 \<or> ck_ptr h' p" by (auto simp: ck_ptr_def)
qed (use assms in \<open>simp_all add: op_result_def\<close>)

lemma op_result_same: "ck_heap h \<Longrightarrow> ck_arg op = 0 \<Longrightarrow> op_result op h 0 h"
  by (simp add: op_result_def kept_def block_of_def)

lemma op_result_kept: "ck_heap h \<Longrightarrow> ck_ptr h r \<Longrightarrow> ck_arg op = r \<Longrightarrow> op_result op h r h"
  using check_ptr_ok(2) [of h r] by (auto simp: op_result_def kept_def block_of_def ck_ptr_def)

lemma op_result_free:
  assumes "allocator_ok al" "ck_heap h" "r = 0 \<or> ck_ptr h r" "DFL_ck_free dbg al r h = Inr h'"
    and "ck_arg op = r"
  shows "op_result op h 0 h'"
proof (cases "r = 0")
  case True
  then show ?thesis using assms(2,4,5) op_result_same by (simp add: DFL_ck_free_def)
next
  case False
  then have r: "ck_ptr h r" using assms(3) by simp
  obtain h1 where h1: "DFL_ck_free dbg al r h = Inr h1" "blocks h1 = without {r - 8} (blocks h)"
    "ck_heap h1" "kept {r - 8} h h1"
    by (rule free_ok [OF assms(1,2) r])
  then have "h1 = h'" using assms(4) by simp
  moreover have "dom (blocks h1) = dom (blocks h) - {r - 8}"
    by (auto simp: h1(2) without_def split: if_splits)
  ultimately show ?thesis using h1(3,4) assms(5) False by (simp add: op_result_def block_of_def)
qed

lemma op_result_realloc:
  assumes "allocator_ok al" "ck_heap h" "r = 0 \<or> ck_ptr h r" "DFL_ck_realloc dbg al r sz h = Inr (p, h')"
    and "ck_arg op = r"
  shows "op_result op h p h'"
proof (cases "sz = 0")
  case True
  then have "DFL_ck_free dbg al r h = Inr h'" "p = 0"
    using assms(4) by (auto simp: DFL_ck_realloc_def ebind_Inr_iff)
  then show ?thesis using op_result_free [OF assms(1-3) _ assms(5)] by blast
next
  case False
  note R = realloc_ok [OF assms(1-3) False assms(4)]
  have "p \<noteq> 0" by (rule check_ptr_ok(2) [OF R(1,2)])
  then show ?thesis using R(1,4-6) assms(5) by (simp add: op_result_def block_of_def [of p])
qed

lemma op_result_new:
  assumes "allocator_ok al" "ck_heap h" "ck_new al sz 0 h = Inr (p, h1)"
    and "\<And>x. \<not> in_block p (unat sz) x \<Longrightarrow> b x = bytes h1 x" and "ck_arg op = 0"
  shows "op_result op h p (h1\<lparr>bytes := b\<rparr>)"
proof -
  note F = ck_new_filled(1,2,4) [OF assms(1-4)] and n = ck_new_ok(5,6) [OF assms(1,2) _ assms(3)]
  have "p \<noteq> 0" by (rule check_ptr_ok(2) [OF F(1,2)])
  then show ?thesis using F(1,3) n assms(5) by (simp add: op_result_def block_of_def domIff)
qed

lemma op_result_strdup:
  assumes al: "allocator_ok al" and h: "ck_heap h" and run: "DFL_ck_strdup al str h = Some (Inr (p, h'))"
    and "ck_arg op = 0"
  shows "op_result op h p h'"
proof (cases "str = 0")
  case True
  then show ?thesis using run h op_result_same assms(4) by (simp add: DFL_ck_strdup_def)
next
  case False
  then obtain n h1 where "ck_new al (of_nat n + 1) 0 h = Inr (p, h1)"
    "h' = h1\<lparr>bytes := c_memcpy p str (unat (of_nat n + 1 :: u32)) (bytes h1)\<rparr>"
    using run by (auto simp: DFL_ck_strdup_def Let_def ebind_Inr_iff split: option.splits)
  then show ?thesis using op_result_new [OF al h _ _ assms(4)] by (simp add: c_memcpy_def)
qed

lemma ck_exec_result:
  assumes al: "allocator_ok al" and h: "ck_heap h" and arg: "arg_ok h op" and "\<not> breaks_canary op"
    and run: "ck_exec dbg al op h = Some (Inr (p, h'))"
  shows "op_result op h p h'"
proof (cases op)
  case (Ck_alloc_nozero sz)
  then show ?thesis
    using run h op_result_same op_result_new [OF al h, of sz p h' "bytes h'" op]
    by (auto simp: DFL_ck_alloc_nozero_def split: if_splits)
next
  case (Ck_alloc sz)
  then show ?thesis
    using run h op_result_same op_result_new [OF al h, of sz p _ _ op]
    by (auto simp: DFL_ck_alloc_def DFL_ck_alloc_nozero_def ebind_Inr_iff c_memset_def split: if_splits)
next
  case (Ck_free r)
  then show ?thesis
    using run arg op_result_free [OF al h, of r dbg h' op] by (auto simp: arg_ok_def ebind_Inr_iff)
next
  case (Ck_realloc r sz)
  then show ?thesis using run arg op_result_realloc [OF al h] by (auto simp: arg_ok_def)
next
  case (Ck_realloc_block r sz)
  then have r: "r = 0 \<or> ck_ptr h r" "DFL_ck_realloc_block dbg al r sz h = Inr (p, h')"
    using arg run by (simp_all add: arg_ok_def)
  then show ?thesis
    using Ck_realloc_block h op_result_realloc [OF al h r(1), where op = op and p = p and h' = h'] op_result_kept [OF h]
    by (auto simp: DFL_ck_realloc_block_def ebind_Inr_iff split: if_splits)
next
  case (Ck_strdup str)
  then show ?thesis using run op_result_strdup [OF al h] by simp
next
  case (Ck_memdup m sz)
  then show ?thesis
    using run h op_result_same op_result_new [OF al h, of sz p _ _ op]
    by (auto simp: DFL_ck_memdup_def ebind_Inr_iff c_memcpy_def split: if_splits)
next
  case (Ck_memdup_str m sz)
  then show ?thesis using assms(4) by simp
qed

text \<open>The reasons for which an operation stops.\<close>

lemma free_not_refused:
  assumes "allocator_ok al" "ck_heap h" "r = 0 \<or> ck_ptr h r"
  shows "DFL_ck_free dbg al r h \<noteq> Inl f"
proof (cases "r = 0")
  case False
  then have "ck_ptr h r" using assms(3) by simp
  then show ?thesis using free_ok [OF assms(1,2), of r dbg] by (metis sum.distinct(1))
qed (simp add: DFL_ck_free_def)

lemma ck_exec_refused:
  assumes al: "allocator_ok al" and h: "ck_heap h" and arg: "arg_ok h op"
    and run: "ck_exec dbg al op h = Some (Inl f)"
  shows "refused f"
proof (cases op)
  case (Ck_free r)
  then show ?thesis using run arg free_not_refused [OF al h, of r dbg f] by (auto simp: arg_ok_def ebind_Inl_iff)
next
  case (Ck_realloc r sz)
  then show ?thesis using run arg realloc_refused [OF al h, of r dbg sz f] by (auto simp: arg_ok_def)
next
  case (Ck_realloc_block r sz)
  then have r: "r = 0 \<or> ck_ptr h r" using arg by (simp add: arg_ok_def)
  then have "CHECK_PTR r h = Inr ()" using check_ptr_ok(1) [OF h] by auto
  then show ?thesis
    using run Ck_realloc_block realloc_refused [OF al h r, of dbg _ f]
    by (auto simp: DFL_ck_realloc_block_def split: if_splits)
next
  case (Ck_strdup str)
  then show ?thesis
    using run ck_new_refused [of al _ _ h f]
    by (auto simp: DFL_ck_strdup_def ebind_Inl_iff Let_def split: if_splits option.splits)
qed (use run in \<open>auto simp: DFL_ck_alloc_def DFL_ck_alloc_nozero_def DFL_ck_memdup_def DFL_ck_memdup_str_def
    ebind_Inl_iff split: if_splits intro: ck_new_refused\<close>)

subsection \<open>Programs\<close>

text \<open>
  A program that only passes pointers it has been given and that are still in use, that writes
  only to the bytes it has asked for, and that does not call \<open>ck_memdup_str\<close>.
\<close>

inductive ck_run :: "bool \<Rightarrow> allocator \<Rightarrow> heap \<Rightarrow> heap \<Rightarrow> bool" for dbg al h0 where
  start: "ck_run dbg al h0 h0"
| call: "ck_run dbg al h0 h \<Longrightarrow> arg_ok h op \<Longrightarrow> \<not> breaks_canary op \<Longrightarrow>
    ck_exec dbg al op h = Some (Inr (p, h')) \<Longrightarrow> ck_run dbg al h0 h'"
| store: "ck_run dbg al h0 h \<Longrightarrow> ck_ptr h r \<Longrightarrow> unat (x - r) < chunk_size (bytes h) (r - 8) \<Longrightarrow>
    ck_run dbg al h0 (h\<lparr>bytes := (bytes h)(x := v)\<rparr>)"

lemma ck_run_heap:
  assumes al: "allocator_ok al" and "ck_run dbg al h0 h" and "ck_heap h0"
  shows "ck_heap h"
  using assms(2)
proof (induction rule: ck_run.induct)
  case start
  show ?case by (rule assms(3))
next
  case (call h op p h')
  then show ?case using ck_exec_result [OF al] by (auto simp: op_result_def)
next
  case (store h r x v)
  then show ?case by (intro user_write(1)) (auto simp: in_block_def)
qed

lemma ck_heap_empty: "blocks h = Map.empty \<Longrightarrow> ck_heap h"
  by (simp add: ck_heap_but_def live_def)

text \<open>An allocator with one block of 4096 bytes.\<close>

definition one_block :: allocator where
  "one_block = \<lparr>
     al_malloc = \<lambda>h n. if blocks h = Map.empty \<and> n \<le> 4096 then Some (0x1000, bytes h) else None,
     al_realloc = \<lambda>h p n. if p = 0x1000 \<and> blocks h = [p \<mapsto> the (blocks h p)] \<and> n \<le> 4096
       then Some (p, bytes h) else None,
     al_free = \<lambda>h p. bytes h\<rparr>"

lemma one_block_ok: "allocator_ok one_block"
proof -
  have "False" if "blocks h = [p \<mapsto> m]" "r \<noteq> p" "live h r x" for h p m r x
    using that by (auto simp: live_def split: if_splits)
  then show ?thesis
    unfolding allocator_ok_def one_block_def
    by (auto simp: live_def split: if_splits)
qed

text \<open>An allocator with two blocks of 4096 bytes.\<close>

definition two_blocks :: allocator where
  "two_blocks = \<lparr>
     al_malloc = \<lambda>h n.
       if n > 4096 then None
       else if blocks h = Map.empty then Some (0x1000, bytes h)
       else if blocks h = [0x1000 \<mapsto> 25] then Some (0x3000, bytes h)
       else None,
     al_realloc = \<lambda>h p n. None,
     al_free = \<lambda>h p. bytes h\<rparr>"

lemma two_blocks_malloc:
  assumes "al_malloc two_blocks h n = Some (p, b)"
  shows "p \<noteq> 0 \<and> unat p + n < 2 ^ 64" and "live h q x \<Longrightarrow> \<not> in_block p n x \<and> b x = bytes h x"
proof -
  have n: "n \<le> 4096" and c: "blocks h = Map.empty \<and> p = 0x1000 \<or> blocks h = [0x1000 \<mapsto> 25] \<and> p = 0x3000" "b = bytes h"
    using assms by (auto simp: two_blocks_def split: if_splits)
  then show "p \<noteq> 0 \<and> unat p + n < 2 ^ 64" by auto
  assume l: "live h q x"
  then have "blocks h \<noteq> Map.empty" by (auto simp: live_def)
  then have p: "blocks h = [0x1000 \<mapsto> 25]" "p = 0x3000" using c(1) by simp_all
  have x: "unat (x - 0x1000) < 25" using l by (auto simp: live_def p(1) in_block_def split: if_splits)
  have e: "x - 0x3000 = (x - 0x1000) - 0x2000" by simp
  have u: "unat (0x2000 :: addr) = 8192" by simp
  have "\<not> unat (x - 0x3000) < n"
    unfolding e unat_diff_later [of "x - 0x1000" "0x2000"] u using x n by simp
  then show "\<not> in_block p n x \<and> b x = bytes h x" by (simp add: in_block_def p(2) c(2))
qed

lemma two_blocks_ok: "allocator_ok two_blocks"
  unfolding allocator_ok_def
proof (intro conjI allI impI)
  fix h n p b assume m: "al_malloc two_blocks h n = Some (p, b)"
  show "p \<noteq> 0" "unat p + n < 2 ^ 64" using two_blocks_malloc(1) [OF m] by simp_all
  show "\<not> in_block p n x" "b x = bytes h x" if "live h q x" for q x
    using two_blocks_malloc(2) [OF m that] by simp_all
qed (simp_all add: two_blocks_def)

definition empty_heap :: heap where
  "empty_heap = \<lparr>bytes = (\<lambda>_. 0), blocks = Map.empty\<rparr>"

text \<open>
  C20: An operation of the checking allocator on a well-formed heap, given a pointer in use, leaves a
  well-formed heap, returns NULL or a pointer in use, and keeps every other chunk with its bytes;
  this is so in both builds and for every operation but \<open>ck_memdup_str\<close>.  It stops only on a request
  over the limit or when memory is out.
\<close>

theorem checked_heap_is_kept:
  assumes "allocator_ok al" and "ck_heap h" and "arg_ok h op" and "\<not> breaks_canary op"
    and "ck_exec dbg al op h = Some res"
  shows "case res of
      Inl f \<Rightarrow> f = Aborted ''Bad alloc request'' \<or> f = Aborted ''Out of memory''
    | Inr (p, h') \<Rightarrow> ck_heap h' \<and> (p = 0 \<or> ck_ptr h' p) \<and> kept (block_of (ck_arg op)) h h' \<and>
        dom (blocks h') = block_of p \<union> (dom (blocks h) - block_of (ck_arg op))"
proof (cases res)
  case (Inl f)
  then show ?thesis using ck_exec_refused [OF assms(1-3), of dbg f] assms(5) by (simp add: refused_def)
next
  case (Inr ph)
  then obtain p h' where ph: "res = Inr (p, h')" by (cases ph) simp
  then have R: "op_result op h p h'" using ck_exec_result [OF assms(1-4)] assms(5) by blast
  then have "dom (blocks h') = block_of p \<union> (dom (blocks h) - block_of (ck_arg op))" by (simp add: op_result_def)
  with op_resultD [OF R] show ?thesis by (simp add: ph)
qed

text \<open>
  C19: A program that passes only pointers in use, writes only inside its buffers and does not call
  \<open>ck_memdup_str\<close> is never stopped by a canary check, in either build: after any number of operations
  other than \<open>ck_memdup_str\<close>, started on an empty heap, the next operation on such a pointer either goes
  through, or stops for the size limit or for want of memory.  The exception is needed: the block that
  \<open>ck_memdup_str\<close> returns has a broken canary (\<open>memdup_str_result_cannot_be_freed\<close> below).
\<close>

theorem canaries_never_stop_a_careful_program:
  assumes "allocator_ok al" and "blocks h0 = Map.empty" and "ck_run dbg al h0 h" and "arg_ok h op"
    and "ck_exec dbg al op h = Some (Inl f)"
  shows "f = Aborted ''Bad alloc request'' \<or> f = Aborted ''Out of memory''"
  using ck_exec_refused [OF assms(1) ck_run_heap [OF assms(1,3)] assms(4,5)] ck_heap_empty [OF assms(2)]
  by (simp add: refused_def)

text \<open>
  C21: \<open>ck_realloc\<close> keeps the old bytes up to the shorter of both sizes and fills the rest with
  zeros, whether the block moves or not; both builds agree on this.
\<close>

theorem realloc_keeps_the_content:
  assumes "allocator_ok al" and "ck_heap h" and "orig = 0 \<or> ck_ptr h orig" and "sz \<noteq> 0"
    and "DFL_ck_realloc dbg al orig sz h = Inr (p, h')"
  shows "chunk_size (bytes h') (p - 8) = unat sz \<and>
    (\<forall>i. unat i < unat sz \<longrightarrow>
       bytes h' (p + i) = (if unat i < old_length h orig then bytes h (orig + i) else 0))"
  using realloc_ok(3,7) [OF assms] by blast

text \<open>The bytes around the buffer of a chunk.\<close>

lemma header_not_user: "unat (x - r) < 8 \<Longrightarrow> s + 8 \<le> 2 ^ 64 \<Longrightarrow> \<not> in_block (r + 8) s x"
  using in_user_block [of s "r + 8" x] by (auto simp: in_user_def)

lemma overwritten_tail:
  assumes sz: "sz \<le> MAX_ALLOC" and r: "r + 8 \<noteq> 0"
    and b: "bytes h = (c_memcpy (r + 8) m (unat sz) (set_canaries (r + 8) sz b0))(r + 8 + ucast sz := 0)"
  shows "CHECK_PTR (r + 8) h = Inl (Aborted ''Corrupted tail alloc canary.'')"
proof -
  let ?b = "bytes h" and ?b1 = "set_canaries (r + 8) sz b0"
  have c: "chunk_ok ?b1 r (unat sz + 9)" "chunk_size ?b1 r = unat sz"
    using set_canaries_chunk(1,2) [OF sz le_refl] by simp_all
  have len: "unat sz + 8 \<le> 2 ^ 64" using sz by (simp add: MAX_ALLOC_def word_le_nat_alt)
  have "?b x = ?b1 x" if "unat (x - r) < 8" for x
  proof -
    have "x \<noteq> r + 8 + ucast sz" using that tail_offset [of sz] by (auto simp: add.assoc)
    then show ?thesis using header_not_user [OF that len] by (simp add: b c_memcpy_def)
  qed
  note hd = header_agrees [of r ?b ?b1, OF this]
  have "read32 ?b1 (r + 4) = sz" using c(2) by (simp add: chunk_size_def word_unat_eq_iff)
  then have S: "ALLOC_S (r + 8) ?b = sz" using hd(2) by (simp add: ALLOC_S_def add.commute)
  have "ALLOC_C1 (r + 8) ?b = ALLOC_MAGIC_C1" using c(1) hd(1) by (simp add: ALLOC_C1_def chunk_ok_def)
  moreover have "ALLOC_C2 (r + 8) ?b = 0" unfolding ALLOC_C2_def S by (simp add: b)
  ultimately show ?thesis using r by (simp add: CHECK_PTR_def ALLOC_MAGIC_C2_def)
qed

text \<open>
  C38: The result of \<open>ck_memdup_str\<close> can be neither freed nor reallocated: the terminating NUL is
  written over the tail canary, so the next operation on the pointer stops the program.
\<close>

theorem memdup_str_result_cannot_be_freed:
  assumes "allocator_ok al" and "m \<noteq> 0" and "sz \<noteq> 0" and run: "DFL_ck_memdup_str al m sz h = Inr (p, h')"
  shows "DFL_ck_free dbg al p h' = Inl (Aborted ''Corrupted tail alloc canary.'') \<and>
    DFL_ck_realloc dbg al p n h' = Inl (Aborted ''Corrupted tail alloc canary.'')"
proof -
  obtain h1 where n: "ck_new al sz 1 h = Inr (p, h1)"
    and h': "h' = h1\<lparr>bytes := (c_memcpy p m (unat sz) (bytes h1))(p + ucast sz := 0)\<rparr>"
    using run assms(2,3) by (auto simp: DFL_ck_memdup_str_def ebind_Inr_iff)
  obtain r h0 where r: "c_malloc al (unat (sz + ALLOC_OFF_TOTAL + 1)) h = Some (r, h0)" "p = r + 8"
    "h1 = h0\<lparr>bytes := set_canaries (r + 8) sz (bytes h0)\<rparr>" and sz: "sz \<le> MAX_ALLOC"
    using n by (auto simp: ck_new_def ebind_Inr_iff ALLOC_CHECK_SIZE_def ALLOC_OFF_HEAD_def Let_def not_less
      split: option.splits if_splits)
  have "unat r + 8 < 2 ^ 64"
    using c_malloc_ok(2) [OF assms(1) r(1)] unat_request [OF sz, of 1] by simp
  then have "unat (r + 8) = unat r + 8" by (simp add: unat_word_ariths)
  then have "r + 8 \<noteq> 0" by auto
  have chk: "CHECK_PTR p h' = Inl (Aborted ''Corrupted tail alloc canary.'')"
    using overwritten_tail [OF sz \<open>r + 8 \<noteq> 0\<close>, of h' m "bytes h0"] by (simp add: h' r(2,3))
  then have "DFL_ck_free dbg al p h' = Inl (Aborted ''Corrupted tail alloc canary.'')"
    using \<open>r + 8 \<noteq> 0\<close> by (simp add: DFL_ck_free_def r(2))
  with chk show ?thesis using \<open>r + 8 \<noteq> 0\<close> by (simp add: DFL_ck_realloc_def r(2))
qed

text \<open>
  \<open>ck_realloc_block\<close> adds 256 to the requested size before the size limit is tested.  For a
  request within 256 of \<open>2 ^ 32\<close> the sum wraps: the release build hands out fewer than 256 bytes
  for it, where the debug build stops the program.
\<close>

lemma realloc_block_wraps:
  assumes al: "allocator_ok al" and h: "ck_heap h" and r: "ck_ptr h r" and "2 ^ 32 - 256 < unat sz"
    and run: "DFL_ck_realloc_block False al r sz h = Inr (p, h')"
  shows "chunk_size (bytes h') (p - 8) = unat sz + 256 - 2 ^ 32 \<and>
    DFL_ck_realloc_block True al r sz h = Inl (Aborted ''Bad alloc request'')"
proof -
  note c = check_ptr_ok [OF h r]
  have u: "unat sz < 2 ^ 32" using unsigned_less [where ?'a = nat and w = sz] by simp
  have w: "unat (sz + ALLOC_BLK_INC) = unat sz + 256 - 2 ^ 32"
    using assms(4) u by (simp add: ALLOC_BLK_INC_def unat_word_ariths le_mod_geq)
  then have "sz + ALLOC_BLK_INC \<noteq> 0" using assms(4) by auto
  have big: "MAX_ALLOC < sz" using assms(4) by (simp add: MAX_ALLOC_def word_less_nat_alt)
  then have "\<not> sz \<le> ALLOC_S r (bytes h)" using c(3) by simp
  then have "DFL_ck_realloc False al r (sz + ALLOC_BLK_INC) h = Inr (p, h')"
    using run c(1,2) by (simp add: DFL_ck_realloc_block_def)
  from realloc_ok(3) [OF al h disjI2 [OF r] \<open>sz + ALLOC_BLK_INC \<noteq> 0\<close> this]
  have 1: "chunk_size (bytes h') (p - 8) = unat sz + 256 - 2 ^ 32" by (simp add: w)
  have "sz \<noteq> 0" using big by auto
  then have "DFL_ck_realloc_block True al r sz h = Inl (Aborted ''Bad alloc request'')"
    using big c by (simp add: DFL_ck_realloc_block_def DFL_ck_realloc_def realloc_chunk_def ALLOC_CHECK_SIZE_def
      not_less [symmetric] Let_def)
  with 1 show ?thesis ..
qed

subsection \<open>Witnesses\<close>

definition chunk16 :: heap where
  "chunk16 = \<lparr>bytes = set_canaries 0x1008 16 (\<lambda>_. 0), blocks = [0x1000 \<mapsto> 25]\<rparr>"

lemmas one_block_simps = one_block_def empty_heap_def c_malloc_def c_realloc_def ck_new_def ALLOC_CHECK_SIZE_def
  MAX_ALLOC_def ALLOC_OFF_TOTAL_def ALLOC_OFF_HEAD_def Let_def

lemma alloc16: "DFL_ck_alloc_nozero one_block 16 empty_heap = Inr (0x1008, chunk16)"
  by (simp add: DFL_ck_alloc_nozero_def one_block_simps chunk16_def)

lemma chunk16_ok: "ck_heap chunk16" "ck_ptr chunk16 0x1008"
proof -
  have e: "ck_heap empty_heap" by (rule ck_heap_empty) (simp add: empty_heap_def)
  have "ck_new one_block 16 0 empty_heap = Inr (0x1008, chunk16)" using alloc16 by (simp add: DFL_ck_alloc_nozero_def)
  from ck_new_ok(1,2) [OF one_block_ok e _ this] show "ck_heap chunk16" "ck_ptr chunk16 0x1008" by simp_all
qed

lemma realloc16:
  assumes "sz \<noteq> 0" "unat sz \<le> 4000"
  obtains h' where "DFL_ck_realloc False one_block 0x1008 sz chunk16 = Inr (0x1008, h')"
proof -
  note c = check_ptr_ok [OF chunk16_ok]
  let ?b = "write32 0x1000 ALLOC_MAGIC_F (bytes chunk16)"
  have "ALLOC_S 0x1008 ?b = ALLOC_S 0x1008 (bytes chunk16)"
    by (simp add: ALLOC_S_def read32_def write32_def)
  moreover have "sz \<le> MAX_ALLOC" using assms(2) by (simp add: MAX_ALLOC_def word_le_nat_alt)
  moreover have "unat (sz + ALLOC_OFF_TOTAL) = unat sz + 9" using unat_request [OF calculation(2), of 0] by simp
  ultimately show ?thesis
    using assms c(1,3) that
    by (simp add: DFL_ck_realloc_def realloc_chunk_def realloc_block_def c_realloc_def ALLOC_CHECK_SIZE_def
      one_block_def Let_def not_less [symmetric] ALLOC_OFF_HEAD_def) (simp add: chunk16_def)
qed

theorem checked_heap_is_kept_witness:
  "\<exists>h'. ck_exec False one_block (Ck_realloc 0x1008 32) chunk16 = Some (Inr (0x1008, h')) \<and> ck_heap h' \<and> ck_ptr h' 0x1008"
proof -
  obtain h' where r: "DFL_ck_realloc False one_block 0x1008 32 chunk16 = Inr (0x1008, h')"
    by (rule realloc16 [of 32]) (auto)
  then have "ck_exec False one_block (Ck_realloc 0x1008 32) chunk16 = Some (Inr (0x1008, h'))" by simp
  moreover have "arg_ok chunk16 (Ck_realloc 0x1008 32)" using chunk16_ok(2) by (simp add: arg_ok_def)
  ultimately show ?thesis
    using checked_heap_is_kept [OF one_block_ok chunk16_ok(1) _ _ \<open>ck_exec _ _ _ _ = _\<close>] by auto
qed

theorem canaries_never_stop_a_careful_program_witness:
  "\<exists>h f. ck_run False one_block empty_heap h \<and> ck_exec False one_block (Ck_memdup 0x1008 16) h = Some (Inl f) \<and>
     f = Aborted ''Out of memory''"
proof -
  let ?h = "chunk16\<lparr>bytes := (bytes chunk16)(0x1008 := 7)\<rparr>"
  have 1: "ck_run False one_block empty_heap chunk16"
    by (rule ck_run.call [OF ck_run.start, of _ "Ck_alloc_nozero 16"]) (simp_all add: arg_ok_def alloc16)
  have "chunk_size (bytes chunk16) (0x1008 - 8) = 16"
    using set_canaries_chunk(2) [of 16 25 "0x1000"] by (simp add: chunk16_def MAX_ALLOC_def)
  then have run: "ck_run False one_block empty_heap ?h"
    by (intro ck_run.store [OF 1 chunk16_ok(2)]) simp
  have stop: "ck_exec False one_block (Ck_memdup 0x1008 16) ?h = Some (Inl (Aborted ''Out of memory''))"
    by (simp add: DFL_ck_memdup_def one_block_simps chunk16_def)
  have "arg_ok ?h (Ck_memdup 0x1008 16)" by (simp add: arg_ok_def)
  from canaries_never_stop_a_careful_program [OF one_block_ok _ run this stop]
  show ?thesis using run stop by blast
qed

theorem realloc_keeps_the_content_witness:
  "\<exists>h'. DFL_ck_realloc False one_block 0x1008 32 chunk16 = Inr (0x1008, h') \<and> bytes h' (0x1008 + 20) = 0"
proof -
  obtain h' where r: "DFL_ck_realloc False one_block 0x1008 32 chunk16 = Inr (0x1008, h')"
    by (rule realloc16 [of 32]) auto
  have "chunk_size (bytes chunk16) (0x1008 - 8) = 16"
    using set_canaries_chunk(2) [of 16 25 "0x1000"] by (simp add: chunk16_def MAX_ALLOC_def)
  then have "old_length chunk16 0x1008 = 16" by (simp add: old_length_def)
  then show ?thesis
    using realloc_keeps_the_content [OF one_block_ok chunk16_ok(1) _ _ r, THEN conjunct2, rule_format, of 20]
      chunk16_ok(2) r by simp
qed

theorem memdup_str_result_cannot_be_freed_witness:
  "\<exists>h'. DFL_ck_memdup_str one_block 0x5000 4 empty_heap = Inr (0x1008, h') \<and>
     DFL_ck_free False one_block 0x1008 h' = Inl (Aborted ''Corrupted tail alloc canary.'')"
proof -
  obtain h' where r: "DFL_ck_memdup_str one_block 0x5000 4 empty_heap = Inr (0x1008, h')"
    by (simp add: DFL_ck_memdup_str_def one_block_simps)
  then show ?thesis using memdup_str_result_cannot_be_freed [OF one_block_ok _ _ r] by auto
qed

lemma realloc_block_wraps_example:
  "\<exists>h'. DFL_ck_realloc_block False one_block 0x1008 0xFFFFFF20 chunk16 = Inr (0x1008, h') \<and>
     chunk_size (bytes h') 0x1000 = 32"
proof -
  obtain h' where "DFL_ck_realloc False one_block 0x1008 32 chunk16 = Inr (0x1008, h')"
    by (rule realloc16 [of 32]) auto
  moreover have wrapped: "0xFFFFFF20 + ALLOC_BLK_INC = 32" by (simp add: ALLOC_BLK_INC_def)
  ultimately have r: "DFL_ck_realloc_block False one_block 0x1008 0xFFFFFF20 chunk16 = Inr (0x1008, h')"
    using check_ptr_ok(1,3) [OF chunk16_ok]
    unfolding DFL_ck_realloc_block_def wrapped by (simp add: MAX_ALLOC_def word_le_nat_alt)
  show ?thesis using realloc_block_wraps [OF one_block_ok chunk16_ok _ r] r by simp
qed

end
