(* ===== verification/Alloc_Strings.thy ===== *)
theory Alloc_Strings
  imports Alloc_Safe
begin

section \<open>Alloc_Strings: texts in the checked heap\<close>

text \<open>
  The wrappers build their file names with \<open>alloc_printf\<close> and copy their arguments with \<open>ck_strdup\<close>.
  A text that is printed and copied is read back unchanged.
\<close>

definition no_nul :: "string \<Rightarrow> bool" where
  "no_nul s \<longleftrightarrow> (\<forall>i < length s. (of_char (s ! i) :: u8) \<noteq> 0)"

definition holds_string :: "(addr \<Rightarrow> u8) \<Rightarrow> addr \<Rightarrow> string \<Rightarrow> bool" where
  "holds_string b p s \<longleftrightarrow>
     no_nul s \<and> (\<forall>i < length s. b (p + of_nat i) = of_char (s ! i)) \<and> b (p + of_nat (length s)) = 0"

lemma strlen_ok:
  assumes "holds_string b p s" and "n \<le> length s"
  shows "c_strlen_from b p n = Some (length s)"
  using assms(2)
proof (induction "length s - n" arbitrary: n)
  case 0
  then have "n = length s" by simp
  then show ?case using assms(1) by (subst c_strlen_from.simps) (simp add: holds_string_def)
next
  case (Suc k)
  then have "c_strlen_from b p (n + 1) = Some (length s)" "n < length s" by simp_all
  then show ?case using assms(1) by (subst c_strlen_from.simps) (simp add: holds_string_def no_nul_def)
qed

lemma string_cong:
  assumes "holds_string b p s" and "\<And>i. i \<le> length s \<Longrightarrow> b' (q + of_nat i) = b (p + of_nat i)"
  shows "holds_string b' q s"
  using assms by (simp add: holds_string_def)

lemma put_string_ok:
  assumes "length s < 2 ^ 31" and "no_nul s"
  shows "holds_string (put_string p s b) p s" and "\<not> in_block p (length s + 1) x \<Longrightarrow> put_string p s b x = b x"
proof -
  have u: "unat (of_nat i :: addr) = i" if "i \<le> length s" for i
    using that assms(1) by (simp add: unat_of_nat)
  then show "holds_string (put_string p s b) p s"
    using assms(2) by (simp add: holds_string_def put_string_def)
  show "\<not> in_block p (length s + 1) x \<Longrightarrow> put_string p s b x = b x"
    by (auto simp: put_string_def in_block_def)
qed

lemma alloc_printf_ok:
  assumes al: "allocator_ok al" and h: "ck_heap h" and s: "no_nul s" and run: "alloc_printf al s h = Inr (p, h')"
  shows "ck_heap h'" "ck_ptr h' p" "chunk_size (bytes h') (p - 8) = length s + 1" "holds_string (bytes h') p s"
    and "kept {} h h'" "length s < 2 ^ 30"
proof -
  let ?sz = "of_nat (length s + 1) :: u32"
  have len: "length s < 2 ^ 31" and al': "\<exists>h1. DFL_ck_alloc al ?sz h = Inr (p, h1) \<and> h' = h1\<lparr>bytes := put_string p s (bytes h1)\<rparr>"
    using run by (auto simp: alloc_printf_def snprintf_length_def Let_def ebind_Inr_iff add.commute split: if_splits)
  have u: "unat ?sz = length s + 1" using len unfolding unat_of_nat by simp
  then have "?sz \<noteq> 0" by auto
  with al' obtain h0 where n: "ck_new al ?sz 0 h = Inr (p, h0)"
    and h': "h' = h0\<lparr>bytes := put_string p s (c_memset p 0 (unat ?sz) (bytes h0))\<rparr>"
    by (auto simp: DFL_ck_alloc_def DFL_ck_alloc_nozero_def ebind_Inr_iff)
  note P = put_string_ok [OF len s]
  have "?sz \<le> MAX_ALLOC" using n by (simp add: ck_new_def ALLOC_CHECK_SIZE_def not_less split: if_splits)
  then have "unat ?sz \<le> 2 ^ 30" by (simp add: MAX_ALLOC_def word_le_nat_alt)
  then show "length s < 2 ^ 30" using u by simp
  have b: "put_string p s (c_memset p 0 (unat ?sz) (bytes h0)) x = bytes h0 x" if "\<not> in_block p (unat ?sz) x" for x
    using that P(2) [of p x "c_memset p 0 (unat ?sz) (bytes h0)"] u by (simp add: c_memset_def)
  note F = ck_new_filled [OF al h n b]
  show "ck_heap h'" "ck_ptr h' p" "kept {} h h'" using F(1,2,4) by (simp_all add: h')
  show "chunk_size (bytes h') (p - 8) = length s + 1" using F(3) u by (simp add: h')
  show "holds_string (bytes h') p s" using P(1) by (simp add: h')
qed

lemma strdup_ok:
  assumes al: "allocator_ok al" and h: "ck_heap h" and p: "ck_ptr h p" "holds_string (bytes h) p s"
    and size: "length s < chunk_size (bytes h) (p - 8)" and run: "DFL_ck_strdup al p h = Some (Inr (q, h'))"
  shows "ck_heap h'" "ck_ptr h' p" "ck_ptr h' q" "holds_string (bytes h') p s" "holds_string (bytes h') q s" "q \<noteq> p"
proof -
  have p0: "p \<noteq> 0" by (rule check_ptr_ok(2) [OF h p(1)])
  have "chunk_size (bytes h) (p - 8) \<le> 2 ^ 30"
    using check_ptr_ok(3,4) [OF h p(1)] by (simp add: MAX_ALLOC_def word_le_nat_alt)
  then have len: "length s < 2 ^ 30" using size by simp
  let ?sz = "of_nat (length s) + 1 :: u32"
  have u: "unat ?sz = length s + 1" using len by (simp add: unat_word_ariths unat_of_nat)
  obtain h1 where n: "ck_new al ?sz 0 h = Inr (q, h1)" and h': "h' = h1\<lparr>bytes := c_memcpy q p (unat ?sz) (bytes h1)\<rparr>"
    using run p0 strlen_ok [OF p(2), of 0] by (auto simp: DFL_ck_strdup_def Let_def ebind_Inr_iff)
  note N = ck_new_ok [OF al h _ n]
  have b: "c_memcpy q p (unat ?sz) (bytes h1) x = bytes h1 x" if "\<not> in_block q (unat ?sz) x" for x
    using that by (simp add: c_memcpy_def)
  note F = ck_new_filled [OF al h n b]
  have idx: "unat (of_nat i :: addr) = i" if "i \<le> length s" for i using that len by (simp add: unat_of_nat)
  have "kept {} h h1" using N(4) by simp
  note K1 = kept_chunk [OF h p(1) this]
  note K2 = kept_chunk [OF h p(1) F(4)]
  have same: "bytes h1 (p + of_nat i) = bytes h (p + of_nat i)" "bytes h' (p + of_nat i) = bytes h (p + of_nat i)"
    if "i \<le> length s" for i
    using that size idx [OF that] K1(3) K2(3) by (simp_all add: h')
  show "holds_string (bytes h') p s" using same(2) by (intro string_cong [OF p(2)])
  show "holds_string (bytes h') q s"
  proof (rule string_cong [OF p(2)])
    fix i assume i: "i \<le> length s"
    then show "bytes h' (q + of_nat i) = bytes h (p + of_nat i)"
      using same(1) [OF i] idx [OF i] u by (simp add: h' c_memcpy_def add.commute)
  qed
  show "ck_heap h'" "ck_ptr h' q" "ck_ptr h' p" using F(1,2) K2(1) by (simp_all add: h')
  show "q \<noteq> p" using N(5) p(1) by (auto simp: ck_ptr_def)
qed

text \<open>
  C37: A text that is printed to a new buffer and then copied is read back unchanged from the copy,
  from the original too, and the two buffers are different chunks.
\<close>

theorem printed_text_is_copied:
  assumes "allocator_ok al" and "ck_heap h" and "no_nul s"
    and "alloc_printf al s h = Inr (p, h1)" and "DFL_ck_strdup al p h1 = Some (Inr (q, h2))"
  shows "holds_string (bytes h2) p s \<and> holds_string (bytes h2) q s \<and> q \<noteq> p \<and>
    c_strlen_from (bytes h2) q 0 = Some (length s) \<and> ck_heap h2 \<and> ck_ptr h2 p \<and> ck_ptr h2 q"
proof -
  note P = alloc_printf_ok [OF assms(1-4)]
  have size: "length s < chunk_size (bytes h1) (p - 8)" using P(3) by simp
  note S = strdup_ok [OF assms(1) P(1,2,4) size assms(5)]
  with strlen_ok [OF S(5), of 0] show ?thesis by simp
qed

definition demo_path :: string where
  "demo_path = ''/tmp/spa/afl-as''"

lemma no_nul_list: "no_nul s \<longleftrightarrow> list_all (\<lambda>c. (of_char c :: u8) \<noteq> 0) s"
  by (simp add: no_nul_def list_all_length)

lemma demo_path_ok: "no_nul demo_path"
  by (simp add: no_nul_list demo_path_def)

theorem printed_text_is_copied_witness:
  "\<exists>h1 h2. alloc_printf two_blocks demo_path empty_heap = Inr (0x1008, h1) \<and>
     DFL_ck_strdup two_blocks 0x1008 h1 = Some (Inr (0x3008, h2)) \<and> holds_string (bytes h2) 0x3008 demo_path"
proof -
  have e: "ck_heap empty_heap" by (rule ck_heap_empty) (simp add: empty_heap_def)
  obtain h1 where r1: "alloc_printf two_blocks demo_path empty_heap = Inr (0x1008, h1)"
    and b: "blocks h1 = [0x1000 \<mapsto> 25]"
    by (simp add: alloc_printf_def snprintf_length_def demo_path_def DFL_ck_alloc_def DFL_ck_alloc_nozero_def
      two_blocks_def one_block_simps)
  note P = alloc_printf_ok [OF two_blocks_ok e demo_path_ok r1]
  have "c_strlen_from (bytes h1) 0x1008 0 = Some 15"
    using strlen_ok [OF P(4), of 0] by (simp add: demo_path_def)
  then obtain h2 where r2: "DFL_ck_strdup two_blocks 0x1008 h1 = Some (Inr (0x3008, h2))"
    using b by (simp add: DFL_ck_strdup_def two_blocks_def one_block_simps)
  show ?thesis
    using printed_text_is_copied [OF two_blocks_ok e demo_path_ok r1 r2] r1 r2 by blast
qed

end
