(* ===== verification/Alloc_Track.thy ===== *)
theory Alloc_Track
  imports Alloc_Inl
begin

section \<open>Alloc_Track: the record of allocations in a debug build\<close>

text \<open>
  \<open>alloc-inl.h\<close>, from line 352.  In a debug build the program's names \<open>ck_alloc\<close>, \<open>ck_free\<close> and so
  on stand for functions that also keep, for each pointer in use, the place that allocated it.  The
  records are arrays of \<open>struct TRK_obj\<close>, one for each hash value, which live themselves in the
  checked heap; a record is 32 bytes: the pointer, file, function and line.  What is written to the
  terminal is the list \<open>trk_log\<close>.
\<close>

subsection \<open>Words of 64 bits in memory\<close>

definition read64 :: "(addr \<Rightarrow> u8) \<Rightarrow> addr \<Rightarrow> u64" where
  "read64 b a = ucast (read32 b a) OR push_bit 32 (ucast (read32 b (a + 4)))"

definition write64 :: "addr \<Rightarrow> u64 \<Rightarrow> (addr \<Rightarrow> u8) \<Rightarrow> addr \<Rightarrow> u8" where
  "write64 a v b = write32 (a + 4) (ucast (drop_bit 32 v)) (write32 a (ucast v) b)"

subsection \<open>The records\<close>

text \<open>The place of a call: \<open>__FILE__\<close>, \<open>__FUNCTION__\<close> and \<open>__LINE__\<close>; the two strings are pointers.\<close>

record site =
  s_file :: addr
  s_func :: addr
  s_line :: u32

datatype trk_msg = Never_freed site | Not_allocated site

record tracked =
  trk_heap :: heap
  TRK :: "nat \<Rightarrow> addr"
  TRK_cnt :: "nat \<Rightarrow> u32"
  trk_log :: "trk_msg list"

definition ALLOC_BUCKETS :: u32 where "ALLOC_BUCKETS = 4096"

definition TRK_obj_size :: u32 where "TRK_obj_size = 32"

definition TRKH :: "addr \<Rightarrow> nat" where
  "TRKH p = unat ((drop_bit 16 (ucast p :: u32) XOR ucast p) mod ALLOC_BUCKETS)"

text \<open>\<open>&TRK[bucket][i]\<close>, and the fields there.\<close>

definition trk_slot :: "addr \<Rightarrow> nat \<Rightarrow> addr" where
  "trk_slot base i = base + 32 * of_nat i"

definition obj_ptr :: "(addr \<Rightarrow> u8) \<Rightarrow> addr \<Rightarrow> addr" where
  "obj_ptr b a = read64 b a"

definition obj_site :: "(addr \<Rightarrow> u8) \<Rightarrow> addr \<Rightarrow> site" where
  "obj_site b a = \<lparr>s_file = read64 b (a + 8), s_func = read64 b (a + 16), s_line = read32 b (a + 24)\<rparr>"

definition put_obj :: "addr \<Rightarrow> addr \<Rightarrow> site \<Rightarrow> (addr \<Rightarrow> u8) \<Rightarrow> addr \<Rightarrow> u8" where
  "put_obj a p st b = write32 (a + 24) (s_line st) (write64 (a + 16) (s_func st) (write64 (a + 8) (s_file st)
     (write64 a p b)))"

text \<open>The loops over a bucket: the first record from \<open>i\<close> on whose pointer is \<open>p\<close>.\<close>

function trk_find :: "(addr \<Rightarrow> u8) \<Rightarrow> addr \<Rightarrow> addr \<Rightarrow> nat \<Rightarrow> nat \<Rightarrow> nat option" where
  "trk_find b base p cnt i =
     (if i < cnt then (if obj_ptr b (trk_slot base i) = p then Some i else trk_find b base p cnt (i + 1))
      else None)"
  by pat_completeness auto
termination by (relation "measure (\<lambda>(b, base, p, cnt, i). cnt - i)") auto

declare trk_find.simps [simp del]

subsection \<open>Recording and forgetting a pointer\<close>

definition trk_store :: "((addr \<Rightarrow> u8) \<Rightarrow> addr \<Rightarrow> u8) \<Rightarrow> tracked \<Rightarrow> tracked" where
  "trk_store f t = t\<lparr>trk_heap := (trk_heap t)\<lparr>bytes := f (bytes (trk_heap t))\<rparr>\<rparr>"

definition TRK_alloc_buf :: "allocator \<Rightarrow> addr \<Rightarrow> site \<Rightarrow> tracked \<Rightarrow> fault + tracked" where
  "TRK_alloc_buf al p st t =
     (if p = 0 then Inr t
      else
        (let bucket = TRKH p; cnt = TRK_cnt t bucket
         in case trk_find (bytes (trk_heap t)) (TRK t bucket) 0 (unat cnt) 0 of
              Some i \<Rightarrow> Inr (trk_store (put_obj (trk_slot (TRK t bucket) i) p st) t)
            | None \<Rightarrow>
                ebind (DFL_ck_realloc_block True al (TRK t bucket) ((cnt + 1) * TRK_obj_size) (trk_heap t)) (\<lambda>(q, h).
                let t1 = t\<lparr>trk_heap := h, TRK := (TRK t)(bucket := q)\<rparr>;
                    t2 = trk_store (put_obj (trk_slot q (unat cnt)) p st) t1
                in Inr (t2\<lparr>TRK_cnt := (TRK_cnt t)(bucket := cnt + 1)\<rparr>))))"

definition TRK_free_buf :: "addr \<Rightarrow> site \<Rightarrow> tracked \<Rightarrow> tracked" where
  "TRK_free_buf p st t =
     (if p = 0 then t
      else
        (let bucket = TRKH p
         in case trk_find (bytes (trk_heap t)) (TRK t bucket) p (unat (TRK_cnt t bucket)) 0 of
              Some i \<Rightarrow> trk_store (write64 (trk_slot (TRK t bucket) i) 0) t
            | None \<Rightarrow> t\<lparr>trk_log := trk_log t @ [Not_allocated st]\<rparr>))"

text \<open>The places in the records of one bucket that still hold a pointer, and the final report.\<close>

definition bucket_sites :: "tracked \<Rightarrow> nat \<Rightarrow> site list" where
  "bucket_sites t bucket =
     (let b = bytes (trk_heap t); slots = map (trk_slot (TRK t bucket)) [0..<unat (TRK_cnt t bucket)]
      in map (obj_site b) (filter (\<lambda>a. obj_ptr b a \<noteq> 0) slots))"

definition TRK_report :: "tracked \<Rightarrow> tracked" where
  "TRK_report t =
     t\<lparr>trk_log := trk_log t @ map Never_freed (concat (map (bucket_sites t) [0..<unat ALLOC_BUCKETS]))\<rparr>"

subsection \<open>The program's names in a debug build\<close>

text \<open>An operation of the layer below, and then the record of its result.\<close>

definition trk_then_record ::
  "allocator \<Rightarrow> site \<Rightarrow> tracked \<Rightarrow> fault + addr \<times> heap \<Rightarrow> fault + addr \<times> tracked" where
  "trk_then_record al st t r =
     ebind r (\<lambda>(ret, h). ebind (TRK_alloc_buf al ret st (t\<lparr>trk_heap := h\<rparr>)) (\<lambda>t1. Inr (ret, t1)))"

definition TRK_ck_alloc :: "allocator \<Rightarrow> u32 \<Rightarrow> site \<Rightarrow> tracked \<Rightarrow> fault + addr \<times> tracked" where
  "TRK_ck_alloc al sz st t = trk_then_record al st t (DFL_ck_alloc al sz (trk_heap t))"

definition TRK_ck_realloc :: "allocator \<Rightarrow> addr \<Rightarrow> u32 \<Rightarrow> site \<Rightarrow> tracked \<Rightarrow> fault + addr \<times> tracked" where
  "TRK_ck_realloc al orig sz st t =
     ebind (DFL_ck_realloc True al orig sz (trk_heap t)) (\<lambda>(ret, h).
     let t1 = TRK_free_buf orig st (t\<lparr>trk_heap := h\<rparr>)
     in ebind (TRK_alloc_buf al ret st t1) (\<lambda>t2. Inr (ret, t2)))"

definition TRK_ck_realloc_block :: "allocator \<Rightarrow> addr \<Rightarrow> u32 \<Rightarrow> site \<Rightarrow> tracked \<Rightarrow> fault + addr \<times> tracked" where
  "TRK_ck_realloc_block al orig sz st t =
     ebind (DFL_ck_realloc_block True al orig sz (trk_heap t)) (\<lambda>(ret, h).
     let t1 = TRK_free_buf orig st (t\<lparr>trk_heap := h\<rparr>)
     in ebind (TRK_alloc_buf al ret st t1) (\<lambda>t2. Inr (ret, t2)))"

definition TRK_ck_strdup :: "allocator \<Rightarrow> addr \<Rightarrow> site \<Rightarrow> tracked \<Rightarrow> (fault + addr \<times> tracked) option" where
  "TRK_ck_strdup al str st t = map_option (trk_then_record al st t) (DFL_ck_strdup al str (trk_heap t))"

definition TRK_ck_memdup :: "allocator \<Rightarrow> addr \<Rightarrow> u32 \<Rightarrow> site \<Rightarrow> tracked \<Rightarrow> fault + addr \<times> tracked" where
  "TRK_ck_memdup al m sz st t = trk_then_record al st t (DFL_ck_memdup al m sz (trk_heap t))"

definition TRK_ck_memdup_str :: "allocator \<Rightarrow> addr \<Rightarrow> u32 \<Rightarrow> site \<Rightarrow> tracked \<Rightarrow> fault + addr \<times> tracked" where
  "TRK_ck_memdup_str al m sz st t = trk_then_record al st t (DFL_ck_memdup_str al m sz (trk_heap t))"

definition TRK_ck_free :: "allocator \<Rightarrow> addr \<Rightarrow> site \<Rightarrow> tracked \<Rightarrow> fault + tracked" where
  "TRK_ck_free al p st t =
     (let t1 = TRK_free_buf p st t
      in ebind (DFL_ck_free True al p (trk_heap t1)) (\<lambda>h. Inr (t1\<lparr>trk_heap := h\<rparr>)))"

text \<open>The aliases: \<open>ck_alloc_nozero\<close> stands for the zeroing function here.\<close>

fun trk_exec :: "allocator \<Rightarrow> ck_op \<Rightarrow> site \<Rightarrow> tracked \<Rightarrow> (fault + addr \<times> tracked) option" where
  "trk_exec al (Ck_alloc_nozero sz) st t = Some (TRK_ck_alloc al sz st t)"
| "trk_exec al (Ck_alloc sz) st t = Some (TRK_ck_alloc al sz st t)"
| "trk_exec al (Ck_free p) st t = Some (ebind (TRK_ck_free al p st t) (\<lambda>t1. Inr (0, t1)))"
| "trk_exec al (Ck_realloc p sz) st t = Some (TRK_ck_realloc al p sz st t)"
| "trk_exec al (Ck_realloc_block p sz) st t = Some (TRK_ck_realloc_block al p sz st t)"
| "trk_exec al (Ck_strdup p) st t = TRK_ck_strdup al p st t"
| "trk_exec al (Ck_memdup p sz) st t = Some (TRK_ck_memdup al p sz st t)"
| "trk_exec al (Ck_memdup_str p sz) st t = Some (TRK_ck_memdup_str al p sz st t)"

end
