(* ===== verification/Alloc_Track_Props.thy ===== *)
theory Alloc_Track_Props
  imports Alloc_Track Alloc_Safe
begin

section \<open>Alloc_Track_Props: the record is exact\<close>

text \<open>
  A bucket of the record is a list of pairs; the record as a whole is a map from pointers to the
  places that allocated them (\<open>sites\<close>).  Every operation keeps the map exact: it has an entry for
  each pointer in use and for no other, and the final report names exactly these.
\<close>

subsection \<open>Fields in memory\<close>

lemma read32_other:
  "read32 (write32 (a + 4) v b) a = read32 b a"
  by (simp add: read32_def write32_def)

lemma read64_write64 [simp]: "read64 (write64 a v b) a = v"
proof -
  have "read64 (write64 a v b) a = ucast (ucast v :: u32) OR push_bit 32 (ucast (ucast (drop_bit 32 v) :: u32))"
    by (simp add: read64_def write64_def read32_other)
  also have "\<dots> = v"
  proof (rule bit_word_eqI)
    fix n assume n: "n < LENGTH(64)"
    show "bit (ucast (ucast v :: u32) OR push_bit 32 (ucast (ucast (drop_bit 32 v) :: u32)) :: u64) n = bit v n"
      using n by (cases "n < 32") (auto simp: bit_simps not_less)
  qed
  finally show ?thesis .
qed

lemma offset_less:
  "unat (x - a :: addr) < n \<longleftrightarrow> (\<exists>k < n. x = a + of_nat k \<and> k < 2 ^ 64)"
proof
  assume "unat (x - a) < n"
  then show "\<exists>k < n. x = a + of_nat k \<and> k < 2 ^ 64"
    using unsigned_less [where ?'a = nat and w = "x - a"] by (intro exI [of _ "unat (x - a)"]) simp
next
  assume "\<exists>k < n. x = a + of_nat k \<and> k < 2 ^ 64"
  then show "unat (x - a) < n" by (auto simp: unat_of_nat)
qed

lemma write64_outside: "8 \<le> unat (x - a) \<Longrightarrow> write64 a v b x = b x"
  using unat_diff_4 [of x a] by (simp add: write64_def write32_outside)

lemma unat_diff_offset:
  assumes "k \<le> unat (x - a :: addr)" and "k < 2 ^ 64"
  shows "unat (x - (a + of_nat k)) = unat (x - a) - k"
proof -
  have e: "x - (a + of_nat k) = (x - a) - of_nat k" by (rule diff_diff_eq [symmetric])
  have k: "unat (of_nat k :: addr) = k" using assms(2) by (simp add: unat_of_nat)
  show ?thesis unfolding e unat_diff_later [of "x - a" "of_nat k"] k using assms(1) by simp
qed

lemma unat_add_offset:
  assumes "unat (x - (a + of_nat k)) < n" and "k + n \<le> 2 ^ 64"
  shows "unat (x - a :: addr) < k + n"
proof -
  have e: "x - (a + of_nat k) = (x - a) - of_nat k" by (rule diff_diff_eq [symmetric])
  have k: "unat (of_nat k :: addr) = k \<or> n = 0" using assms(2) by (cases "n = 0") (simp_all add: unat_of_nat)
  then show ?thesis
    using assms unfolding e unat_diff_later [of "x - a" "of_nat k"] by (auto split: if_splits)
qed

lemma read64_cong:
  assumes "\<And>x. unat (x - a) < 8 \<Longrightarrow> b' x = b x"
  shows "read64 b' a = read64 b a"
proof -
  have "unat (x - (a + 4)) < 4 \<Longrightarrow> b' x = b x" for x
    using unat_add_offset [of x a 4 4] by (intro assms) simp
  then show ?thesis using assms by (simp add: read64_def read32_cong [of _ b' b])
qed

lemma obj_cong:
  assumes "\<And>x. unat (x - a) < 32 \<Longrightarrow> b' x = b x"
  shows "obj_ptr b' a = obj_ptr b a" and "obj_site b' a = obj_site b a"
proof -
  have "b' x = b x" if "unat (x - (a + of_nat k)) < n" "k + n \<le> 32" for x k n
    using unat_add_offset [OF that(1)] that(2) by (intro assms) simp
  from this [of _ 8 8] this [of _ 16 8] this [of _ 24 4] assms
  show "obj_ptr b' a = obj_ptr b a" "obj_site b' a = obj_site b a"
    by (simp_all add: obj_ptr_def obj_site_def read64_cong [of _ b' b] read32_cong [of _ b' b])
qed

lemma put_obj_outside:
  assumes "32 \<le> unat (x - a)"
  shows "put_obj a p st b x = b x"
  using assms unat_diff_offset [of 8 x a] unat_diff_offset [of 16 x a] unat_diff_offset [of 24 x a]
  by (simp add: put_obj_def write32_outside write64_outside)

lemma field_other:
  "read64 (write32 (a + 24) v b) a = read64 b a"
  "read64 (write64 (a + 16) w b) a = read64 b a"
  "read64 (write64 (a + 8) w b) a = read64 b a"
  "read64 (write32 (a + 24) v b) (a + 8) = read64 b (a + 8)"
  "read64 (write64 (a + 16) w b) (a + 8) = read64 b (a + 8)"
  "read64 (write32 (a + 24) v b) (a + 16) = read64 b (a + 16)"
  by (simp_all add: read64_def read32_def write64_def write32_def)

lemma obj_put [simp]:
  "obj_ptr (put_obj a p st b) a = p"
  "obj_site (put_obj a p st b) a = st"
  by (simp_all add: obj_ptr_def obj_site_def put_obj_def field_other)

lemma obj_clear [simp]: "obj_ptr (write64 a 0 b) a = 0"
  by (simp add: obj_ptr_def)

subsection \<open>Slots of an array\<close>

lemma slot_offset: "trk_slot base i = base + of_nat (32 * i)"
  by (simp add: trk_slot_def)

lemma slot_inside:
  assumes "unat (x - trk_slot base i) < 32" and "i < cnt" and "32 * cnt \<le> 2 ^ 32"
  shows "in_block base (32 * cnt) x"
proof -
  have "32 * i + 32 \<le> 32 * cnt" using assms(2) by simp
  moreover have "unat (x - base) < 32 * i + 32"
    using assms(3) calculation by (intro unat_add_offset [OF assms(1) [unfolded slot_offset]]) simp
  ultimately show ?thesis by (simp add: in_block_def)
qed

lemma slot_distance:
  assumes "unat (x - trk_slot base k) < 32" and "32 * k \<le> 2 ^ 32"
  shows "unat (x - base) = 32 * k + unat (x - trk_slot base k)"
proof -
  have k: "unat (of_nat (32 * k) :: addr) = 32 * k" using assms(2) unfolding unat_of_nat by simp
  have e: "x - trk_slot base k = (x - base) - of_nat (32 * k)" unfolding slot_offset by (rule diff_diff_eq [symmetric])
  show ?thesis
    using assms unfolding e unat_diff_later [of "x - base" "of_nat (32 * k)"] k by (auto split: if_splits)
qed

lemma slots_apart:
  assumes "unat (x - trk_slot base i) < 32" and "i \<noteq> j" and "i < cnt" "j < cnt" and "32 * cnt \<le> 2 ^ 32"
  shows "32 \<le> unat (x - trk_slot base j)"
proof (rule ccontr)
  assume "\<not> 32 \<le> unat (x - trk_slot base j)"
  then have j: "unat (x - trk_slot base j) < 32" by simp
  have u: "unat (x - base) = 32 * k + unat (x - trk_slot base k)" if "unat (x - trk_slot base k) < 32" "k < cnt" for k
    using that assms(5) by (intro slot_distance) simp_all
  from u [OF assms(1,3)] u [OF j assms(4)] assms(1) j have "i = j" by linarith
  with assms(2) show False ..
qed

definition objs :: "(addr \<Rightarrow> u8) \<Rightarrow> addr \<Rightarrow> nat \<Rightarrow> (addr \<times> site) list" where
  "objs b base cnt = map (\<lambda>i. (obj_ptr b (trk_slot base i), obj_site b (trk_slot base i))) [0..<cnt]"

lemma length_objs [simp]: "length (objs b base cnt) = cnt"
  by (simp add: objs_def)

lemma nth_objs: "i < cnt \<Longrightarrow> objs b base cnt ! i = (obj_ptr b (trk_slot base i), obj_site b (trk_slot base i))"
  by (simp add: objs_def)

lemma objs_cong:
  assumes "\<And>x. in_block base (32 * cnt) x \<Longrightarrow> b' x = b x" and "32 * cnt \<le> 2 ^ 32"
  shows "objs b' base cnt = objs b base cnt"
  unfolding objs_def
proof (rule map_cong [OF refl])
  fix i assume "i \<in> set [0..<cnt]"
  then have "i < cnt" by simp
  then have "unat (x - trk_slot base i) < 32 \<Longrightarrow> b' x = b x" for x
    using slot_inside [OF _ _ assms(2)] by (intro assms(1)) blast
  from obj_cong [OF this]
  show "(obj_ptr b' (trk_slot base i), obj_site b' (trk_slot base i)) =
      (obj_ptr b (trk_slot base i), obj_site b (trk_slot base i))" by simp
qed

lemma objs_update:
  assumes "i < cnt" and "32 * cnt \<le> 2 ^ 32" and b': "\<And>x. 32 \<le> unat (x - trk_slot base i) \<Longrightarrow> b' x = b x"
  shows "objs b' base cnt = (objs b base cnt)[i := (obj_ptr b' (trk_slot base i), obj_site b' (trk_slot base i))]"
proof (rule nth_equalityI)
  fix j assume "j < length (objs b' base cnt)"
  then have j: "j < cnt" by simp
  show "objs b' base cnt ! j = (objs b base cnt)[i := (obj_ptr b' (trk_slot base i), obj_site b' (trk_slot base i))] ! j"
  proof (cases "j = i")
    case False
    have "unat (x - trk_slot base j) < 32 \<Longrightarrow> b' x = b x" for x
      using slots_apart [OF _ False j assms(1,2)] by (intro b') blast
    from obj_cong [OF this] show ?thesis using False j by (simp add: nth_objs)
  qed (use j in \<open>simp add: nth_objs\<close>)
qed simp

lemma trk_find_Some: "trk_find b base p cnt k = Some i \<Longrightarrow> i < cnt \<and> k \<le> i \<and> fst (objs b base cnt ! i) = p"
  by (induction b base p cnt k rule: trk_find.induct)
    (subst (asm) (2) trk_find.simps, auto split: if_splits simp: nth_objs)

lemma trk_find_None:
  "trk_find b base p cnt k = None \<Longrightarrow> k \<le> j \<Longrightarrow> j < cnt \<Longrightarrow> fst (objs b base cnt ! j) \<noteq> p"
proof (induction b base p cnt k rule: trk_find.induct)
  case (1 b base p cnt k)
  have r: "obj_ptr b (trk_slot base k) \<noteq> p" "trk_find b base p cnt (k + 1) = None" if "k < cnt"
    using 1(2) that by (subst (asm) trk_find.simps, auto split: if_splits)+
  show ?case
  proof (cases "j = k")
    case False
    then show ?thesis using 1(1,3,4) r by simp
  qed (use r 1(4) in \<open>simp add: nth_objs\<close>)
qed

subsection \<open>A bucket as a map\<close>

definition bucket_ok :: "nat \<Rightarrow> (addr \<times> site) list \<Rightarrow> bool" where
  "bucket_ok k xs \<longleftrightarrow> distinct (filter (\<lambda>q. q \<noteq> 0) (map fst xs)) \<and>
     (\<forall>q \<in> set (map fst xs). q \<noteq> 0 \<longrightarrow> TRKH q = k)"

lemma split_at:
  assumes "i < length xs"
  obtains us y vs where "xs = us @ y # vs" "\<And>z. xs[i := z] = us @ z # vs" "xs ! i = y"
  using assms that [of "take i xs" "xs ! i" "drop (Suc i) xs"]
  by (simp add: id_take_nth_drop upd_conv_take_nth_drop)

lemma bucket_record:
  assumes "bucket_ok k xs" and "i < length xs" "fst (xs ! i) = 0" and "p \<noteq> 0" "TRKH p = k" "p \<notin> set (map fst xs)"
  shows "bucket_ok k (xs[i := (p, st)])" and "q \<noteq> 0 \<Longrightarrow> map_of (xs[i := (p, st)]) q = ((map_of xs)(p \<mapsto> st)) q"
proof -
  obtain us y vs where d: "xs = us @ y # vs" "\<And>z. xs[i := z] = us @ z # vs" "xs ! i = y"
    using split_at [OF assms(2)] by blast
  have y: "fst y = 0" using assms(3) d(3) by simp
  have n: "map_of us p = None" using assms(6) d(1) by (auto simp: map_of_eq_None_iff)
  show "bucket_ok k (xs[i := (p, st)])"
    using assms(1,4,5,6) y unfolding d(2) by (auto simp: bucket_ok_def d(1))
  show "q \<noteq> 0 \<Longrightarrow> map_of (xs[i := (p, st)]) q = ((map_of xs)(p \<mapsto> st)) q"
    using y n unfolding d(2) by (cases y) (simp add: d(1) map_add_def split: option.splits)
qed

lemma bucket_append:
  assumes "bucket_ok k xs" and "p \<noteq> 0" "TRKH p = k" "p \<notin> set (map fst xs)"
  shows "bucket_ok k (xs @ [(p, st)])" and "map_of (xs @ [(p, st)]) = (map_of xs)(p \<mapsto> st)"
proof -
  have n: "map_of xs p = None" using assms(4) by (auto simp: map_of_eq_None_iff)
  show "bucket_ok k (xs @ [(p, st)])" using assms by (auto simp: bucket_ok_def)
  show "map_of (xs @ [(p, st)]) = (map_of xs)(p \<mapsto> st)"
    using n by (auto simp: fun_eq_iff map_add_def split: option.splits)
qed

lemma bucket_forget:
  assumes "bucket_ok k xs" and "i < length xs" "fst (xs ! i) = p" and "p \<noteq> 0"
  shows "bucket_ok k (xs[i := (0, st)])" and "q \<noteq> 0 \<Longrightarrow> map_of (xs[i := (0, st)]) q = ((map_of xs)(p := None)) q"
proof -
  obtain us y vs where d: "xs = us @ y # vs" "\<And>z. xs[i := z] = us @ z # vs" "xs ! i = y"
    using split_at [OF assms(2)] by blast
  have y: "fst y = p" using assms(3) d(3) by simp
  have n: "map_of us p = None" "map_of vs p = None"
    using assms(1,4) y by (auto simp: map_of_eq_None_iff bucket_ok_def d(1))
  show "bucket_ok k (xs[i := (0, st)])"
    using assms(1) unfolding d(2) by (auto simp: bucket_ok_def d(1) split: if_splits)
  show "q \<noteq> 0 \<Longrightarrow> map_of (xs[i := (0, st)]) q = ((map_of xs)(p := None)) q"
    using y n unfolding d(2) by (cases y) (auto simp: d(1) map_add_def split: option.splits)
qed

lemma bucket_map_of: "map_of xs p = None \<longleftrightarrow> (\<forall>i < length xs. fst (xs ! i) \<noteq> p)"
  unfolding map_of_eq_None_iff by (auto simp: set_conv_nth)

subsection \<open>The state of the record\<close>

definition arr_ok :: "heap \<Rightarrow> addr \<Rightarrow> nat \<Rightarrow> bool" where
  "arr_ok h base cnt \<longleftrightarrow>
     (if cnt = 0 then base = 0 else ck_ptr h base \<and> chunk_size (bytes h) (base - 8) = 32 * cnt)"

definition bucket :: "tracked \<Rightarrow> nat \<Rightarrow> (addr \<times> site) list" where
  "bucket t k = objs (bytes (trk_heap t)) (TRK t k) (unat (TRK_cnt t k))"

definition trk_wf :: "tracked \<Rightarrow> bool" where
  "trk_wf t \<longleftrightarrow> ck_heap (trk_heap t) \<and>
     (\<forall>k < 4096. arr_ok (trk_heap t) (TRK t k) (unat (TRK_cnt t k)) \<and> bucket_ok k (bucket t k)) \<and>
     (\<forall>k < 4096. \<forall>l < 4096. k \<noteq> l \<and> TRK t k = TRK t l \<longrightarrow> TRK t k = 0)"

definition sites :: "tracked \<Rightarrow> addr \<Rightarrow> site option" where
  "sites t p = (if p = 0 then None else map_of (bucket t (TRKH p)) p)"

definition arrays :: "tracked \<Rightarrow> addr set" where
  "arrays t = (\<Union>k \<in> {..<4096}. block_of (TRK t k))"

lemma TRKH_less [simp]: "TRKH p < 4096"
proof -
  have "unat (x mod ALLOC_BUCKETS) < 4096" for x :: u32
    by (simp add: ALLOC_BUCKETS_def unat_mod_distrib)
  then show ?thesis by (simp add: TRKH_def)
qed

lemma trk_wfD:
  assumes "trk_wf t" and "k < 4096"
  shows "arr_ok (trk_heap t) (TRK t k) (unat (TRK_cnt t k))" "bucket_ok k (bucket t k)"
    and "l < 4096 \<Longrightarrow> k \<noteq> l \<Longrightarrow> TRK t k = TRK t l \<Longrightarrow> TRK t k = 0"
  using assms unfolding trk_wf_def by blast+

lemma arr_okD:
  assumes "arr_ok h base cnt" and "ck_heap h"
  shows "32 * cnt \<le> 2 ^ 30" and "base = 0 \<longleftrightarrow> cnt = 0" and "block_of base \<subseteq> dom (blocks h)"
    and "x \<in> block_of base \<Longrightarrow> x = base - 8" and "base \<noteq> 0 \<Longrightarrow> ck_ptr h base"
    and "old_length h base = 32 * cnt"
proof -
  have c: "ck_ptr h base" "chunk_size (bytes h) (base - 8) = 32 * cnt" if "cnt \<noteq> 0"
    using assms(1) that by (simp_all add: arr_ok_def)
  show "32 * cnt \<le> 2 ^ 30"
  proof (cases "cnt = 0")
    case False
    note p = check_ptr_ok(3,4) [OF assms(2) c(1) [OF False]]
    from p(1) have "unat (ALLOC_S base (bytes h)) \<le> 2 ^ 30" by (simp add: MAX_ALLOC_def word_le_nat_alt)
    then show ?thesis using p(2) c(2) [OF False] by simp
  qed simp
  show z: "base = 0 \<longleftrightarrow> cnt = 0"
    using assms(1) check_ptr_ok(2) [OF assms(2)] by (auto simp: arr_ok_def split: if_splits)
  show "block_of base \<subseteq> dom (blocks h)" using c(1) z by (auto simp: block_of_def ck_ptr_def)
  show "x \<in> block_of base \<Longrightarrow> x = base - 8" by (simp add: block_of_def split: if_splits)
  show "base \<noteq> 0 \<Longrightarrow> ck_ptr h base" using c z by blast
  show "old_length h base = 32 * cnt" using c z by (simp add: old_length_def)
qed

lemma arrays_in_use: "trk_wf t \<Longrightarrow> arrays t \<subseteq> dom (blocks (trk_heap t))"
  using arr_okD(3) trk_wfD(1) unfolding arrays_def trk_wf_def by blast

subsection \<open>Changes elsewhere\<close>

lemma arr_frame:
  assumes "ck_heap h" and "arr_ok h base cnt" and "kept A h h'" and "block_of base \<inter> A = {}"
  shows "arr_ok h' base cnt" and "objs (bytes h') base cnt = objs (bytes h) base cnt"
proof -
  have k: "ck_ptr h base" "base - 8 \<notin> A" "chunk_size (bytes h) (base - 8) = 32 * cnt" if "cnt \<noteq> 0"
    using that assms(2,4) arr_okD(2) [OF assms(2,1)] by (auto simp: arr_ok_def block_of_def)
  note f = kept_chunk [OF assms(1) k(1) assms(3) k(2)]
  show "arr_ok h' base cnt" using assms(2) f(1,2) k(3) by (auto simp: arr_ok_def)
  show "objs (bytes h') base cnt = objs (bytes h) base cnt"
  proof (cases "cnt = 0")
    case False
    then show ?thesis using f(3) k(3) arr_okD(1) [OF assms(2,1)] by (intro objs_cong) simp_all
  qed (simp add: objs_def)
qed

lemma sites_bucket: "(\<And>k. k < 4096 \<Longrightarrow> bucket t' k = bucket t k) \<Longrightarrow> sites t' = sites t"
  by (simp add: sites_def fun_eq_iff)

lemma trk_frame:
  assumes t: "trk_wf t" and h: "ck_heap h'" "kept A (trk_heap t) h'" and A: "arrays t \<inter> A = {}"
  shows "trk_wf (t\<lparr>trk_heap := h'\<rparr>)" and "sites (t\<lparr>trk_heap := h'\<rparr>) = sites t"
proof -
  have H: "ck_heap (trk_heap t)" using t by (simp add: trk_wf_def)
  have f: "arr_ok h' (TRK t k) (unat (TRK_cnt t k)) \<and> bucket (t\<lparr>trk_heap := h'\<rparr>) k = bucket t k" if "k < 4096" for k
    using arr_frame [OF H trk_wfD(1) [OF t that] h(2)] A that by (auto simp: arrays_def bucket_def)
  then show "trk_wf (t\<lparr>trk_heap := h'\<rparr>)" using t h(1) unfolding trk_wf_def by auto
  show "sites (t\<lparr>trk_heap := h'\<rparr>) = sites t" using f by (intro sites_bucket) blast
qed

subsection \<open>Writing a record\<close>

lemma block_of_TRK:
  assumes "trk_wf t" and "k < 4096" "l < 4096" "k \<noteq> l"
  shows "block_of (TRK t l) \<inter> block_of (TRK t k) = {}"
  using trk_wfD(3) [OF assms(1,2,3,4)] by (auto simp: block_of_def split: if_splits)

lemma trk_store_ok:
  assumes t: "trk_wf t" and k: "k < 4096" and i: "i < unat (TRK_cnt t k)"
    and a: "a = trk_slot (TRK t k) i" and b: "b = bytes (trk_heap t)"
    and f: "\<And>x. 32 \<le> unat (x - a) \<Longrightarrow> f b x = b x"
    and ok: "bucket_ok k ((bucket t k)[i := (obj_ptr (f b) a, obj_site (f b) a)])"
  shows "trk_wf (trk_store f t)"
    and "l < 4096 \<Longrightarrow> bucket (trk_store f t) l =
      (if l = k then (bucket t k)[i := (obj_ptr (f b) a, obj_site (f b) a)] else bucket t l)"
    and "kept (arrays t) (trk_heap t) (trk_heap (trk_store f t))"
proof -
  let ?h = "trk_heap t" and ?base = "TRK t k" and ?h' = "(trk_heap t)\<lparr>bytes := f b\<rparr>"
  have H: "ck_heap ?h" using t by (simp add: trk_wf_def)
  note arr = trk_wfD(1) [OF t k] and D = arr_okD [OF trk_wfD(1) [OF t k] H]
  have base: "?base \<noteq> 0" "chunk_size (bytes ?h) (?base - 8) = 32 * unat (TRK_cnt t k)"
    using D(2) i arr by (auto simp: arr_ok_def split: if_splits)
  have inside: "in_block ?base (32 * unat (TRK_cnt t k)) x" if "f b x \<noteq> b x" for x
    using f [of x] that D(1) by (intro slot_inside [OF _ i]) (auto simp: a not_le [symmetric])
  then have out: "f b x = bytes ?h x" if "\<not> in_block ?base (chunk_size (bytes ?h) (?base - 8)) x" for x
    using that base(2) by (auto simp: b)
  note w = user_write [OF H D(5) [OF base(1)] out]
  have blk: "block_of ?base = {?base - 8}" using base(1) by (simp add: block_of_def)
  have frame: "arr_ok ?h' (TRK t m) (unat (TRK_cnt t m)) \<and>
      objs (f b) (TRK t m) (unat (TRK_cnt t m)) = bucket t m" if "m < 4096" "m \<noteq> k" for m
    using arr_frame [OF H trk_wfD(1) [OF t that(1)] w(3)] block_of_TRK [OF t k that(1)] that(2) blk
    by (simp add: bucket_def)
  have own: "objs (f b) ?base (unat (TRK_cnt t k)) = (bucket t k)[i := (obj_ptr (f b) a, obj_site (f b) a)]"
    unfolding bucket_def b [symmetric] a using i D(1) f by (intro objs_update) (simp_all add: a)
  have own_ok: "arr_ok ?h' ?base (unat (TRK_cnt t k))"
    using i D(5) [OF base(1)] base(2) w(2) by (simp add: arr_ok_def ck_ptr_def)
  show l: "bucket (trk_store f t) l =
      (if l = k then (bucket t k)[i := (obj_ptr (f b) a, obj_site (f b) a)] else bucket t l)" if "l < 4096" for l
  proof -
    have "bucket (trk_store f t) l = objs (f b) (TRK t l) (unat (TRK_cnt t l))"
      by (simp add: bucket_def trk_store_def b)
    then show ?thesis using frame own that by simp
  qed
  show "trk_wf (trk_store f t)"
    unfolding trk_wf_def
  proof (intro conjI allI impI)
    show "ck_heap (trk_heap (trk_store f t))" using w(1) by (simp add: trk_store_def flip: b)
    fix m assume m: "m < (4096 :: nat)"
    show "arr_ok (trk_heap (trk_store f t)) (TRK (trk_store f t) m) (unat (TRK_cnt (trk_store f t) m))"
      using frame [OF m] own_ok by (cases "m = k") (simp_all add: trk_store_def flip: b)
    show "bucket_ok m (bucket (trk_store f t) m)" using l [OF m] trk_wfD(2) [OF t m] ok by simp
    fix n assume "n < (4096 :: nat)" "m \<noteq> n \<and> TRK (trk_store f t) m = TRK (trk_store f t) n"
    then show "TRK (trk_store f t) m = 0" using trk_wfD(3) [OF t m] by (simp add: trk_store_def)
  qed
  have "?base - 8 \<in> arrays t" using k blk by (auto simp: arrays_def)
  then show "kept (arrays t) (trk_heap t) (trk_heap (trk_store f t))"
    using kept_mono [OF w(3), of "arrays t"] by (simp add: trk_store_def b)
qed

lemma trk_store_simps [simp]:
  "TRK (trk_store f t) = TRK t" "TRK_cnt (trk_store f t) = TRK_cnt t" "trk_log (trk_store f t) = trk_log t"
  "blocks (trk_heap (trk_store f t)) = blocks (trk_heap t)" "arrays (trk_store f t) = arrays t"
  by (simp_all add: trk_store_def arrays_def)

subsection \<open>Forgetting and recording\<close>

lemma find_bucket:
  "trk_find (bytes (trk_heap t)) (TRK t k) p (unat (TRK_cnt t k)) 0 = Some i \<Longrightarrow>
     i < unat (TRK_cnt t k) \<and> fst (bucket t k ! i) = p"
  "trk_find (bytes (trk_heap t)) (TRK t k) p (unat (TRK_cnt t k)) 0 = None \<Longrightarrow> map_of (bucket t k) p = None"
  unfolding bucket_def bucket_map_of by (auto dest: trk_find_Some trk_find_None)

lemma sites_changed:
  assumes "\<And>l. l < 4096 \<Longrightarrow> l \<noteq> TRKH p \<Longrightarrow> bucket t' l = bucket t l"
    and "\<And>q. q \<noteq> 0 \<Longrightarrow> map_of (bucket t' (TRKH p)) q = ((map_of (bucket t (TRKH p)))(p := v)) q" and "p \<noteq> 0"
  shows "sites t' = (sites t)(p := v)"
proof
  fix q
  show "sites t' q = ((sites t)(p := v)) q"
    using assms by (cases "q = 0"; cases "TRKH q = TRKH p"; cases "q = p") (simp_all add: sites_def)
qed

lemma free_buf_ok:
  assumes t: "trk_wf t" and p: "p \<in> dom (sites t)"
  shows "trk_wf (TRK_free_buf p st t)" "sites (TRK_free_buf p st t) = (sites t)(p := None)"
    and "dom (blocks (trk_heap (TRK_free_buf p st t))) = dom (blocks (trk_heap t))"
    and "arrays (TRK_free_buf p st t) = arrays t" "trk_log (TRK_free_buf p st t) = trk_log t"
    and "kept (arrays t) (trk_heap t) (trk_heap (TRK_free_buf p st t))"
proof -
  let ?k = "TRKH p" and ?b = "bytes (trk_heap t)"
  have p0: "p \<noteq> 0" "map_of (bucket t ?k) p \<noteq> None" using p by (auto simp: sites_def split: if_splits)
  then obtain i where f: "trk_find ?b (TRK t ?k) p (unat (TRK_cnt t ?k)) 0 = Some i"
    using find_bucket(2) [of t ?k p] by (cases "trk_find ?b (TRK t ?k) p (unat (TRK_cnt t ?k)) 0") auto
  note i = find_bucket(1) [OF f]
  let ?a = "trk_slot (TRK t ?k) i"
  have e: "TRK_free_buf p st t = trk_store (write64 ?a 0) t" using p0(1) f by (simp add: TRK_free_buf_def)
  have len: "i < length (bucket t ?k)" using i by (simp add: bucket_def)
  note forget = bucket_forget [OF trk_wfD(2) [OF t TRKH_less] len conjunct2 [OF i] p0(1), where st = "obj_site (write64 ?a 0 ?b) ?a"]
  have far: "32 \<le> unat (x - ?a) \<Longrightarrow> write64 ?a 0 ?b x = ?b x" for x by (simp add: write64_outside)
  note S = trk_store_ok [where f = "write64 ?a 0", OF t TRKH_less conjunct1 [OF i] refl refl far]
  have ok: "bucket_ok ?k ((bucket t ?k)[i := (obj_ptr (write64 ?a 0 ?b) ?a, obj_site (write64 ?a 0 ?b) ?a)])"
    using forget(1) by simp
  show "trk_wf (TRK_free_buf p st t)" unfolding e using S(1) ok by blast
  show "sites (TRK_free_buf p st t) = (sites t)(p := None)"
    unfolding e using S(2) [OF _ ok] forget(2) p0(1) by (intro sites_changed) simp_all
  show "kept (arrays t) (trk_heap t) (trk_heap (TRK_free_buf p st t))" unfolding e using S(3) ok by blast
  show "dom (blocks (trk_heap (TRK_free_buf p st t))) = dom (blocks (trk_heap t))"
    "arrays (TRK_free_buf p st t) = arrays t" "trk_log (TRK_free_buf p st t) = trk_log t"
    by (simp_all add: e)
qed

lemma bucket_grow:
  "bucket_ok k (xs @ [(0, st)]) \<longleftrightarrow> bucket_ok k xs"
  "q \<noteq> 0 \<Longrightarrow> map_of (xs @ [(0, st)]) q = map_of xs q"
  by (auto simp: bucket_ok_def map_add_def split: option.splits)

lemma obj_ptr_zero: "(\<And>x. unat (x - a) < 8 \<Longrightarrow> b x = 0) \<Longrightarrow> obj_ptr b a = 0"
  using read64_cong [of a b "\<lambda>_. 0"] by (simp add: obj_ptr_def read64_def read32_def)

lemma objs_Suc: "objs b base (Suc n) = objs b base n @ [(obj_ptr b (trk_slot base n), obj_site b (trk_slot base n))]"
  by (simp add: objs_def)

text \<open>An array at another address.\<close>

lemma obj_shift:
  "obj_ptr (\<lambda>x. b (x + d)) a = obj_ptr b (a + d)" "obj_site (\<lambda>x. b (x + d)) a = obj_site b (a + d)"
  by (simp_all add: obj_ptr_def obj_site_def read64_def read32_def add_ac)

lemma objs_moved:
  assumes "\<And>i. unat i < 32 * cnt \<Longrightarrow> b' (q + i) = b (base + i)" and "32 * cnt \<le> 2 ^ 32"
  shows "objs b' q cnt = objs b base cnt"
proof -
  have "objs b' q cnt = objs (\<lambda>x. b (x + (base - q))) q cnt"
  proof (rule objs_cong [OF _ assms(2)])
    fix x assume "in_block q (32 * cnt) x"
    then show "b' x = b (x + (base - q))" using assms(1) [of "x - q"] by (simp add: in_block_def algebra_simps)
  qed
  also have "\<dots> = objs b base cnt"
  proof -
    have slot: "trk_slot q i + (base - q) = trk_slot base i" for i by (simp add: trk_slot_def)
    show ?thesis by (simp only: objs_def obj_shift slot)
  qed
  finally show ?thesis .
qed

lemma unat_obj_bytes:
  assumes "32 * unat (cnt :: u32) \<le> 2 ^ 30"
  shows "unat (cnt + 1) = unat cnt + 1" and "unat ((cnt + 1) * TRK_obj_size) = 32 * (unat cnt + 1)"
  using assms by (simp_all add: TRK_obj_size_def unat_word_ariths)

text \<open>A bucket grows by one empty record.\<close>

definition grown :: "tracked \<Rightarrow> nat \<Rightarrow> addr \<Rightarrow> heap \<Rightarrow> tracked" where
  "grown t k q h = t\<lparr>trk_heap := h, TRK := (TRK t)(k := q), TRK_cnt := (TRK_cnt t)(k := TRK_cnt t k + 1)\<rparr>"

lemma grown_simps [simp]:
  "trk_heap (grown t k q h) = h" "TRK (grown t k q h) l = (if l = k then q else TRK t l)"
  "TRK_cnt (grown t k q h) l = (if l = k then TRK_cnt t k + 1 else TRK_cnt t l)"
  "trk_log (grown t k q h) = trk_log t"
  by (simp_all add: grown_def)

lemma grown_ok:
  assumes al: "allocator_ok al" and t: "trk_wf t" and k: "k < 4096"
    and run: "DFL_ck_realloc_block True al (TRK t k) ((TRK_cnt t k + 1) * TRK_obj_size) (trk_heap t) = Inr (q, h)"
  shows "trk_wf (grown t k q h)"
    and "\<exists>st. bucket (grown t k q h) k = bucket t k @ [(0, st)]"
    and "l < 4096 \<Longrightarrow> l \<noteq> k \<Longrightarrow> bucket (grown t k q h) l = bucket t l"
    and "dom (blocks h) - arrays (grown t k q h) = dom (blocks (trk_heap t)) - arrays t"
    and "kept (arrays t) (trk_heap t) h"
proof -
  let ?h = "trk_heap t" and ?base = "TRK t k" and ?n = "unat (TRK_cnt t k)" and ?sz = "(TRK_cnt t k + 1) * TRK_obj_size"
  have H: "ck_heap ?h" using t by (simp add: trk_wf_def)
  note D = arr_okD [OF trk_wfD(1) [OF t k] H]
  note sz = unat_obj_bytes [OF D(1)]
  have "?sz \<noteq> 0" using sz(2) by auto
  have run': "DFL_ck_realloc True al ?base ?sz ?h = Inr (q, h)" using run by (simp add: DFL_ck_realloc_block_def)
  have base: "?base = 0 \<or> ck_ptr ?h ?base" using D(5) by blast
  note R = realloc_ok [OF al H base \<open>?sz \<noteq> 0\<close> run']
  have "q \<noteq> 0" by (rule check_ptr_ok(2) [OF R(1,2)])
  then have q: "block_of q = {q - 8}" by (simp add: block_of_def)
  show "kept (arrays t) ?h h" using k by (intro kept_mono [OF R(4)]) (auto simp: arrays_def)
  have others: "arr_ok h (TRK t l) (unat (TRK_cnt t l)) \<and> objs (bytes h) (TRK t l) (unat (TRK_cnt t l)) = bucket t l"
    "TRK t l \<noteq> q \<or> l = k" "block_of (TRK t l) \<subseteq> dom (blocks ?h) - block_of ?base" if l: "l < 4096" "l \<noteq> k" for l
  proof -
    note Dl = arr_okD [OF trk_wfD(1) [OF t l(1)] H]
    have apart: "block_of (TRK t l) \<inter> block_of ?base = {}" using block_of_TRK [OF t k l(1)] l(2) by simp
    show "arr_ok h (TRK t l) (unat (TRK_cnt t l)) \<and> objs (bytes h) (TRK t l) (unat (TRK_cnt t l)) = bucket t l"
      using arr_frame [OF H trk_wfD(1) [OF t l(1)] R(4) apart] by (simp add: bucket_def)
    show sub: "block_of (TRK t l) \<subseteq> dom (blocks ?h) - block_of ?base" using Dl(3) apart by blast
    show "TRK t l \<noteq> q \<or> l = k" using sub R(6) q \<open>q \<noteq> 0\<close> by auto
  qed
  have content: "objs (bytes h) q ?n = bucket t k"
    unfolding bucket_def using R(7) D(1,6) sz(2) by (intro objs_moved) simp_all
  have zero: "obj_ptr (bytes h) (trk_slot q ?n) = 0"
  proof (rule obj_ptr_zero)
    fix x assume x: "unat (x - trk_slot q ?n) < 8"
    then have "unat (x - q) = 32 * ?n + unat (x - trk_slot q ?n)" using D(1) by (intro slot_distance) simp_all
    then show "bytes h x = 0" using x R(7) [of "x - q"] sz(2) D(6) by simp
  qed
  show bk: "\<exists>st. bucket (grown t k q h) k = bucket t k @ [(0, st)]"
    using sz(1) content zero by (simp add: bucket_def [of "grown t k q h"] objs_Suc)
  show bl: "bucket (grown t k q h) l = bucket t l" if "l < 4096" "l \<noteq> k" for l
    using others(1) [OF that] that(2) by (simp add: bucket_def [of "grown t k q h"])
  show "trk_wf (grown t k q h)"
    unfolding trk_wf_def
  proof (intro conjI allI impI)
    show "ck_heap (trk_heap (grown t k q h))" using R(1) by simp
    fix m assume m: "m < (4096 :: nat)"
    show "arr_ok (trk_heap (grown t k q h)) (TRK (grown t k q h) m) (unat (TRK_cnt (grown t k q h) m))"
      using others(1) [OF m] R(2,3) sz by (auto simp: arr_ok_def [of h q])
    show "bucket_ok m (bucket (grown t k q h) m)"
      using bk bl [OF m] trk_wfD(2) [OF t m] by (cases "m = k") (auto simp: bucket_grow)
    fix n assume n: "n < (4096 :: nat)" "m \<noteq> n \<and> TRK (grown t k q h) m = TRK (grown t k q h) n"
    then show "TRK (grown t k q h) m = 0"
      using trk_wfD(3) [OF t m n(1)] others(2) [OF m] others(2) [OF n(1)] by (auto split: if_splits)
  qed
  have "arrays (grown t k q h) = insert (q - 8) (\<Union>l \<in> {..<4096} - {k}. block_of (TRK t l))"
    using k q by (auto simp: arrays_def split: if_splits)
  moreover have "arrays t = block_of ?base \<union> (\<Union>l \<in> {..<4096} - {k}. block_of (TRK t l))"
    using k by (auto simp: arrays_def)
  moreover have "(\<Union>l \<in> {..<4096} - {k}. block_of (TRK t l)) \<subseteq> dom (blocks ?h) - block_of ?base"
    using others(3) by auto
  ultimately show "dom (blocks h) - arrays (grown t k q h) = dom (blocks ?h) - arrays t"
    using R(5,6) by auto
qed

lemma sites_None: "p \<noteq> 0 \<Longrightarrow> sites t p = None \<longleftrightarrow> p \<notin> set (map fst (bucket t (TRKH p)))"
  by (simp add: sites_def map_of_eq_None_iff)

lemma put_ok:
  assumes t: "trk_wf t" and i: "i < unat (TRK_cnt t (TRKH p))" "fst (bucket t (TRKH p) ! i) = 0"
    and p: "p \<noteq> 0" "sites t p = None" and t': "t' = trk_store (put_obj (trk_slot (TRK t (TRKH p)) i) p st) t"
  shows "trk_wf t'" "sites t' = (sites t)(p \<mapsto> st)" "kept (arrays t) (trk_heap t) (trk_heap t')"
proof -
  let ?k = "TRKH p" and ?a = "trk_slot (TRK t (TRKH p)) i"
  have len: "i < length (bucket t ?k)" using i(1) by (simp add: bucket_def)
  note rec = bucket_record [OF trk_wfD(2) [OF t TRKH_less] len i(2) p(1) refl, where st = st]
  have new: "p \<notin> set (map fst (bucket t ?k))" using sites_None [OF p(1)] p(2) by blast
  have far: "32 \<le> unat (x - ?a) \<Longrightarrow> put_obj ?a p st (bytes (trk_heap t)) x = bytes (trk_heap t) x" for x
    by (rule put_obj_outside)
  note S = trk_store_ok [where f = "put_obj ?a p st", OF t TRKH_less i(1) refl refl far]
  have ok: "bucket_ok ?k ((bucket t ?k)[i := (obj_ptr (put_obj ?a p st (bytes (trk_heap t))) ?a,
      obj_site (put_obj ?a p st (bytes (trk_heap t))) ?a)])"
    using rec(1) new by simp
  show "trk_wf t'" unfolding t' using S(1) ok by blast
  show "kept (arrays t) (trk_heap t) (trk_heap t')" unfolding t' using S(3) ok by blast
  show "sites t' = (sites t)(p \<mapsto> st)"
    unfolding t' using S(2) [OF _ ok] rec(2) new p(1) by (intro sites_changed) simp_all
qed

lemma sites_grown:
  assumes "\<exists>st. bucket t' k = bucket t k @ [(0, st)]" and "\<And>l. l < 4096 \<Longrightarrow> l \<noteq> k \<Longrightarrow> bucket t' l = bucket t l"
  shows "sites t' = sites t"
proof
  fix q show "sites t' q = sites t q"
    using assms(1) assms(2) [of "TRKH q"] by (cases "TRKH q = k") (auto simp: sites_def bucket_grow(2) simp del: map_of_append)
qed

lemma alloc_buf_ok:
  assumes al: "allocator_ok al" and t: "trk_wf t" and p: "p \<noteq> 0" "sites t p = None"
    and run: "TRK_alloc_buf al p st t = Inr t'"
  shows "trk_wf t'" "sites t' = (sites t)(p \<mapsto> st)" "trk_log t' = trk_log t"
    and "dom (blocks (trk_heap t')) - arrays t' = dom (blocks (trk_heap t)) - arrays t"
    and "kept (arrays t) (trk_heap t) (trk_heap t')"
proof -
  let ?k = "TRKH p" and ?n = "unat (TRK_cnt t (TRKH p))"
  let ?f = "trk_find (bytes (trk_heap t)) (TRK t ?k) 0 ?n 0"
  have "trk_wf t' \<and> sites t' = (sites t)(p \<mapsto> st) \<and> trk_log t' = trk_log t \<and>
    dom (blocks (trk_heap t')) - arrays t' = dom (blocks (trk_heap t)) - arrays t \<and>
    kept (arrays t) (trk_heap t) (trk_heap t')"
  proof (cases ?f)
    case (Some i)
    then have "t' = trk_store (put_obj (trk_slot (TRK t ?k) i) p st) t"
      using run p(1) by (simp add: TRK_alloc_buf_def Let_def)
    with put_ok [OF t _ _ p this] find_bucket(1) [OF Some] show ?thesis by simp
  next
    case None
    then obtain q h where r: "DFL_ck_realloc_block True al (TRK t ?k) ((TRK_cnt t ?k + 1) * TRK_obj_size) (trk_heap t) = Inr (q, h)"
      "t' = (trk_store (put_obj (trk_slot q ?n) p st) (t\<lparr>trk_heap := h, TRK := (TRK t)(?k := q)\<rparr>))
        \<lparr>TRK_cnt := (TRK_cnt t)(?k := TRK_cnt t ?k + 1)\<rparr>"
      using run p(1) by (auto simp: TRK_alloc_buf_def Let_def ebind_Inr_iff)
    let ?g = "grown t ?k q h"
    have t': "t' = trk_store (put_obj (trk_slot (TRK ?g ?k) ?n) p st) ?g"
      by (simp add: r(2) trk_store_def) (simp add: grown_def)
    note G = grown_ok [OF al t TRKH_less r(1)]
    have s: "sites ?g = sites t" using G(2,3) by (rule sites_grown)
    have n: "unat (TRK_cnt ?g ?k) = ?n + 1"
      using arr_okD(1) [OF trk_wfD(1) [OF t TRKH_less]] t unat_obj_bytes(1) by (simp add: trk_wf_def)
    have at: "?n < unat (TRK_cnt ?g ?k)" "fst (bucket ?g ?k ! ?n) = 0"
      using G(2) n by (auto simp: bucket_def nth_append)
    have "sites ?g p = None" using s p(2) by simp
    note P = put_ok [OF G(1) at p(1) this t']
    have "blocks (trk_heap t) z = None \<or> z \<in> arrays t" if "z \<in> arrays ?g" for z
      using G(4) that by (auto simp: domIff)
    moreover have "kept (arrays ?g) h (trk_heap t')" using P(3) by simp
    ultimately have "kept (arrays t) (trk_heap t) (trk_heap t')" using G(5) by (intro kept_compose [OF G(5)])
    moreover have "dom (blocks (trk_heap t')) - arrays t' = dom (blocks h) - arrays ?g" by (simp add: t')
    ultimately show ?thesis using P(1,2) s G(4) by (simp add: t')
  qed
  then show "trk_wf t'" "sites t' = (sites t)(p \<mapsto> st)" "trk_log t' = trk_log t"
    "dom (blocks (trk_heap t')) - arrays t' = dom (blocks (trk_heap t)) - arrays t"
    "kept (arrays t) (trk_heap t) (trk_heap t')"
    by blast+
qed

subsection \<open>The invariant\<close>

text \<open>Every block is an array of the record or the chunk of a recorded pointer.\<close>

definition chunks_of :: "addr set \<Rightarrow> addr set" where
  "chunks_of P = (\<lambda>p. p - 8) ` P"

definition trk_ok :: "tracked \<Rightarrow> bool" where
  "trk_ok t \<longleftrightarrow> trk_wf t \<and> dom (blocks (trk_heap t)) - arrays t = chunks_of (dom (sites t))"

definition record_at :: "addr \<Rightarrow> site \<Rightarrow> (addr \<Rightarrow> site option) \<Rightarrow> addr \<Rightarrow> site option" where
  "record_at p st m = (if p = 0 then m else m(p \<mapsto> st))"

lemma sites_0 [simp]: "sites t 0 = None"
  by (simp add: sites_def)

lemma in_chunks_of [simp]: "p - 8 \<in> chunks_of P \<longleftrightarrow> p \<in> P"
  by (auto simp: chunks_of_def)

lemma block_of_chunk: "block_of p = chunks_of ({p} - {0})"
  by (simp add: block_of_def chunks_of_def)

lemma chunks_of_Un: "chunks_of (P \<union> Q) = chunks_of P \<union> chunks_of Q"
  and chunks_of_Diff: "chunks_of (P - Q) = chunks_of P - chunks_of Q"
  by (auto simp: chunks_of_def)

lemma dom_record_at: "dom (record_at p st m) = dom m \<union> ({p} - {0})"
  by (auto simp: record_at_def)

lemma recorded_ok:
  assumes al: "allocator_ok al" and t: "trk_wf t" and "sites t p = None"
    and rest: "dom (blocks (trk_heap t)) - arrays t = block_of p \<union> chunks_of (dom (sites t))"
    and run: "TRK_alloc_buf al p st t = Inr t'"
  shows "trk_ok t'" "sites t' = record_at p st (sites t)" "trk_log t' = trk_log t"
    and "kept (arrays t) (trk_heap t) (trk_heap t')"
proof -
  have "trk_ok t' \<and> sites t' = record_at p st (sites t) \<and> trk_log t' = trk_log t \<and>
    kept (arrays t) (trk_heap t) (trk_heap t')"
  proof (cases "p = 0")
    case True
    then show ?thesis
      using run t rest by (simp add: TRK_alloc_buf_def record_at_def trk_ok_def block_of_def kept_def)
  next
    case False
    note A = alloc_buf_ok [OF al t False assms(3) run]
    have "block_of p \<union> chunks_of (dom (sites t)) = chunks_of (dom (sites t'))"
      using False by (simp add: A(2) block_of_chunk flip: chunks_of_Un)
    with A False rest show ?thesis by (simp add: trk_ok_def record_at_def)
  qed
  then show "trk_ok t'" "sites t' = record_at p st (sites t)" "trk_log t' = trk_log t"
    "kept (arrays t) (trk_heap t) (trk_heap t')" by blast+
qed

text \<open>The operation of the layer below: the record does not see it.\<close>

lemma arrays_heap [simp]: "arrays (t\<lparr>trk_heap := h\<rparr>) = arrays t"
  by (simp add: arrays_def)

lemma below_ok:
  assumes t: "trk_ok t" and arg: "ck_arg op = 0 \<or> ck_arg op \<in> dom (sites t)"
    and r: "op_result op (trk_heap t) p h"
  shows "trk_wf (t\<lparr>trk_heap := h\<rparr>)" "sites (t\<lparr>trk_heap := h\<rparr>) = sites t"
    and "dom (blocks h) - arrays t = block_of p \<union> chunks_of (dom (sites t) - {ck_arg op})"
    and "sites t p = None \<or> p = ck_arg op"
proof -
  let ?a = "ck_arg op" and ?h = "trk_heap t"
  have t': "trk_wf t" "dom (blocks ?h) - arrays t = chunks_of (dom (sites t))" using t by (simp_all add: trk_ok_def)
  have R: "ck_heap h" "kept (block_of ?a) ?h h" "dom (blocks h) = block_of p \<union> (dom (blocks ?h) - block_of ?a)"
    "block_of p \<inter> (dom (blocks ?h) - block_of ?a) = {}"
    using r by (simp_all add: op_result_def)
  have "block_of ?a \<subseteq> chunks_of (dom (sites t))" using arg by (auto simp: block_of_def)
  then have a: "block_of ?a \<subseteq> dom (blocks ?h) - arrays t" unfolding t'(2) .
  then have apart: "arrays t \<inter> block_of ?a = {}" by blast
  show "trk_wf (t\<lparr>trk_heap := h\<rparr>)" "sites (t\<lparr>trk_heap := h\<rparr>) = sites t"
    using trk_frame [OF t'(1) R(1,2) apart] by simp_all
  have "arrays t \<subseteq> dom (blocks ?h) - block_of ?a" using arrays_in_use [OF t'(1)] apart by blast
  then have "dom (blocks h) - arrays t = block_of p \<union> (chunks_of (dom (sites t)) - block_of ?a)"
    using R(3,4) t'(2) by blast
  also have "chunks_of (dom (sites t)) - block_of ?a = chunks_of (dom (sites t) - {?a})"
  proof -
    have "dom (sites t) - ({?a} - {0}) = dom (sites t) - {?a}" by auto
    then show ?thesis by (simp only: block_of_chunk flip: chunks_of_Diff)
  qed
  finally show "dom (blocks h) - arrays t = block_of p \<union> chunks_of (dom (sites t) - {?a})" .
  show "sites t p = None \<or> p = ?a"
  proof (rule ccontr)
    assume "\<not> (sites t p = None \<or> p = ?a)"
    then have p: "p \<in> dom (sites t)" "p \<noteq> ?a" "p \<noteq> 0" by auto
    then have "p - 8 \<in> dom (blocks ?h) - arrays t" "p - 8 \<in> block_of p"
      unfolding t'(2) by (simp_all add: block_of_def)
    then have "p - 8 \<in> block_of ?a" using R(4) by blast
    with p(2) show False by (simp add: block_of_def split: if_splits)
  qed
qed

subsection \<open>One operation of a program\<close>

text \<open>What an operation promises: an exact record, the users' other chunks, no output.\<close>

definition tracked_result :: "ck_op \<Rightarrow> site \<Rightarrow> tracked \<Rightarrow> addr \<Rightarrow> tracked \<Rightarrow> bool" where
  "tracked_result op st t p t' \<longleftrightarrow>
     trk_ok t' \<and> sites t' = record_at p st ((sites t)(ck_arg op := None)) \<and> trk_log t' = trk_log t \<and>
     kept (arrays t \<union> block_of (ck_arg op)) (trk_heap t) (trk_heap t')"

lemma tracked_new:
  assumes al: "allocator_ok al" and t: "trk_ok t" and "ck_arg op = 0" and r: "op_result op (trk_heap t) p h"
    and run: "TRK_alloc_buf al p st (t\<lparr>trk_heap := h\<rparr>) = Inr t'"
  shows "tracked_result op st t p t'"
proof -
  note B = below_ok [OF t disjI1 [OF assms(3)] r]
  have z: "sites t 0 = None" "dom (sites t) - {0} = dom (sites t)" by auto
  have n: "sites (t\<lparr>trk_heap := h\<rparr>) p = None" using B(2,4) assms(3) by auto
  have rest: "dom (blocks (trk_heap (t\<lparr>trk_heap := h\<rparr>))) - arrays (t\<lparr>trk_heap := h\<rparr>) =
      block_of p \<union> chunks_of (dom (sites (t\<lparr>trk_heap := h\<rparr>)))"
    using B(2,3) assms(3) z(2) by simp
  note A = recorded_ok [OF al B(1) n rest run]
  have "kept (arrays t) (trk_heap t) h" using r assms(3) by (auto simp: op_result_def block_of_def intro: kept_mono)
  then have "kept (arrays t) (trk_heap t) (trk_heap t')" using A(4) by (auto intro: kept_trans)
  moreover have "(sites t)(0 := None) = sites t" using z(1) by (rule fun_upd_idem)
  ultimately show ?thesis using A(1-3) B(2) assms(3) by (simp add: tracked_result_def block_of_def)
qed

lemma tracked_moved:
  assumes al: "allocator_ok al" and t: "trk_ok t" and arg: "ck_arg op = 0 \<or> ck_arg op \<in> dom (sites t)"
    and r: "op_result op (trk_heap t) p h"
    and run: "TRK_alloc_buf al p st (TRK_free_buf (ck_arg op) st (t\<lparr>trk_heap := h\<rparr>)) = Inr t'"
  shows "tracked_result op st t p t'"
proof (cases "ck_arg op = 0")
  case True
  then show ?thesis using run by (intro tracked_new [OF al t True r]) (simp add: TRK_free_buf_def)
next
  case False
  let ?a = "ck_arg op" and ?t1 = "t\<lparr>trk_heap := h\<rparr>"
  let ?t2 = "TRK_free_buf ?a st ?t1"
  note B = below_ok [OF t arg r]
  have a: "?a \<in> dom (sites ?t1)" using arg False B(2) by simp
  note F = free_buf_ok [OF B(1) a, of st]
  have n: "sites ?t2 p = None" using B(2,4) F(2) by auto
  have rest: "dom (blocks (trk_heap ?t2)) - arrays ?t2 = block_of p \<union> chunks_of (dom (sites ?t2))"
    using F(2-4) B(2,3) by simp
  note A = recorded_ok [OF al F(1) n rest run]
  have "kept (arrays t \<union> block_of ?a) (trk_heap t) h"
    using r by (auto simp: op_result_def intro: kept_mono)
  moreover have "kept (arrays t \<union> block_of ?a) h (trk_heap ?t2)"
    using F(6) by (auto intro: kept_mono)
  moreover have "kept (arrays t \<union> block_of ?a) (trk_heap ?t2) (trk_heap t')"
    using A(4) F(4) by (auto intro: kept_mono)
  ultimately have "kept (arrays t \<union> block_of ?a) (trk_heap t) (trk_heap t')" by (blast intro: kept_trans)
  then show ?thesis using A(1-3) F(2,5) B(2) by (simp add: tracked_result_def)
qed

lemma tracked_chunk:
  assumes "trk_ok t" and "p \<in> dom (sites t)"
  shows "ck_ptr (trk_heap t) p" "p \<noteq> 0" "p - 8 \<notin> arrays t"
proof -
  have "p - 8 \<in> dom (blocks (trk_heap t)) - arrays t" using assms by (simp add: trk_ok_def)
  then show "ck_ptr (trk_heap t) p" "p - 8 \<notin> arrays t" by (auto simp: ck_ptr_def)
  show "p \<noteq> 0" using assms(2) by (auto intro: ccontr)
qed

lemma tracked_free:
  assumes al: "allocator_ok al" and t: "trk_ok t" and arg: "p = 0 \<or> p \<in> dom (sites t)"
    and run: "TRK_ck_free al p st t = Inr t'"
  shows "tracked_result (Ck_free p) st t 0 t'"
proof (cases "p = 0")
  case True
  then have "t' = t" using run by (simp add: TRK_ck_free_def TRK_free_buf_def DFL_ck_free_def Let_def)
  moreover have "(sites t)(0 := None) = sites t" by (rule fun_upd_idem) simp
  ultimately show ?thesis
    using t True by (simp add: tracked_result_def record_at_def kept_def)
next
  case False
  then have p: "p \<in> dom (sites t)" using arg by simp
  let ?t1 = "TRK_free_buf p st t"
  have t': "trk_wf t" "dom (blocks (trk_heap t)) - arrays t = chunks_of (dom (sites t))" using t by (simp_all add: trk_ok_def)
  note F = free_buf_ok [OF t'(1) p, of st]
  obtain h where h: "DFL_ck_free True al p (trk_heap ?t1) = Inr h" "t' = ?t1\<lparr>trk_heap := h\<rparr>"
    using run by (auto simp: TRK_ck_free_def Let_def ebind_Inr_iff)
  have H: "ck_heap (trk_heap ?t1)" using F(1) by (simp add: trk_wf_def)
  have ptr: "ck_ptr (trk_heap ?t1) p"
    using tracked_chunk(1) [OF t p] F(3) by (auto simp: ck_ptr_def domIff [symmetric])
  note R = op_result_free [OF al H disjI2 [OF ptr] h(1), of "Ck_free p"]
  then have R: "ck_heap h" "kept {p - 8} (trk_heap ?t1) h" "dom (blocks h) = dom (blocks (trk_heap ?t1)) - {p - 8}"
    using False by (simp_all add: op_result_def block_of_def)
  have "arrays ?t1 \<inter> {p - 8} = {}" using tracked_chunk(3) [OF t p] F(4) by simp
  note W = trk_frame [OF F(1) R(1,2) this]
  have "dom (blocks h) - arrays t = chunks_of (dom (sites t)) - {p - 8}"
    using R(3) F(3) t'(2) by auto
  also have "\<dots> = chunks_of (dom (sites t) - {p})" by (simp add: chunks_of_Diff) (simp add: chunks_of_def)
  finally have "trk_ok t'" using W F(2,4) by (simp add: h(2) trk_ok_def)
  moreover have "sites t' = (sites t)(p := None)" using W(2) F(2) by (simp add: h(2))
  moreover have "trk_log t' = trk_log t" using F(5) by (simp add: h(2))
  moreover have "kept (arrays t \<union> {p - 8}) (trk_heap t) (trk_heap t')"
    unfolding h(2) by (rule kept_trans [OF kept_mono [OF F(6)]]) (simp_all add: kept_mono [OF R(2)] subset_insertI)
  ultimately show ?thesis using False by (simp add: tracked_result_def record_at_def block_of_def)
qed

lemma below_new:
  assumes "allocator_ok al" and "ck_heap h"
  shows "DFL_ck_alloc al sz h = Inr (p, h') \<Longrightarrow> ck_arg op = 0 \<Longrightarrow> op_result op h p h'"
    and "DFL_ck_memdup al m sz h = Inr (p, h') \<Longrightarrow> ck_arg op = 0 \<Longrightarrow> op_result op h p h'"
    and "DFL_ck_strdup al m h = Some (Inr (p, h')) \<Longrightarrow> ck_arg op = 0 \<Longrightarrow> op_result op h p h'"
  using ck_exec_result [OF assms, of "Ck_alloc sz" True p h'] ck_exec_result [OF assms, of "Ck_memdup m sz" True p h']
    op_result_strdup [OF assms, of m p h' op]
  by (simp_all add: op_result_def arg_ok_def)

lemma then_record_Inr:
  "trk_then_record al st t r = Inr (p, t') \<longleftrightarrow>
     (\<exists>h. r = Inr (p, h) \<and> TRK_alloc_buf al p st (t\<lparr>trk_heap := h\<rparr>) = Inr t')"
  by (auto simp: trk_then_record_def ebind_Inr_iff)

lemma realloc_block_debug: "TRK_ck_realloc_block = TRK_ck_realloc"
  by (simp add: fun_eq_iff TRK_ck_realloc_block_def TRK_ck_realloc_def DFL_ck_realloc_block_def)

lemma tracked_then_record:
  assumes "allocator_ok al" "trk_ok t" "ck_arg op = 0" "trk_then_record al st t r = Inr (p, t')"
    and "\<And>h. r = Inr (p, h) \<Longrightarrow> op_result op (trk_heap t) p h"
  shows "tracked_result op st t p t'"
  using assms(4,5) tracked_new [OF assms(1-3)] by (auto simp: then_record_Inr)

lemma tracked_realloc:
  assumes al: "allocator_ok al" and t: "trk_ok t" and arg: "ck_arg op = 0 \<or> ck_arg op \<in> dom (sites t)"
    and run: "TRK_ck_realloc al (ck_arg op) sz st t = Inr (p, t')"
  shows "tracked_result op st t p t'"
proof -
  have H: "ck_heap (trk_heap t)" using t by (simp add: trk_ok_def trk_wf_def)
  obtain h where r: "DFL_ck_realloc True al (ck_arg op) sz (trk_heap t) = Inr (p, h)"
    "TRK_alloc_buf al p st (TRK_free_buf (ck_arg op) st (t\<lparr>trk_heap := h\<rparr>)) = Inr t'"
    using run by (auto simp: TRK_ck_realloc_def Let_def ebind_Inr_iff)
  have "ck_arg op = 0 \<or> ck_ptr (trk_heap t) (ck_arg op)" using arg tracked_chunk(1) [OF t] by blast
  from tracked_moved [OF al t arg op_result_realloc [OF al H this r(1) refl] r(2)] show ?thesis .
qed

lemma trk_exec_result:
  assumes al: "allocator_ok al" and t: "trk_ok t" and arg: "ck_arg op = 0 \<or> ck_arg op \<in> dom (sites t)"
    and "\<not> breaks_canary op" and run: "trk_exec al op st t = Some (Inr (p, t'))"
  shows "tracked_result op st t p t'"
proof -
  have H: "ck_heap (trk_heap t)" using t by (simp add: trk_ok_def trk_wf_def)
  note N = below_new [OF al H] and T = tracked_then_record [OF al t] and R = tracked_realloc [OF al t arg]
  show ?thesis
  proof (cases op)
    case (Ck_alloc_nozero sz)
    then show ?thesis using run N(1) [of sz p _ op] by (intro T) (simp_all add: TRK_ck_alloc_def)
  next
    case (Ck_alloc sz)
    then show ?thesis using run N(1) [of sz p _ op] by (intro T) (simp_all add: TRK_ck_alloc_def)
  next
    case (Ck_free q)
    then show ?thesis using run arg tracked_free [OF al t] by (auto simp: ebind_Inr_iff)
  next
    case (Ck_realloc q sz)
    then show ?thesis using run R [of sz st p t'] by simp
  next
    case (Ck_realloc_block q sz)
    then show ?thesis using run R [of sz st p t'] by (simp add: realloc_block_debug)
  next
    case (Ck_strdup q)
    then obtain r where r: "DFL_ck_strdup al q (trk_heap t) = Some r" "trk_then_record al st t r = Inr (p, t')"
      using run by (auto simp: TRK_ck_strdup_def)
    then show ?thesis using Ck_strdup N(3) [of q p _ op] by (intro T [OF _ r(2)]) simp_all
  next
    case (Ck_memdup m sz)
    then show ?thesis using run N(2) [of m sz p _ op] by (intro T) (simp_all add: TRK_ck_memdup_def)
  next
    case (Ck_memdup_str m sz)
    then show ?thesis using assms(4) by simp
  qed
qed

lemma alloc_buf_refused:
  assumes "allocator_ok al" and t: "trk_wf t" and run: "TRK_alloc_buf al p st t = Inl f"
  shows "refused f"
proof -
  have H: "ck_heap (trk_heap t)" using t by (simp add: trk_wf_def)
  have "TRK t (TRKH p) = 0 \<or> ck_ptr (trk_heap t) (TRK t (TRKH p))"
    using arr_okD(5) [OF trk_wfD(1) [OF t TRKH_less] H] by blast
  note R = realloc_refused [OF assms(1) H this]
  show ?thesis
    using run R by (auto simp: TRK_alloc_buf_def Let_def ebind_Inl_iff DFL_ck_realloc_block_def split: if_splits option.splits)
qed

text \<open>The reasons for which an operation of a debug build stops.\<close>

lemma then_record_refused:
  assumes al: "allocator_ok al" and t: "trk_ok t" and "ck_arg op = 0"
    and r: "\<And>p h. r = Inr (p, h) \<Longrightarrow> op_result op (trk_heap t) p h" and "\<And>f. r = Inl f \<Longrightarrow> refused f"
    and run: "trk_then_record al st t r = Inl f"
  shows "refused f"
proof (cases r)
  case (Inl g)
  then show ?thesis using run assms(5) by (simp add: trk_then_record_def)
next
  case (Inr ph)
  then obtain p h where ph: "r = Inr (p, h)" by (cases ph) simp
  then have "TRK_alloc_buf al p st (t\<lparr>trk_heap := h\<rparr>) = Inl f"
    using run by (simp add: trk_then_record_def ebind_Inl_iff)
  then show ?thesis by (rule alloc_buf_refused [OF al below_ok(1) [OF t disjI1 [OF assms(3)] r [OF ph]]])
qed

lemma tracked_realloc_refused:
  assumes al: "allocator_ok al" and t: "trk_ok t" and arg: "q = 0 \<or> q \<in> dom (sites t)"
    and run: "TRK_ck_realloc al q sz st t = Inl f"
  shows "refused f"
proof -
  have H: "ck_heap (trk_heap t)" using t by (simp add: trk_ok_def trk_wf_def)
  have ptr: "q = 0 \<or> ck_ptr (trk_heap t) q" using arg tracked_chunk(1) [OF t] by blast
  show ?thesis
  proof (cases "DFL_ck_realloc True al q sz (trk_heap t)")
    case (Inl g)
    then show ?thesis using run realloc_refused [OF al H ptr Inl] by (simp add: TRK_ck_realloc_def)
  next
    case (Inr ph)
    then obtain p h where ph: "DFL_ck_realloc True al q sz (trk_heap t) = Inr (p, h)" by (cases ph) simp
    let ?t1 = "t\<lparr>trk_heap := h\<rparr>"
    have "TRK_alloc_buf al p st (TRK_free_buf q st ?t1) = Inl f"
      using run by (simp add: TRK_ck_realloc_def ph Let_def ebind_Inl_iff)
    moreover have "trk_wf (TRK_free_buf q st ?t1)"
    proof -
      have "op_result (Ck_realloc q sz) (trk_heap t) p h" by (rule op_result_realloc [OF al H ptr ph]) simp
      from below_ok(1,2) [OF t _ this] arg have "trk_wf ?t1" "sites ?t1 = sites t" by simp_all
      then show ?thesis using arg free_buf_ok(1) [of ?t1 q st] by (cases "q = 0") (auto simp: TRK_free_buf_def)
    qed
    ultimately show ?thesis using alloc_buf_refused [OF al] by blast
  qed
qed

lemma tracked_free_refused:
  assumes al: "allocator_ok al" and t: "trk_ok t" and arg: "q = 0 \<or> q \<in> dom (sites t)"
  shows "TRK_ck_free al q st t \<noteq> Inl f"
proof (cases "q = 0")
  case False
  then have q: "q \<in> dom (sites t)" using arg by simp
  have wf: "trk_wf t" using t by (simp add: trk_ok_def)
  note F = free_buf_ok [OF wf q, of st]
  have "ck_ptr (trk_heap (TRK_free_buf q st t)) q"
    using tracked_chunk(1) [OF t q] F(3) by (auto simp: ck_ptr_def domIff [symmetric])
  moreover have "ck_heap (trk_heap (TRK_free_buf q st t))" using F(1) by (simp add: trk_wf_def)
  ultimately show ?thesis
    using free_not_refused [OF al, of _ q True f] by (simp add: TRK_ck_free_def Let_def ebind_Inl_iff)
qed (simp add: TRK_ck_free_def TRK_free_buf_def DFL_ck_free_def)

lemma below_new_refused:
  shows "DFL_ck_alloc al sz h = Inl f \<Longrightarrow> refused f" and "DFL_ck_memdup al m sz h = Inl f \<Longrightarrow> refused f"
    and "DFL_ck_strdup al m h = Some (Inl f) \<Longrightarrow> refused f"
proof -
  show "DFL_ck_alloc al sz h = Inl f \<Longrightarrow> refused f"
    using ck_new_refused [of al sz 0 h f] by (auto simp: DFL_ck_alloc_def DFL_ck_alloc_nozero_def ebind_Inl_iff split: if_splits)
  show "DFL_ck_memdup al m sz h = Inl f \<Longrightarrow> refused f"
    using ck_new_refused [of al sz 0 h f] by (auto simp: DFL_ck_memdup_def ebind_Inl_iff split: if_splits)
  show "DFL_ck_strdup al m h = Some (Inl f) \<Longrightarrow> refused f"
    using ck_new_refused [of al _ 0 h f] by (auto simp: DFL_ck_strdup_def ebind_Inl_iff Let_def split: if_splits option.splits)
qed

lemma trk_exec_refused:
  assumes al: "allocator_ok al" and t: "trk_ok t" and arg: "ck_arg op = 0 \<or> ck_arg op \<in> dom (sites t)"
    and "\<not> breaks_canary op" and run: "trk_exec al op st t = Some (Inl f)"
  shows "refused f"
proof -
  have H: "ck_heap (trk_heap t)" using t by (simp add: trk_ok_def trk_wf_def)
  note N = below_new [OF al H] and T = then_record_refused [OF al t]
  have alloc: "refused f" if "TRK_ck_alloc al sz st t = Inl f" for sz
    by (rule T [of "Ck_alloc sz", OF _ N(1) below_new_refused(1) that [unfolded TRK_ck_alloc_def]]) simp_all
  show ?thesis
  proof (cases op)
    case (Ck_alloc_nozero sz)
    then show ?thesis using run alloc by simp
  next
    case (Ck_alloc sz)
    then show ?thesis using run alloc by simp
  next
    case (Ck_free q)
    then show ?thesis using run arg tracked_free_refused [OF al t, of q st f] by (simp add: ebind_Inl_iff)
  next
    case (Ck_realloc q sz)
    then show ?thesis using run arg tracked_realloc_refused [OF al t, of q sz st f] by simp
  next
    case (Ck_realloc_block q sz)
    then show ?thesis using run arg tracked_realloc_refused [OF al t, of q sz st f] by (simp add: realloc_block_debug)
  next
    case (Ck_strdup q)
    then obtain r where r: "DFL_ck_strdup al q (trk_heap t) = Some r" "trk_then_record al st t r = Inl f"
      using run by (auto simp: TRK_ck_strdup_def)
    show ?thesis
      using r(1) Ck_strdup N(3) [of q _ _ op] below_new_refused(3) [of al q "trk_heap t"]
      by (intro T [OF _ _ _ r(2), of op]) simp_all
  next
    case (Ck_memdup m sz)
    have "trk_then_record al st t (DFL_ck_memdup al m sz (trk_heap t)) = Inl f"
      using run Ck_memdup by (simp add: TRK_ck_memdup_def)
    from T [of op, OF _ N(2) below_new_refused(2) this] Ck_memdup show ?thesis by simp
  next
    case (Ck_memdup_str m sz)
    then show ?thesis using assms(4) by simp
  qed
qed

subsection \<open>The report\<close>

text \<open>The recorded pointers, bucket by bucket.\<close>

definition recorded :: "tracked \<Rightarrow> nat \<Rightarrow> addr list" where
  "recorded t k = filter (\<lambda>q. q \<noteq> 0) (map fst (bucket t k))"

lemma recorded_sites:
  assumes t: "trk_wf t" and k: "k < 4096"
  shows "distinct (recorded t k)" and "set (recorded t k) = {p \<in> dom (sites t). TRKH p = k}"
    and "bucket_sites t k = map (\<lambda>p. the (sites t p)) (recorded t k)"
proof -
  let ?xs = "bucket t k"
  have ok: "bucket_ok k ?xs" by (rule trk_wfD(2) [OF t k])
  show d: "distinct (recorded t k)" using ok by (simp add: bucket_ok_def recorded_def)
  have m: "map_of ?xs (fst x) = Some (snd x)" if x: "x \<in> set ?xs" "fst x \<noteq> 0" for x
  proof -
    obtain us vs where d: "?xs = us @ x # vs" using split_list [OF x(1)] by blast
    then have "fst x \<notin> set (map fst us)" using ok x(2) by (auto simp: bucket_ok_def)
    then have "map_of us (fst x) = None" by (simp add: map_of_eq_None_iff)
    then show ?thesis by (cases x) (simp add: d map_add_def)
  qed
  have tag: "TRKH (fst x) = k" if "x \<in> set ?xs" "fst x \<noteq> 0" for x
    using ok that by (auto simp: bucket_ok_def)
  show "set (recorded t k) = {p \<in> dom (sites t). TRKH p = k}"
  proof (intro equalityI subsetI)
    fix p assume "p \<in> set (recorded t k)"
    then obtain x where "x \<in> set ?xs" "fst x = p" "p \<noteq> 0" by (auto simp: recorded_def)
    then show "p \<in> {p \<in> dom (sites t). TRKH p = k}" using m [of x] tag [of x] by (auto simp: sites_def)
  next
    fix p assume "p \<in> {p \<in> dom (sites t). TRKH p = k}"
    then have "p \<noteq> 0" "map_of ?xs p \<noteq> None" by (auto simp: sites_def split: if_splits)
    then show "p \<in> set (recorded t k)" unfolding map_of_eq_None_iff by (auto simp: recorded_def)
  qed
  have "bucket_sites t k = map snd (filter (\<lambda>x. fst x \<noteq> 0) ?xs)"
    by (simp add: bucket_sites_def bucket_def objs_def filter_map comp_def Let_def)
  also have "\<dots> = map (\<lambda>x. the (sites t (fst x))) (filter (\<lambda>x. fst x \<noteq> 0) ?xs)"
    using m tag by (intro map_cong) (auto simp: sites_def)
  also have "\<dots> = map (\<lambda>p. the (sites t p)) (recorded t k)"
    by (simp add: recorded_def filter_map comp_def)
  finally show "bucket_sites t k = map (\<lambda>p. the (sites t p)) (recorded t k)" .
qed

lemma report_exact:
  assumes t: "trk_wf t"
  obtains ps where "distinct ps" "set ps = dom (sites t)"
    "trk_log (TRK_report t) = trk_log t @ map (\<lambda>p. Never_freed (the (sites t p))) ps"
proof
  let ?ps = "concat (map (recorded t) [0..<4096])"
  note R = recorded_sites [OF t]
  have apart: "set (recorded t k) \<inter> set (recorded t l) = {}" if "k < 4096" "l < 4096" "k \<noteq> l" for k l
    using that by (auto simp: R(2))
  have dist: "distinct (concat (map (recorded t) ks))" if "distinct ks" "set ks \<subseteq> {..<4096}" for ks
    using that
  proof (induction ks)
    case (Cons k ks)
    have "set (recorded t k) \<inter> set (recorded t l) = {}" if "l \<in> set ks" for l
      using Cons.prems that by (intro apart) auto
    then show ?case using Cons R(1) [of k] by auto
  qed simp
  show "distinct ?ps" by (rule dist) (rule distinct_upt, unfold set_upt, auto)
  show "set ?ps = dom (sites t)" by (auto simp: R(2))
  have "concat (map (bucket_sites t) [0..<4096]) = map (\<lambda>p. the (sites t p)) ?ps"
    unfolding map_concat map_map by (intro arg_cong [of _ _ concat] map_cong) (simp_all add: R(3))
  then show "trk_log (TRK_report t) = trk_log t @ map (\<lambda>p. Never_freed (the (sites t p))) ?ps"
    by (simp add: TRK_report_def ALLOC_BUCKETS_def map_map comp_def)
qed

subsection \<open>Programs in a debug build\<close>

text \<open>
  A program that starts with an empty record, passes only pointers in use, writes only inside its
  buffers and does not call \<open>ck_memdup_str\<close>; the map holds, for each pointer it has been given and has not given back, the place of the
  call that returned it.
\<close>

definition no_records :: "tracked \<Rightarrow> bool" where
  "no_records t \<longleftrightarrow> blocks (trk_heap t) = Map.empty \<and> TRK t = (\<lambda>_. 0) \<and> TRK_cnt t = (\<lambda>_. 0) \<and> trk_log t = []"

inductive trk_run :: "allocator \<Rightarrow> tracked \<Rightarrow> (addr \<Rightarrow> site option) \<Rightarrow> bool" for al where
  start: "no_records t \<Longrightarrow> trk_run al t Map.empty"
| call: "trk_run al t m \<Longrightarrow> ck_arg op = 0 \<or> ck_arg op \<in> dom m \<Longrightarrow> \<not> breaks_canary op \<Longrightarrow>
    trk_exec al op st t = Some (Inr (p, t')) \<Longrightarrow> trk_run al t' (record_at p st (m(ck_arg op := None)))"
| store: "trk_run al t m \<Longrightarrow> r \<in> dom m \<Longrightarrow> unat (x - r) < chunk_size (bytes (trk_heap t)) (r - 8) \<Longrightarrow>
    trk_run al (trk_store (\<lambda>b. b(x := v)) t) m"

lemma no_records_ok: "no_records t \<Longrightarrow> trk_ok t \<and> sites t = Map.empty"
proof -
  assume t: "no_records t"
  have b: "bucket t k = []" for k using t by (simp add: no_records_def bucket_def objs_def)
  then have s: "sites t = Map.empty" by (simp add: sites_def fun_eq_iff)
  have "trk_wf t"
    using t b ck_heap_empty by (simp add: trk_wf_def no_records_def arr_ok_def bucket_ok_def)
  then show ?thesis using s t by (simp add: trk_ok_def no_records_def chunks_of_def)
qed

lemma user_store_ok:
  assumes t: "trk_ok t" and r: "r \<in> dom (sites t)" "unat (x - r) < chunk_size (bytes (trk_heap t)) (r - 8)"
  shows "trk_ok (trk_store (\<lambda>b. b(x := v)) t)" and "sites (trk_store (\<lambda>b. b(x := v)) t) = sites t"
proof -
  let ?h = "(trk_heap t)\<lparr>bytes := (bytes (trk_heap t))(x := v)\<rparr>"
  have t': "trk_wf t" "ck_heap (trk_heap t)" using t by (simp_all add: trk_ok_def trk_wf_def)
  note c = tracked_chunk [OF t r(1)]
  have out: "((bytes (trk_heap t))(x := v)) y = bytes (trk_heap t) y"
    if "\<not> in_block r (chunk_size (bytes (trk_heap t)) (r - 8)) y" for y
    using that r(2) by (auto simp: in_block_def)
  note w = user_write [where b = "(bytes (trk_heap t))(x := v)", OF t'(2) c(1) out]
  have e: "trk_store (\<lambda>b. b(x := v)) t = t\<lparr>trk_heap := ?h\<rparr>" by (simp add: trk_store_def)
  have "arrays t \<inter> {r - 8} = {}" using c(3) by simp
  note F = trk_frame [where h' = ?h, OF t'(1) w(1,3) this]
  show "sites (trk_store (\<lambda>b. b(x := v)) t) = sites t" unfolding e using F(2) .
  with F(1) t show "trk_ok (trk_store (\<lambda>b. b(x := v)) t)" unfolding e trk_ok_def by simp
qed

lemma trk_run_ok:
  assumes al: "allocator_ok al" and "trk_run al t m"
  shows "trk_ok t \<and> sites t = m \<and> trk_log t = []"
  using assms(2)
proof (induction rule: trk_run.induct)
  case (start t)
  then show ?case using no_records_ok by (simp add: no_records_def)
next
  case (call t m op st p t')
  then show ?case using trk_exec_result [OF al, of t op st p t'] by (auto simp: tracked_result_def)
next
  case (store t m r x v)
  then show ?case using user_store_ok [of t r x v] by simp
qed

text \<open>
  C18: In a debug build the record of allocations refines a map from pointers to the places that
  allocated them: each operation but \<open>ck_memdup_str\<close>, given a pointer in use, takes its argument out of
  the map and puts its result in, and the map has an entry for exactly the pointers in use.  The other
  chunks keep their bytes, nothing is written to the terminal, and the operation stops only for the
  size limit or for want of memory.  (\<open>ck_memdup_str\<close> returns a block with a broken canary, which is not
  in use in this sense: \<open>memdup_str_result_cannot_be_freed\<close> in \<open>Alloc_Safe\<close>.)
\<close>

theorem debug_build_tracks_exactly:
  assumes "allocator_ok al" and "trk_ok t" and "ck_arg op = 0 \<or> ck_arg op \<in> dom (sites t)"
    and "\<not> breaks_canary op" and "trk_exec al op st t = Some res"
  shows "case res of
      Inl f \<Rightarrow> f = Aborted ''Bad alloc request'' \<or> f = Aborted ''Out of memory''
    | Inr (p, t') \<Rightarrow> trk_ok t' \<and> trk_log t' = trk_log t \<and>
        sites t' = record_at p st ((sites t)(ck_arg op := None)) \<and>
        kept (arrays t \<union> block_of (ck_arg op)) (trk_heap t) (trk_heap t')"
proof (cases res)
  case (Inl f)
  then show ?thesis using trk_exec_refused [OF assms(1-4), of st f] assms(5) by (simp add: refused_def)
next
  case (Inr pt)
  then obtain p t' where pt: "res = Inr (p, t')" by (cases pt) simp
  then show ?thesis using trk_exec_result [OF assms(1-4), of st p t'] assms(5) by (simp add: tracked_result_def)
qed

text \<open>
  C36: After any run of a program that passes only pointers in use, writes only inside its buffers and
  does not call \<open>ck_memdup_str\<close>, nothing has been reported, and the final report has one line for each
  pointer that the program has not given back, and no other; the line names the call that returned
  the pointer.
\<close>

theorem report_names_exactly_the_leaks:
  assumes "allocator_ok al" and "trk_run al t m"
  shows "\<exists>ps. distinct ps \<and> set ps = dom m \<and> trk_log (TRK_report t) = map (\<lambda>p. Never_freed (the (m p))) ps"
proof -
  have t: "trk_ok t" "sites t = m" "trk_log t = []" using trk_run_ok [OF assms] by blast+
  then have "trk_wf t" by (simp add: trk_ok_def)
  from report_exact [OF this] show ?thesis unfolding t(2,3) by simp metis
qed

subsection \<open>Witnesses\<close>

definition empty_record :: tracked where
  "empty_record = \<lparr>trk_heap = empty_heap, TRK = (\<lambda>_. 0), TRK_cnt = (\<lambda>_. 0), trk_log = []\<rparr>"

definition demo_site :: site where
  "demo_site = \<lparr>s_file = 0x402000, s_func = 0x402010, s_line = 138\<rparr>"

lemma empty_record_ok: "no_records empty_record"
  by (simp add: no_records_def empty_record_def empty_heap_def)

lemma demo_alloc:
  obtains t' where "trk_exec two_blocks (Ck_alloc 16) demo_site empty_record = Some (Inr (0x1008, t'))"
proof -
  let ?b = "c_memset 0x1008 0 16 (set_canaries 0x1008 16 (\<lambda>_. 0))"
  let ?h = "\<lparr>bytes = ?b, blocks = [0x1000 \<mapsto> 25]\<rparr>"
  have "DFL_ck_alloc two_blocks 16 empty_heap = Inr (0x1008, ?h)"
    by (simp add: DFL_ck_alloc_def DFL_ck_alloc_nozero_def ck_new_def c_malloc_def two_blocks_def empty_heap_def
        ALLOC_CHECK_SIZE_def MAX_ALLOC_def ALLOC_OFF_TOTAL_def ALLOC_OFF_HEAD_def Let_def)
  moreover have "\<exists>h. DFL_ck_realloc_block True two_blocks 0 32 ?h = Inr (0x3008, h)"
    by (simp add: DFL_ck_realloc_block_def DFL_ck_realloc_def realloc_chunk_def realloc_block_def c_malloc_def
        two_blocks_def ALLOC_CHECK_SIZE_def MAX_ALLOC_def ALLOC_OFF_TOTAL_def ALLOC_OFF_HEAD_def Let_def)
  ultimately have "\<exists>t'. TRK_ck_alloc two_blocks 16 demo_site empty_record = Inr (0x1008, t')"
    by (auto simp: TRK_ck_alloc_def trk_then_record_def TRK_alloc_buf_def empty_record_def trk_find.simps
        TRK_obj_size_def Let_def)
  then show ?thesis using that by auto
qed

theorem debug_build_tracks_exactly_witness:
  "\<exists>t'. trk_exec two_blocks (Ck_alloc 16) demo_site empty_record = Some (Inr (0x1008, t')) \<and>
     trk_ok t' \<and> sites t' = [0x1008 \<mapsto> demo_site]"
proof -
  obtain t' where r: "trk_exec two_blocks (Ck_alloc 16) demo_site empty_record = Some (Inr (0x1008, t'))"
    by (rule demo_alloc)
  have t: "trk_ok empty_record" "sites empty_record = Map.empty" using no_records_ok [OF empty_record_ok] by simp_all
  show ?thesis
    using debug_build_tracks_exactly [OF two_blocks_ok t(1) _ _ r] r t(2) by (simp add: record_at_def)
qed

theorem report_names_exactly_the_leaks_witness:
  "\<exists>t. trk_run two_blocks t [0x1008 \<mapsto> demo_site] \<and> trk_log (TRK_report t) = [Never_freed demo_site]"
proof -
  obtain t where r: "trk_exec two_blocks (Ck_alloc 16) demo_site empty_record = Some (Inr (0x1008, t))"
    by (rule demo_alloc)
  have "trk_run two_blocks t (record_at 0x1008 demo_site (Map.empty(ck_arg (Ck_alloc 16) := None)))"
    by (rule trk_run.call [OF trk_run.start [OF empty_record_ok] _ _ r]) simp_all
  then have run: "trk_run two_blocks t [0x1008 \<mapsto> demo_site]" by (simp add: record_at_def)
  obtain ps :: "addr list" where ps: "distinct ps" "set ps = {0x1008}"
    "trk_log (TRK_report t) = map (\<lambda>p. Never_freed (the ([0x1008 \<mapsto> demo_site] p))) ps"
    using report_names_exactly_the_leaks [OF two_blocks_ok run] by (auto simp del: fun_upd_apply)
  from ps(1,2) have "ps = [0x1008]" by (cases ps; cases "tl ps") auto
  with run ps(3) show ?thesis by auto
qed

end
