(* ===== verification/Wasm_Signals.thy ===== *)
theory Wasm_Signals
  imports Prelude
begin

section \<open>Wasm_Signals: the patched signal handlers of Firefox\<close>

text \<open>
  \<open>WasmSignalHandlers.cpp\<close> turns faults in code that the engine compiled from WebAssembly into traps.
  FlashStack changes how its handlers are installed: without \<open>SA_ONSTACK\<close>, so that they run on the
  stack of the interrupted code.  Modelled is the release build (\<open>MOZ_ASSERT\<close> does nothing) for
  Linux on x86-64: no \<open>XP_WIN\<close>, \<open>XP_DARWIN\<close>, \<open>ANDROID\<close>, \<open>JS_CODEGEN_ARM\<close> or
  \<open>JS_CODEGEN_NONE\<close>.

  The engine (segments of code, tables of traps, frames, instances, contexts) is a parameter of type
  \<open>engine\<close>; pointers of the engine are addresses, a pointer that can be null an option.  Whether
  \<open>sigaction\<close> succeeds is a parameter too.
\<close>

subsection \<open>Signals\<close>

definition SIGILL :: nat where "SIGILL = 4"
definition SIGBUS :: nat where "SIGBUS = 7"
definition SIGSEGV :: nat where "SIGSEGV = 11"

definition kWasmTrapSignal :: nat where "kWasmTrapSignal = SIGILL"

lemmas signal_numbers = SIGILL_def SIGBUS_def SIGSEGV_def kWasmTrapSignal_def

definition SA_SIGINFO :: u32 where "SA_SIGINFO = 0x4"
definition SA_ONSTACK :: u32 where "SA_ONSTACK = 0x08000000"
definition SA_NODEFER :: u32 where "SA_NODEFER = 0x40000000"

lemmas signal_flags = SA_SIGINFO_def SA_ONSTACK_def SA_NODEFER_def

text \<open>Handlers; \<open>sa_handler\<close> and \<open>sa_sigaction\<close> are members of a union.\<close>

datatype handler = SIG_DFL | SIG_IGN | H_WasmTrapHandler | Other_handler nat

record sigaction =
  sa_flags :: u32
  sa_handler :: handler
  sa_mask :: "nat set"

subsection \<open>The context of a signal\<close>

record ucontext =
  REG_RIP :: u64
  REG_RBP :: u64
  REG_RSP :: u64

definition SetContextPC :: "ucontext \<Rightarrow> addr \<Rightarrow> ucontext" where
  "SetContextPC ctx p = ctx\<lparr>REG_RIP := p\<rparr>"

definition ContextToPC :: "ucontext \<Rightarrow> addr" where "ContextToPC ctx = REG_RIP ctx"
definition ContextToFP :: "ucontext \<Rightarrow> addr" where "ContextToFP ctx = REG_RBP ctx"
definition ContextToSP :: "ucontext \<Rightarrow> addr" where "ContextToSP ctx = REG_RSP ctx"

record RegisterState =
  rs_fp :: addr
  rs_pc :: addr
  rs_sp :: addr
  rs_lr :: addr

definition ToRegisterState :: "ucontext \<Rightarrow> RegisterState" where
  "ToRegisterState ctx =
     \<lparr>rs_fp = ContextToFP ctx, rs_pc = ContextToPC ctx, rs_sp = ContextToSP ctx, rs_lr = - 1\<rparr>"

lemmas context_simps = SetContextPC_def ContextToPC_def ContextToFP_def ContextToSP_def ToRegisterState_def

subsection \<open>The engine and the state\<close>

text \<open>
  \<open>lookupTrap\<close> is asked with the code of the segment; \<open>frame_instance\<close> is
  \<open>((Frame*)fp)->instance()\<close> and \<open>exit_frame_instance\<close> is
  \<open>Frame::fromUntaggedWasmExitFP(fp)->instance()\<close>; \<open>instance_context\<close> is the context of the runtime
  of the instance's realm.  The kinds of traps are the type \<open>'t\<close>.
\<close>

record 't engine =
  LookupCodeSegment :: "addr \<Rightarrow> addr option"
  isModule :: "addr \<Rightarrow> bool"
  segment_code :: "addr \<Rightarrow> addr"
  lookupTrap :: "addr \<Rightarrow> addr \<Rightarrow> ('t \<times> u32) option"
  trapCode :: "addr \<Rightarrow> addr"
  frame_instance :: "addr \<Rightarrow> addr"
  exit_frame_instance :: "addr \<Rightarrow> addr"
  instance_code :: "addr \<Rightarrow> addr"
  instance_context :: "addr \<Rightarrow> addr"
  memoryAccessInGuardRegion :: "addr \<Rightarrow> addr \<Rightarrow> u32 \<Rightarrow> bool"
  Trap_OutOfBounds :: 't
  Trap_IndirectCallBadSig :: 't

record InstallState =
  tried :: bool
  success :: bool

text \<open>
  The state of the file, with the signal dispositions of the process and the calls of
  \<open>startWasmTrap\<close>: the context, the trap, the offset in the bytecode and the registers.
\<close>

record 't wasm_state =
  sAlreadyHandlingTrap :: bool
  sPrevSEGVHandler :: sigaction
  sPrevSIGBUSHandler :: sigaction
  sPrevWasmTrapHandler :: sigaction
  sEagerInstallState :: InstallState
  sLazyInstallState :: InstallState
  dispositions :: "nat \<Rightarrow> sigaction"
  started_traps :: "(addr \<times> 't \<times> u32 \<times> RegisterState) list"

record js_context =
  wasmTriedToInstallSignalHandlers :: bool
  wasmHaveSignalHandlers :: bool

definition startWasmTrap :: "addr \<Rightarrow> 't \<Rightarrow> u32 \<Rightarrow> RegisterState \<Rightarrow> 't wasm_state \<Rightarrow> 't wasm_state" where
  "startWasmTrap cx trap offset regs s = s\<lparr>started_traps := started_traps s @ [(cx, trap, offset, regs)]\<rparr>"

subsection \<open>Handling a trap\<close>

definition HandleUnalignedTrap :: "ucontext \<Rightarrow> addr \<Rightarrow> addr \<Rightarrow> bool \<times> ucontext" where
  "HandleUnalignedTrap ctx p inst = (False, ctx)"

definition HandleTrap ::
  "'t engine \<Rightarrow> ucontext \<Rightarrow> bool \<Rightarrow> addr option \<Rightarrow> 't wasm_state \<Rightarrow> fault + bool \<times> ucontext \<times> 't wasm_state" where
  "HandleTrap e ctx isUnalignedSignal assertCx s =
     (let p = ContextToPC ctx
      in case LookupCodeSegment e p of
           None \<Rightarrow> Inr (False, ctx, s)
         | Some segment \<Rightarrow>
             if \<not> isModule e segment then Inr (False, ctx, s)
             else (case lookupTrap e (segment_code e segment) p of
                 None \<Rightarrow> Inr (False, ctx, s)
               | Some (trap, bytecode) \<Rightarrow>
                   let inst = frame_instance e (ContextToFP ctx)
                   in if \<not> (instance_code e inst = segment_code e segment \<or> trap = Trap_IndirectCallBadSig e)
                      then Inl (Aborted ''MOZ_RELEASE_ASSERT'')
                      else if isUnalignedSignal \<and> trap \<noteq> Trap_OutOfBounds e then Inr (False, ctx, s)
                      else let (unaligned, ctx') = (if isUnalignedSignal then HandleUnalignedTrap ctx p inst else (False, ctx))
                      in if unaligned then Inr (True, ctx', s)
                      else let cx = instance_context e inst
                      in if assertCx \<noteq> None \<and> assertCx \<noteq> Some cx then Inl (Aborted ''MOZ_RELEASE_ASSERT'')
                      else Inr (True, SetContextPC ctx' (trapCode e segment),
                                startWasmTrap cx trap bytecode (ToRegisterState ctx') s)))"

text \<open>
  The handler: it returns to the interrupted code (\<open>Resume\<close>) or its last act is to call the next
  handler, with three arguments or with one.
\<close>

datatype outcome = Resume | Call_sigaction handler | Call_handler handler

definition previous_signal :: "nat \<Rightarrow> 't wasm_state \<Rightarrow> sigaction option" where
  "previous_signal signum s =
     (if signum = SIGSEGV then Some (sPrevSEGVHandler s)
      else if signum = SIGBUS then Some (sPrevSIGBUSHandler s)
      else if signum = kWasmTrapSignal then Some (sPrevWasmTrapHandler s)
      else None)"

text \<open>With another signal, \<open>previousSignal\<close> stays null; \<open>sa_flags\<close> is at offset 136 of the struct.\<close>

definition forward_signal :: "nat \<Rightarrow> 't wasm_state \<Rightarrow> fault + outcome \<times> 't wasm_state" where
  "forward_signal signum s =
     (case previous_signal signum s of
        None \<Rightarrow> Inl (Segv 136)
      | Some prev \<Rightarrow>
          if sa_flags prev AND SA_SIGINFO \<noteq> 0 then Inr (Call_sigaction (sa_handler prev), s)
          else if sa_handler prev = SIG_DFL \<or> sa_handler prev = SIG_IGN
          then Inr (Resume, s\<lparr>dispositions := (dispositions s)(signum := prev)\<rparr>)
          else Inr (Call_handler (sa_handler prev), s))"

definition WasmTrapHandler ::
  "'t engine \<Rightarrow> addr option \<Rightarrow> nat \<Rightarrow> ucontext \<Rightarrow> 't wasm_state \<Rightarrow> fault + outcome \<times> ucontext \<times> 't wasm_state" where
  "WasmTrapHandler e tls signum ctx s =
     ebind (if sAlreadyHandlingTrap s then Inr (False, ctx, s)
            else let s1 = s\<lparr>sAlreadyHandlingTrap := True\<rparr>
            in if \<not> (signum = SIGSEGV \<or> signum = SIGBUS \<or> signum = kWasmTrapSignal)
               then Inl (Aborted ''MOZ_RELEASE_ASSERT'')
               else ebind (HandleTrap e ctx (signum = SIGBUS) tls s1) (\<lambda>(handled, ctx', s2).
                 Inr (handled, ctx', s2\<lparr>sAlreadyHandlingTrap := False\<rparr>)))
       (\<lambda>(handled, ctx', s2).
          if handled then Inr (Resume, ctx', s2)
          else ebind (forward_signal signum s2) (\<lambda>(what, s3). Inr (what, ctx', s3)))"

subsection \<open>Installation\<close>

text \<open>\<open>sigaction\<close>, where \<open>k n\<close> says whether it succeeds for the signal \<open>n\<close>.\<close>

definition sys_sigaction :: "(nat \<Rightarrow> bool) \<Rightarrow> nat \<Rightarrow> sigaction \<Rightarrow> 't wasm_state \<Rightarrow> (sigaction \<times> 't wasm_state) option" where
  "sys_sigaction k signum new s =
     (if k signum then Some (dispositions s signum, s\<lparr>dispositions := (dispositions s)(signum := new)\<rparr>) else None)"

definition faultHandler :: sigaction where
  "faultHandler = \<lparr>sa_flags = SA_SIGINFO OR SA_NODEFER, sa_handler = H_WasmTrapHandler, sa_mask = {}\<rparr>"

definition wasmTrapHandler :: sigaction where
  "wasmTrapHandler = \<lparr>sa_flags = SA_SIGINFO OR SA_NODEFER, sa_handler = H_WasmTrapHandler, sa_mask = {}\<rparr>"

definition EnsureEagerProcessSignalHandlers :: "(nat \<Rightarrow> bool) \<Rightarrow> 't wasm_state \<Rightarrow> fault + 't wasm_state" where
  "EnsureEagerProcessSignalHandlers k s =
     (if tried (sEagerInstallState s) then Inr s
      else if success (sEagerInstallState s) then Inl (Aborted ''MOZ_RELEASE_ASSERT'')
      else let s1 = s\<lparr>sEagerInstallState := \<lparr>tried = True, success = False\<rparr>\<rparr>
      in case sys_sigaction k SIGSEGV faultHandler s1 of
           None \<Rightarrow> Inl (Aborted ''unable to install segv handler'')
         | Some (old, s2) \<Rightarrow>
             let s3 = s2\<lparr>sPrevSEGVHandler := old\<rparr>
             in case sys_sigaction k kWasmTrapSignal wasmTrapHandler s3 of
                  None \<Rightarrow> Inl (Aborted ''unable to install wasm trap handler'')
                | Some (old', s4) \<Rightarrow>
                    Inr (s4\<lparr>sPrevWasmTrapHandler := old', sEagerInstallState := \<lparr>tried = True, success = True\<rparr>\<rparr>))"

definition EnsureLazyProcessSignalHandlers :: "'t wasm_state \<Rightarrow> fault + bool \<times> 't wasm_state" where
  "EnsureLazyProcessSignalHandlers s =
     (if tried (sLazyInstallState s) then Inr (success (sLazyInstallState s), s)
      else if success (sLazyInstallState s) then Inl (Aborted ''MOZ_RELEASE_ASSERT'')
      else Inr (True, s\<lparr>sLazyInstallState := \<lparr>tried = True, success = True\<rparr>\<rparr>))"

definition EnsureFullSignalHandlers ::
  "js_context \<Rightarrow> 't wasm_state \<Rightarrow> fault + bool \<times> js_context \<times> 't wasm_state" where
  "EnsureFullSignalHandlers cx s =
     (if wasmTriedToInstallSignalHandlers cx then Inr (wasmHaveSignalHandlers cx, cx, s)
      else let cx1 = cx\<lparr>wasmTriedToInstallSignalHandlers := True\<rparr>
      in if wasmHaveSignalHandlers cx1 then Inl (Aborted ''MOZ_RELEASE_ASSERT'')
         else if \<not> tried (sEagerInstallState s) then Inl (Aborted ''MOZ_RELEASE_ASSERT'')
         else if \<not> success (sEagerInstallState s) then Inr (False, cx1, s)
         else ebind (EnsureLazyProcessSignalHandlers s) (\<lambda>(ok, s1).
           if \<not> ok then Inr (False, cx1, s1)
           else Inr (True, cx1\<lparr>wasmHaveSignalHandlers := True\<rparr>, s1)))"

subsection \<open>Traps without a signal\<close>

text \<open>The address for the program counter is written only where the result is true.\<close>

definition MemoryAccessTraps ::
  "'t engine \<Rightarrow> addr \<Rightarrow> RegisterState \<Rightarrow> addr \<Rightarrow> u32 \<Rightarrow> 't wasm_state \<Rightarrow> addr option \<times> 't wasm_state" where
  "MemoryAccessTraps e cx regs a numBytes s =
     (case LookupCodeSegment e (rs_pc regs) of
        None \<Rightarrow> (None, s)
      | Some segment \<Rightarrow>
          if \<not> isModule e segment then (None, s)
          else (case lookupTrap e (segment_code e segment) (rs_pc regs) of
              None \<Rightarrow> (None, s)
            | Some (trap, bytecode) \<Rightarrow>
                if trap \<noteq> Trap_OutOfBounds e then (None, s)
                else if \<not> memoryAccessInGuardRegion e (exit_frame_instance e (rs_fp regs)) a numBytes then (None, s)
                else (Some (trapCode e segment), startWasmTrap cx (Trap_OutOfBounds e) bytecode regs s)))"

definition HandleIllegalInstruction ::
  "'t engine \<Rightarrow> addr \<Rightarrow> RegisterState \<Rightarrow> 't wasm_state \<Rightarrow> addr option \<times> 't wasm_state" where
  "HandleIllegalInstruction e cx regs s =
     (case LookupCodeSegment e (rs_pc regs) of
        None \<Rightarrow> (None, s)
      | Some segment \<Rightarrow>
          if \<not> isModule e segment then (None, s)
          else (case lookupTrap e (segment_code e segment) (rs_pc regs) of
              None \<Rightarrow> (None, s)
            | Some (trap, bytecode) \<Rightarrow>
                (Some (trapCode e segment), startWasmTrap cx trap bytecode regs s)))"

subsection \<open>What a trap does\<close>

text \<open>
  \<open>trap_at e ctx\<close>: the segment, the trap and the offset that the engine has for the program counter
  of a context.
\<close>

definition trap_at :: "'t engine \<Rightarrow> addr \<Rightarrow> (addr \<times> 't \<times> u32) option" where
  "trap_at e p = (case LookupCodeSegment e p of
     None \<Rightarrow> None
   | Some segment \<Rightarrow> if isModule e segment
       then map_option (\<lambda>(trap, bytecode). (segment, trap, bytecode)) (lookupTrap e (segment_code e segment) p)
       else None)"

lemma HandleTrap_Inr:
  assumes "HandleTrap e ctx u tls s = Inr (b, ctx', s')"
  shows "(\<exists>segment trap bytecode cx. trap_at e (REG_RIP ctx) = Some (segment, trap, bytecode) \<and> b \<and>
       (u \<longrightarrow> trap = Trap_OutOfBounds e) \<and> (\<forall>c. tls = Some c \<longrightarrow> c = cx) \<and>
       ctx' = ctx\<lparr>REG_RIP := trapCode e segment\<rparr> \<and> s' = startWasmTrap cx trap bytecode (ToRegisterState ctx) s) \<or>
     (\<not> b \<and> ctx' = ctx \<and> s' = s \<and>
       (trap_at e (REG_RIP ctx) = None \<or>
        u \<and> (\<forall>segment trap bytecode. trap_at e (REG_RIP ctx) = Some (segment, trap, bytecode) \<longrightarrow> trap \<noteq> Trap_OutOfBounds e)))"
  using assms
  by (auto simp: HandleTrap_def Let_def trap_at_def HandleUnalignedTrap_def ContextToPC_def SetContextPC_def
      split: option.splits if_splits)

lemma HandleIllegalInstruction_trap:
  "HandleIllegalInstruction e cx regs s =
     (case trap_at e (rs_pc regs) of None \<Rightarrow> (None, s)
      | Some (segment, trap, bytecode) \<Rightarrow> (Some (trapCode e segment), startWasmTrap cx trap bytecode regs s))"
  by (auto simp: HandleIllegalInstruction_def trap_at_def split: option.splits)

lemma MemoryAccessTraps_trap:
  "MemoryAccessTraps e cx regs a n s = (Some p, s') \<Longrightarrow> HandleIllegalInstruction e cx regs s = (Some p, s')"
  by (auto simp: HandleIllegalInstruction_def MemoryAccessTraps_def split: option.splits if_splits)

subsection \<open>The life of the handlers\<close>

text \<open>
  The steps: the engine installs the handlers, a signal whose disposition is the handler arrives, a
  trap is raised without a signal, or other code changes the disposition of a signal.  Other code
  can know the handler only from \<open>sigaction\<close>, after it was installed.
\<close>

inductive wasm_step :: "'t engine \<Rightarrow> 't wasm_state \<Rightarrow> 't wasm_state \<Rightarrow> bool" for e where
  eager: "EnsureEagerProcessSignalHandlers k s = Inr t \<Longrightarrow> wasm_step e s t"
| full: "EnsureFullSignalHandlers cx s = Inr (b, cx', t) \<Longrightarrow> wasm_step e s t"
| signal: "sa_handler (dispositions s signum) = H_WasmTrapHandler \<Longrightarrow>
     WasmTrapHandler e tls signum ctx s = Inr (what, ctx', t) \<Longrightarrow> wasm_step e s t"
| memory: "MemoryAccessTraps e cx regs a n s = (p, t) \<Longrightarrow> wasm_step e s t"
| illegal: "HandleIllegalInstruction e cx regs s = (p, t) \<Longrightarrow> wasm_step e s t"
| other: "(sa_handler act = H_WasmTrapHandler \<Longrightarrow> tried (sEagerInstallState s)) \<Longrightarrow>
     wasm_step e s (s\<lparr>dispositions := (dispositions s)(signum := act)\<rparr>)"

definition wasm_init :: "'t wasm_state \<Rightarrow> bool" where
  "wasm_init s \<longleftrightarrow> \<not> sAlreadyHandlingTrap s \<and>
     sEagerInstallState s = \<lparr>tried = False, success = False\<rparr> \<and> sLazyInstallState s = \<lparr>tried = False, success = False\<rparr> \<and>
     (\<forall>n. sa_handler (dispositions s n) \<noteq> H_WasmTrapHandler) \<and>
     sa_handler (sPrevSEGVHandler s) = SIG_DFL \<and> sa_handler (sPrevSIGBUSHandler s) = SIG_DFL \<and>
     sa_handler (sPrevWasmTrapHandler s) = SIG_DFL"

text \<open>The handlers to forward to are never the handler itself.\<close>

definition wasm_ok :: "'t wasm_state \<Rightarrow> bool" where
  "wasm_ok s \<longleftrightarrow> \<not> sAlreadyHandlingTrap s \<and>
     (success (sEagerInstallState s) \<longrightarrow> tried (sEagerInstallState s)) \<and>
     (success (sLazyInstallState s) = tried (sLazyInstallState s)) \<and>
     (\<not> tried (sEagerInstallState s) \<longrightarrow> (\<forall>n. sa_handler (dispositions s n) \<noteq> H_WasmTrapHandler)) \<and>
     sa_handler (sPrevSEGVHandler s) \<noteq> H_WasmTrapHandler \<and> sa_handler (sPrevSIGBUSHandler s) \<noteq> H_WasmTrapHandler \<and>
     sa_handler (sPrevWasmTrapHandler s) \<noteq> H_WasmTrapHandler"

lemma wasm_init_ok: "wasm_init s \<Longrightarrow> wasm_ok s"
  by (simp add: wasm_init_def wasm_ok_def)

lemma startWasmTrap_ok [simp]: "wasm_ok (startWasmTrap cx trap n regs s) = wasm_ok s"
  by (simp add: startWasmTrap_def wasm_ok_def)

lemma eager_keeps:
  assumes "wasm_ok s" and "EnsureEagerProcessSignalHandlers k s = Inr t"
  shows "wasm_ok t"
  using assms
  by (auto simp: EnsureEagerProcessSignalHandlers_def wasm_ok_def sys_sigaction_def Let_def signal_numbers
      split: if_splits)

lemma full_keeps:
  assumes "wasm_ok s" and "EnsureFullSignalHandlers cx s = Inr (b, cx', t)"
  shows "wasm_ok t"
  using assms
  by (auto simp: EnsureFullSignalHandlers_def EnsureLazyProcessSignalHandlers_def wasm_ok_def Let_def
      split: if_splits)

text \<open>What the handler does, in a state in which it is not running already.\<close>

lemma WasmTrapHandler_Inr:
  assumes "\<not> sAlreadyHandlingTrap s" and "WasmTrapHandler e tls signum ctx s = Inr (what, ctx', t)"
  shows "(\<exists>segment trap bytecode cx. trap_at e (REG_RIP ctx) = Some (segment, trap, bytecode) \<and>
       what = Resume \<and> ctx' = ctx\<lparr>REG_RIP := trapCode e segment\<rparr> \<and>
       t = startWasmTrap cx trap bytecode (ToRegisterState ctx) s) \<or>
     (ctx' = ctx \<and> forward_signal signum s = Inr (what, t) \<and>
       (trap_at e (REG_RIP ctx) = None \<or> signum = SIGBUS))"
proof -
  let ?s1 = "s\<lparr>sAlreadyHandlingTrap := True\<rparr>"
  obtain b ctx1 s2 where h: "HandleTrap e ctx (signum = SIGBUS) tls ?s1 = Inr (b, ctx1, s2)"
    and rest: "(if b then Inr (Resume, ctx1, s2\<lparr>sAlreadyHandlingTrap := False\<rparr>)
          else ebind (forward_signal signum (s2\<lparr>sAlreadyHandlingTrap := False\<rparr>)) (\<lambda>(what, s3). Inr (what, ctx1, s3)))
        = Inr (what, ctx', t)"
    using assms by (auto simp: WasmTrapHandler_def Let_def ebind_Inr_iff split: if_splits)
  have back1: "?s1\<lparr>sAlreadyHandlingTrap := False\<rparr> = s" using assms(1) by simp
  have back2: "(startWasmTrap cx trp n regs ?s1)\<lparr>sAlreadyHandlingTrap := False\<rparr> = startWasmTrap cx trp n regs s"
    for cx trp n regs
    using assms(1) by (simp add: startWasmTrap_def)
  from HandleTrap_Inr [OF h] show ?thesis
  proof
    assume "\<exists>segment trap bytecode cx. trap_at e (REG_RIP ctx) = Some (segment, trap, bytecode) \<and> b \<and>
       (signum = SIGBUS \<longrightarrow> trap = Trap_OutOfBounds e) \<and> (\<forall>c. tls = Some c \<longrightarrow> c = cx) \<and>
       ctx1 = ctx\<lparr>REG_RIP := trapCode e segment\<rparr> \<and> s2 = startWasmTrap cx trap bytecode (ToRegisterState ctx) ?s1"
    then show ?thesis using rest back2 by auto
  next
    assume "\<not> b \<and> ctx1 = ctx \<and> s2 = ?s1 \<and> (trap_at e (REG_RIP ctx) = None \<or>
        (signum = SIGBUS) \<and> (\<forall>segment trap bytecode. trap_at e (REG_RIP ctx) = Some (segment, trap, bytecode) \<longrightarrow> trap \<noteq> Trap_OutOfBounds e))"
    then show ?thesis using rest back1 by (auto simp: ebind_Inr_iff)
  qed
qed

lemma forward_Inr:
  assumes "wasm_ok s" and "forward_signal signum s = Inr (what, t)"
  shows "wasm_ok t" and "what \<noteq> Call_sigaction H_WasmTrapHandler" and "what \<noteq> Call_handler H_WasmTrapHandler"
    and "what = Resume \<Longrightarrow> sa_handler (dispositions t signum) \<in> {SIG_DFL, SIG_IGN}"
  using assms
  by (auto simp: forward_signal_def previous_signal_def wasm_ok_def split: option.splits if_splits)

lemma signal_keeps:
  assumes "wasm_ok s" and "WasmTrapHandler e tls signum ctx s = Inr (what, ctx', t)"
  shows "wasm_ok t"
proof -
  have "\<not> sAlreadyHandlingTrap s" using assms(1) by (simp add: wasm_ok_def)
  from WasmTrapHandler_Inr [OF this assms(2)] show ?thesis
    using assms(1) forward_Inr(1) [OF assms(1)] by auto
qed

lemma wasm_step_keeps: "wasm_step e s t \<Longrightarrow> wasm_ok s \<Longrightarrow> wasm_ok t"
proof (induction rule: wasm_step.induct)
  case (memory cx regs a n s p t)
  then show ?case by (auto simp: MemoryAccessTraps_def split: option.splits if_splits)
next
  case (illegal cx regs s p t)
  then show ?case by (auto simp: HandleIllegalInstruction_trap split: option.splits)
next
  case (other act s signum)
  then show ?case by (auto simp: wasm_ok_def)
qed (blast intro: eager_keeps full_keeps signal_keeps)+

lemma wasm_reachable_ok:
  assumes "wasm_init s0" and "(wasm_step e)\<^sup>*\<^sup>* s0 s"
  shows "wasm_ok s"
  using assms(2) by (induction rule: rtranclp_induct) (use assms(1) wasm_init_ok wasm_step_keeps in \<open>blast+\<close>)

text \<open>The handler, one fact for each part of its contract.\<close>

lemma forward_traps: "forward_signal signum s = Inr (what, t) \<Longrightarrow> started_traps t = started_traps s"
  by (auto simp: forward_signal_def split: option.splits if_splits)

lemma handler_result:
  assumes ok: "wasm_ok s" and h: "WasmTrapHandler e tls signum ctx s = Inr (what, ctx', t)"
  shows "\<not> sAlreadyHandlingTrap t \<and>
      ((\<exists>segment trap bytecode cx. trap_at e (REG_RIP ctx) = Some (segment, trap, bytecode) \<and>
          what = Resume \<and> ctx' = ctx\<lparr>REG_RIP := trapCode e segment\<rparr> \<and>
          started_traps t = started_traps s @ [(cx, trap, bytecode, ToRegisterState ctx)]) \<or>
       ctx' = ctx \<and> started_traps t = started_traps s \<and> (trap_at e (REG_RIP ctx) = None \<or> signum = SIGBUS) \<and>
       ((\<exists>h. h \<noteq> H_WasmTrapHandler \<and> what \<in> {Call_sigaction h, Call_handler h}) \<or>
        what = Resume \<and> sa_handler (dispositions t signum) \<in> {SIG_DFL, SIG_IGN}))"
proof
  have off: "\<not> sAlreadyHandlingTrap s" using ok by (simp add: wasm_ok_def)
  show "\<not> sAlreadyHandlingTrap t" using signal_keeps [OF ok h] by (simp add: wasm_ok_def)
  have out: "(\<exists>h. h \<noteq> H_WasmTrapHandler \<and> what \<in> {Call_sigaction h, Call_handler h}) \<or>
      what = Resume \<and> sa_handler (dispositions t signum) \<in> {SIG_DFL, SIG_IGN}" if "forward_signal signum s = Inr (what, t)"
    using forward_Inr(2-4) [OF ok that] by (cases what) simp_all
  from WasmTrapHandler_Inr [OF off h] show "(\<exists>segment trap bytecode cx. trap_at e (REG_RIP ctx) = Some (segment, trap, bytecode) \<and>
          what = Resume \<and> ctx' = ctx\<lparr>REG_RIP := trapCode e segment\<rparr> \<and>
          started_traps t = started_traps s @ [(cx, trap, bytecode, ToRegisterState ctx)]) \<or>
       ctx' = ctx \<and> started_traps t = started_traps s \<and> (trap_at e (REG_RIP ctx) = None \<or> signum = SIGBUS) \<and>
       ((\<exists>h. h \<noteq> H_WasmTrapHandler \<and> what \<in> {Call_sigaction h, Call_handler h}) \<or>
        what = Resume \<and> sa_handler (dispositions t signum) \<in> {SIG_DFL, SIG_IGN})"
  proof (elim disjE exE conjE, goal_cases)
    case (1 segment trp bytecode cx)
    then show ?case by (simp add: startWasmTrap_def)
  qed (use out forward_traps in blast)+
qed

lemma known_signals:
  "signum \<in> {SIGSEGV, SIGBUS, SIGILL} \<Longrightarrow> signum = SIGSEGV \<or> signum = SIGBUS \<or> signum = kWasmTrapSignal"
  by (simp add: kWasmTrapSignal_def)

lemma forward_total:
  assumes "signum = SIGSEGV \<or> signum = SIGBUS \<or> signum = kWasmTrapSignal"
  shows "\<exists>what t. forward_signal signum s = Inr (what, t)"
  using assms by (auto simp: forward_signal_def previous_signal_def)

lemma HandleTrap_no_trap:
  assumes "trap_at e (REG_RIP ctx) = None"
  shows "HandleTrap e ctx u tls s = Inr (False, ctx, s)"
proof (cases "LookupCodeSegment e (REG_RIP ctx)")
  case (Some x)
  then have "\<not> isModule e x \<or> lookupTrap e (segment_code e x) (REG_RIP ctx) = None"
    using assms by (auto simp: trap_at_def split: if_splits)
  with Some show ?thesis unfolding HandleTrap_def ContextToPC_def Let_def by (elim disjE) simp_all
qed (simp add: HandleTrap_def ContextToPC_def)

lemma handler_returns:
  assumes known: "signum = SIGSEGV \<or> signum = SIGBUS \<or> signum = kWasmTrapSignal"
    and none: "trap_at e (REG_RIP ctx) = None"
  shows "\<exists>r. WasmTrapHandler e tls signum ctx s = Inr r"
proof -
  obtain w t where f: "forward_signal signum s = Inr (w, t)" using forward_total [OF known] by blast
  obtain w' t' where f': "forward_signal signum (s\<lparr>sAlreadyHandlingTrap := False\<rparr>) = Inr (w', t')"
    using forward_total [OF known] by blast
  show ?thesis
    using known by (cases "sAlreadyHandlingTrap s") (simp_all add: WasmTrapHandler_def HandleTrap_no_trap [OF none] Let_def f f')
qed

lemma nested_handler:
  assumes "wasm_ok s" and "signum = SIGSEGV \<or> signum = SIGBUS \<or> signum = kWasmTrapSignal"
  shows "\<exists>what t. WasmTrapHandler e tls signum ctx (s\<lparr>sAlreadyHandlingTrap := True\<rparr>) = Inr (what, ctx, t) \<and>
       what \<noteq> Call_sigaction H_WasmTrapHandler \<and> what \<noteq> Call_handler H_WasmTrapHandler"
proof -
  let ?u = "s\<lparr>sAlreadyHandlingTrap := True\<rparr>"
  obtain what t where f: "forward_signal signum ?u = Inr (what, t)" using forward_total [OF assms(2)] by blast
  have "what \<noteq> Call_sigaction H_WasmTrapHandler \<and> what \<noteq> Call_handler H_WasmTrapHandler"
    using f assms(1) by (auto simp: forward_signal_def previous_signal_def wasm_ok_def split: if_splits)
  with f show ?thesis by (simp add: WasmTrapHandler_def)
qed

subsection \<open>Properties\<close>

text \<open>
  C34: a signal is turned into a trap, or it leaves the handler for good.  In every state that
  installation, traps, signals and other code reach: where the engine expects a trap at the program
  counter, the handler sets the program counter to the segment's trap code, changes no other
  register and starts exactly one trap, with the registers of the fault.  Otherwise the context is
  unchanged, and the handler either calls a handler that is not itself or has reset the signal to a
  disposition without handler, so the fault, executed again, does not come back.  A fault inside the
  handler is passed on without asking the engine.  The handler can abort only where a trap is expected.
\<close>

theorem signal_is_trapped_or_passed_on:
  assumes "wasm_init s0" and "(wasm_step e)\<^sup>*\<^sup>* s0 s" and "signum \<in> {SIGSEGV, SIGBUS, SIGILL}"
  shows "(\<forall>what ctx' t. WasmTrapHandler e tls signum ctx s = Inr (what, ctx', t) \<longrightarrow>
      \<not> sAlreadyHandlingTrap t \<and>
      ((\<exists>segment trap bytecode cx. trap_at e (REG_RIP ctx) = Some (segment, trap, bytecode) \<and>
          what = Resume \<and> ctx' = ctx\<lparr>REG_RIP := trapCode e segment\<rparr> \<and>
          started_traps t = started_traps s @ [(cx, trap, bytecode, ToRegisterState ctx)]) \<or>
       ctx' = ctx \<and> started_traps t = started_traps s \<and> (trap_at e (REG_RIP ctx) = None \<or> signum = SIGBUS) \<and>
       ((\<exists>h. h \<noteq> H_WasmTrapHandler \<and> what \<in> {Call_sigaction h, Call_handler h}) \<or>
        what = Resume \<and> sa_handler (dispositions t signum) \<in> {SIG_DFL, SIG_IGN}))) \<and>
    (trap_at e (REG_RIP ctx) = None \<longrightarrow> (\<exists>r. WasmTrapHandler e tls signum ctx s = Inr r)) \<and>
    (\<exists>what t. WasmTrapHandler e tls signum ctx (s\<lparr>sAlreadyHandlingTrap := True\<rparr>) = Inr (what, ctx, t) \<and>
       what \<noteq> Call_sigaction H_WasmTrapHandler \<and> what \<noteq> Call_handler H_WasmTrapHandler)"
proof (intro conjI allI)
  note ok = wasm_reachable_ok [OF assms(1,2)] and known = known_signals [OF assms(3)]
  show "trap_at e (REG_RIP ctx) = None \<longrightarrow> (\<exists>r. WasmTrapHandler e tls signum ctx s = Inr r)"
    using handler_returns [OF known] by blast
  show "\<exists>what t. WasmTrapHandler e tls signum ctx (s\<lparr>sAlreadyHandlingTrap := True\<rparr>) = Inr (what, ctx, t) \<and>
       what \<noteq> Call_sigaction H_WasmTrapHandler \<and> what \<noteq> Call_handler H_WasmTrapHandler"
    by (rule nested_handler [OF ok known])
qed (use handler_result [OF wasm_reachable_ok [OF assms(1,2)]] in blast)

text \<open>An engine with one module, at address 100, with an out-of-bounds trap at 120.\<close>

definition demo_engine :: "nat engine" where
  "demo_engine =
     \<lparr>LookupCodeSegment = (\<lambda>p. if 100 \<le> p \<and> p < 200 then Some 100 else None), isModule = (\<lambda>_. True),
      segment_code = (\<lambda>x. x), lookupTrap = (\<lambda>c p. if p = 120 then Some (0, 7) else None), trapCode = (\<lambda>_. 190),
      frame_instance = (\<lambda>_. 1), exit_frame_instance = (\<lambda>_. 1), instance_code = (\<lambda>_. 100),
      instance_context = (\<lambda>_. 5), memoryAccessInGuardRegion = (\<lambda>_ _ _. True),
      Trap_OutOfBounds = 0, Trap_IndirectCallBadSig = 1\<rparr>"

definition demo_default :: sigaction where
  "demo_default = \<lparr>sa_flags = 0, sa_handler = SIG_DFL, sa_mask = {}\<rparr>"

definition demo_wasm :: "nat wasm_state" where
  "demo_wasm =
     \<lparr>sAlreadyHandlingTrap = False, sPrevSEGVHandler = demo_default, sPrevSIGBUSHandler = demo_default,
      sPrevWasmTrapHandler = demo_default, sEagerInstallState = \<lparr>tried = False, success = False\<rparr>,
      sLazyInstallState = \<lparr>tried = False, success = False\<rparr>, dispositions = (\<lambda>_. demo_default), started_traps = []\<rparr>"

lemma demo_wasm_init: "wasm_init demo_wasm"
  by (simp add: wasm_init_def demo_wasm_def demo_default_def)

lemma demo_eager: "\<exists>s. EnsureEagerProcessSignalHandlers (\<lambda>_. True) demo_wasm = Inr s"
  by (simp add: EnsureEagerProcessSignalHandlers_def demo_wasm_def sys_sigaction_def Let_def)

theorem signal_is_trapped_or_passed_on_witness:
  "\<exists>s. EnsureEagerProcessSignalHandlers (\<lambda>_. True) demo_wasm = Inr s \<and>
     (\<exists>what t. WasmTrapHandler demo_engine (Some 5) SIGSEGV \<lparr>REG_RIP = 300, REG_RBP = 8, REG_RSP = 16\<rparr>
        (s\<lparr>sAlreadyHandlingTrap := True\<rparr>) = Inr (what, \<lparr>REG_RIP = 300, REG_RBP = 8, REG_RSP = 16\<rparr>, t) \<and>
        what \<noteq> Call_sigaction H_WasmTrapHandler) \<and>
     (\<exists>r. WasmTrapHandler demo_engine (Some 5) SIGSEGV \<lparr>REG_RIP = 300, REG_RBP = 8, REG_RSP = 16\<rparr> s = Inr r)"
proof -
  obtain s where s: "EnsureEagerProcessSignalHandlers (\<lambda>_. True) demo_wasm = Inr s" using demo_eager by blast
  then have "(wasm_step demo_engine)\<^sup>*\<^sup>* demo_wasm s" by (intro r_into_rtranclp wasm_step.eager)
  from signal_is_trapped_or_passed_on [OF demo_wasm_init this, of SIGSEGV "Some 5" "\<lparr>REG_RIP = 300, REG_RBP = 8, REG_RSP = 16\<rparr>"]
  have "(\<exists>what t. WasmTrapHandler demo_engine (Some 5) SIGSEGV \<lparr>REG_RIP = 300, REG_RBP = 8, REG_RSP = 16\<rparr>
        (s\<lparr>sAlreadyHandlingTrap := True\<rparr>) = Inr (what, \<lparr>REG_RIP = 300, REG_RBP = 8, REG_RSP = 16\<rparr>, t) \<and>
        what \<noteq> Call_sigaction H_WasmTrapHandler)"
    "trap_at demo_engine 300 = None \<longrightarrow>
       (\<exists>r. WasmTrapHandler demo_engine (Some 5) SIGSEGV \<lparr>REG_RIP = 300, REG_RBP = 8, REG_RSP = 16\<rparr> s = Inr r)"
    by auto
  moreover have "trap_at demo_engine 300 = None" by (simp add: trap_at_def demo_engine_def)
  ultimately show ?thesis using s by blast
qed

text \<open>
  The simulator's entry points agree with the signal handler.  Where \<open>HandleTrap\<close> does not abort
  for a signal in a context, \<open>HandleIllegalInstruction\<close> gives for the registers of the context the same
  answer, the same new program counter and the same trap; and when \<open>MemoryAccessTraps\<close> says yes, so
  did \<open>HandleTrap\<close>, with the same effect.
\<close>

lemma simulator_agrees_with_signals:
  assumes "HandleTrap e ctx False (Some cx) s = Inr (b, ctx', s')"
  shows "HandleIllegalInstruction e cx (ToRegisterState ctx) s = (if b then Some (ContextToPC ctx') else None, s') \<and>
    (\<forall>a n p t. MemoryAccessTraps e cx (ToRegisterState ctx) a n s = (Some p, t) \<longrightarrow>
       b \<and> p = ContextToPC ctx' \<and> t = s')"
proof -
  have "HandleIllegalInstruction e cx (ToRegisterState ctx) s = (if b then Some (ContextToPC ctx') else None, s')"
    using HandleTrap_Inr [OF assms] by (auto simp: HandleIllegalInstruction_trap context_simps)
  then show ?thesis using MemoryAccessTraps_trap [of e cx "ToRegisterState ctx"] by (auto split: if_splits)
qed

lemma simulator_agrees_with_signals_witness:
  "HandleIllegalInstruction demo_engine 5 (ToRegisterState \<lparr>REG_RIP = 120, REG_RBP = 8, REG_RSP = 16\<rparr>) demo_wasm =
     (Some 190, startWasmTrap 5 0 7 (ToRegisterState \<lparr>REG_RIP = 120, REG_RBP = 8, REG_RSP = 16\<rparr>) demo_wasm)"
proof -
  have "HandleTrap demo_engine \<lparr>REG_RIP = 120, REG_RBP = 8, REG_RSP = 16\<rparr> False (Some 5) demo_wasm =
    Inr (True, \<lparr>REG_RIP = 190, REG_RBP = 8, REG_RSP = 16\<rparr>,
      startWasmTrap 5 0 7 (ToRegisterState \<lparr>REG_RIP = 120, REG_RBP = 8, REG_RSP = 16\<rparr>) demo_wasm)"
    by (simp add: HandleTrap_def demo_engine_def context_simps)
  from simulator_agrees_with_signals [OF this] show ?thesis by (simp add: ContextToPC_def)
qed

end
