(* ===== verification/Sandbox_Filter.thy ===== *)
theory Sandbox_Filter
  imports Prelude
begin

section \<open>Sandbox_Filter: the patched system call filter of Firefox\<close>

text \<open>
  \<open>SandboxFilterUtil.cpp\<close> dispatches a system call to the decisions of a sandbox policy.  FlashStack
  allows six calls before that, whatever the policy says of them; \<open>mprotect\<close> and \<open>gettid\<close>, which its
  runtimes also make, are left to the policy.  Modelled is the build for
  Linux on x86-64: the kernel has no \<open>socketcall\<close>, \<open>send\<close> or \<open>recv\<close>, and \<open>ANDROID\<close> is not defined.
  The virtual methods of the policy and the results of the filter language are parameters.
\<close>

record 'r policy =
  Allow :: 'r
  InvalidSyscall :: 'r
  EvaluateSocketCall :: "int \<Rightarrow> bool \<Rightarrow> 'r option"
  EvaluateIpcCall :: "int \<Rightarrow> 'r option"

text \<open>System call numbers of x86-64.\<close>

definition NR_mmap :: int where "NR_mmap = 9"
definition NR_mprotect :: int where "NR_mprotect = 10"
definition NR_munmap :: int where "NR_munmap = 11"
definition NR_mremap :: int where "NR_mremap = 25"
definition NR_recvfrom :: int where "NR_recvfrom = 45"
definition NR_recvmsg :: int where "NR_recvmsg = 47"
definition NR_arch_prctl :: int where "NR_arch_prctl = 158"

lemmas NR_defs = NR_mmap_def NR_mprotect_def NR_munmap_def NR_mremap_def NR_recvfrom_def NR_recvmsg_def NR_arch_prctl_def

text \<open>
  The table of \<open>DISPATCH_SOCKETCALL\<close>: socket, bind, connect, listen, accept, getsockname, getpeername,
  socketpair, sendto, recvfrom, shutdown, setsockopt, getsockopt, sendmsg, recvmsg, accept4, recvmmsg,
  sendmmsg, with their numbers as system calls and as socket calls.
\<close>

definition socket_calls :: "(int \<times> int) list" where
  "socket_calls =
     [(41, 1), (49, 2), (42, 3), (50, 4), (43, 5), (51, 6), (52, 7), (53, 8), (44, 11), (NR_recvfrom, 12),
      (48, 13), (54, 14), (55, 15), (46, 16), (NR_recvmsg, 17), (288, 18), (299, 19), (307, 20)]"

text \<open>
  The table of \<open>DISPATCH_SYSVCALL\<close>: semop, semget, semctl, semtimedop, msgsnd, msgrcv, msgget, msgctl,
  shmat, shmdt, shmget, shmctl.
\<close>

definition ipc_calls :: "(int \<times> int) list" where
  "ipc_calls =
     [(65, 1), (64, 2), (66, 3), (220, 4), (69, 11), (70, 12), (68, 13), (71, 14), (30, 21), (67, 22), (29, 23), (31, 24)]"

definition value_or :: "'r option \<Rightarrow> 'r \<Rightarrow> 'r" where
  "value_or r d = (case r of Some x \<Rightarrow> x | None \<Rightarrow> d)"

text \<open>The \<open>switch\<close> of the original file.\<close>

definition dispatch_syscall :: "'r policy \<Rightarrow> int \<Rightarrow> 'r" where
  "dispatch_syscall p aSysno =
     (case map_of socket_calls aSysno of
        Some socketnum \<Rightarrow> value_or (EvaluateSocketCall p socketnum True) (InvalidSyscall p)
      | None \<Rightarrow>
          (case map_of ipc_calls aSysno of
             Some ipcnum \<Rightarrow> value_or (EvaluateIpcCall p ipcnum) (InvalidSyscall p)
           | None \<Rightarrow> InvalidSyscall p))"

text \<open>The function, with the added lines.\<close>

definition added_by_iron :: "int \<Rightarrow> bool" where
  "added_by_iron aSysno \<longleftrightarrow> aSysno = NR_arch_prctl \<or> aSysno = NR_mremap \<or> aSysno = NR_munmap \<or> aSysno = NR_mmap \<or>
     aSysno = NR_recvfrom \<or> aSysno = NR_recvmsg"

definition EvaluateSyscall :: "'r policy \<Rightarrow> int \<Rightarrow> 'r" where
  "EvaluateSyscall p aSysno = (if added_by_iron aSysno then Allow p else dispatch_syscall p aSysno)"

text \<open>There are separate system calls for sockets, and no \<open>socketcall\<close>.\<close>

definition HasSeparateSocketCalls :: bool where
  "HasSeparateSocketCalls = True"

text \<open>
  What the patch changes.  Under every policy the filter allows the six calls of the added lines and
  decides every other call as before.  The two socket calls among the six are allowed even where the
  policy refuses them: their entries in the table are dead.  \<open>mprotect\<close>, which \<open>fsgs.c\<close> calls on its
  metadata page, is not among the six, so it is left to the policies derived from this class.
\<close>

lemma patched_filter:
  "added_by_iron n \<Longrightarrow> EvaluateSyscall p n = Allow p"
  "\<not> added_by_iron n \<Longrightarrow> EvaluateSyscall p n = dispatch_syscall p n"
  "EvaluateSyscall p NR_mprotect = InvalidSyscall p"
  by (simp_all add: EvaluateSyscall_def added_by_iron_def dispatch_syscall_def socket_calls_def ipc_calls_def NR_defs)

lemma socket_entries_dead:
  assumes "\<And>c b. c \<noteq> 12 \<and> c \<noteq> 17 \<Longrightarrow> f c b = EvaluateSocketCall p c b"
  shows "EvaluateSyscall (p\<lparr>EvaluateSocketCall := f\<rparr>) n = EvaluateSyscall p n"
proof -
  have "c \<noteq> 12 \<and> c \<noteq> 17" if "map_of socket_calls n = Some c" "\<not> added_by_iron n" for c
    using that by (auto simp: socket_calls_def added_by_iron_def split: if_splits)
  then show ?thesis
    by (auto simp: EvaluateSyscall_def dispatch_syscall_def assms split: option.split)
qed

end
