(* ===== verification/Spec2Isabelle.thy ===== *)
theory Spec2Isabelle
  imports Ret_Guard As_Driver Cc_Driver Gs_Threads Fs_Threads Buddy_Props Alloc_Strings Alloc_Track_Props
    Wasm_Signals Sandbox_Filter
begin

text \<open>
  FlashStack protects return addresses of x86-64 programs.  A wrapper of the compiler
  (\<open>afl-gcc.c\<close>, \<open>afl-rustc.c\<close>) makes the compiler call a wrapper of the assembler (\<open>afl-as.c\<close>),
  which rewrites the assembly text line by line: after \<open>.cfi_startproc\<close> it writes an entry
  sequence that copies the return address to a shadow stack, in place of \<open>ret\<close> an exit sequence
  that returns to the copy.  Runtime libraries (\<open>gs.rsp.c\<close>, \<open>fsgs.c\<close>, \<open>buddy_tls.c\<close> and its
  helpers) allocate the shadow stacks, move them to new random addresses while the program runs
  and release them when a thread ends.  \<open>spa.h\<close> selects one of eight schemes at compile time.

  The theories, in the order of the code:

  \<^item> \<open>Prelude\<close>: C integers and C strings, faults, masks of addresses.
  \<^item> \<open>Spa\<close> (\<open>spa.h\<close>, \<open>config.h\<close>): the scheme as a \<open>build_config\<close>, patterns, sizes, struct layouts.
  \<^item> \<open>Kernel\<close>: the memory of the process with access rights, and the system calls, whose outcomes
    are parameters (\<open>kernel\<close>); \<open>kernel_ok\<close> states what \<open>mmap\<close> documents.
  \<^item> \<open>X86\<close>: the instructions that the rewriting writes, with their text and their effect.
  \<^item> \<open>Emit\<close> (\<open>afl-as.c\<close>, the \<open>fprintf\<close> groups of \<open>add_instrumentation\<close>): the sequences of every
    scheme.  \<open>entry_exit_agree\<close>: entry and exit are rewritten for the same functions.
  \<^item> \<open>Ret_Guard\<close>: the locale \<open>ret_guard\<close> states the contract of an entry and an exit sequence and
    proves the integrity of all returns from it; it is interpreted on \<open>Emit\<close> for all builds.
  \<^item> \<open>Libc_Names\<close>, \<open>Func_Lists\<close> (\<open>afl-as.c\<close>): the tables of library functions, the list of
    protected functions, the binary search in it, the recognition of rustc output.
  \<^item> \<open>Instrument\<close>, \<open>Instrument_Spec\<close> (\<open>add_instrumentation\<close>): the loop over the lines with all
    its flags, as written, and its refinement of a function-by-function rewriting of entries, exits
    and calls.
  \<^item> \<open>As_Driver\<close>, \<open>Cc_Driver\<close> (\<open>edit_params\<close>, \<open>main\<close>, \<open>find_as\<close>): the three wrappers.
    \<open>wrapper_assembles_the_rewritten_file\<close> goes from the command line to the assembler's input.
  \<^item> \<open>Thread_Table\<close>, \<open>Gs_Rsp\<close>, \<open>Gs_Rsp_Props\<close> (\<open>gs.rsp.c\<close>): the runtime of the default scheme,
    with the invariant \<open>shadow_ok\<close> of a thread, established by initialisation and kept by
    rerandomization; the locale \<open>region_table\<close> for the table of exited threads.
  \<^item> \<open>Avx2\<close> (\<open>avx2_64_x_4_add\<close> of \<open>fsgs.c\<close> and \<open>simd_rand.c\<close>): the vector loop over a shadow
    stack, which equals one addition per slot.
  \<^item> \<open>Fs_Gs\<close>, \<open>Fs_Lemmas\<close>, \<open>Fs_Stages\<close>, \<open>Fs_Gs_Props\<close> (\<open>fsgs.c\<close>): the runtime of the FS/GS
    scheme, which blinds the slots and moves metadata page and shadow stack; its invariant \<open>fs_ok\<close>,
    the effect of each stage (\<open>fs_effect\<close>), and the rerandomization composed of the stages, whose
    outcome depends on \<open>mremap\<close> (\<open>fs_outcome\<close>): the code does not look at its result, and where it
    fails the thread's return addresses are lost and the state is \<open>fs_torn\<close>.
  \<^item> \<open>Rt_Hooks\<close> (\<open>rt_lib.c\<close>): the seventeen library functions that call the runtime, their switches
    and the look-up of the real functions, which are parameters.
  \<^item> \<open>Buddy\<close>, \<open>Buddy_Props\<close> (\<open>buddy_tls.c\<close>, \<open>init.c\<close>, \<open>fork.c\<close>, \<open>simd_rand.c\<close>, \<open>util.c\<close>): the runtime
    of the buddy stack schemes: two copies of a thread's metadata, two and three stack sizes below the
    stack, start-up with the size from the environment, rerandomization of the live slots; the invariant \<open>buddy_ok\<close>.
  \<^item> \<open>Rerandomizer\<close>: the locale \<open>rerandomizer\<close> states what the runtimes promise the running
    program, and proves it for all interleavings of program and runtime (\<open>run_step\<close>); it is
    interpreted on the three runtimes.
  \<^item> \<open>Alloc_Inl\<close>, \<open>Alloc_Props\<close>, \<open>Alloc_Safe\<close>, \<open>Alloc_Strings\<close> (\<open>alloc-inl.h\<close>): the checking
    allocator of the wrappers on a heap of bytes, release and debug build; \<open>malloc\<close>, \<open>realloc\<close> and
    \<open>free\<close> are a parameter and \<open>allocator_ok\<close> states what libc documents of them.  The invariant
    \<open>ck_heap\<close>, what every operation keeps, and programs that the canaries never stop.  Programs that call
    \<open>ck_memdup_str\<close> are excluded (\<open>breaks_canary\<close>): it writes its terminating NUL over the tail canary, and
    what it returns cannot be freed.
  \<^item> \<open>Alloc_Track\<close>, \<open>Alloc_Track_Props\<close> (\<open>alloc-inl.h\<close>, debug build): the record of allocations,
    arrays in the checked heap that refine a map from pointers to allocating calls (\<open>sites\<close>).
  \<^item> \<open>Threads\<close>: any number of threads on one runtime, as interleaved steps (\<open>world_step\<close>): starts,
    calls of the runtime, rounds of destructors one by one, exits, passes of the cleaner, work.  The last
    round releases the shadow stack; in the steps a thread does not call the runtime after it, and
    \<open>rerandomization_after_release_leaves_a_stale_entry\<close> shows what happens when one does.  The locale \<open>threaded_runtime\<close> states what
    a runtime promises for one thread, and proves from it that no thread disturbs another.
    \<open>Gs_Threads\<close> and \<open>Fs_Threads\<close> interpret it on \<open>gs.rsp.c\<close> and \<open>fsgs.c\<close>, with the \<open>__thread\<close>
    variables and the GS base of each thread as its own (\<open>gs_local\<close>, \<open>fs_local\<close>).
  \<^item> \<open>Wasm_Signals\<close>, \<open>Sandbox_Filter\<close> (\<open>WasmSignalHandlers.cpp\<close>, \<open>SandboxFilterUtil.cpp\<close>): the two
    files of Firefox that FlashStack changes, for Linux on x86-64, with the engine and the sandbox
    policy as parameters.  The handler itself is on the list of functions that are not rewritten as
    others are (\<open>handler_flags\<close>); the functions it calls are.
  \<^item> This theory: rewriting and runtime together, for one thread, for many threads, in hooked
    library calls and below signal handlers.

  Faults are values: a function that can end the process returns a sum whose left side names the
  access outside mapped memory, the \<open>abort\<close> or the \<open>exit\<close>.  The loop that allocates a thread's
  shadow stack need not end; it is a \<open>partial_function\<close> in the option monad, and that it ends is
  proved from the condition \<open>grants_hints_from\<close>.  So are \<open>strlen\<close>, which ends at the first NUL,
  the allocation loop of \<open>fsgs.c\<close>, which ends where the kernel has room (\<open>has_room\<close>), and the
  vector loop, which ends for every upper bound that is a multiple of 32.  All other loops are structural or have a measure (\<open>mmap_attempts\<close> makes at
  most 21 attempts); no fuel is used.

  The wrappers use the allocator through values: their models hold strings and lists where the code
  holds checked chunks.

  Not modelled: the templates of \<open>afl-as.h\<close>, which no compiled code uses; the output macros of
  \<open>debug.h\<close>, whose \<open>ABORT\<close> and \<open>FATAL\<close> are the faults of the model; the branches of the Firefox files for
  other systems and processors; the Python rewriters and the demo programs.  Calls of the runtime by
  different threads interleave as whole calls: what a call reads and writes is the calling thread's
  own but for the table of exited threads, which the code guards with a mutex, and for counters.
  Interleaving inside a call, and what glibc does when a thread starts or ends beyond the
  initialisation and the rounds of destructors, is not modelled.
\<close>

section \<open>The rewritten code and the runtimes together\<close>

text \<open>
  The machine of \<open>X86\<close> and the process of \<open>Kernel\<close> show the same memory and the same GS base.
\<close>

definition same_view :: "mstate \<Rightarrow> 'a os_state_scheme \<Rightarrow> bool" where
  "same_view m s = (mem m = cells (vmem s) \<and> gsb m = gs_base s)"

text \<open>The process after the entry sequence of a function.\<close>

definition entered :: "build_config \<Rightarrow> asm_env \<Rightarrow> mstate \<Rightarrow> 'a os_state_scheme \<Rightarrow> 'a os_state_scheme" where
  "entered c env m s = s\<lparr>vmem := (vmem s)\<lparr>cells := mem (pro_of c env m)\<rparr>\<rparr>"

subsection \<open>The GS/RSP scheme\<close>

lemma gs_rsp_slot:
  "bc_scheme c = USE_SPA_GS_RSP \<Longrightarrow> gsb m = gs_base s \<Longrightarrow> slot_of c env m a = shadow_slot s a"
  "bc_scheme c = USE_SPA_GS_RSP \<Longrightarrow> key_of c env m a = 0"
  by (simp_all add: slot_of_def key_of_def shadow_slot_def)

lemma gs_rsp_entry_writes:
  assumes "bc_scheme c = USE_SPA_GS_RSP" and "same_view m s" and "regs m RSP = a"
  shows "mem (pro_of c env m) = (cells (vmem s))(shadow_slot s a := mem m a)"
  using assms rg.pro_mem [of c env m] by (simp add: same_view_def gs_rsp_slot)

lemma gs_rsp_entered:
  assumes "bc_scheme c = USE_SPA_GS_RSP" and "same_view m s" and "regs m RSP = a"
    and good: "gs_good rsp0 s" and "covered rsp0 a"
  shows "gs_good rsp0 (entered c env m s)" and "gs_content (entered c env m s) a = mem m a"
proof -
  obtain sh where ok: "shadow_ok 0 sh rsp0 s" using good by (auto simp: gs_good_def)
  note pro = gs_rsp_entry_writes [OF assms(1-3)]
  have "\<not> is_field sh (shadow_slot s a)" by (rule covered_no_field [OF ok assms(5)])
  then have "md_of sh + gr_field_offset f \<noteq> shadow_slot s a" for f by (metis is_field_def)
  then have "fld sh f (entered c env m s) = fld sh f s" for f
    by (simp add: fld_def entered_def pro)
  with ok have "shadow_ok 0 sh rsp0 (entered c env m s)"
    by (simp add: shadow_ok_def) (simp add: entered_def)
  then show "gs_good rsp0 (entered c env m s)" by (auto simp: gs_good_def)
  show "gs_content (entered c env m s) a = mem m a"
    by (simp add: gs_content_def shadow_slot_def entered_def pro flip: shadow_slot_def) (simp add: shadow_slot_def)
qed

text \<open>
  A function of the default scheme survives any number of rerandomizations.  Let a function be
  entered with its return address at \<open>a\<close> in a thread that satisfies the runtime's invariant.  Then
  let program and runtime run in any interleaving: the runtime moves the shadow stack to any
  addresses the kernel offers, the program does anything that keeps the invariant and the function's own
  slot (it may overwrite the return address on the call stack).  No call of the runtime fails, and
  the exit sequence returns to the address that the call pushed.
\<close>

lemma return_survives_rerandomization:
  assumes "bc_scheme c = USE_SPA_GS_RSP" and "same_view m s" and "regs m RSP = a"
    and "gs_good rsp0 s" and "covered rsp0 a"
    and "(run_step gs_run (gs_good rsp0) (gs_ready rsp0) (\<lambda>p. covered rsp0) gs_content a)\<^sup>*\<^sup>*
           (entered c env m s) t"
    and "same_view m' t" and "regs m' RSP = a"
  shows "pc (epi_of c env m') = Some (mem m a) \<and> (\<forall>p. gs_ready rsp0 p t \<longrightarrow> (\<exists>u. gs_run p t = Some (Inr u)))"
proof -
  note entry = gs_rsp_entered [OF assms(1-5), of env]
  have "gs_content t a = mem m a"
    using gs_rerand.steps_keep(2) [OF assms(6) entry(1)] entry(2) by simp
  then have "pc (epi_of c env m') = Some (mem m a)"
    using assms(1,7,8) by (simp add: rg.epi_pc same_view_def gs_rsp_slot gs_content_def)
  with gs_rerand.never_stuck [OF assms(6) entry(1)] show ?thesis by blast
qed

definition demo_entry :: mstate where
  "demo_entry =
     \<lparr>regs = (\<lambda>r. if r = RSP then demo_rsp - 8 else 0),
      mem = (cells (vmem demo_thread))(demo_rsp - 8 := 0x401234),
      gsb = gs_base demo_thread, zf = False, pc = None\<rparr>"

definition demo_called :: gs_rsp_state where
  "demo_called = demo_thread\<lparr>vmem := (vmem demo_thread)\<lparr>cells := mem demo_entry\<rparr>\<rparr>"

lemma demo_called_good: "gs_good demo_rsp demo_called"
proof -
  have "md_of demo_block + gr_field_offset f \<noteq> demo_rsp - 8" for f
    by (cases f) (simp_all add: demo_block_def demo_rsp_def gs_rsp_sizes gr_field_offset.simps
        get_gs_rsp_metadata_by_shadow_stack_def)
  then have f: "fld demo_block f demo_called = fld demo_block f demo_thread" for f
    by (simp add: fld_def demo_called_def demo_entry_def)
  have "shadow_ok 0 demo_block demo_rsp demo_called"
    using demo_thread_ok unfolding shadow_ok_def f by (simp add: demo_called_def)
  then show ?thesis by (auto simp: gs_good_def)
qed

lemma return_survives_rerandomization_witness:
  "\<exists>t. gs_run (demo_kernel, demo_rsp - 64, demo_rsp - 96) (entered default_config demo_env demo_entry demo_called)
       = Some (Inr t) \<and>
     pc (epi_of default_config demo_env (demo_entry\<lparr>gsb := gs_base t, mem := cells (vmem t)\<rparr>)) = Some 0x401234"
proof -
  let ?s = "entered default_config demo_env demo_entry demo_called"
  let ?p = "(demo_kernel, demo_rsp - 64, demo_rsp - 96)"
  let ?step = "run_step gs_run (gs_good demo_rsp) (gs_ready demo_rsp) (\<lambda>p. covered demo_rsp) gs_content (demo_rsp - 8)"
  have sch: "bc_scheme default_config = USE_SPA_GS_RSP" by (simp add: default_config_def)
  have view: "same_view demo_entry demo_called"
    by (simp add: same_view_def demo_called_def demo_entry_def)
  have e: "regs demo_entry RSP = demo_rsp - 8" "mem demo_entry (demo_rsp - 8) = 0x401234"
    by (simp_all add: demo_entry_def)
  have cov: "covered demo_rsp (demo_rsp - 8)" by (simp add: covered_def DEF_sizes gs_rsp_sizes)
  have ready: "gs_ready demo_rsp ?p s" for s
    using demo_kernel_ok demo_in_window by (simp add: gs_ready_def) (simp add: demo_kernel_def)
  note ret = return_survives_rerandomization [OF sch view e(1) demo_called_good cov]
  have "\<exists>t. gs_run ?p ?s = Some (Inr t)"
    using ret [OF rtranclp.rtrancl_refl, of "demo_entry\<lparr>gsb := gs_base ?s, mem := cells (vmem ?s)\<rparr>" demo_env]
      ready by (auto simp: same_view_def e)
  then obtain t where t: "gs_run ?p ?s = Some (Inr t)" by blast
  then have "?step ?s t" using ready cov by (intro run_step.rerandomize)
  then have "?step\<^sup>*\<^sup>* ?s t" by blast
  from ret [OF this, of "demo_entry\<lparr>gsb := gs_base t, mem := cells (vmem t)\<rparr>"] t show ?thesis
    by (auto simp: same_view_def e)
qed

subsection \<open>The FS/GS scheme\<close>

lemma fs_gs_slot:
  assumes "bc_scheme c = USE_SPA_FS_GS_TLS" and "same_view m s"
  shows "slot_of c env m a = fs_slot s a" and "key_of c env m a = fs_key c s"
  using assms by (simp_all add: slot_of_def key_of_def same_view_def fs_slot_def fs_key_def fs_fld_def)

lemma fs_gs_entry_writes:
  assumes "bc_scheme c = USE_SPA_FS_GS_TLS" and "same_view m s" and "regs m RSP = a"
  shows "mem (pro_of c env m) = (cells (vmem s))(fs_slot s a := mem m a + fs_key c s)"
  using assms(2,3) rg.pro_mem [of c env m] fs_gs_slot [OF assms(1,2)] by (simp add: same_view_def)

lemma fs_gs_entered:
  assumes sch: "bc_scheme c = USE_SPA_FS_GS_TLS" and view: "same_view m s" and a: "regs m RSP = a"
    and ok: "fs_ok_at v w md sh ct rsp0 s" and live: "fs_framed rsp0 a"
  shows "fs_ok_at v w md sh ct rsp0 (entered c env m s)" and "fs_content c (entered c env m s) a = mem m a"
proof -
  note pro = fs_gs_entry_writes [OF sch view a]
  have "in_stack sh (fs_slot s a)" by (rule fs_framed_slot [OF ok live])
  then have out: "\<not> in_page md (fs_slot s a)" using ok unfolding fs_ok_at_def fs_mem_def by blast
  have "md + GET_GS_METADATA_FIELD_OFFSET f \<noteq> fs_slot s a" for f
    using out fs_field_in_page by metis
  then have f: "fs_fld md f (entered c env m s) = fs_fld md f s" for f
    by (simp add: fs_fld_def entered_def pro)
  have same: "prot_of (vmem (entered c env m s)) = prot_of (vmem s)" "gs_base (entered c env m s) = gs_base s"
    by (simp_all add: entered_def)
  have "unsw_flash_stack_inited (entered c env m s) = unsw_flash_stack_inited s" by (simp add: entered_def)
  with ok show ok': "fs_ok_at v w md sh ct rsp0 (entered c env m s)"
    unfolding fs_ok_at_def fs_meta_at_def fs_mem_def f same by simp
  have "fs_slot (entered c env m s) a = fs_slot s a" "fs_key c (entered c env m s) = fs_key c s"
    unfolding fs_slot_in_stack [OF ok] fs_slot_in_stack [OF ok'] fs_key_R [OF ok] fs_key_R [OF ok'] f by simp_all
  then show "fs_content c (entered c env m s) a = mem m a"
    by (simp add: fs_content_def) (simp add: entered_def pro)
qed

text \<open>
  A function of the FS/GS scheme survives any number of rerandomizations, which change the
  random value that blinds its slot, the place of the shadow stack and the place of the metadata.
  Each must be called from a frame below the function and its move must succeed; then no call of the
  runtime fails, and the exit sequence returns to the address that the call pushed.
\<close>

lemma blinded_return_survives_rerandomization:
  assumes "bc_scheme c = USE_SPA_FS_GS_TLS" and "same_view m s" and "regs m RSP = a"
    and "fs_good ct rsp0 s" and "fs_framed rsp0 a"
    and "(run_step (fs_run c) (fs_good ct rsp0) (fs_ready_moved c ct rsp0) (\<lambda>p. fs_live rsp0 (snd p)) (fs_content c) a)\<^sup>*\<^sup>*
           (entered c env m s) t"
    and "same_view m' t" and "regs m' RSP = a"
  shows "pc (epi_of c env m') = Some (mem m a) \<and>
    (\<forall>p. fs_ready ct rsp0 p t \<longrightarrow> (\<exists>u. fs_run c p t = Some (Inr u)))"
proof -
  obtain w md sh where "fs_ok w md sh ct rsp0 s" using assms(4) by (auto simp: fs_good_def)
  note entry = fs_gs_entered [OF assms(1-3) this assms(5), of env]
  have good: "fs_good ct rsp0 (entered c env m s)" using entry(1) by (auto simp: fs_good_def)
  have "fs_content c t a = mem m a"
    using fs_rerand.steps_keep(2) [OF assms(6) good] entry(2) by simp
  moreover have "mem m' = cells (vmem t)" using assms(7) by (simp add: same_view_def)
  ultimately have "pc (epi_of c env m') = Some (mem m a)"
    using assms(8) fs_gs_slot [OF assms(1,7), of env a] by (simp add: rg.epi_pc fs_content_def)
  moreover have "fs_good ct rsp0 t" by (rule fs_rerand.steps_keep(1) [OF assms(6) good])
  ultimately show ?thesis using fs_run_ok unfolding fs_good_def by blast
qed

definition demo_fs_config :: build_config where
  "demo_fs_config = default_config\<lparr>bc_scheme := USE_SPA_FS_GS_TLS, SPA_ENABLE_GS_MSR := True\<rparr>"

definition demo_fs_entry :: mstate where
  "demo_fs_entry =
     \<lparr>regs = (\<lambda>r. if r = RSP then demo_fs_rsp - 8 else 0),
      mem = (cells (vmem demo_fs_thread))(demo_fs_rsp - 8 := 0x401234),
      gsb = gs_base demo_fs_thread, zf = False, pc = None\<rparr>"

definition demo_fs_called :: fs_gs_state where
  "demo_fs_called = demo_fs_thread\<lparr>vmem := (vmem demo_fs_thread)\<lparr>cells := mem demo_fs_entry\<rparr>\<rparr>"

lemma demo_fs_called_good: "fs_good demo_fs_top demo_fs_rsp demo_fs_called"
proof -
  have "demo_page + GET_GS_METADATA_FIELD_OFFSET f \<noteq> demo_fs_rsp - 8" for f
    by (cases f) (simp_all add: demo_page_def demo_fs_rsp_def GET_GS_METADATA_FIELD_OFFSET.simps)
  then have f: "fs_fld demo_page f demo_fs_called = fs_fld demo_page f demo_fs_thread" for f
    by (simp add: fs_fld_def demo_fs_called_def demo_fs_entry_def)
  have "prot_of (vmem demo_fs_called) = prot_of (vmem demo_fs_thread)" "gs_base demo_fs_called = gs_base demo_fs_thread"
    "unsw_flash_stack_inited demo_fs_called = unsw_flash_stack_inited demo_fs_thread"
    by (simp_all add: demo_fs_called_def)
  then have "fs_ok PROT_READ demo_page demo_stack demo_fs_top demo_fs_rsp demo_fs_called"
    using demo_fs_ok unfolding fs_ok_at_def fs_meta_at_def fs_mem_def f by simp
  then show ?thesis by (auto simp: fs_good_def)
qed

lemma blinded_return_survives_rerandomization_witness:
  "\<exists>t. fs_run demo_fs_config (demo_fs_kernel, demo_fs_rsp - 64)
        (entered demo_fs_config demo_env demo_fs_entry demo_fs_called) = Some (Inr t) \<and>
     pc (epi_of demo_fs_config demo_env (demo_fs_entry\<lparr>gsb := gs_base t, mem := cells (vmem t)\<rparr>)) = Some 0x401234"
proof -
  let ?s = "entered demo_fs_config demo_env demo_fs_entry demo_fs_called"
  let ?p = "(demo_fs_kernel, demo_fs_rsp - 64)"
  let ?step = "run_step (fs_run demo_fs_config) (fs_good demo_fs_top demo_fs_rsp)
    (fs_ready_moved demo_fs_config demo_fs_top demo_fs_rsp) (\<lambda>p. fs_live demo_fs_rsp (snd p)) (fs_content demo_fs_config) (demo_fs_rsp - 8)"
  have sch: "bc_scheme demo_fs_config = USE_SPA_FS_GS_TLS" by (simp add: demo_fs_config_def)
  have view: "same_view demo_fs_entry demo_fs_called"
    by (simp add: same_view_def demo_fs_called_def demo_fs_entry_def)
  have e: "regs demo_fs_entry RSP = demo_fs_rsp - 8" "mem demo_fs_entry (demo_fs_rsp - 8) = 0x401234"
    by (simp_all add: demo_fs_entry_def)
  have near: "fs_framed demo_fs_rsp (demo_fs_rsp - 8)" by (simp add: fs_framed_def DEF_sizes)
  have live: "fs_live demo_fs_rsp (snd ?p) (demo_fs_rsp - 8)" by (simp add: fs_live_def)
  have "vmem ?s = (vmem demo_fs_thread)\<lparr>cells := cells (vmem ?s)\<rparr>"
    by (simp add: entered_def demo_fs_called_def)
  then have "prot_of (vmem ?s) = prot_of (vmem demo_fs_thread)" by (metis vm.select_convs(2) vm.surjective vm.update_convs(1))
  then have ready: "fs_ready demo_fs_top demo_fs_rsp ?p ?s"
    using demo_fs_kernel_ok demo_fs_window has_room_mapped [OF demo_fs_room, of "vmem ?s"]
    by (simp add: fs_ready_def same_mapped_def)
  obtain w md sh where "fs_ok w md sh demo_fs_top demo_fs_rsp demo_fs_called"
    using demo_fs_called_good by (auto simp: fs_good_def)
  from fs_gs_entered(1) [OF sch view e(1) this near] have
    ok: "fs_ok w md sh demo_fs_top demo_fs_rsp ?s" .
  have "fs_moved demo_fs_config ?p ?s"
    by (rule fs_moved_granted [OF ok ready]) (simp add: demo_fs_kernel_def)
  with ready have moved: "fs_ready_moved demo_fs_config demo_fs_top demo_fs_rsp ?p ?s" by (simp add: fs_ready_moved_def)
  note ret = blinded_return_survives_rerandomization [OF sch view e(1) demo_fs_called_good near]
  have "\<exists>t. fs_run demo_fs_config ?p ?s = Some (Inr t)"
    using ret [OF rtranclp.rtrancl_refl, of "demo_fs_entry\<lparr>gsb := gs_base ?s, mem := cells (vmem ?s)\<rparr>" demo_env]
      ready by (auto simp: same_view_def e)
  then obtain t where t: "fs_run demo_fs_config ?p ?s = Some (Inr t)" by blast
  then have "?step ?s t" using moved live by (intro run_step.rerandomize)
  then have "?step\<^sup>*\<^sup>* ?s t" by blast
  from ret [OF this, of "demo_fs_entry\<lparr>gsb := gs_base t, mem := cells (vmem t)\<rparr>"] t show ?thesis
    by (auto simp: same_view_def e)
qed

subsection \<open>Many threads\<close>

text \<open>Thread \<open>i\<close> of the default scheme enters a function; then all threads go on.\<close>

lemma gs_rsp_thread_entered:
  assumes sch: "bc_scheme c = USE_SPA_GS_RSP" and w: "world_ok gs_runtime w" and i: "threads w i = Some (d, l)"
    and view: "same_view m (gs_view l (shared w))" and a: "regs m RSP = a" and cov: "covered (fst d) a"
    and F: "tracks gs_runtime F w" "(i, a) \<in> F"
    and steps: "(world_step gs_runtime F)\<^sup>*\<^sup>* (w\<lparr>shared := entered c env m (shared w)\<rparr>) w'"
  shows "world_ok gs_runtime w'"
    and "\<exists>d' l'. threads w' i = Some (d', l') \<and> gs_content (gs_view l' (shared w')) a = mem m a"
proof -
  let ?s = "entered c env m (shared w)" and ?v = "gs_view l (shared w)"
  obtain B where B: "blocks_ok gs_runtime w B" using w by (auto simp: world_ok_def)
  have ok: "shadow_ok 0 (B i) (fst d) ?v" using blocks_okD(1) [OF B i] by simp
  have vm: "prot_of (rt_vm gs_runtime ?s) = prot_of (rt_vm gs_runtime (shared w))"
    "rt_waiting gs_runtime ?s = rt_waiting gs_runtime (shared w)" "gs_view l ?s = entered c env m ?v"
    by (simp_all add: entered_def gs_waiting_def gs_view_def)
  have cells: "cells (vmem ?s) = (cells (vmem (shared w)))(shadow_slot ?v a := mem m a)"
    using gs_rsp_entry_writes [OF sch view a, of env] by (simp add: entered_def)
  have same: "cells (rt_vm gs_runtime ?s) x = cells (rt_vm gs_runtime (shared w)) x"
    if "x \<notin> rt_own gs_runtime (B i) - rt_meta gs_runtime (B i)" for x
    using that covered_in_block [OF ok cov] covered_no_field [OF ok cov] by (auto simp: cells)
  have "gs_content (gs_view l ?s) a = mem m a"
    unfolding vm(3) using gs_rsp_entered(2) [OF sch view a _ cov, of env] ok by (auto simp: gs_good_def)
  with gs_threads.entry_survives [OF B i vm(1) same vm(2) F steps] show "world_ok gs_runtime w'"
    "\<exists>d' l'. threads w' i = Some (d', l') \<and> gs_content (gs_view l' (shared w')) a = mem m a"
    by simp_all
qed

text \<open>
  C3: a function of the default scheme survives all other threads.  Let thread \<open>i\<close> enter a function
  with its return address at \<open>a\<close>, in a process that satisfies the invariant, and let the threads go on
  in any interleaving: threads start, make their rounds of destructors and end, every thread may
  rerandomize, thread \<open>i\<close> too, until its last round has handed over its shadow stack, the cleaner
  makes its passes, and all threads work as long as they leave alone the metadata and the slots of
  the live functions \<open>F\<close>.  Then the exit sequence of the function returns to the address that the call
  pushed, and no rerandomization of any thread fails.
\<close>

theorem return_survives_concurrent_threads:
  assumes "bc_scheme c = USE_SPA_GS_RSP" and "world_ok gs_runtime w" and "threads w i = Some (d, l)"
    and "same_view m (gs_view l (shared w))" and "regs m RSP = a" and "covered (fst d) a"
    and "tracks gs_runtime F w" and "(i, a) \<in> F"
    and "(world_step gs_runtime F)\<^sup>*\<^sup>* (w\<lparr>shared := entered c env m (shared w)\<rparr>) w'"
  shows "\<exists>d' l'. threads w' i = Some (d', l') \<and>
      (\<forall>m'. same_view m' (gs_view l' (shared w')) \<and> regs m' RSP = a \<longrightarrow> pc (epi_of c env m') = Some (mem m a)) \<and>
      (\<forall>j dj lj p. threads w' j = Some (dj, lj) \<and> gs_ready (fst dj) p (gs_view lj (shared w')) \<longrightarrow>
         (\<exists>s. gs_run p (gs_view lj (shared w')) = Some (Inr s)))"
proof -
  note entry = gs_rsp_thread_entered [OF assms]
  obtain d' l' where t: "threads w' i = Some (d', l')" "gs_content (gs_view l' (shared w')) a = mem m a"
    using entry(2) by blast
  have "pc (epi_of c env m') = Some (mem m a)" if "same_view m' (gs_view l' (shared w'))" "regs m' RSP = a" for m'
    using that t(2) gs_rsp_slot(1) [OF assms(1), of m' "gs_view l' (shared w')" env a]
      gs_rsp_slot(2) [OF assms(1)]
    by (simp add: rg.epi_pc same_view_def gs_content_def)
  moreover have "\<exists>s. gs_run p (gs_view lj (shared w')) = Some (Inr s)"
    if "threads w' j = Some (dj, lj)" "gs_ready (fst dj) p (gs_view lj (shared w'))" for j dj lj p
    using gs_threads.calls_return(1) [OF entry(1) that(1), of p] that(2) by simp
  ultimately show ?thesis using t(1) by blast
qed

text \<open>While the function runs, a second thread starts.\<close>

definition demo_process :: "(gs_rsp_state, gs_local, gs_desc) world" where
  "demo_process = \<lparr>shared = demo_called, threads = Map.empty(0 \<mapsto> ((demo_rsp, 0), gs_local_of demo_called))\<rparr>"

lemma demo_process_ok: "world_ok gs_runtime demo_process"
proof -
  obtain sh where "shadow_ok 0 sh demo_rsp demo_called" using demo_called_good by (auto simp: gs_good_def)
  then have "blocks_ok gs_runtime demo_process (\<lambda>_. sh)"
    by (auto simp: blocks_ok_def demo_process_def gs_waiting_def gs_table.waiting_in_def demo_called_def demo_thread_def)
  then show ?thesis by (auto simp: world_ok_def)
qed

theorem return_survives_concurrent_threads_witness:
  "\<exists>w' l'. (world_step gs_runtime {(0, demo_rsp - 8)})\<^sup>*\<^sup>*
      (demo_process\<lparr>shared := entered default_config demo_env demo_entry (shared demo_process)\<rparr>) w' \<and>
     threads w' 0 = Some ((demo_rsp, 0), l') \<and> threads w' 1 \<noteq> None \<and>
     pc (epi_of default_config demo_env (demo_entry\<lparr>gsb := gl_gs_base l', mem := cells (vmem (shared w'))\<rparr>)) = Some 0x401234"
proof -
  let ?A = "0x100000000000 :: u64" and ?F = "{(0 :: nat, demo_rsp - 8)}"
  let ?s = "entered default_config demo_env demo_entry (shared demo_process)"
  let ?w = "demo_process\<lparr>shared := ?s\<rparr>"
  let ?q = "(demo_grant ?A, 0x7fff00000000, demo_rsp, Some (Map.empty(8 \<mapsto> ArgInfo 16 24), 8)) :: gs_start_args"
  have sch: "bc_scheme default_config = USE_SPA_GS_RSP" by (simp add: default_config_def)
  have t: "threads demo_process 0 = Some ((demo_rsp, 0), gs_local_of demo_called)" by (simp add: demo_process_def)
  have view: "same_view demo_entry (gs_view (gs_local_of demo_called) (shared demo_process))"
    by (simp add: same_view_def demo_process_def demo_called_def demo_entry_def)
  have e: "regs demo_entry RSP = demo_rsp - 8" "mem demo_entry (demo_rsp - 8) = 0x401234"
    by (simp_all add: demo_entry_def)
  have cov: "covered (fst (demo_rsp, 0 :: nat)) (demo_rsp - 8)" by (simp add: covered_def DEF_sizes gs_rsp_sizes)
  have tr: "tracks gs_runtime ?F demo_process" using cov by (simp add: tracks_def demo_process_def)
  have A: "?A \<in> demo_places" by (simp add: demo_places_def)
  have "\<not> in_region demo_block REAL_SHADOW_STACK_SIZE x" if "in_region ?A REAL_SHADOW_STACK_SIZE x" for x
    using that by (auto simp: in_region_def gs_rsp_sizes demo_block_def word_less_nat_alt unat_sub_if')
  then have free: "prot_of (vmem (gs_view gs_fresh ?s)) x = None" if "in_region ?A REAL_SHADOW_STACK_SIZE x" for x
    using that by (simp add: entered_def demo_process_def demo_called_def demo_thread_def)
  have q: "rt_starts gs_runtime (0x7fff00000000, 1) ?q (rt_view gs_runtime (rt_fresh gs_runtime) (shared ?w))"
    using demo_grant_starts(2) [OF A free, of "Map.empty(8 \<mapsto> ArgInfo 16 24)" 8 "0x7fff00000000"]
    by (simp add: gs_view_def gs_fresh_def)
  from gs_threads.start_ok [OF q] obtain s' where
    s': "rt_start gs_runtime ?q (rt_view gs_runtime (rt_fresh gs_runtime) (shared ?w)) = Some (Inr s')" by blast
  let ?w' = "\<lparr>shared = s', threads = (threads ?w)(1 \<mapsto> ((0x7fff00000000, 1), rt_local gs_runtime s'))\<rparr>"
  have "world_step gs_runtime ?F ?w ?w'"
    by (rule world_step.start [OF _ q s']) (simp add: demo_process_def)
  then have steps: "(world_step gs_runtime ?F)\<^sup>*\<^sup>* ?w ?w'" by blast
  have t': "threads ?w' 0 = Some ((demo_rsp, 0), gs_local_of demo_called)" "threads ?w' 1 \<noteq> None" by (simp_all add: t)
  from return_survives_concurrent_threads [OF sch demo_process_ok t view e(1) cov tr _ steps] t'(1)
  have "pc (epi_of default_config demo_env m') = Some 0x401234"
    if "same_view m' (gs_view (gs_local_of demo_called) (shared ?w'))" "regs m' RSP = demo_rsp - 8" for m'
    using that e(2) by auto
  from this [of "demo_entry\<lparr>gsb := gl_gs_base (gs_local_of demo_called), mem := cells (vmem (shared ?w'))\<rparr>"]
  have "pc (epi_of default_config demo_env (demo_entry\<lparr>gsb := gl_gs_base (gs_local_of demo_called),
      mem := cells (vmem (shared ?w'))\<rparr>)) = Some 0x401234"
    by (simp add: same_view_def e)
  with steps t' show ?thesis by blast
qed

text \<open>The same for the FS/GS scheme.\<close>

lemma fs_gs_thread_entered:
  assumes sch: "bc_scheme c = USE_SPA_FS_GS_TLS" and w: "world_ok (fs_runtime c) w"
    and i: "threads w i = Some ((ct, rsp0, key), l)" and view: "same_view m (fs_view l (shared w))"
    and a: "regs m RSP = a" and fr: "fs_framed rsp0 a" and F: "tracks (fs_runtime c) F w" "(i, a) \<in> F"
    and steps: "(world_step (fs_runtime c) F)\<^sup>*\<^sup>* (w\<lparr>shared := entered c env m (shared w)\<rparr>) w'"
  shows "world_ok (fs_runtime c) w'"
    and "\<exists>d' l'. threads w' i = Some (d', l') \<and> fs_content c (fs_view l' (shared w')) a = mem m a"
proof -
  let ?s = "entered c env m (shared w)" and ?v = "fs_view l (shared w)"
  obtain B where B: "blocks_ok (fs_runtime c) w B" using w by (auto simp: world_ok_def)
  obtain v wr md sh where b: "B i = (v, wr, md, sh)" by (cases "B i") blast
  have ok: "fs_ok_at v wr md sh ct rsp0 ?v" using blocks_okD(1) [OF B i] by (simp add: b)
  have vm: "prot_of (rt_vm (fs_runtime c) ?s) = prot_of (rt_vm (fs_runtime c) (shared w))"
    "rt_waiting (fs_runtime c) ?s = rt_waiting (fs_runtime c) (shared w)" "fs_view l ?s = entered c env m ?v"
    by (simp_all add: entered_def fs_waiting_def fs_view_def)
  have cells: "cells (vmem ?s) = (cells (vmem (shared w)))(fs_slot ?v a := mem m a + fs_key c ?v)"
    using fs_gs_entry_writes [OF sch view a, of env] by (simp add: entered_def)
  have "in_stack sh (fs_slot ?v a)" by (rule fs_framed_slot [OF ok fr])
  moreover from this have "\<not> in_page md (fs_slot ?v a)" using ok unfolding fs_ok_at_def fs_mem_def by blast
  ultimately have same: "cells (rt_vm (fs_runtime c) ?s) x = cells (rt_vm (fs_runtime c) (shared w)) x"
    if "x \<notin> rt_own (fs_runtime c) (B i) - rt_meta (fs_runtime c) (B i)" for x
    using that by (auto simp: cells b)
  have "fs_content c (fs_view l ?s) a = mem m a"
    unfolding vm(3) by (rule fs_gs_entered(2) [OF sch view a ok fr])
  with fs_threads.entry_survives [OF B i vm(1) same vm(2) F steps] show "world_ok (fs_runtime c) w'"
    "\<exists>d' l'. threads w' i = Some (d', l') \<and> fs_content c (fs_view l' (shared w')) a = mem m a"
    by simp_all
qed

text \<open>
  C5: the same for the FS/GS scheme, where each rerandomization also re-blinds the slots of its
  thread.  A function of \<open>F\<close> returns to its caller in every run in which the rerandomizations of its
  own thread are called from frames below it and succeed in moving the shadow stack; those of the
  other threads, from whose functions none is in \<open>F\<close>, may fail to.  A thread whose move has failed, or
  that has handed over its blocks in its last round of destructors, does not rerandomize again.  And
  whatever \<open>mremap\<close> answers, no call of the runtime by a thread none of whose moves has failed ends the
  process or runs forever.  What a failed move does is \<open>failed_mremap_loses_the_return_addresses\<close>.
\<close>

theorem blinded_return_survives_concurrent_threads:
  assumes "bc_scheme c = USE_SPA_FS_GS_TLS" and "world_ok (fs_runtime c) w"
    and "threads w i = Some ((ct, rsp0, key), l)" and "same_view m (fs_view l (shared w))"
    and "regs m RSP = a" and "fs_framed rsp0 a" and "tracks (fs_runtime c) F w" and "(i, a) \<in> F"
    and "(world_step (fs_runtime c) F)\<^sup>*\<^sup>* (w\<lparr>shared := entered c env m (shared w)\<rparr>) w'"
  shows "\<exists>d' l'. threads w' i = Some (d', l') \<and>
      (\<forall>m'. same_view m' (fs_view l' (shared w')) \<and> regs m' RSP = a \<longrightarrow> pc (epi_of c env m') = Some (mem m a)) \<and>
      (\<forall>j dj lj p. threads w' j = Some (dj, lj) \<and> fs_ready (fst dj) (fst (snd dj)) p (fs_view lj (shared w')) \<and>
           fs_standing (fs_view lj (shared w')) \<longrightarrow>
         (\<exists>s. fs_run c p (fs_view lj (shared w')) = Some (Inr s)))"
proof -
  note entry = fs_gs_thread_entered [OF assms]
  obtain d' l' where t: "threads w' i = Some (d', l')" "fs_content c (fs_view l' (shared w')) a = mem m a"
    using entry(2) by blast
  have "pc (epi_of c env m') = Some (mem m a)" if "same_view m' (fs_view l' (shared w'))" "regs m' RSP = a" for m'
    using that t(2) fs_gs_slot [OF assms(1) that(1), of env a]
    by (simp add: rg.epi_pc fs_content_def) (simp add: same_view_def)
  moreover have "\<exists>s. fs_run c p (fs_view lj (shared w')) = Some (Inr s)"
    if "threads w' j = Some (dj, lj)" "fs_ready (fst dj) (fst (snd dj)) p (fs_view lj (shared w'))"
      "fs_standing (fs_view lj (shared w'))" for j dj lj p
    using fs_threads.calls_return(1) [OF entry(1) that(1), of "(fst p, snd p, False)"] that(2,3) by (cases dj) simp
  ultimately show ?thesis using t(1) by blast
qed

definition demo_fs_process :: "(fs_gs_state, fs_local, fs_desc) world" where
  "demo_fs_process = \<lparr>shared = demo_fs_called,
     threads = Map.empty(0 \<mapsto> ((demo_fs_top, demo_fs_rsp, 0), fs_local_of demo_fs_called))\<rparr>"

lemma demo_fs_process_ok: "world_ok (fs_runtime c) demo_fs_process"
proof -
  obtain wr md sh where "fs_ok wr md sh demo_fs_top demo_fs_rsp demo_fs_called"
    using demo_fs_called_good by (auto simp: fs_good_def)
  then have "blocks_ok (fs_runtime c) demo_fs_process (\<lambda>_. (sh, wr, md, sh))"
    by (auto simp: blocks_ok_def demo_fs_process_def fs_waiting_def fs_table.waiting_in_def demo_fs_called_def demo_fs_thread_def)
  then show ?thesis by (auto simp: world_ok_def)
qed

theorem blinded_return_survives_concurrent_threads_witness:
  "\<exists>w' l'. (world_step (fs_runtime demo_fs_config) {(0, demo_fs_rsp - 8)})\<^sup>*\<^sup>*
      (demo_fs_process\<lparr>shared := entered demo_fs_config demo_env demo_fs_entry (shared demo_fs_process)\<rparr>) w' \<and>
     threads w' 0 = Some ((demo_fs_top, demo_fs_rsp, 0), l') \<and> threads w' 1 \<noteq> None \<and>
     pc (epi_of demo_fs_config demo_env (demo_fs_entry\<lparr>gsb := fl_gs_base l', mem := cells (vmem (shared w'))\<rparr>)) = Some 0x401234"
proof -
  let ?rt = "fs_runtime demo_fs_config" and ?F = "{(0 :: nat, demo_fs_rsp - 8)}"
  let ?s = "entered demo_fs_config demo_env demo_fs_entry (shared demo_fs_process)"
  let ?w = "demo_fs_process\<lparr>shared := ?s\<rparr>" and ?l = "fs_local_of demo_fs_called"
  let ?ta = "\<lparr>getattr_ok = True, getstack = Some (0x7fff00000000, 0x1000100)\<rparr>"
  let ?q = "(demo_fs_kernel, ?ta, 0x7fff01000000, Some (Map.empty(8 \<mapsto> ArgInfo 16 24), 8)) :: fs_start_args"
  let ?d = "(fs_call_top 0x7fff00000000 0x1000100, 0x7fff01000000, 1) :: fs_desc"
  have sch: "bc_scheme demo_fs_config = USE_SPA_FS_GS_TLS" by (simp add: demo_fs_config_def)
  have t: "threads demo_fs_process 0 = Some ((demo_fs_top, demo_fs_rsp, 0), ?l)" by (simp add: demo_fs_process_def)
  have view: "same_view demo_fs_entry (fs_view ?l (shared demo_fs_process))"
    by (simp add: same_view_def demo_fs_process_def demo_fs_called_def demo_fs_entry_def)
  have e: "regs demo_fs_entry RSP = demo_fs_rsp - 8" "mem demo_fs_entry (demo_fs_rsp - 8) = 0x401234"
    by (simp_all add: demo_fs_entry_def)
  have fr: "fs_framed demo_fs_rsp (demo_fs_rsp - 8)" by (simp add: fs_framed_def DEF_sizes)
  have tr: "tracks ?rt ?F demo_fs_process" using fr by (simp add: tracks_def demo_fs_process_def)
  have "prot_of (vmem (fs_view fs_fresh ?s)) = prot_of (vmem demo_fs_thread)"
    by (simp add: entered_def demo_fs_process_def demo_fs_called_def)
  then have "has_room demo_fs_kernel (vmem (fs_view fs_fresh ?s))"
    by (intro has_room_mapped [OF demo_fs_room]) (simp add: same_mapped_def)
  then have q: "rt_starts ?rt ?d ?q (rt_view ?rt (rt_fresh ?rt) (shared ?w))"
    using demo_fs_kernel_ok by (simp add: fs_starts_def) (simp add: fs_view_def fs_fresh_def)
  from fs_threads.start_ok [OF q] obtain s' where
    s': "rt_start ?rt ?q (rt_view ?rt (rt_fresh ?rt) (shared ?w)) = Some (Inr s')" by blast
  let ?w' = "\<lparr>shared = s', threads = (threads ?w)(1 \<mapsto> (?d, rt_local ?rt s'))\<rparr>"
  have "world_step ?rt ?F ?w ?w'"
    by (rule world_step.start [OF _ q s']) (simp add: demo_fs_process_def)
  then have steps: "(world_step ?rt ?F)\<^sup>*\<^sup>* ?w ?w'" by blast
  have t': "threads ?w' 0 = Some ((demo_fs_top, demo_fs_rsp, 0), ?l)" "threads ?w' 1 \<noteq> None" by (simp_all add: t)
  from blinded_return_survives_concurrent_threads [OF sch demo_fs_process_ok t view e(1) fr tr _ steps] t'(1)
  have "pc (epi_of demo_fs_config demo_env m') = Some 0x401234"
    if "same_view m' (fs_view ?l (shared ?w'))" "regs m' RSP = demo_fs_rsp - 8" for m'
    using that e(2) by auto
  from this [of "demo_fs_entry\<lparr>gsb := fl_gs_base ?l, mem := cells (vmem (shared ?w'))\<rparr>"]
  have "pc (epi_of demo_fs_config demo_env (demo_fs_entry\<lparr>gsb := fl_gs_base ?l,
      mem := cells (vmem (shared ?w'))\<rparr>)) = Some 0x401234"
    by (simp add: same_view_def e) (simp add: fs_view_def)
  with steps t' show ?thesis by blast
qed
subsection \<open>The buddy stack schemes\<close>

text \<open>
  The two schemes: with the size in the variable, or with 8 MB built in; then the runtime must use
  the same size.
\<close>

definition buddy_scheme :: "build_config \<Rightarrow> asm_env \<Rightarrow> nat \<Rightarrow> addr \<Rightarrow> bool" where
  "buddy_scheme c env n ma \<longleftrightarrow>
     bc_scheme c = USE_SPA_BUDDY_STACK_TLS_WITH_STK_SIZE \<and> sym_addr env stk_mask_var = ma \<or>
     bc_scheme c = USE_SPA_BUDDY_STACK_TLS \<and> n = 23"

lemma buddy_slot_key:
  assumes "buddy_scheme c env n ma" and "same_view m s" and "buddy_good n hi ma s"
  shows "slot_of c env m a = a - 2 ^ n" and "key_of c env m a = cells (vmem s) (buddy_tls_at (- (2 ^ n)) a 2)"
    and "buddy_content s a = mem m (slot_of c env m a) - key_of c env m a"
proof -
  have mask: "mem m ma = - (2 ^ n)" "cells (vmem s) (stk_mask_at s) = - (2 ^ n)" "mem m = cells (vmem s)"
    using assms(2,3) by (auto simp: buddy_good_def buddy_ok_def buddy_mapped_def same_view_def)
  show sl: "slot_of c env m a = a - 2 ^ n"
    using assms(1) mask by (auto simp: buddy_scheme_def slot_of_def DEF_sizes)
  show k: "key_of c env m a = cells (vmem s) (buddy_tls_at (- (2 ^ n)) a 2)"
    using assms(1) mask
    by (auto simp: buddy_scheme_def key_of_def buddy_tls_at_def BUDDY_ALIGN_CALL_STACK_POINTER_def
        BUDDY_CALL_STACK_SIZE_MASK_eq BUDDY_CALL_STACK_SIZE_def DEF_sizes and.commute mult.commute Let_def)
  show "buddy_content s a = mem m (slot_of c env m a) - key_of c env m a"
    by (simp add: sl k buddy_content_def mask)
qed

lemma buddy_entered:
  assumes sch: "buddy_scheme c env n ma" and view: "same_view m s" and a: "regs m RSP = a"
    and good: "buddy_good n hi ma s" and frame: "on_call_stack n hi a"
  shows "buddy_good n hi ma (entered c env m s)" and "buddy_content (entered c env m s) a = mem m a"
proof -
  let ?s' = "entered c env m s"
  note sk = buddy_slot_key [OF sch view good]
  have ok: "buddy_ok n hi s" "stk_mask_at s = ma" using good by (simp_all add: buddy_good_def)
  then have lay: "buddy_layout n hi" and above: "\<not> below_call_stack n hi ma"
    and mask: "cells (vmem s) ma = - (2 ^ n)"
    by (auto simp: buddy_ok_def buddy_mapped_def)
  have pro: "cells (vmem ?s') = (cells (vmem s))(a - 2 ^ n := mem m a + cells (vmem s) (buddy_tls_at (- (2 ^ n)) a 2))"
    using a view rg.pro_mem [of c env m] by (simp add: entered_def same_view_def sk(1,2))
  have ma: "a - 2 ^ n \<noteq> ma" using slot_place(1) [OF lay frame] above by blast
  have out: "u + buddy_field_offset f \<noteq> a - 2 ^ n" if "u \<in> {buddy2 n hi, buddy3 n hi}" for u f
    using slot_place(2) [OF lay frame that] tls_field_in_page by metis
  have same: "prot_of (vmem ?s') = prot_of (vmem s)" "stk_mask_at ?s' = stk_mask_at s"
    by (simp_all add: entered_def)
  have fld: "buddy_fld u f ?s' = buddy_fld u f s" if "u \<in> {buddy2 n hi, buddy3 n hi}" for u f
    using out [OF that] by (simp add: buddy_fld_def pro)
  have "buddy_mapped n hi ?s'"
    using ok ma mask unfolding buddy_ok_def buddy_mapped_def same by (simp add: pro)
  then show "buddy_good n hi ma ?s'"
    using ok same by (simp add: buddy_good_def buddy_ok_def buddy_copy_def fld)
  obtain u where u: "buddy_tls_at (- (2 ^ n)) a 2 = u" "u \<in> {buddy2 n hi, buddy3 n hi}"
    using frame_finds_copy [OF lay frame] by blast
  have "u \<noteq> a - 2 ^ n" using out [OF u(2), of bf_random_val] by simp
  then show "buddy_content ?s' a = mem m a"
    using ma mask by (simp add: buddy_content_def same ok(2) pro u(1))
qed

text \<open>
  C7: a function of the buddy stack schemes survives any number of rerandomizations, each called
  from a frame below it.  Entry and exit sequence may find different copies of the metadata than
  the runtime; still the exit sequence returns to the address that the call pushed, and no call of
  the runtime fails.
\<close>

theorem buddy_return_survives_rerandomization:
  assumes "buddy_scheme c env n ma" and "same_view m s" and "regs m RSP = a"
    and "buddy_good n hi ma s" and "on_call_stack n hi a"
    and "(run_step buddy_run (buddy_good n hi ma) (buddy_ready n hi) (buddy_call_live n hi) buddy_content a)\<^sup>*\<^sup>*
           (entered c env m s) t"
    and "same_view m' t" and "regs m' RSP = a"
  shows "pc (epi_of c env m') = Some (mem m a) \<and>
    (\<forall>p. buddy_ready n hi p t \<longrightarrow> (\<exists>u. buddy_run p t = Some (Inr u)))"
proof -
  note entry = buddy_entered [OF assms(1-5)]
  note keep = buddy_rerand.steps_keep [OF assms(6) entry(1)]
  have "pc (epi_of c env m') = Some (mem m a)"
    using buddy_slot_key(3) [OF assms(1,7) keep(1), of a] keep(2) entry(2) assms(8) by (simp add: rg.epi_pc)
  with buddy_rerand.never_stuck [OF assms(6) entry(1)] show ?thesis by blast
qed

definition demo_buddy_config :: build_config where
  "demo_buddy_config = default_config\<lparr>bc_scheme := USE_SPA_BUDDY_STACK_TLS\<rparr>"

definition demo_buddy_entry :: mstate where
  "demo_buddy_entry =
     \<lparr>regs = (\<lambda>r. if r = RSP then demo_buddy_rsp + 64 else 0),
      mem = (cells (vmem demo_buddy))(demo_buddy_rsp + 64 := 0x401234), gsb = 0, zf = False, pc = None\<rparr>"

definition demo_buddy_called :: buddy_state where
  "demo_buddy_called = demo_buddy\<lparr>vmem := (vmem demo_buddy)\<lparr>cells := mem demo_buddy_entry\<rparr>\<rparr>"

lemma demo_buddy_called_good: "buddy_good 23 demo_buddy_hi demo_mask_at demo_buddy_called"
proof -
  let ?a = "demo_buddy_rsp + 64"
  have frame: "\<not> below_call_stack 23 demo_buddy_hi ?a"
    by (simp add: below_call_stack_def demo_buddy_hi_def demo_buddy_rsp_def)
  have "u + buddy_field_offset f \<noteq> ?a" if "u \<in> {buddy2 23 demo_buddy_hi, buddy3 23 demo_buddy_hi}" for u f
    using tls_pages(3) [OF demo_layout that] tls_field_in_page frame by metis
  then have fld: "buddy_fld u f demo_buddy_called = buddy_fld u f demo_buddy"
    if "u \<in> {buddy2 23 demo_buddy_hi, buddy3 23 demo_buddy_hi}" for u f
    using that by (simp add: buddy_fld_def demo_buddy_called_def demo_buddy_entry_def)
  have same: "prot_of (vmem demo_buddy_called) = prot_of (vmem demo_buddy)" "stk_mask_at demo_buddy_called = demo_mask_at"
    "stk_mask_at demo_buddy = demo_mask_at"
    by (simp_all add: demo_buddy_called_def demo_buddy_def)
  have "demo_mask_at \<noteq> ?a" by (simp add: demo_mask_at_def demo_buddy_rsp_def)
  then have "cells (vmem demo_buddy_called) demo_mask_at = cells (vmem demo_buddy) demo_mask_at"
    by (simp add: demo_buddy_called_def demo_buddy_entry_def)
  then have "buddy_mapped 23 demo_buddy_hi demo_buddy_called"
    using demo_buddy_ok unfolding buddy_ok_def buddy_mapped_def same by simp
  then show ?thesis
    using demo_buddy_ok by (simp add: buddy_good_def buddy_ok_def buddy_copy_def fld same(2) del: power_numeral)
qed

theorem buddy_return_survives_rerandomization_witness:
  "\<exists>t. buddy_run (demo_buddy_kernel, \<lambda>_. 99, demo_buddy_rsp, demo_buddy_rsp)
        (entered demo_buddy_config demo_env demo_buddy_entry demo_buddy_called) = Some (Inr t) \<and>
     pc (epi_of demo_buddy_config demo_env (demo_buddy_entry\<lparr>mem := cells (vmem t), gsb := gs_base t\<rparr>)) = Some 0x401234"
proof -
  let ?s = "entered demo_buddy_config demo_env demo_buddy_entry demo_buddy_called"
  let ?p = "(demo_buddy_kernel, \<lambda>_ :: nat. 99 :: u64, demo_buddy_rsp, demo_buddy_rsp)"
  let ?step = "run_step buddy_run (buddy_good 23 demo_buddy_hi demo_mask_at) (buddy_ready 23 demo_buddy_hi)
    (buddy_call_live 23 demo_buddy_hi) buddy_content (demo_buddy_rsp + 64)"
  have sch: "buddy_scheme demo_buddy_config demo_env 23 demo_mask_at"
    by (simp add: buddy_scheme_def demo_buddy_config_def)
  have view: "same_view demo_buddy_entry demo_buddy_called"
    by (simp add: same_view_def demo_buddy_called_def demo_buddy_entry_def) (simp add: demo_buddy_def)
  have e: "regs demo_buddy_entry RSP = demo_buddy_rsp + 64" "mem demo_buddy_entry (demo_buddy_rsp + 64) = 0x401234"
    by (simp_all add: demo_buddy_entry_def)
  have frame: "on_call_stack 23 demo_buddy_hi (demo_buddy_rsp + 64)"
    by (simp add: on_call_stack_def demo_buddy_hi_def demo_buddy_rsp_def)
  have ready: "buddy_ready 23 demo_buddy_hi ?p s" for s using demo_rsp_on_stack by simp
  have live: "buddy_call_live 23 demo_buddy_hi ?p (demo_buddy_rsp + 64)"
    by (simp add: buddy_live_def on_call_stack_def demo_buddy_hi_def demo_buddy_rsp_def)
  note ret = buddy_return_survives_rerandomization [OF sch view e(1) demo_buddy_called_good frame]
  have view': "same_view (demo_buddy_entry\<lparr>mem := cells (vmem t), gsb := gs_base t\<rparr>) t" for t :: buddy_state
    by (simp add: same_view_def)
  have "\<exists>t. buddy_run ?p ?s = Some (Inr t)"
    using ret [OF rtranclp.rtrancl_refl view' [of ?s]] ready e(1) by simp
  then obtain t where t: "buddy_run ?p ?s = Some (Inr t)" by blast
  then have "?step\<^sup>*\<^sup>* ?s t" using ready live by (intro r_into_rtranclp run_step.rerandomize)
  from ret [OF this view' [of t]] t e show ?thesis by auto
qed

subsection \<open>Hooked library calls\<close>

lemma gs_DO_RANDOMIZATION_run: "gs_DO_RANDOMIZATION k rsp rsp_alloc = gs_run (k, rsp, rsp_alloc)"
  by (simp add: fun_eq_iff gs_DO_RANDOMIZATION_def gs_run_def)

text \<open>
  C8: a function may call hooked library functions.  In the default scheme let a function be entered
  with its return address at \<open>a\<close> and call any function of libc for which there is a hook, compiled or
  not, whose real counterpart returns and leaves the runtime's data and the function's slot alone.
  The call returns with what the real function returned, and the exit sequence then returns to the
  function's caller.
\<close>

theorem return_survives_hooked_calls:
  assumes "bc_scheme c = USE_SPA_GS_RSP" and "same_view m s" and "regs m RSP = a"
    and "gs_good rsp0 s" and "covered rsp0 a"
    and "gs_ready rsp0 (k, rsp, rsp_alloc) s" and "\<And>h. sw h \<Longrightarrow> dl h"
    and "\<And>t. gs_good rsp0 t \<Longrightarrow> \<exists>n u. real x t = Some (n, u) \<and> gs_good rsp0 u \<and> gs_content u a = gs_content t a"
  shows "\<exists>n fs' t v w.
    intercepted sw h dl (gs_DO_RANDOMIZATION k rsp rsp_alloc) real x fs (entered c env m s) = Some (Inr (n, fs', t)) \<and>
    real x v = Some (n, w) \<and> gs_good rsp0 t \<and>
    (\<forall>m'. same_view m' t \<and> regs m' RSP = a \<longrightarrow> pc (epi_of c env m') = Some (mem m a))"
proof -
  note entry = gs_rsp_entered [OF assms(1-5), of env]
  have ready: "gs_ready rsp0 (k, rsp, rsp_alloc) t" for t using assms(6) by (simp add: gs_ready_def)
  from gs_rerand.hooked_call [where p = "(k, rsp, rsp_alloc)" and sw = sw and dl = dl and real = real and x = x
      and h = h and fs = fs, OF entry(1) ready assms(5,7,8)]
  obtain n fs' t v w where t:
    "intercepted sw h dl (gs_run (k, rsp, rsp_alloc)) real x fs (entered c env m s) = Some (Inr (n, fs', t))"
    "real x v = Some (n, w)" "gs_good rsp0 t" "gs_content t a = mem m a"
    unfolding entry(2) by blast
  have "pc (epi_of c env m') = Some (mem m a)" if "same_view m' t" "regs m' RSP = a" for m'
    using that assms(1) t(4) by (simp add: rg.epi_pc same_view_def gs_rsp_slot gs_content_def)
  with t(1-3) show ?thesis unfolding gs_DO_RANDOMIZATION_run by blast
qed

text \<open>A call of \<open>write\<close> that returns 5, with its hook compiled.\<close>

definition demo_write :: "unit \<Rightarrow> gs_rsp_state \<Rightarrow> (nat \<times> gs_rsp_state) option" where
  "demo_write x s = Some (5, s)"

theorem return_survives_hooked_calls_witness:
  "\<exists>fs' t. intercepted (\<lambda>_. True) H_write (\<lambda>_. True)
       (gs_DO_RANDOMIZATION demo_kernel (demo_rsp - 64) (demo_rsp - 96)) demo_write () (\<lambda>_. False)
       (entered default_config demo_env demo_entry demo_called) = Some (Inr (5, fs', t)) \<and>
     pc (epi_of default_config demo_env (demo_entry\<lparr>gsb := gs_base t, mem := cells (vmem t)\<rparr>)) = Some 0x401234"
proof -
  have sch: "bc_scheme default_config = USE_SPA_GS_RSP" by (simp add: default_config_def)
  have view: "same_view demo_entry demo_called"
    by (simp add: same_view_def demo_called_def demo_entry_def)
  have e: "regs demo_entry RSP = demo_rsp - 8" "mem demo_entry (demo_rsp - 8) = 0x401234"
    by (simp_all add: demo_entry_def)
  have cov: "covered demo_rsp (demo_rsp - 8)" by (simp add: covered_def DEF_sizes gs_rsp_sizes)
  have ready: "gs_ready demo_rsp (demo_kernel, demo_rsp - 64, demo_rsp - 96) demo_called"
    using demo_kernel_ok demo_in_window by (simp add: gs_ready_def) (simp add: demo_kernel_def)
  have real: "\<exists>n u. demo_write () t = Some (n, u) \<and> gs_good demo_rsp u \<and>
      gs_content u (demo_rsp - 8) = gs_content t (demo_rsp - 8)" if "gs_good demo_rsp t" for t
    using that by (simp add: demo_write_def)
  have "\<exists>n fs' t v w. intercepted (\<lambda>_. True) H_write (\<lambda>_. True)
        (gs_DO_RANDOMIZATION demo_kernel (demo_rsp - 64) (demo_rsp - 96)) demo_write () (\<lambda>_. False)
        (entered default_config demo_env demo_entry demo_called) = Some (Inr (n, fs', t)) \<and>
      demo_write () v = Some (n, w) \<and> gs_good demo_rsp t \<and>
      (\<forall>m'. same_view m' t \<and> regs m' RSP = demo_rsp - 8 \<longrightarrow>
         pc (epi_of default_config demo_env m') = Some (mem demo_entry (demo_rsp - 8)))"
    by (rule return_survives_hooked_calls [OF sch view e(1) demo_called_good cov ready]) (simp_all add: real)
  then obtain n fs' t v w where t: "intercepted (\<lambda>_. True) H_write (\<lambda>_. True)
        (gs_DO_RANDOMIZATION demo_kernel (demo_rsp - 64) (demo_rsp - 96)) demo_write () (\<lambda>_. False)
        (entered default_config demo_env demo_entry demo_called) = Some (Inr (n, fs', t))"
      "demo_write () v = Some (n, w)"
      "\<And>m'. same_view m' t \<Longrightarrow> regs m' RSP = demo_rsp - 8 \<Longrightarrow>
         pc (epi_of default_config demo_env m') = Some (mem demo_entry (demo_rsp - 8))"
    by blast
  have "n = 5" using t(2) by (simp add: demo_write_def)
  moreover have "same_view (demo_entry\<lparr>gsb := gs_base t, mem := cells (vmem t)\<rparr>) t"
    by (simp add: same_view_def)
  from t(3) [OF this] have "pc (epi_of default_config demo_env (demo_entry\<lparr>gsb := gs_base t, mem := cells (vmem t)\<rparr>)) = Some 0x401234"
    using e by simp
  ultimately show ?thesis using t(1) by auto
qed

subsection \<open>Signal handlers\<close>

lemma eager_installs:
  assumes "EnsureEagerProcessSignalHandlers k w0 = Inr w" and "\<not> tried (sEagerInstallState w0)"
    and "signum = SIGSEGV \<or> signum = SIGILL"
  shows "sa_handler (dispositions w signum) = H_WasmTrapHandler"
    and "sa_flags (dispositions w signum) AND SA_ONSTACK = 0"
  using assms
  by (auto simp: EnsureEagerProcessSignalHandlers_def sys_sigaction_def Let_def signal_numbers faultHandler_def
      wasmTrapHandler_def signal_flags split: if_splits)

lemma below_covered:
  assumes "unat (rsp0 - sp) + unat (sp - a) + unat (a - b) \<le> unat DEF_BUDDY_CALL_STACK_SIZE"
  shows "covered rsp0 b"
proof -
  have "unat ((sp - a) + (a - b)) = unat (sp - a) + unat (a - b)"
    by (rule unat_add_lem [THEN iffD1]) (use assms in \<open>simp add: DEF_sizes\<close>)
  then have sb: "unat (sp - b) = unat (sp - a) + unat (a - b)" by simp
  have "unat ((rsp0 - sp) + (sp - b)) = unat (rsp0 - sp) + unat (sp - b)"
    by (rule unat_add_lem [THEN iffD1]) (use assms sb in \<open>simp add: DEF_sizes\<close>)
  with assms sb have "(rsp0 - sp) + (sp - b) \<le> DEF_BUDDY_CALL_STACK_SIZE" by (simp only: word_le_nat_alt)
  then have le: "rsp0 - b \<le> DEF_BUDDY_CALL_STACK_SIZE" by simp
  have "b - (rsp0 - DEF_BUDDY_CALL_STACK_SIZE) = DEF_BUDDY_CALL_STACK_SIZE - (rsp0 - b)" by simp
  also have "\<dots> < METADATA_OFFSET_ON_SHADOW_STACK"
    using le by (simp add: word_less_nat_alt unat_sub gs_rsp_sizes DEF_sizes)
  finally show ?thesis by (simp add: covered_def)
qed

lemma far_slot_outside:
  assumes "shadow_ok r sh rsp0 s" and "REAL_SHADOW_STACK_SIZE \<le> b - (rsp0 - DEF_BUDDY_CALL_STACK_SIZE)"
  shows "\<not> in_region sh REAL_SHADOW_STACK_SIZE (shadow_slot s b)"
  using assms(2) by (simp add: shadow_slot_in_block [OF assms(1)] in_region_def not_less)

text \<open>
  What is written for \<open>WasmTrapHandler\<close>, which is in the list \<open>on_stack_handlers\<close>: a call of the
  statistics at the entry, and no exit sequence.
\<close>

definition handler_label :: string where "handler_label = ''_ZL15WasmTrapHandleriP9siginfo_tPv:''"

definition handler_exit :: "build_config \<Rightarrow> asm_env \<Rightarrow> mstate \<Rightarrow> mstate" where
  "handler_exit c env h =
     (case ret_instrs c (is_no_instr_func handler_label) (is_on_stack_handler handler_label)
             (is_customized_libc_func handler_label) of
        None \<Rightarrow> exec_retq h | Some ins \<Rightarrow> exec env ins h)"

lemma handler_flags:
  "is_on_stack_handler handler_label" "\<not> is_no_instr_func handler_label" "\<not> is_customized_libc_func handler_label"
  by (simp_all add: is_on_stack_handler_def is_no_instr_func_def is_customized_libc_func_def is_target_func_iff
      on_stack_handlers_def no_instr_funcs_def customized_libc_funcs_def handler_label_def)

lemma handler_exit_plain:
  assumes "bc_scheme c = USE_SPA_GS_RSP"
  shows "handler_exit c env h = exec_retq h"
  using assms by (simp add: handler_exit_def handler_flags ret_instrs_def)

text \<open>
  C35: the patched signal handlers run on the protected stack.  After installation, a fault in
  WebAssembly code calls \<open>WasmTrapHandler\<close>; \<open>frame\<close> is where the kernel puts the handler's return
  address, and all that is used of it is what \<open>sigaction\<close> documents: without \<open>SA_ONSTACK\<close> it is below
  the interrupted stack pointer, here by \<open>fsize\<close> at most.  The handler itself is exempted from the
  scheme: it has no exit sequence and returns to whatever its cell on the call stack holds.  But every
  function that is called while the handler runs, with its return address at \<open>b\<close> below the handler's
  frame, has a slot as long as the call stack has the room, and returns to its caller even when it or
  the library calls of its callees rerandomize.  Frames far from the thread's call stack, as on an
  alternate stack, would have their slots outside the thread's shadow stack.
\<close>

theorem signal_handler_callees_return:
  assumes "bc_scheme c = USE_SPA_GS_RSP"
    and "EnsureEagerProcessSignalHandlers k w0 = Inr w" and "\<not> tried (sEagerInstallState w0)"
    and "signum = SIGSEGV \<or> signum = SIGILL"
    and "\<forall>act alt sp. sa_flags act AND SA_ONSTACK = 0 \<longrightarrow> unat (sp - frame act alt sp) \<le> fsize"
    and "a = frame (dispositions w signum) (alt :: addr option) sp"
    and "unat (rsp0 - sp) + fsize + unat (a - b) \<le> unat DEF_BUDDY_CALL_STACK_SIZE"
    and "shadow_ok 0 sh rsp0 s" and "same_view m s" and "regs m RSP = b"
    and "(run_step gs_run (gs_good rsp0) (gs_ready rsp0) (\<lambda>p. covered rsp0) gs_content b)\<^sup>*\<^sup>*
           (entered c env m s) t"
    and "same_view m' t" and "regs m' RSP = b"
  shows "sa_handler (dispositions w signum) = H_WasmTrapHandler \<and>
    (\<forall>h ra. regs h RSP = a \<longrightarrow> pc (handler_exit c env (set_mem a ra h)) = Some ra) \<and>
    pc (epi_of c env m') = Some (mem m b) \<and>
    (\<forall>x. REAL_SHADOW_STACK_SIZE \<le> x - (rsp0 - DEF_BUDDY_CALL_STACK_SIZE) \<longrightarrow>
       \<not> in_region sh REAL_SHADOW_STACK_SIZE (shadow_slot s x))"
proof -
  note inst = eager_installs [OF assms(2-4)]
  have "unat (sp - a) \<le> fsize" using assms(5) inst(2) unfolding assms(6) by blast
  with assms(7) have "unat (rsp0 - sp) + unat (sp - a) + unat (a - b) \<le> unat DEF_BUDDY_CALL_STACK_SIZE" by linarith
  then have "covered rsp0 b" by (rule below_covered)
  moreover have "gs_good rsp0 s" using assms(8) by (auto simp: gs_good_def)
  ultimately have "pc (epi_of c env m') = Some (mem m b)"
    using return_survives_rerandomization [OF assms(1,9,10) _ _ assms(11-13)] by blast
  moreover have "pc (handler_exit c env (set_mem a ra h)) = Some ra" if "regs h RSP = a" for h ra
    using that by (simp add: handler_exit_plain [OF assms(1)] exec_retq_def machine_defs)
  ultimately show ?thesis using inst(1) far_slot_outside [OF assms(8)] by blast
qed

text \<open>A kernel that puts the return address directly below the stack pointer, and a callee of the handler.\<close>

definition demo_frame :: "sigaction \<Rightarrow> addr option \<Rightarrow> addr \<Rightarrow> addr" where
  "demo_frame act alt sp = (case alt of
     Some hi \<Rightarrow> if sa_flags act AND SA_ONSTACK = 0 then sp - 8 else hi - 8 | None \<Rightarrow> sp - 8)"

definition demo_callee :: mstate where
  "demo_callee = demo_entry\<lparr>regs := (\<lambda>r. if r = RSP then demo_rsp - 64 else 0),
     mem := (mem demo_entry)(demo_rsp - 64 := 0x405678)\<rparr>"

lemma demo_callee_good: "\<exists>sh. shadow_ok 0 sh demo_rsp (demo_called\<lparr>vmem := (vmem demo_called)\<lparr>cells := mem demo_callee\<rparr>\<rparr>)"
proof -
  have "md_of demo_block + gr_field_offset f \<noteq> demo_rsp - 8" "md_of demo_block + gr_field_offset f \<noteq> demo_rsp - 64" for f
    by (cases f; simp add: demo_block_def demo_rsp_def gs_rsp_sizes gr_field_offset.simps
        get_gs_rsp_metadata_by_shadow_stack_def)+
  then have f: "fld demo_block f (demo_called\<lparr>vmem := (vmem demo_called)\<lparr>cells := mem demo_callee\<rparr>\<rparr>) =
      fld demo_block f demo_thread" for f
    by (simp add: fld_def demo_callee_def demo_entry_def)
  have "shadow_ok 0 demo_block demo_rsp (demo_called\<lparr>vmem := (vmem demo_called)\<lparr>cells := mem demo_callee\<rparr>\<rparr>)"
    using demo_thread_ok unfolding shadow_ok_def f by (simp add: demo_called_def)
  then show ?thesis by blast
qed

theorem signal_handler_callees_return_witness:
  "\<exists>w t. EnsureEagerProcessSignalHandlers (\<lambda>_. True) demo_wasm = Inr w \<and>
     sa_handler (dispositions w SIGSEGV) = H_WasmTrapHandler \<and>
     demo_frame (dispositions w SIGSEGV) (Some 0x1000) demo_rsp = demo_rsp - 8 \<and>
     gs_run (demo_kernel, demo_rsp - 96, demo_rsp - 128) (entered default_config demo_env demo_callee
       (demo_called\<lparr>vmem := (vmem demo_called)\<lparr>cells := mem demo_callee\<rparr>\<rparr>)) = Some (Inr t) \<and>
     pc (epi_of default_config demo_env (demo_callee\<lparr>gsb := gs_base t, mem := cells (vmem t)\<rparr>)) = Some 0x405678"
proof -
  let ?s = "demo_called\<lparr>vmem := (vmem demo_called)\<lparr>cells := mem demo_callee\<rparr>\<rparr>"
  let ?e = "entered default_config demo_env demo_callee ?s"
  let ?p = "(demo_kernel, demo_rsp - 96, demo_rsp - 128)"
  let ?step = "run_step gs_run (gs_good demo_rsp) (gs_ready demo_rsp) (\<lambda>p. covered demo_rsp) gs_content (demo_rsp - 64)"
  obtain w where w: "EnsureEagerProcessSignalHandlers (\<lambda>_. True) demo_wasm = Inr w" using demo_eager by blast
  have new: "\<not> tried (sEagerInstallState demo_wasm)" by (simp add: demo_wasm_def)
  obtain sh where ok: "shadow_ok 0 sh demo_rsp ?s" using demo_callee_good by blast
  have sch: "bc_scheme default_config = USE_SPA_GS_RSP" by (simp add: default_config_def)
  have frame: "\<forall>act alt (sp :: addr). sa_flags act AND SA_ONSTACK = 0 \<longrightarrow> unat (sp - demo_frame act alt sp) \<le> 8"
    by (simp add: demo_frame_def split: option.split)
  have at: "demo_rsp - 8 = demo_frame (dispositions w SIGSEGV) (Some 0x1000) demo_rsp"
    using eager_installs(2) [OF w new, of SIGSEGV] by (simp add: demo_frame_def)
  have room: "unat (demo_rsp - demo_rsp) + 8 + unat ((demo_rsp - 8) - (demo_rsp - 64)) \<le> unat DEF_BUDDY_CALL_STACK_SIZE"
    by (simp add: DEF_sizes)
  have view: "same_view demo_callee ?s"
    by (simp add: same_view_def demo_callee_def demo_called_def demo_entry_def)
  have view': "same_view (demo_callee\<lparr>gsb := gs_base t, mem := cells (vmem t)\<rparr>) t" for t :: gs_rsp_state
    by (simp add: same_view_def)
  have e: "regs demo_callee RSP = demo_rsp - 64" "mem demo_callee (demo_rsp - 64) = 0x405678"
    "regs (demo_callee\<lparr>gsb := g, mem := x\<rparr>) RSP = demo_rsp - 64" for g x
    by (simp_all add: demo_callee_def)
  have cov: "covered demo_rsp (demo_rsp - 64)" by (simp add: covered_def DEF_sizes gs_rsp_sizes)
  have "in_window demo_rsp (demo_rsp - 96)" by (simp add: in_window_def DEF_sizes)
  then have ready: "gs_ready demo_rsp ?p x" for x
    using demo_kernel_ok by (simp add: gs_ready_def) (simp add: demo_kernel_def)
  have good: "gs_good demo_rsp ?s" using ok by (auto simp: gs_good_def)
  obtain t where t: "gs_run ?p ?e = Some (Inr t)"
    using gs_rerand.run_keeps [OF gs_rsp_entered(1) [OF sch view e(1) good cov] ready] by blast
  then have "?step ?e t" using ready cov by (intro run_step.rerandomize)
  then have "?step\<^sup>*\<^sup>* ?e t" by blast
  from signal_handler_callees_return [OF sch w new _ frame at room ok view e(1) this view' [of t] e(3)] w at e(2) t
  show ?thesis by auto
qed

end
